(* ===== verification/GoPrelude.thy ===== *)
theory GoPrelude
  imports Main "HOL-Library.Sublist"
begin

text \<open>
  The part of Go's standard library that gorm's own logic is written in: the \<^verbatim>\<open>strings\<close>,
  \<^verbatim>\<open>strconv\<close> and \<^verbatim>\<open>fmt\<close> operations on byte strings, and the lemmas about them that every
  component shares.  A Go string is a byte sequence, so it is a HOL \<^typ>\<open>string\<close> (a list of 8-bit
  characters) and \<open>length\<close> counts what Go's \<^verbatim>\<open>len\<close> counts.  Case mapping and white space are those
  of the ASCII range; bytes above it are left as they are.

  \<open>go_str\<close> collects the rewrite rules for the string operations, \<open>go_ret\<close> the inversion rules
  "this fallible computation returned a value" of the whole development.
\<close>

named_theorems go_str
named_theorems go_ret

section \<open>Prefixes, suffixes, substrings\<close>

definition has_prefix :: "string \<Rightarrow> string \<Rightarrow> bool" where
  "has_prefix s p = (take (length p) s = p)"

definition has_suffix :: "string \<Rightarrow> string \<Rightarrow> bool" where
  "has_suffix s p = (length p \<le> length s \<and> drop (length s - length p) s = p)"

definition trim_prefix :: "string \<Rightarrow> string \<Rightarrow> string" where
  "trim_prefix s p = (if has_prefix s p then drop (length p) s else s)"

definition trim_suffix :: "string \<Rightarrow> string \<Rightarrow> string" where
  "trim_suffix s p = (if has_suffix s p then take (length s - length p) s else s)"

fun str_contains :: "string \<Rightarrow> string \<Rightarrow> bool" where
  "str_contains [] sub = (sub = [])"
| "str_contains (c # s) sub = (has_prefix (c # s) sub \<or> str_contains s sub)"

lemma has_prefix_append [simp, go_str]: "has_prefix (p @ s) p"
  by (simp add: has_prefix_def)

lemma has_suffix_append [simp, go_str]: "has_suffix (s @ p) p"
  by (simp add: has_suffix_def)

lemma trim_prefix_append [simp, go_str]: "trim_prefix (p @ s) p = s"
  by (simp add: trim_prefix_def)

lemma trim_suffix_append [simp, go_str]: "trim_suffix (s @ p) p = s"
  by (simp add: trim_suffix_def)

lemma has_prefix_iff: "has_prefix s p \<longleftrightarrow> (\<exists>t. s = p @ t)"
  by (metis append_take_drop_id has_prefix_append has_prefix_def)

lemma str_contains_iff: "str_contains s sub \<longleftrightarrow> (\<exists>a b. s = a @ sub @ b)"
proof (induction s)
  case Nil
  then show ?case by simp
next
  case (Cons c s)
  show ?case
  proof
    assume "str_contains (c # s) sub"
    then consider t where "c # s = sub @ t" | a b where "s = a @ sub @ b"
      using Cons.IH by (auto simp: has_prefix_iff)
    then show "\<exists>a b. c # s = a @ sub @ b"
      by cases (metis append_Nil, metis append_Cons)
  next
    assume "\<exists>a b. c # s = a @ sub @ b"
    then obtain a b where eq: "c # s = a @ sub @ b" by blast
    show "str_contains (c # s) sub"
    proof (cases a)
      case Nil
      with eq have "has_prefix (c # s) sub" by (auto simp: has_prefix_iff)
      then show ?thesis by simp
    next
      case (Cons x a')
      with eq have "s = a' @ sub @ b" by simp
      with Cons.IH show ?thesis by auto
    qed
  qed
qed

section \<open>Join, split, replace\<close>

fun str_join :: "string \<Rightarrow> string list \<Rightarrow> string" where
  "str_join sep [] = []"
| "str_join sep [x] = x"
| "str_join sep (x # y # ys) = x @ sep @ str_join sep (y # ys)"

text \<open>\<^verbatim>\<open>strings.Split\<close> with a separator of one byte, and \<^verbatim>\<open>strings.SplitN(s, c, 2)\<close>.\<close>

fun split_char :: "char \<Rightarrow> string \<Rightarrow> string list" where
  "split_char c [] = [[]]"
| "split_char c (x # xs) =
     (if x = c then [] # split_char c xs
      else (case split_char c xs of [] \<Rightarrow> [[x]] | p # ps \<Rightarrow> (x # p) # ps))"

definition split2 :: "char \<Rightarrow> string \<Rightarrow> string list" where
  "split2 c s = (if c \<in> set s then [takeWhile (\<lambda>x. x \<noteq> c) s, tl (dropWhile (\<lambda>x. x \<noteq> c) s)] else [s])"

text \<open>
  \<^verbatim>\<open>strings.Replace(s, old, new, 1)\<close> and \<^verbatim>\<open>strings.Replace(s, old, new, -1)\<close> for a
  nonempty \<^verbatim>\<open>old\<close>.
\<close>

fun replace_first :: "string \<Rightarrow> string \<Rightarrow> string \<Rightarrow> string" where
  "replace_first old new [] = []"
| "replace_first old new (c # s) =
     (if has_prefix (c # s) old then new @ drop (length old) (c # s)
      else c # replace_first old new s)"

fun replace_all_fuel :: "nat \<Rightarrow> string \<Rightarrow> string \<Rightarrow> string \<Rightarrow> string" where
  "replace_all_fuel 0 old new s = s"
| "replace_all_fuel (Suc n) old new [] = []"
| "replace_all_fuel (Suc n) old new (c # s) =
     (if has_prefix (c # s) old then new @ replace_all_fuel n old new (drop (length old) (c # s))
      else c # replace_all_fuel n old new s)"

definition replace_all :: "string \<Rightarrow> string \<Rightarrow> string \<Rightarrow> string" where
  "replace_all old new s = replace_all_fuel (length s) old new s"

lemma split_char_nonempty [simp]: "split_char c s \<noteq> []"
  by (induction s) (auto split: list.splits)

lemma join_split_char [go_str]: "str_join [c] (split_char c s) = s"
proof (induction s)
  case Nil
  then show ?case by simp
next
  case (Cons x xs)
  obtain p ps where p: "split_char c xs = p # ps"
    by (cases "split_char c xs") auto
  with Cons.IH show ?case by (cases ps) auto
qed

lemma split_char_no_sep: "p \<in> set (split_char c s) \<Longrightarrow> c \<notin> set p"
proof (induction s arbitrary: p)
  case Nil
  then show ?case by simp
next
  case (Cons x xs)
  then show ?case by (cases "split_char c xs") (auto split: if_splits)
qed

lemma split_char_single: "c \<notin> set s \<Longrightarrow> split_char c s = [s]"
  by (induction s) auto

lemma split_char_join:
  "xs \<noteq> [] \<Longrightarrow> (\<And>x. x \<in> set xs \<Longrightarrow> c \<notin> set x) \<Longrightarrow> split_char c (str_join [c] xs) = xs"
proof (induction "[c]" xs rule: str_join.induct)
  case (3 x y ys)
  have app: "c \<notin> set p \<Longrightarrow> split_char c (p @ c # q) = p # split_char c q" for p q
    by (induction p) auto
  from 3 show ?case by (simp add: app)
qed (auto simp: split_char_single)

text \<open>The fuel of \<^const>\<open>replace_all\<close> is enough: more of it changes nothing.\<close>

lemma replace_all_fuel_more:
  assumes "old \<noteq> []"
  shows "length s \<le> n \<Longrightarrow> length s \<le> m \<Longrightarrow> replace_all_fuel n old new s = replace_all_fuel m old new s"
proof (induction n arbitrary: s m)
  case 0
  then show ?case by (cases m) auto
next
  case (Suc n)
  show ?case
  proof (cases s)
    case Nil
    then show ?thesis by (cases m) auto
  next
    case (Cons c t)
    with Suc.prems obtain k where k: "m = Suc k" "length t \<le> n" "length t \<le> k" by (cases m) auto
    have "length (drop (length old) (c # t)) \<le> length t"
      using assms by (cases old) auto
    then have "replace_all_fuel n old new (drop (length old) (c # t))
        = replace_all_fuel k old new (drop (length old) (c # t))"
      using Suc.IH k by (meson order_trans)
    moreover have "replace_all_fuel n old new t = replace_all_fuel k old new t"
      using Suc.IH k by blast
    ultimately show ?thesis unfolding Cons k(1) replace_all_fuel.simps by (simp only:)
  qed
qed

lemma replace_all_Nil [simp, go_str]: "replace_all old new [] = []"
  by (simp add: replace_all_def)

lemma replace_all_Cons [go_str]:
  assumes "old \<noteq> []"
  shows "replace_all old new (c # s) =
     (if has_prefix (c # s) old then new @ replace_all old new (drop (length old) (c # s))
      else c # replace_all old new s)"
proof -
  have "length (drop (length old) (c # s)) \<le> length s" using assms by (cases old) auto
  then have "replace_all_fuel (length s) old new (drop (length old) (c # s))
      = replace_all old new (drop (length old) (c # s))"
    unfolding replace_all_def by (rule replace_all_fuel_more [OF assms]) simp
  then show ?thesis by (simp add: replace_all_def)
qed

lemma replace_all_absent:
  assumes "old \<noteq> []" and "hd old \<notin> set s"
  shows "replace_all old new s = s"
  using assms(2)
proof (induction s)
  case Nil
  then show ?case by simp
next
  case (Cons c s)
  moreover have "\<not> has_prefix (c # s) old"
    using assms(1) Cons.prems by (cases old) (auto simp: has_prefix_def)
  ultimately show ?case using assms(1) by (simp add: replace_all_Cons)
qed

section \<open>Case mapping and trimming\<close>

definition char_between :: "char \<Rightarrow> char \<Rightarrow> char \<Rightarrow> bool" where
  "char_between lo hi c =
     ((of_char lo :: nat) \<le> of_char c \<and> (of_char c :: nat) \<le> of_char hi)"

definition lower_char :: "char \<Rightarrow> char" where
  "lower_char c = (if char_between (CHR ''A'') (CHR ''Z'') c then char_of ((of_char c :: nat) + 32) else c)"

definition upper_char :: "char \<Rightarrow> char" where
  "upper_char c = (if char_between (CHR ''a'') (CHR ''z'') c then char_of ((of_char c :: nat) - 32) else c)"

text \<open>The same on the bits of a character, for evaluation: letters differ in bit 5 only.\<close>

lemma lower_char_bits [code]:
  "lower_char (Char b0 b1 b2 b3 b4 b5 b6 b7) =
     (if b6 \<and> \<not> b5 \<and> \<not> b7 \<and> (b0 \<or> b1 \<or> b2 \<or> b3 \<or> b4) \<and> \<not> (b4 \<and> b3 \<and> (b2 \<or> b0 \<and> b1))
      then Char b0 b1 b2 b3 b4 True b6 b7 else Char b0 b1 b2 b3 b4 b5 b6 b7)"
  by (cases b0; cases b1; cases b2; cases b3; cases b4; cases b5; cases b6; cases b7;
      simp add: lower_char_def char_between_def char_of_def bit_simps)

lemma upper_char_bits [code]:
  "upper_char (Char b0 b1 b2 b3 b4 b5 b6 b7) =
     (if b6 \<and> b5 \<and> \<not> b7 \<and> (b0 \<or> b1 \<or> b2 \<or> b3 \<or> b4) \<and> \<not> (b4 \<and> b3 \<and> (b2 \<or> b0 \<and> b1))
      then Char b0 b1 b2 b3 b4 False b6 b7 else Char b0 b1 b2 b3 b4 b5 b6 b7)"
  by (cases b0; cases b1; cases b2; cases b3; cases b4; cases b5; cases b6; cases b7;
      simp add: upper_char_def char_between_def char_of_def bit_simps)

definition to_lower :: "string \<Rightarrow> string" where
  "to_lower s = map lower_char s"

definition to_upper :: "string \<Rightarrow> string" where
  "to_upper s = map upper_char s"

text \<open>\<^verbatim>\<open>strings.EqualFold\<close> on ASCII text, \<^verbatim>\<open>strings.TrimSpace\<close>.\<close>

definition equal_fold :: "string \<Rightarrow> string \<Rightarrow> bool" where
  "equal_fold a b = (to_lower a = to_lower b)"

definition is_space :: "char \<Rightarrow> bool" where
  "is_space c = (c \<in> {CHR '' '', CHR 0x09, CHR 0x0A, CHR 0x0B, CHR 0x0C, CHR 0x0D})"

definition trim_space :: "string \<Rightarrow> string" where
  "trim_space s = rev (dropWhile is_space (rev (dropWhile is_space s)))"

definition is_digit :: "char \<Rightarrow> bool" where
  "is_digit c = char_between (CHR ''0'') (CHR ''9'') c"

lemma length_to_lower [simp, go_str]: "length (to_lower s) = length s"
  by (simp add: to_lower_def)

lemma lower_char_upper_ascii:
  "char_between (CHR ''A'') (CHR ''Z'') c \<Longrightarrow> char_between (CHR ''a'') (CHR ''z'') (lower_char c)"
  by (auto simp: lower_char_def char_between_def)

lemma lower_char_not_upper: "\<not> char_between (CHR ''A'') (CHR ''Z'') (lower_char c)"
  by (auto simp: lower_char_def char_between_def)

lemma lower_char_idem [simp]: "lower_char (lower_char c) = lower_char c"
  using lower_char_not_upper [of c] by (simp add: lower_char_def [of "lower_char c"])

lemma to_lower_idem [simp, go_str]: "to_lower (to_lower s) = to_lower s"
  by (simp add: to_lower_def)

lemma to_lower_append [simp, go_str]: "to_lower (a @ b) = to_lower a @ to_lower b"
  by (simp add: to_lower_def)

section \<open>Decimal numbers\<close>

fun dec_nat :: "nat \<Rightarrow> string" where
  "dec_nat n = (if n < 10 then [char_of (48 + n)] else dec_nat (n div 10) @ [char_of (48 + n mod 10)])"

declare dec_nat.simps [simp del]

definition dec_int :: "int \<Rightarrow> string" where
  "dec_int i = (if i < 0 then CHR ''-'' # dec_nat (nat (- i)) else dec_nat (nat i))"

fun digits_value :: "nat \<Rightarrow> nat \<Rightarrow> string \<Rightarrow> nat option" where
  "digits_value base acc [] = Some acc"
| "digits_value base acc (c # s) =
     (let d = (if is_digit c then (of_char c :: nat) - 48
               else if char_between (CHR ''a'') (CHR ''z'') (lower_char c)
               then (of_char (lower_char c) :: nat) - 87 else 255)
      in if d < base then digits_value base (acc * base + d) s else None)"

text \<open>The \<^verbatim>\<open>underscoreOK\<close> check of \<^verbatim>\<open>strconv\<close>: an underscore only separates digits.\<close>

fun underscores_ok :: "bool \<Rightarrow> char \<Rightarrow> string \<Rightarrow> bool" where
  "underscores_ok hex saw [] = (saw \<noteq> CHR ''_'')"
| "underscores_ok hex saw (c # s) =
     (if is_digit c \<or> (hex \<and> char_between (CHR ''a'') (CHR ''f'') (lower_char c))
      then underscores_ok hex (CHR ''0'') s
      else if c = CHR ''_'' then saw = CHR ''0'' \<and> underscores_ok hex (CHR ''_'') s
      else saw \<noteq> CHR ''_'' \<and> underscores_ok hex (CHR ''!'') s)"

text \<open>
  \<^verbatim>\<open>strconv.ParseInt(s, base, 64)\<close> for base 0 (the literal's prefix decides) and base 10;
  \<open>None\<close> is a syntax or range error.
\<close>

definition parse_magnitude0 :: "string \<Rightarrow> nat option" where
  "parse_magnitude0 s =
     (case s of
        [] \<Rightarrow> None
      | c # r \<Rightarrow>
         (let (base, body, pre) =
            (if c = CHR ''0'' then
               (case r of
                  x # y # ys \<Rightarrow>
                    (if lower_char x = CHR ''b'' then (2, y # ys, True)
                     else if lower_char x = CHR ''o'' then (8, y # ys, True)
                     else if lower_char x = CHR ''x'' then (16, y # ys, True)
                     else (8, r, False))
                | _ \<Rightarrow> (8, r, False))
             else (10, s, False))
          in if CHR ''_'' \<in> set body \<and>
                \<not> (if pre then underscores_ok (base = 16) (CHR ''0'') body
                   else underscores_ok False (CHR ''^'') s)
             then None
             else digits_value base 0 (filter (\<lambda>x. x \<noteq> CHR ''_'') body)))"

definition signed_in_range :: "bool \<Rightarrow> nat option \<Rightarrow> int option" where
  "signed_in_range neg m =
     (case m of
        None \<Rightarrow> None
      | Some n \<Rightarrow> if neg then (if n \<le> 2 ^ 63 then Some (- int n) else None)
                  else (if n < 2 ^ 63 then Some (int n) else None))"

text \<open>A map that is updated is evaluated when it is applied, so that its values are.\<close>

lemma fun_upd_applied [code]: "fun_upd f a b x = (if x = a then b else f x)"
  by simp

text \<open>The bound is compared as an integer, whose numerals compute.\<close>

lemma signed_in_range_code [code]:
  "signed_in_range neg m =
     (case m of
        None \<Rightarrow> None
      | Some n \<Rightarrow> (let i = int n in if neg then (if i \<le> 2 ^ 63 then Some (- i) else None)
                   else (if i < 2 ^ 63 then Some i else None)))"
proof -
  have "int n \<le> 2 ^ 63 \<longleftrightarrow> n \<le> 2 ^ 63" "int n < 2 ^ 63 \<longleftrightarrow> n < 2 ^ 63" for n
    using of_nat_le_iff [of n "2 ^ 63", where ?'a = int] of_nat_less_iff [of n "2 ^ 63", where ?'a = int]
    by (simp_all only: of_nat_power of_nat_numeral)
  then show ?thesis unfolding signed_in_range_def Let_def by presburger
qed

definition parse_int0 :: "string \<Rightarrow> int option" where
  "parse_int0 s =
     (case s of
        [] \<Rightarrow> None
      | c # r \<Rightarrow> if c = CHR ''-'' then signed_in_range True (parse_magnitude0 r)
                 else if c = CHR ''+'' then signed_in_range False (parse_magnitude0 r)
                 else signed_in_range False (parse_magnitude0 s))"

definition parse_magnitude10 :: "string \<Rightarrow> nat option" where
  "parse_magnitude10 s = (if s = [] then None else digits_value 10 0 s)"

definition parse_int10 :: "string \<Rightarrow> int option" where
  "parse_int10 s =
     (case s of
        [] \<Rightarrow> None
      | c # r \<Rightarrow> if c = CHR ''-'' then signed_in_range True (parse_magnitude10 r)
                 else if c = CHR ''+'' then signed_in_range False (parse_magnitude10 r)
                 else signed_in_range False (parse_magnitude10 s))"

lemma is_digit_char_of: "n < 10 \<Longrightarrow> is_digit (char_of (48 + n)) \<and> (of_char (char_of (48 + n) :: char) :: nat) = 48 + n"
  by (simp add: is_digit_def char_between_def)

lemma dec_nat_digits: "c \<in> set (dec_nat n) \<Longrightarrow> is_digit c"
proof (induction n rule: dec_nat.induct)
  case (1 n)
  show ?case
  proof (cases "n < 10")
    case True
    with 1(2) show ?thesis by (subst (asm) dec_nat.simps) (simp add: is_digit_char_of)
  next
    case False
    with 1(2) have "c \<in> set (dec_nat (n div 10)) \<or> c = char_of (48 + n mod 10)"
      by (subst (asm) dec_nat.simps) auto
    then show ?thesis using 1(1) False by (auto simp: is_digit_char_of)
  qed
qed

lemma dec_nat_nonempty [simp]: "dec_nat n \<noteq> []"
  by (subst dec_nat.simps) simp

lemma dec_nat_hd_zero: "hd (dec_nat n) = CHR ''0'' \<Longrightarrow> n = 0"
proof (induction n rule: dec_nat.induct)
  case (1 n)
  show ?case
  proof (cases "n < 10")
    case True
    with 1(2) have "char_of (48 + n) = CHR ''0''" by (subst (asm) dec_nat.simps) simp
    then have "(of_char (char_of (48 + n) :: char) :: nat) = 48" by simp
    with True show ?thesis by simp
  next
    case False
    with 1(2) have "hd (dec_nat (n div 10)) = CHR ''0''" by (subst (asm) dec_nat.simps) simp
    with 1(1) False have "n div 10 = 0" by simp
    with False show ?thesis by simp
  qed
qed

lemma digits_value_append:
  "digits_value b a (s @ t) = Option.bind (digits_value b a s) (\<lambda>v. digits_value b v t)"
  by (induction s arbitrary: a) (auto simp: Let_def)

lemma digits_value_dec_nat: "digits_value 10 0 (dec_nat n) = Some n"
proof (induction n rule: dec_nat.induct)
  case (1 n)
  have d: "digits_value 10 a [char_of (48 + k)] = Some (a * 10 + k)" if "k < 10" for a k
    using that is_digit_char_of [OF that] by simp
  show ?case
  proof (cases "n < 10")
    case True
    then show ?thesis using d [of n 0] by (subst dec_nat.simps) simp
  next
    case False
    with 1 have "digits_value 10 0 (dec_nat (n div 10)) = Some (n div 10)" by simp
    then show ?thesis using False d [of "n mod 10" "n div 10"]
      by (subst dec_nat.simps) (simp add: digits_value_append)
  qed
qed

lemma parse_int10_dec_int: "- (2 ^ 63) \<le> i \<Longrightarrow> i < 2 ^ 63 \<Longrightarrow> parse_int10 (dec_int i) = Some i"
proof -
  assume lo: "- (2 ^ 63) \<le> i" and hi: "i < 2 ^ 63"
  show ?thesis
  proof (cases "i < 0")
    case True
    with lo show ?thesis
      by (simp add: dec_int_def parse_int10_def parse_magnitude10_def digits_value_dec_nat
          signed_in_range_def nat_le_iff)
  next
    case False
    obtain c r where cr: "dec_nat (nat i) = c # r" by (cases "dec_nat (nat i)") auto
    have "is_digit c" using dec_nat_digits [of c "nat i"] cr by simp
    then have c: "c \<noteq> CHR ''-''" "c \<noteq> CHR ''+''" by (auto simp: is_digit_def char_between_def)
    have "digits_value 10 0 (c # r) = Some (nat i)" using digits_value_dec_nat [of "nat i"] cr by simp
    with False hi c cr show ?thesis
      by (simp add: dec_int_def parse_int10_def parse_magnitude10_def signed_in_range_def nat_less_iff
          del: digits_value.simps)
  qed
qed

lemma parse_int0_dec_int: "- (2 ^ 63) \<le> i \<Longrightarrow> i < 2 ^ 63 \<Longrightarrow> parse_int0 (dec_int i) = Some i"
proof -
  have mag: "parse_magnitude0 (dec_nat n) = Some n" for n
  proof (cases "n = 0")
    case True
    moreover have "char_of (48 :: nat) = CHR ''0''" by code_simp
    ultimately show ?thesis by (simp add: parse_magnitude0_def dec_nat.simps is_digit_def char_between_def)
  next
    case False
    obtain c r where cr: "dec_nat n = c # r" by (cases "dec_nat n") auto
    have c0: "c \<noteq> CHR ''0''" using dec_nat_hd_zero [of n] cr False by auto
    have u: "CHR ''_'' \<notin> set (c # r)"
      using dec_nat_digits [of "CHR ''_''" n] cr by (auto simp: is_digit_def char_between_def)
    have "filter (\<lambda>x. x \<noteq> CHR ''_'') (c # r) = c # r" using u by (auto simp: filter_id_conv)
    moreover have "digits_value 10 0 (c # r) = Some n" using digits_value_dec_nat [of n] cr by simp
    ultimately show ?thesis using c0 u cr
      by (simp add: parse_magnitude0_def del: digits_value.simps filter.simps)
  qed
  assume lo: "- (2 ^ 63) \<le> i" and hi: "i < 2 ^ 63"
  show ?thesis
  proof (cases "i < 0")
    case True
    with lo show ?thesis
      by (simp add: dec_int_def parse_int0_def mag signed_in_range_def nat_le_iff)
  next
    case False
    obtain c r where cr: "dec_nat (nat i) = c # r" by (cases "dec_nat (nat i)") auto
    have "is_digit c" using dec_nat_digits [of c "nat i"] cr by simp
    then have c: "c \<noteq> CHR ''-''" "c \<noteq> CHR ''+''" by (auto simp: is_digit_def char_between_def)
    have "parse_magnitude0 (c # r) = Some (nat i)" using mag [of "nat i"] cr by simp
    with False hi c cr show ?thesis
      by (simp add: dec_int_def parse_int0_def signed_in_range_def nat_less_iff)
  qed
qed

section \<open>Lists searched by Go's range loops\<close>

text \<open>A loop that returns the first element with a property is \<^const>\<open>List.find\<close>.\<close>

lemma find_Some_in: "List.find P xs = Some x \<Longrightarrow> x \<in> set xs \<and> P x"
  by (induction xs) (auto split: if_splits)

lemma find_None_all: "List.find P xs = None \<longleftrightarrow> (\<forall>x\<in>set xs. \<not> P x)"
  by (induction xs) auto

text \<open>Map update on association lists, keeping the position of an existing key.\<close>

fun alist_set :: "'k \<Rightarrow> 'v \<Rightarrow> ('k \<times> 'v) list \<Rightarrow> ('k \<times> 'v) list" where
  "alist_set k v [] = [(k, v)]"
| "alist_set k v ((k', v') # ps) = (if k = k' then (k, v) # ps else (k', v') # alist_set k v ps)"

lemma map_of_alist_set [simp]: "map_of (alist_set k v ps) = (map_of ps)(k \<mapsto> v)"
  by (induction ps) auto

lemma keys_alist_set: "fst ` set (alist_set k v ps) = insert k (fst ` set ps)"
proof (induction ps)
  case Nil
  then show ?case by simp
next
  case (Cons p ps)
  then show ?case by (cases p) (simp add: insert_commute)
qed

lemma distinct_alist_set: "distinct (map fst ps) \<Longrightarrow> distinct (map fst (alist_set k v ps))"
proof (induction ps)
  case Nil
  then show ?case by simp
next
  case (Cons p ps)
  then show ?case using keys_alist_set [of k v ps] by (cases p) auto
qed

end
