(* ===== verification/CallbackChain.thy ===== *)
theory CallbackChain
  imports GoPrelude
begin

text \<open>
  \<^verbatim>\<open>callback.go\<close>: the registry of callbacks and the sort that turns the registered processors into
  the chains that run.

  Processors and callback sets are shared through pointers and a cloned set shares the backing
  array of its processor slice, so the state is a heap: processors, callback sets and arrays by
  address.  A slice is an address and a length; the length of the array is its capacity, and
  \<^verbatim>\<open>append\<close> writes in place when there is room.  \<open>grow\<close> is the capacity the Go runtime chooses when
  there is not.  A handler (\<^verbatim>\<open>*func(scope *Scope)\<close>) is a number.  The recursive
  \<^verbatim>\<open>sortCallbackProcessor\<close> takes fuel, and \<open>None\<close> means it has not returned within it.
\<close>

record CallbackProcessor =
  cp_name :: string
  cp_before :: string
  cp_after :: string
  cp_replace :: bool
  cp_remove :: bool
  cp_kind :: string
  cp_processor :: "nat option"
  cp_parent :: nat

record slice =
  sl_array :: nat
  sl_len :: nat

record Callback =
  cb_creates :: "nat option list"
  cb_updates :: "nat option list"
  cb_deletes :: "nat option list"
  cb_queries :: "nat option list"
  cb_rowQueries :: "nat option list"
  cb_processors :: slice

record cbheap =
  h_arrays :: "nat \<Rightarrow> nat list"
  h_cps :: "nat \<Rightarrow> CallbackProcessor"
  h_cbs :: "nat \<Rightarrow> Callback"
  h_next :: nat

section \<open>Slices\<close>

definition slice_elems :: "cbheap \<Rightarrow> slice \<Rightarrow> nat list" where
  "slice_elems h s = take (sl_len s) (h_arrays h (sl_array s))"

definition slice_append :: "(nat \<Rightarrow> nat) \<Rightarrow> slice \<Rightarrow> nat \<Rightarrow> cbheap \<Rightarrow> slice \<times> cbheap" where
  "slice_append grow s x h =
     (if sl_len s < length (h_arrays h (sl_array s)) then
        (s\<lparr>sl_len := Suc (sl_len s)\<rparr>,
         h\<lparr>h_arrays := (h_arrays h)(sl_array s := (h_arrays h (sl_array s))[sl_len s := x])\<rparr>)
      else
        (\<lparr>sl_array = h_next h, sl_len = Suc (sl_len s)\<rparr>,
         h\<lparr>h_arrays := (h_arrays h)(h_next h :=
               slice_elems h s @ [x] @ replicate (grow (sl_len s) - Suc (sl_len s)) 0),
           h_next := Suc (h_next h)\<rparr>))"

section \<open>Sorting\<close>

text \<open>\<^verbatim>\<open>getRIndex\<close>: the last index of a name.\<close>

fun getRIndex :: "string list \<Rightarrow> string \<Rightarrow> nat option" where
  "getRIndex [] str = None"
| "getRIndex (s # strs) str =
     (case getRIndex strs str of
        Some i \<Rightarrow> Some (Suc i)
      | None \<Rightarrow> if s = str then Some 0 else None)"

definition insert_at :: "nat \<Rightarrow> string \<Rightarrow> string list \<Rightarrow> string list" where
  "insert_at i x xs = take i xs @ [x] @ drop i xs"

type_synonym procs = "nat \<Rightarrow> CallbackProcessor"

fun sortCallbackProcessor ::
    "nat \<Rightarrow> string list \<Rightarrow> nat list \<Rightarrow> nat \<Rightarrow> procs \<times> string list \<Rightarrow> (procs \<times> string list) option" where
  "sortCallbackProcessor 0 allNames cps c st = None"
| "sortCallbackProcessor (Suc fuel) allNames cps c (ps, sortedNames) =
     (let name = cp_name (ps c) in
      if getRIndex sortedNames name \<noteq> None then Some (ps, sortedNames)
      else
        case (if cp_before (ps c) \<noteq> [] then
                (case getRIndex sortedNames (cp_before (ps c)) of
                   Some index \<Rightarrow> Some (ps, insert_at index name sortedNames)
                 | None \<Rightarrow>
                    (case getRIndex allNames (cp_before (ps c)) of
                       Some index \<Rightarrow> sortCallbackProcessor fuel allNames cps (cps ! index) (ps, sortedNames @ [name])
                     | None \<Rightarrow> Some (ps, sortedNames)))
              else Some (ps, sortedNames)) of
          None \<Rightarrow> None
        | Some (ps, sortedNames) \<Rightarrow>
           (case (if cp_after (ps c) \<noteq> [] then
                    (case getRIndex sortedNames (cp_after (ps c)) of
                       Some index \<Rightarrow> Some (ps, insert_at (Suc index) name sortedNames)
                     | None \<Rightarrow>
                        (case getRIndex allNames (cp_after (ps c)) of
                           Some index \<Rightarrow>
                             (let i = cps ! index;
                                  ps = (if cp_before (ps i) = [] then ps(i := (ps i)\<lparr>cp_before := name\<rparr>) else ps)
                              in sortCallbackProcessor fuel allNames cps i (ps, sortedNames))
                         | None \<Rightarrow> Some (ps, sortedNames)))
                  else Some (ps, sortedNames)) of
              None \<Rightarrow> None
            | Some (ps, sortedNames) \<Rightarrow>
               Some (ps, if getRIndex sortedNames name = None then sortedNames @ [name] else sortedNames)))"

fun sort_loop :: "nat \<Rightarrow> string list \<Rightarrow> nat list \<Rightarrow> nat list \<Rightarrow> procs \<times> string list \<Rightarrow> (procs \<times> string list) option" where
  "sort_loop fuel allNames cps [] st = Some st"
| "sort_loop fuel allNames cps (c # cs) st =
     (case sortCallbackProcessor fuel allNames cps c st of
        None \<Rightarrow> None
      | Some st \<Rightarrow> sort_loop fuel allNames cps cs st)"

definition sorted_funcs :: "procs \<Rightarrow> string list \<Rightarrow> nat list \<Rightarrow> string list \<Rightarrow> nat option list" where
  "sorted_funcs ps allNames cps sortedNames =
     concat (map (\<lambda>name. case getRIndex allNames name of
                           Some index \<Rightarrow> if cp_remove (ps (cps ! index)) then [] else [cp_processor (ps (cps ! index))]
                         | None \<Rightarrow> []) sortedNames)"

definition sortProcessors :: "nat \<Rightarrow> nat list \<Rightarrow> procs \<Rightarrow> (procs \<times> nat option list) option" where
  "sortProcessors fuel cps ps =
     (let allNames = map (\<lambda>c. cp_name (ps c)) cps
      in case sort_loop fuel allNames cps cps (ps, []) of
           None \<Rightarrow> None
         | Some (ps, sortedNames) \<Rightarrow> Some (ps, sorted_funcs ps allNames cps sortedNames))"

section \<open>The registry\<close>

definition of_kind :: "procs \<Rightarrow> string \<Rightarrow> nat list \<Rightarrow> nat list" where
  "of_kind ps kind cps = filter (\<lambda>c. cp_name (ps c) \<noteq> [] \<and> cp_kind (ps c) = kind) cps"

definition reorder :: "nat \<Rightarrow> nat \<Rightarrow> cbheap \<Rightarrow> cbheap option" where
  "reorder fuel cb h =
     (let all = slice_elems h (cb_processors (h_cbs h cb));
          ps = h_cps h;
          creates = of_kind ps ''create'' all; updates = of_kind ps ''update'' all;
          deletes = of_kind ps ''delete'' all; queries = of_kind ps ''query'' all;
          rowQueries = of_kind ps ''row_query'' all
      in case sortProcessors fuel creates ps of None \<Rightarrow> None | Some (ps, cr) \<Rightarrow>
         case sortProcessors fuel updates ps of None \<Rightarrow> None | Some (ps, up) \<Rightarrow>
         case sortProcessors fuel deletes ps of None \<Rightarrow> None | Some (ps, de) \<Rightarrow>
         case sortProcessors fuel queries ps of None \<Rightarrow> None | Some (ps, qu) \<Rightarrow>
         case sortProcessors fuel rowQueries ps of None \<Rightarrow> None | Some (ps, rq) \<Rightarrow>
         Some (h\<lparr>h_cps := ps,
                 h_cbs := (h_cbs h)(cb := (h_cbs h cb)
                   \<lparr>cb_creates := cr, cb_updates := up, cb_deletes := de, cb_queries := qu, cb_rowQueries := rq\<rparr>)\<rparr>))"

text \<open>\<^verbatim>\<open>Callback.clone\<close> copies the slices, that is, their addresses and lengths.\<close>

definition Callback_clone :: "nat \<Rightarrow> cbheap \<Rightarrow> nat \<times> cbheap" where
  "Callback_clone c h = (h_next h, h\<lparr>h_cbs := (h_cbs h)(h_next h := h_cbs h c), h_next := Suc (h_next h)\<rparr>)"

text \<open>\<^verbatim>\<open>Create\<close>, \<^verbatim>\<open>Update\<close>, \<^verbatim>\<open>Delete\<close>, \<^verbatim>\<open>Query\<close>, \<^verbatim>\<open>RowQuery\<close>: a new processor of the kind.\<close>

definition new_processor :: "string \<Rightarrow> nat \<Rightarrow> cbheap \<Rightarrow> nat \<times> cbheap" where
  "new_processor kind c h =
     (h_next h, h\<lparr>h_cps := (h_cps h)(h_next h :=
        \<lparr>cp_name = [], cp_before = [], cp_after = [], cp_replace = False, cp_remove = False, cp_kind = kind,
         cp_processor = None, cp_parent = c\<rparr>), h_next := Suc (h_next h)\<rparr>)"

definition upd_cp :: "nat \<Rightarrow> (CallbackProcessor \<Rightarrow> CallbackProcessor) \<Rightarrow> cbheap \<Rightarrow> cbheap" where
  "upd_cp cp f h = h\<lparr>h_cps := (h_cps h)(cp := f (h_cps h cp))\<rparr>"

definition cp_After :: "string \<Rightarrow> nat \<Rightarrow> cbheap \<Rightarrow> cbheap" where
  "cp_After callbackName cp h = upd_cp cp (cp_after_update (\<lambda>_. callbackName)) h"

definition cp_Before :: "string \<Rightarrow> nat \<Rightarrow> cbheap \<Rightarrow> cbheap" where
  "cp_Before callbackName cp h = upd_cp cp (cp_before_update (\<lambda>_. callbackName)) h"

text \<open>The end shared by \<^verbatim>\<open>Register\<close>, \<^verbatim>\<open>Remove\<close> and \<^verbatim>\<open>Replace\<close>: append to the parent's processors, reorder.\<close>

definition add_processor :: "(nat \<Rightarrow> nat) \<Rightarrow> nat \<Rightarrow> nat \<Rightarrow> cbheap \<Rightarrow> cbheap option" where
  "add_processor grow fuel cp h =
     (let p = cp_parent (h_cps h cp);
          (s, h) = slice_append grow (cb_processors (h_cbs h p)) cp h;
          h = h\<lparr>h_cbs := (h_cbs h)(p := (h_cbs h p)\<lparr>cb_processors := s\<rparr>)\<rparr>
      in reorder fuel p h)"

definition cp_Register :: "(nat \<Rightarrow> nat) \<Rightarrow> nat \<Rightarrow> string \<Rightarrow> nat \<Rightarrow> nat \<Rightarrow> cbheap \<Rightarrow> cbheap option" where
  "cp_Register grow fuel callbackName callback cp h =
     (let h = (if cp_kind (h_cps h cp) = ''row_query'' \<and> cp_before (h_cps h cp) = [] \<and> cp_after (h_cps h cp) = []
                  \<and> callbackName \<noteq> ''gorm:row_query''
               then upd_cp cp (cp_before_update (\<lambda>_. ''gorm:row_query'')) h else h);
          h = upd_cp cp (\<lambda>p. p\<lparr>cp_name := callbackName, cp_processor := Some callback\<rparr>) h
      in add_processor grow fuel cp h)"

definition cp_Remove :: "(nat \<Rightarrow> nat) \<Rightarrow> nat \<Rightarrow> string \<Rightarrow> nat \<Rightarrow> cbheap \<Rightarrow> cbheap option" where
  "cp_Remove grow fuel callbackName cp h =
     add_processor grow fuel cp (upd_cp cp (\<lambda>p. p\<lparr>cp_name := callbackName, cp_remove := True\<rparr>) h)"

definition cp_Replace :: "(nat \<Rightarrow> nat) \<Rightarrow> nat \<Rightarrow> string \<Rightarrow> nat \<Rightarrow> nat \<Rightarrow> cbheap \<Rightarrow> cbheap option" where
  "cp_Replace grow fuel callbackName callback cp h =
     add_processor grow fuel cp
       (upd_cp cp (\<lambda>p. p\<lparr>cp_name := callbackName, cp_processor := Some callback, cp_replace := True\<rparr>) h)"

text \<open>\<^verbatim>\<open>Get\<close>: the last processor of the name and kind decides.\<close>

definition cp_Get :: "string \<Rightarrow> nat \<Rightarrow> cbheap \<Rightarrow> nat option" where
  "cp_Get callbackName cp h =
     fold (\<lambda>p callback. if cp_name (h_cps h p) = callbackName \<and> cp_kind (h_cps h p) = cp_kind (h_cps h cp)
                        then (if cp_remove (h_cps h p) then None else cp_processor (h_cps h p)) else callback)
          (slice_elems h (cb_processors (h_cbs h (cp_parent (h_cps h cp))))) None"

section \<open>The last index of a name\<close>

lemma getRIndex_None: "getRIndex xs x = None \<longleftrightarrow> x \<notin> set xs"
  by (induction xs) (auto split: option.splits)

lemma getRIndex_absent [simp]: "x \<notin> set xs \<Longrightarrow> getRIndex xs x = None"
  by (simp add: getRIndex_None)

lemma getRIndex_Some: "getRIndex xs x = Some i \<Longrightarrow> i < length xs \<and> xs ! i = x"
  by (induction xs arbitrary: i) (auto split: option.splits if_splits)

lemma getRIndex_append:
  "getRIndex (xs @ ys) x = (case getRIndex ys x of Some i \<Rightarrow> Some (length xs + i) | None \<Rightarrow> getRIndex xs x)"
  by (induction xs) (auto split: option.splits)

lemma getRIndex_distinct: "distinct xs \<Longrightarrow> i < length xs \<Longrightarrow> getRIndex xs (xs ! i) = Some i"
proof -
  assume d: "distinct xs" and i: "i < length xs"
  then obtain j where j: "getRIndex xs (xs ! i) = Some j"
    by (metis getRIndex_None nth_mem option.exhaust)
  from getRIndex_Some [OF j] have "j < length xs" "xs ! j = xs ! i" by auto
  with d i have "j = i" by (simp add: nth_eq_iff_index_eq)
  with j show ?thesis by simp
qed

lemma set_insert_at [simp]: "set (insert_at i x xs) = insert x (set xs)"
  by (simp add: insert_at_def) (metis append_take_drop_id set_append)

lemma map_insert_at: "map f (insert_at i x xs) = take i (map f xs) @ [f x] @ drop i (map f xs)"
  by (simp add: insert_at_def take_map drop_map)

section \<open>Chains without explicit order\<close>

definition unordered :: "procs \<Rightarrow> nat list \<Rightarrow> bool" where
  "unordered ps cps = (\<forall>c\<in>set cps. cp_before (ps c) = [] \<and> cp_after (ps c) = [])"

fun keep_first :: "string list \<Rightarrow> string list \<Rightarrow> string list" where
  "keep_first acc [] = acc"
| "keep_first acc (n # ns) = keep_first (if n \<in> set acc then acc else acc @ [n]) ns"

lemma sort_cp_unordered:
  "cp_before (ps c) = [] \<Longrightarrow> cp_after (ps c) = [] \<Longrightarrow>
   sortCallbackProcessor (Suc f) allNames cps c (ps, names)
     = Some (ps, if cp_name (ps c) \<in> set names then names else names @ [cp_name (ps c)])"
  by (simp add: Let_def getRIndex_None)

lemma sort_loop_unordered:
  "unordered ps cs \<Longrightarrow> sort_loop (Suc f) allNames cps cs (ps, names)
     = Some (ps, keep_first names (map (\<lambda>c. cp_name (ps c)) cs))"
  by (induction cs arbitrary: names)
    (simp_all add: unordered_def sort_cp_unordered del: sortCallbackProcessor.simps)

lemma sort_loop_append:
  "sort_loop f allNames cps (cs @ cs') st =
     (case sort_loop f allNames cps cs st of None \<Rightarrow> None | Some st \<Rightarrow> sort_loop f allNames cps cs' st)"
  by (induction cs arbitrary: st) (auto split: option.splits)

lemma keep_first_distinct: "distinct (acc @ ns) \<Longrightarrow> keep_first acc ns = acc @ ns"
  by (induction acc ns rule: keep_first.induct) auto

lemma keep_first_append: "keep_first acc (ns @ ns') = keep_first (keep_first acc ns) ns'"
  by (induction acc ns rule: keep_first.induct) auto

text \<open>The functions that a list of names stands for.\<close>

definition func_of :: "procs \<Rightarrow> string list \<Rightarrow> nat list \<Rightarrow> string \<Rightarrow> nat option list" where
  "func_of ps allNames cps name =
     (case getRIndex allNames name of
        Some index \<Rightarrow> if cp_remove (ps (cps ! index)) then [] else [cp_processor (ps (cps ! index))]
      | None \<Rightarrow> [])"

lemma sorted_funcs_func_of: "sorted_funcs ps allNames cps names = concat (map (func_of ps allNames cps) names)"
  by (simp add: sorted_funcs_def func_of_def [abs_def])

lemma concat_single: "(\<And>x. x \<in> set xs \<Longrightarrow> f x = [g x]) \<Longrightarrow> concat (map f xs) = map g xs"
  by (induction xs) auto

definition plain_chain :: "procs \<Rightarrow> nat list \<Rightarrow> bool" where
  "plain_chain ps base =
     (unordered ps base \<and> distinct (map (\<lambda>c. cp_name (ps c)) base) \<and> (\<forall>c\<in>set base. \<not> cp_remove (ps c)))"

lemma func_of_base:
  assumes "plain_chain ps base" and "c \<in> set base" and "cp_name (ps c) \<notin> set (map (\<lambda>c. cp_name (ps c)) extra)"
  shows "func_of ps (map (\<lambda>c. cp_name (ps c)) (base @ extra)) (base @ extra) (cp_name (ps c)) = [cp_processor (ps c)]"
proof -
  obtain i where i: "i < length base" "base ! i = c" using assms(2) by (metis in_set_conv_nth)
  have "getRIndex (map (\<lambda>c. cp_name (ps c)) base) (map (\<lambda>c. cp_name (ps c)) base ! i) = Some i"
    using assms(1) i by (intro getRIndex_distinct) (simp_all add: plain_chain_def)
  moreover have "getRIndex (map (\<lambda>c. cp_name (ps c)) extra) (cp_name (ps c)) = None"
    using assms(3) by (rule getRIndex_absent)
  ultimately have "getRIndex (map (\<lambda>c. cp_name (ps c)) (base @ extra)) (cp_name (ps c)) = Some i"
    unfolding map_append getRIndex_append using i by (metis (no_types, lifting) nth_map option.simps(4))
  with assms(1,2) i show ?thesis by (simp add: func_of_def nth_append plain_chain_def)
qed

lemma base_names: "plain_chain ps base \<Longrightarrow>
  sort_loop (Suc f) allNames cps base (ps, []) = Some (ps, map (\<lambda>c. cp_name (ps c)) base)"
  by (simp add: plain_chain_def sort_loop_unordered keep_first_distinct)

lemma funcs_of_names:
  assumes "plain_chain ps base" and "set cs \<subseteq> set base"
    and "\<And>c. c \<in> set cs \<Longrightarrow> cp_name (ps c) \<notin> set (map (\<lambda>c. cp_name (ps c)) extra)"
  shows "sorted_funcs ps (map (\<lambda>c. cp_name (ps c)) (base @ extra)) (base @ extra) (map (\<lambda>c. cp_name (ps c)) cs)
    = map (\<lambda>c. cp_processor (ps c)) cs"
  unfolding sorted_funcs_func_of map_map o_def
  by (rule concat_single) (use assms func_of_base in blast)

lemma sort_plain:
  "plain_chain ps base \<Longrightarrow> sortProcessors (Suc f) base ps = Some (ps, map (\<lambda>c. cp_processor (ps c)) base)"
  using funcs_of_names [of ps base base "[]"] by (simp add: sortProcessors_def base_names)

lemma sorted_funcs_append:
  "sorted_funcs ps allNames cps (xs @ ys) = sorted_funcs ps allNames cps xs @ sorted_funcs ps allNames cps ys"
  by (simp add: sorted_funcs_def)

section \<open>One more processor after a plain chain\<close>

definition new_last :: "procs \<Rightarrow> nat list \<Rightarrow> nat \<Rightarrow> bool" where
  "new_last ps base c =
     (plain_chain ps base \<and> \<not> cp_remove (ps c) \<and> cp_name (ps c) \<notin> set (map (\<lambda>c. cp_name (ps c)) base))"

lemma func_of_last:
  "func_of ps (map (\<lambda>c. cp_name (ps c)) (base @ [c])) (base @ [c]) (cp_name (ps c)) =
     (if cp_remove (ps c) then [] else [cp_processor (ps c)])"
  by (simp add: func_of_def getRIndex_append nth_append)

lemma sorted_last:
  assumes "new_last ps base c"
    and "sortCallbackProcessor (Suc f) (map (\<lambda>c. cp_name (ps c)) (base @ [c])) (base @ [c]) c
           (ps, map (\<lambda>c. cp_name (ps c)) base)
         = Some (ps, map (\<lambda>c. cp_name (ps c)) cs)"
    and "set cs \<subseteq> set (base @ [c])"
  shows "sortProcessors (Suc f) (base @ [c]) ps = Some (ps, map (\<lambda>c. cp_processor (ps c)) cs)"
proof -
  have plain: "plain_chain ps base" using assms(1) by (simp add: new_last_def)
  let ?all = "map (\<lambda>c. cp_name (ps c)) (base @ [c])"
  have one: "func_of ps ?all (base @ [c]) (cp_name (ps x)) = [cp_processor (ps x)]" if "x \<in> set cs" for x
  proof (cases "x = c")
    case True
    then show ?thesis using func_of_last [of ps base c] assms(1) by (simp add: new_last_def)
  next
    case False
    with that assms(3) have "x \<in> set base" by auto
    moreover from this assms(1) have "cp_name (ps x) \<notin> set (map (\<lambda>c. cp_name (ps c)) [c])"
      by (auto simp: new_last_def image_iff)
    ultimately show ?thesis using func_of_base [OF plain, of x "[c]"] by simp
  qed
  have "sorted_funcs ps ?all (base @ [c]) (map (\<lambda>c. cp_name (ps c)) cs) = map (\<lambda>c. cp_processor (ps c)) cs"
    unfolding sorted_funcs_func_of map_map o_def by (rule concat_single) (use one in blast)
  moreover have "sort_loop (Suc f) ?all (base @ [c]) (base @ [c]) (ps, []) = Some (ps, map (\<lambda>c. cp_name (ps c)) cs)"
    using assms(2)
    by (simp add: sort_loop_append base_names [OF plain] del: sortCallbackProcessor.simps)
  ultimately show ?thesis by (simp add: sortProcessors_def Let_def)
qed

lemma names_index:
  "plain_chain ps base \<Longrightarrow> k < length base \<Longrightarrow>
   getRIndex (map (\<lambda>c. cp_name (ps c)) base) (cp_name (ps (base ! k))) = Some k"
  using getRIndex_distinct [of "map (\<lambda>c. cp_name (ps c)) base" k] by (simp add: plain_chain_def)

definition insert_proc :: "nat \<Rightarrow> nat \<Rightarrow> nat list \<Rightarrow> nat list" where
  "insert_proc k c cs = take k cs @ [c] @ drop k cs"

lemma set_insert_proc: "set (insert_proc k c cs) = insert c (set cs)"
  by (simp add: insert_proc_def) (metis append_take_drop_id set_append)

lemma insert_at_names:
  "insert_at k (f c) (map f cs) = map f (insert_proc k c cs)"
  by (simp add: insert_at_def insert_proc_def take_map drop_map)

lemma sort_before:
  assumes "new_last ps base c" and "cp_after (ps c) = []"
    and "k < length base" and "cp_before (ps c) = cp_name (ps (base ! k))" and "cp_before (ps c) \<noteq> []"
  shows "sortProcessors (Suc f) (base @ [c]) ps
    = Some (ps, map (\<lambda>c. cp_processor (ps c)) (insert_proc k c base))"
proof (rule sorted_last [OF assms(1)])
  have plain: "plain_chain ps base" and new: "cp_name (ps c) \<notin> set (map (\<lambda>c. cp_name (ps c)) base)"
    using assms(1) by (simp_all add: new_last_def)
  show "sortCallbackProcessor (Suc f) (map (\<lambda>c. cp_name (ps c)) (base @ [c])) (base @ [c]) c
           (ps, map (\<lambda>c. cp_name (ps c)) base) = Some (ps, map (\<lambda>c. cp_name (ps c)) (insert_proc k c base))"
    using new assms(2,5) names_index [OF plain assms(3)]
    by (simp add: Let_def assms(4) insert_at_names [symmetric] getRIndex_None)
  show "set (insert_proc k c base) \<subseteq> set (base @ [c])" by (simp add: set_insert_proc)
qed

lemma sort_after:
  assumes "new_last ps base c" and "cp_before (ps c) = []"
    and "k < length base" and "cp_after (ps c) = cp_name (ps (base ! k))" and "cp_after (ps c) \<noteq> []"
  shows "sortProcessors (Suc f) (base @ [c]) ps
    = Some (ps, map (\<lambda>c. cp_processor (ps c)) (insert_proc (Suc k) c base))"
proof (rule sorted_last [OF assms(1)])
  have plain: "plain_chain ps base" and new: "cp_name (ps c) \<notin> set (map (\<lambda>c. cp_name (ps c)) base)"
    using assms(1) by (simp_all add: new_last_def)
  show "sortCallbackProcessor (Suc f) (map (\<lambda>c. cp_name (ps c)) (base @ [c])) (base @ [c]) c
           (ps, map (\<lambda>c. cp_name (ps c)) base) = Some (ps, map (\<lambda>c. cp_name (ps c)) (insert_proc (Suc k) c base))"
    using new assms(2,5) names_index [OF plain assms(3)]
    by (simp add: Let_def assms(4) insert_at_names [symmetric] getRIndex_None)
  show "set (insert_proc (Suc k) c base) \<subseteq> set (base @ [c])" by (simp add: set_insert_proc)
qed

text \<open>With both a \<^verbatim>\<open>before\<close> and a later \<^verbatim>\<open>after\<close> in the chain the name is inserted twice.\<close>

lemma sort_before_and_after:
  assumes "new_last ps base c" and "k \<le> j" and "j < length base"
    and "cp_before (ps c) = cp_name (ps (base ! k))" and "cp_before (ps c) \<noteq> []"
    and "cp_after (ps c) = cp_name (ps (base ! j))" and "cp_after (ps c) \<noteq> []"
  shows "sortProcessors (Suc f) (base @ [c]) ps
    = Some (ps, map (\<lambda>c. cp_processor (ps c)) (insert_proc (Suc (Suc j)) c (insert_proc k c base)))"
proof (rule sorted_last [OF assms(1)])
  let ?n = "\<lambda>c. cp_name (ps c)"
  have plain: "plain_chain ps base" and new: "?n c \<notin> set (map ?n base)"
    using assms(1) by (simp_all add: new_last_def)
  have k: "k < length base" using assms(2,3) by simp
  have split: "map ?n base = take k (map ?n base) @ drop k (map ?n base)" by simp
  have j: "getRIndex (map ?n base) (?n (base ! j)) = Some j" by (rule names_index [OF plain assms(3)])
  have "?n (base ! j) \<in> set (drop k (map ?n base))"
  proof -
    have "base ! j = drop k base ! (j - k)" "j - k < length (drop k base)" using assms(2,3) by simp_all
    then have "base ! j \<in> set (drop k base)" by (metis nth_mem)
    then show ?thesis by (simp add: drop_map)
  qed
  then obtain i where i: "getRIndex (drop k (map ?n base)) (?n (base ! j)) = Some i"
    by (cases "getRIndex (drop k (map ?n base)) (?n (base ! j))") (simp_all add: getRIndex_None)
  have "getRIndex (take k (map ?n base) @ drop k (map ?n base)) (?n (base ! j)) = Some (k + i)"
    unfolding getRIndex_append using i k by simp
  with j have ki: "k + i = j" by simp
  have "getRIndex (insert_at k (?n c) (map ?n base)) (?n (base ! j)) = Some (Suc j)"
    unfolding insert_at_def getRIndex_append using i k ki by simp
  then show "sortCallbackProcessor (Suc f) (map ?n (base @ [c])) (base @ [c]) c (ps, map ?n base)
      = Some (ps, map ?n (insert_proc (Suc (Suc j)) c (insert_proc k c base)))"
    using new assms(5,7) names_index [OF plain k]
    by (simp add: Let_def assms(4,6) insert_at_names [symmetric] getRIndex_None)
  show "set (insert_proc (Suc (Suc j)) c (insert_proc k c base)) \<subseteq> set (base @ [c])"
    by (simp add: set_insert_proc)
qed

section \<open>Removing and replacing\<close>

text \<open>A last processor without order whose name is that of element \<open>k\<close> of a plain chain.\<close>

lemma sort_same_name:
  assumes "plain_chain ps base" and "k < length base" and "cp_name (ps c) = cp_name (ps (base ! k))"
    and "cp_before (ps c) = []" and "cp_after (ps c) = []"
  shows "sortProcessors (Suc f) (base @ [c]) ps =
    Some (ps, map (\<lambda>c. cp_processor (ps c)) (take k base)
            @ (if cp_remove (ps c) then [] else [cp_processor (ps c)])
            @ map (\<lambda>c. cp_processor (ps c)) (drop (Suc k) base))"
proof -
  let ?n = "\<lambda>c. cp_name (ps c)"
  let ?all = "map ?n (base @ [c])"
  have base: "base = take k base @ base ! k # drop (Suc k) base"
    using assms(2) by (metis id_take_nth_drop)
  have dist: "distinct (map ?n base)" using assms(1) by (simp add: plain_chain_def)
  have other: "?n x \<noteq> ?n c" if "x \<in> set (take k base) \<or> x \<in> set (drop (Suc k) base)" for x
  proof -
    have "distinct (map ?n (take k base @ base ! k # drop (Suc k) base))" using dist base by simp
    with that assms(3) show ?thesis by (auto simp: image_iff)
  qed
  have funcs: "sorted_funcs ps ?all (base @ [c]) (map ?n xs) = map (\<lambda>c. cp_processor (ps c)) xs"
    if "set xs \<subseteq> set base" "\<forall>x\<in>set xs. ?n x \<noteq> ?n c" for xs
    by (rule funcs_of_names [OF assms(1) that(1)]) (use that(2) in auto)
  have "sort_loop (Suc f) ?all (base @ [c]) (base @ [c]) (ps, []) = Some (ps, map ?n base)"
    using assms by (simp add: sort_loop_append base_names sort_cp_unordered del: sortCallbackProcessor.simps)
  moreover have "sorted_funcs ps ?all (base @ [c]) (map ?n base)
    = map (\<lambda>c. cp_processor (ps c)) (take k base) @ (if cp_remove (ps c) then [] else [cp_processor (ps c)])
            @ map (\<lambda>c. cp_processor (ps c)) (drop (Suc k) base)"
  proof -
    have "map ?n base = map ?n (take k base) @ [?n c] @ map ?n (drop (Suc k) base)"
      using arg_cong [OF base, of "map ?n"] assms(3) by simp
    moreover have "sorted_funcs ps ?all (base @ [c]) [?n c] = (if cp_remove (ps c) then [] else [cp_processor (ps c)])"
      using func_of_last [of ps base c] by (simp add: sorted_funcs_func_of)
    moreover have "sorted_funcs ps ?all (base @ [c]) (map ?n (take k base)) = map (\<lambda>c. cp_processor (ps c)) (take k base)"
      by (rule funcs) (use other in \<open>auto dest: in_set_takeD\<close>)
    moreover have "sorted_funcs ps ?all (base @ [c]) (map ?n (drop (Suc k) base)) = map (\<lambda>c. cp_processor (ps c)) (drop (Suc k) base)"
      by (rule funcs) (use other in \<open>auto dest: in_set_dropD\<close>)
    ultimately show ?thesis by (simp only: sorted_funcs_append)
  qed
  ultimately show ?thesis by (simp add: sortProcessors_def Let_def)
qed

section \<open>Every registered name is in the chain\<close>

definition same_cps :: "procs \<Rightarrow> procs \<Rightarrow> bool" where
  "same_cps ps ps' = (\<forall>c. cp_name (ps' c) = cp_name (ps c) \<and> cp_remove (ps' c) = cp_remove (ps c)
      \<and> cp_processor (ps' c) = cp_processor (ps c) \<and> cp_kind (ps' c) = cp_kind (ps c))"

lemma same_cps_refl [simp]: "same_cps ps ps"
  by (simp add: same_cps_def)

lemma same_cps_trans: "same_cps ps ps' \<Longrightarrow> same_cps ps' ps'' \<Longrightarrow> same_cps ps ps''"
  by (simp add: same_cps_def)

lemma same_cps_before: "same_cps ps (ps(i := (ps i)\<lparr>cp_before := b\<rparr>))"
  by (simp add: same_cps_def)

lemma same_cps_names: "same_cps ps ps' \<Longrightarrow> map (\<lambda>c. cp_name (ps' c)) cps = map (\<lambda>c. cp_name (ps c)) cps"
  by (simp add: same_cps_def)

definition grows :: "string list \<Rightarrow> procs \<Rightarrow> string list \<Rightarrow> procs \<Rightarrow> string list \<Rightarrow> bool" where
  "grows allNames ps names ps' names' =
     (same_cps ps ps' \<and> set names \<subseteq> set names' \<and> set names' \<subseteq> set names \<union> set allNames)"

lemma grows_refl: "grows allNames ps names ps names"
  by (simp add: grows_def)

lemma grows_trans: "grows all ps n ps' n' \<Longrightarrow> grows all ps' n' ps'' n'' \<Longrightarrow> grows all ps n ps'' n''"
  unfolding grows_def by (blast intro: same_cps_trans)

lemma sort_cp_covers:
  "sortCallbackProcessor f allNames cps c (ps, names) = Some (ps', names') \<Longrightarrow> c \<in> set cps \<Longrightarrow>
   allNames = map (\<lambda>c. cp_name (ps c)) cps \<Longrightarrow>
   grows allNames ps names ps' names' \<and> cp_name (ps c) \<in> set names'"
proof (induction f arbitrary: c ps names ps' names')
  case 0
  then show ?case by simp
next
  case (Suc f)
  have all: "cp_name (ps c) \<in> set allNames" using Suc.prems by auto
  have idx: "cps ! i \<in> set cps" if "getRIndex allNames x = Some i" for x i
    using getRIndex_Some [OF that] Suc.prems(3) by simp
  show ?case
  proof (cases "cp_name (ps c) \<in> set names")
    case True
    with Suc.prems show ?thesis by (simp add: getRIndex_None Let_def grows_def)
  next
    case False
    obtain ps1 n1 where s1: "(if cp_before (ps c) \<noteq> [] then
                (case getRIndex names (cp_before (ps c)) of
                   Some index \<Rightarrow> Some (ps, insert_at index (cp_name (ps c)) names)
                 | None \<Rightarrow>
                    (case getRIndex allNames (cp_before (ps c)) of
                       Some index \<Rightarrow> sortCallbackProcessor f allNames cps (cps ! index) (ps, names @ [cp_name (ps c)])
                     | None \<Rightarrow> Some (ps, names)))
              else Some (ps, names)) = Some (ps1, n1)"
      using Suc.prems(1) False by (auto simp: Let_def getRIndex_None split: option.splits if_splits)
    have g1: "grows allNames ps names ps1 n1"
    proof -
      have "grows allNames ps names ps1 n1"
        if "getRIndex allNames (cp_before (ps c)) = Some i"
          and "sortCallbackProcessor f allNames cps (cps ! i) (ps, names @ [cp_name (ps c)]) = Some (ps1, n1)" for i
      proof -
        have "grows allNames ps (names @ [cp_name (ps c)]) ps1 n1"
          using Suc.IH [OF that(2) idx [OF that(1)] Suc.prems(3)] by simp
        then show ?thesis using all by (auto simp: grows_def)
      qed
      with s1 all show ?thesis
        by (auto simp: grows_refl split: if_splits option.splits) (auto simp: grows_def)
    qed
    have names1: "allNames = map (\<lambda>c. cp_name (ps1 c)) cps" and nm1: "cp_name (ps1 c) = cp_name (ps c)"
      using g1 Suc.prems(3) same_cps_names [of ps ps1 cps] by (simp_all add: grows_def same_cps_def)
    obtain ps2 n2 where s2: "(if cp_after (ps1 c) \<noteq> [] then
                    (case getRIndex n1 (cp_after (ps1 c)) of
                       Some index \<Rightarrow> Some (ps1, insert_at (Suc index) (cp_name (ps c)) n1)
                     | None \<Rightarrow>
                        (case getRIndex allNames (cp_after (ps1 c)) of
                           Some index \<Rightarrow>
                             (let i = cps ! index;
                                  ps = (if cp_before (ps1 i) = [] then ps1(i := (ps1 i)\<lparr>cp_before := cp_name (ps c)\<rparr>) else ps1)
                              in sortCallbackProcessor f allNames cps i (ps, n1))
                         | None \<Rightarrow> Some (ps1, n1)))
                  else Some (ps1, n1)) = Some (ps2, n2)"
      and fin: "ps' = ps2" "names' = (if cp_name (ps c) \<notin> set n2 then n2 @ [cp_name (ps c)] else n2)"
      using Suc.prems(1) False s1 by (auto simp: Let_def getRIndex_None split: option.splits)
    have g2: "grows allNames ps1 n1 ps2 n2"
    proof -
      have "grows allNames ps1 n1 ps2 n2"
        if "getRIndex allNames (cp_after (ps1 c)) = Some i"
          and "sortCallbackProcessor f allNames cps (cps ! i) (p, n1) = Some (ps2, n2)"
          and "same_cps ps1 p" for i p
      proof -
        have "grows allNames p n1 ps2 n2"
          using Suc.IH [OF that(2) idx [OF that(1)]] names1 same_cps_names [OF that(3), of cps] by simp
        then show ?thesis using that(3) by (auto simp: grows_def intro: same_cps_trans)
      qed
      with s2 all show ?thesis
        by (auto simp: grows_refl same_cps_before Let_def split: if_splits option.splits) (auto simp: grows_def)
    qed
    show ?thesis using grows_trans [OF g1 g2] all unfolding fin by (auto simp: grows_def)
  qed
qed

lemma sort_loop_covers:
  "sort_loop f allNames cps cs (ps, names) = Some (ps', names') \<Longrightarrow> set cs \<subseteq> set cps \<Longrightarrow>
   allNames = map (\<lambda>c. cp_name (ps c)) cps \<Longrightarrow>
   grows allNames ps names ps' names' \<and> (\<forall>c\<in>set cs. cp_name (ps c) \<in> set names')"
proof (induction cs arbitrary: ps names)
  case Nil
  then show ?case by (simp add: grows_refl)
next
  case (Cons c cs)
  then obtain ps1 n1 where s1: "sortCallbackProcessor f allNames cps c (ps, names) = Some (ps1, n1)"
    and s2: "sort_loop f allNames cps cs (ps1, n1) = Some (ps', names')"
    by (auto split: option.splits)
  have g1: "grows allNames ps names ps1 n1" "cp_name (ps c) \<in> set n1"
    using sort_cp_covers [OF s1] Cons.prems by auto
  have same: "same_cps ps ps1" using g1 by (simp add: grows_def)
  have "grows allNames ps1 n1 ps' names' \<and> (\<forall>c\<in>set cs. cp_name (ps1 c) \<in> set names')"
    using Cons.IH [OF s2] Cons.prems same_cps_names [OF same, of cps] by simp
  with g1 same show ?case
    using grows_trans [OF g1(1)] by (auto simp: grows_def same_cps_def)
qed

lemma func_of_last_occurrence:
  assumes "cps = pre @ [c] @ post" and "cp_name (ps c) \<notin> set (map (\<lambda>c. cp_name (ps c)) post)"
  shows "func_of ps (map (\<lambda>c. cp_name (ps c)) cps) cps (cp_name (ps c)) =
    (if cp_remove (ps c) then [] else [cp_processor (ps c)])"
  using assms(2) unfolding assms(1) func_of_def
  by (simp add: getRIndex_append nth_append)

lemma same_cps_func_of: "same_cps ps ps' \<Longrightarrow> func_of ps' allNames cps n = func_of ps allNames cps n"
  by (simp add: func_of_def same_cps_def split: option.splits)

lemma sortProcessors_covers:
  assumes "sortProcessors f cps ps = Some (ps', fs)" and "cps = pre @ [c] @ post"
    and "cp_name (ps c) \<notin> set (map (\<lambda>c. cp_name (ps c)) post)"
  shows "same_cps ps ps' \<and> (\<not> cp_remove (ps c) \<longrightarrow> cp_processor (ps c) \<in> set fs)"
proof -
  let ?all = "map (\<lambda>c. cp_name (ps c)) cps"
  obtain names where loop: "sort_loop f ?all cps cps (ps, []) = Some (ps', names)"
    and fs: "fs = sorted_funcs ps' ?all cps names"
    using assms(1) by (auto simp: sortProcessors_def Let_def split: option.splits)
  have cov: "grows ?all ps [] ps' names" "cp_name (ps c) \<in> set names"
    using sort_loop_covers [OF loop] assms(2) by auto
  then have same: "same_cps ps ps'" by (simp add: grows_def)
  have "func_of ps' ?all cps (cp_name (ps c)) = (if cp_remove (ps c) then [] else [cp_processor (ps c)])"
    using func_of_last_occurrence [OF assms(2,3)] same_cps_func_of [OF same] by simp
  with cov(2) same show ?thesis unfolding fs sorted_funcs_func_of by force
qed

lemma sortProcessors_only:
  assumes "sortProcessors f cps ps = Some (ps', fs)" and "x \<in> set fs"
  shows "\<exists>c\<in>set cps. \<not> cp_remove (ps c) \<and> x = cp_processor (ps c)"
proof -
  let ?all = "map (\<lambda>c. cp_name (ps c)) cps"
  obtain names where loop: "sort_loop f ?all cps cps (ps, []) = Some (ps', names)"
    and fs: "fs = sorted_funcs ps' ?all cps names"
    using assms(1) by (auto simp: sortProcessors_def Let_def split: option.splits)
  have same: "same_cps ps ps'" using sort_loop_covers [OF loop] by (simp add: grows_def)
  obtain n where n: "x \<in> set (func_of ps' ?all cps n)" using assms(2) unfolding fs sorted_funcs_func_of by auto
  then obtain i where "getRIndex ?all n = Some i" "\<not> cp_remove (ps' (cps ! i))" "x = cp_processor (ps' (cps ! i))"
    by (cases "getRIndex ?all n") (auto simp: func_of_def split: if_splits)
  moreover from this(1) have "cps ! i \<in> set cps" using getRIndex_Some by fastforce
  ultimately show ?thesis using same by (metis same_cps_def)
qed

section \<open>Two processors after each other: the sort does not return\<close>

lemma after_cycle_loops:
  assumes "a \<noteq> b" and "cp_name (ps a) = na" and "cp_name (ps b) = nb" and "na \<noteq> nb" and "na \<noteq> []" and "nb \<noteq> []"
    and "cp_after (ps a) = nb" and "cp_after (ps b) = na"
    and "cp_before (ps a) \<notin> {[], na, nb}" and "cp_before (ps b) \<notin> {[], na, nb}"
  shows "sortCallbackProcessor f [na, nb] [a, b] a (ps, []) = None
       \<and> sortCallbackProcessor f [na, nb] [a, b] b (ps, []) = None"
  by (induction f) (use assms in \<open>auto simp: Let_def\<close>)

section \<open>Clones share the backing array\<close>

lemma slice_append_elems:
  "sl_len s \<le> length (h_arrays h (sl_array s)) \<Longrightarrow> slice_append grow s x h = (s', h') \<Longrightarrow>
   slice_elems h' s' = slice_elems h s @ [x]"
  by (auto simp: slice_append_def slice_elems_def take_Suc_conv_app_nth split: if_splits)

lemma slice_append_in_place:
  "sl_len s < length (h_arrays h (sl_array s)) \<Longrightarrow> slice_append grow s x h =
     (s\<lparr>sl_len := Suc (sl_len s)\<rparr>,
      h\<lparr>h_arrays := (h_arrays h)(sl_array s := (h_arrays h (sl_array s))[sl_len s := x])\<rparr>)"
  by (simp add: slice_append_def)

lemma reorder_keeps:
  "reorder fuel cb h = Some h' \<Longrightarrow> h_arrays h' = h_arrays h \<and> h_next h' = h_next h
     \<and> (\<forall>c. cb_processors (h_cbs h' c) = cb_processors (h_cbs h c))"
  by (auto simp: reorder_def Let_def split: option.splits)

lemma sortProcessors_same: "sortProcessors f cps ps = Some (ps', fs) \<Longrightarrow> same_cps ps ps'"
proof -
  assume a: "sortProcessors f cps ps = Some (ps', fs)"
  then obtain names where "sort_loop f (map (\<lambda>c. cp_name (ps c)) cps) cps cps (ps, []) = Some (ps', names)"
    by (auto simp: sortProcessors_def Let_def split: option.splits)
  from sort_loop_covers [OF this] show ?thesis by (simp add: grows_def)
qed

section \<open>Registration on a registry without explicit order\<close>

definition elems_of :: "cbheap \<Rightarrow> nat \<Rightarrow> nat list" where
  "elems_of h c = slice_elems h (cb_processors (h_cbs h c))"

definition plain_registry :: "cbheap \<Rightarrow> nat \<Rightarrow> bool" where
  "plain_registry h c =
     (sl_len (cb_processors (h_cbs h c)) \<le> length (h_arrays h (sl_array (cb_processors (h_cbs h c))))
      \<and> (\<forall>kind. plain_chain (h_cps h) (of_kind (h_cps h) kind (elems_of h c))))"

definition chain_of :: "cbheap \<Rightarrow> string \<Rightarrow> nat \<Rightarrow> nat option list" where
  "chain_of h kind c = map (\<lambda>p. cp_processor (h_cps h p)) (of_kind (h_cps h) kind (elems_of h c))"

lemma of_kind_append: "of_kind ps k (xs @ ys) = of_kind ps k xs @ of_kind ps k ys"
  by (simp add: of_kind_def)

lemma of_kind_upd: "cp \<notin> set xs \<Longrightarrow> of_kind (ps(cp := q)) k xs = of_kind ps k xs"
  unfolding of_kind_def by (rule filter_cong) auto

lemma of_kind_subset: "set (of_kind ps k xs) \<subseteq> set xs"
  by (auto simp: of_kind_def)

lemma plain_chain_upd: "cp \<notin> set xs \<Longrightarrow> plain_chain (ps(cp := q)) xs = plain_chain ps xs"
  unfolding plain_chain_def unordered_def by (auto simp: distinct_map inj_on_def)

lemma map_upd: "cp \<notin> set xs \<Longrightarrow> map (\<lambda>p. f ((ps(cp := q)) p)) xs = map (\<lambda>p. f (ps p)) xs"
  by (induction xs) auto

lemma add_processor_create:
  assumes reg: "plain_registry h c" and cp: "cp_parent (h_cps h cp) = c" "cp_kind (h_cps h cp) = ''create''"
      "cp_name (h_cps h cp) \<noteq> []" "cp \<notin> set (elems_of h c)"
    and sorted: "sortProcessors (Suc f) (of_kind (h_cps h) ''create'' (elems_of h c) @ [cp]) (h_cps h) = Some (h_cps h, fs)"
  shows "\<exists>h'. add_processor grow (Suc f) cp h = Some h' \<and> cb_creates (h_cbs h' c) = fs
     \<and> h_cps h' = h_cps h \<and> elems_of h' c = elems_of h c @ [cp]"
proof -
  obtain s h1 where ap: "slice_append grow (cb_processors (h_cbs h c)) cp h = (s, h1)"
    by (cases "slice_append grow (cb_processors (h_cbs h c)) cp h")
  have el: "slice_elems h1 s = elems_of h c @ [cp]"
    using slice_append_elems [OF _ ap] reg by (simp add: plain_registry_def elems_of_def)
  have frame: "h_cps h1 = h_cps h" "h_cbs h1 = h_cbs h"
    using ap by (auto simp: slice_append_def split: if_splits)
  let ?h2 = "h1\<lparr>h_cbs := (h_cbs h1)(c := (h_cbs h1 c)\<lparr>cb_processors := s\<rparr>)\<rparr>"
  have el2: "slice_elems ?h2 s = elems_of h c @ [cp]" using el by (simp add: slice_elems_def)
  have other: "of_kind (h_cps h) k (elems_of h c @ [cp]) = of_kind (h_cps h) k (elems_of h c)" if "k \<noteq> ''create''" for k
    using that cp by (simp add: of_kind_append) (simp add: of_kind_def)
  have mine: "of_kind (h_cps h) ''create'' (elems_of h c @ [cp]) = of_kind (h_cps h) ''create'' (elems_of h c) @ [cp]"
    using cp by (simp add: of_kind_append) (simp add: of_kind_def)
  have plain: "sortProcessors (Suc f) (of_kind (h_cps h) k (elems_of h c)) (h_cps h) =
      Some (h_cps h, map (\<lambda>p. cp_processor (h_cps h p)) (of_kind (h_cps h) k (elems_of h c)))" for k
    using reg sort_plain by (simp add: plain_registry_def)
  have "add_processor grow (Suc f) cp h = reorder (Suc f) c ?h2"
    using ap cp(1) frame by (simp add: add_processor_def)
  moreover have "\<exists>h'. reorder (Suc f) c ?h2 = Some h' \<and> cb_creates (h_cbs h' c) = fs \<and> h_cps h' = h_cps h
      \<and> h_arrays h' = h_arrays h1 \<and> cb_processors (h_cbs h' c) = s"
    unfolding reorder_def using el2 frame sorted by (simp add: other mine plain Let_def)
  ultimately obtain h' where "add_processor grow (Suc f) cp h = Some h'" "cb_creates (h_cbs h' c) = fs"
      "h_cps h' = h_cps h" "h_arrays h' = h_arrays h1" "cb_processors (h_cbs h' c) = s" by auto
  with el show ?thesis by (auto simp: elems_of_def slice_elems_def)
qed

text \<open>A processor that the registry does not hold yet, of the create kind, under a new name.\<close>

definition new_create :: "cbheap \<Rightarrow> nat \<Rightarrow> nat \<Rightarrow> string \<Rightarrow> bool" where
  "new_create h c cp name =
     (cp_parent (h_cps h cp) = c \<and> cp_kind (h_cps h cp) = ''create'' \<and> \<not> cp_remove (h_cps h cp)
      \<and> cp \<notin> set (elems_of h c) \<and> name \<noteq> []
      \<and> name \<notin> set (map (\<lambda>p. cp_name (h_cps h p)) (of_kind (h_cps h) ''create'' (elems_of h c))))"

lemma register_create:
  fixes h c cp name fn
  defines "h1 \<equiv> upd_cp cp (\<lambda>p. p\<lparr>cp_name := name, cp_processor := Some fn\<rparr>) h"
    and "base \<equiv> of_kind (h_cps h) ''create'' (elems_of h c)"
  assumes reg: "plain_registry h c" and new: "new_create h c cp name"
    and sorted: "sortProcessors (Suc f) (base @ [cp]) (h_cps h1) = Some (h_cps h1, fs)"
  shows "\<exists>h'. cp_Register grow (Suc f) name fn cp h = Some h' \<and> cb_creates (h_cbs h' c) = fs"
proof -
  have notin: "cp \<notin> set (elems_of h c)" using new by (simp add: new_create_def)
  have el: "elems_of h1 c = elems_of h c" by (simp add: h1_def elems_of_def upd_cp_def slice_elems_def)
  have cps: "h_cps h1 = (h_cps h)(cp := (h_cps h cp)\<lparr>cp_name := name, cp_processor := Some fn\<rparr>)"
    by (simp add: h1_def upd_cp_def)
  have kinds: "of_kind (h_cps h1) k (elems_of h1 c) = of_kind (h_cps h) k (elems_of h c)" for k
    unfolding el cps by (rule of_kind_upd [OF notin])
  have "cp \<notin> set (of_kind (h_cps h) k (elems_of h c))" for k using notin of_kind_subset by fast
  then have "plain_registry h1 c"
    using reg unfolding plain_registry_def kinds
    by (simp add: cps plain_chain_upd) (simp add: h1_def upd_cp_def)
  moreover have "cp_parent (h_cps h1 cp) = c" "cp_kind (h_cps h1 cp) = ''create''" "cp_name (h_cps h1 cp) \<noteq> []"
      "cp \<notin> set (elems_of h1 c)"
    using new by (simp_all add: cps new_create_def el)
  moreover have "sortProcessors (Suc f) (of_kind (h_cps h1) ''create'' (elems_of h1 c) @ [cp]) (h_cps h1) = Some (h_cps h1, fs)"
    using sorted by (simp add: kinds base_def)
  ultimately have "\<exists>h'. add_processor grow (Suc f) cp h1 = Some h' \<and> cb_creates (h_cbs h' c) = fs"
    using add_processor_create [of h1 c cp f fs grow] by blast
  then show ?thesis using new by (simp add: cp_Register_def new_create_def h1_def)
qed

lemma new_create_last:
  assumes "plain_registry h c" and "new_create h c cp name"
  shows "new_last ((h_cps h)(cp := (h_cps h cp)\<lparr>cp_name := name, cp_processor := Some fn\<rparr>))
           (of_kind (h_cps h) ''create'' (elems_of h c)) cp"
proof -
  have "cp \<notin> set (of_kind (h_cps h) ''create'' (elems_of h c))"
    using assms(2) of_kind_subset by (fastforce simp: new_create_def)
  with assms show ?thesis
    by (auto simp: new_last_def plain_chain_upd plain_registry_def new_create_def split: if_splits)
qed

lemma map_insert_proc_upd:
  assumes "cp \<notin> set base"
  shows "map (\<lambda>c. cp_processor ((ps(cp := q)) c)) (insert_proc k cp base)
    = take k (map (\<lambda>p. cp_processor (ps p)) base) @ [cp_processor q] @ drop k (map (\<lambda>p. cp_processor (ps p)) base)"
proof -
  have "cp \<notin> set (take k base)" "cp \<notin> set (drop k base)"
    using assms by (auto dest: in_set_takeD in_set_dropD)
  then show ?thesis by (auto simp: insert_proc_def take_map drop_map intro!: map_cong)
qed

lemma sort_unordered: "(\<forall>c. cp_before (ps c) = [] \<and> cp_after (ps c) = []) \<Longrightarrow> \<exists>fs. sortProcessors (Suc f) cps ps = Some (ps, fs)"
  by (simp add: sortProcessors_def Let_def sort_loop_unordered unordered_def)

lemma reorder_unordered:
  assumes "\<forall>c. cp_before (h_cps h c) = [] \<and> cp_after (h_cps h c) = []"
  shows "\<exists>h'. reorder (Suc f) c h = Some h' \<and> h_cps h' = h_cps h"
proof -
  have "\<exists>fs. sortProcessors (Suc f) xs (h_cps h) = Some (h_cps h, fs)" for xs
    using assms by (rule sort_unordered)
  then obtain g where g: "\<And>xs. sortProcessors (Suc f) xs (h_cps h) = Some (h_cps h, g xs)" by metis
  show ?thesis by (simp add: reorder_def Let_def g)
qed

lemma add_processor_unordered:
  assumes "\<forall>c. cp_before (h_cps h c) = [] \<and> cp_after (h_cps h c) = []"
  shows "\<exists>h'. add_processor grow (Suc f) cp h = Some h' \<and> h_cps h' = h_cps h"
proof -
  obtain s h1 where ap: "slice_append grow (cb_processors (h_cbs h (cp_parent (h_cps h cp)))) cp h = (s, h1)"
    by (cases "slice_append grow (cb_processors (h_cbs h (cp_parent (h_cps h cp)))) cp h")
  then have "h_cps h1 = h_cps h" by (auto simp: slice_append_def split: if_splits)
  with ap assms show ?thesis
    using reorder_unordered [of "h1\<lparr>h_cbs := (h_cbs h1)(cp_parent (h_cps h cp) := (h_cbs h1 (cp_parent (h_cps h cp)))\<lparr>cb_processors := s\<rparr>)\<rparr>" f]
    by (simp add: add_processor_def Let_def)
qed

end
