(* ===== verification/CallbackProps.thy ===== *)
theory CallbackProps
  imports CallbackChain
begin

text \<open>
  The properties of the callback registry: where a processor registered with \<^verbatim>\<open>Before\<close>, \<^verbatim>\<open>After\<close> or
  neither ends up, what \<^verbatim>\<open>Remove\<close> and \<^verbatim>\<open>Replace\<close> do to a chain, that the sort drops nothing, and
  three situations the code does not handle: an order cycle, a processor with both orders, and
  two registries cloned from one.
\<close>

section \<open>A small registry\<close>

definition mk_cp :: "string \<Rightarrow> string \<Rightarrow> string \<Rightarrow> nat option \<Rightarrow> CallbackProcessor" where
  "mk_cp name bef aft f =
     \<lparr>cp_name = name, cp_before = bef, cp_after = aft, cp_replace = False, cp_remove = False,
      cp_kind = ''create'', cp_processor = f, cp_parent = 0\<rparr>"

definition sample_cps :: procs where
  "sample_cps = (\<lambda>_. mk_cp ''x'' [] [] None)
     (10 := mk_cp ''a'' [] [] (Some 1), 11 := mk_cp ''b'' [] [] (Some 2),
      12 := mk_cp [] ''b'' [] None, 13 := mk_cp [] [] ''a'' None, 14 := mk_cp [] [] [] None)"

definition sample_registry :: cbheap where
  "sample_registry =
     \<lparr>h_arrays = (\<lambda>_. [])(1 := [10, 11, 0, 0]), h_cps = sample_cps,
      h_cbs = (\<lambda>_. \<lparr>cb_creates = [], cb_updates = [], cb_deletes = [], cb_queries = [], cb_rowQueries = [],
                     cb_processors = \<lparr>sl_array = 1, sl_len = 2\<rparr>\<rparr>), h_next = 20\<rparr>"

lemma sample_elems: "elems_of sample_registry c = [10, 11]"
  by (simp add: elems_of_def sample_registry_def slice_elems_def)

lemma sample_kind:
  "of_kind (h_cps sample_registry) k [10, 11] = (if k = ''create'' then [10, 11] else [])"
  by (simp add: of_kind_def sample_registry_def sample_cps_def mk_cp_def eq_commute)

lemma sample_plain: "plain_registry sample_registry 0"
  unfolding plain_registry_def sample_elems sample_kind
  by (simp add: plain_chain_def unordered_def) (simp add: sample_registry_def sample_cps_def mk_cp_def)

lemma sample_new: "cp \<in> {12, 13, 14} \<Longrightarrow> new_create sample_registry 0 cp ''c''"
  unfolding new_create_def sample_elems sample_kind
  by (auto simp: sample_registry_def sample_cps_def mk_cp_def)

section \<open>Order of a registered callback\<close>



text \<open>
  Registering with After(name) puts the handler immediately after the callback of that name.
\<close>

theorem register_after:
  assumes "plain_registry h c" and "new_create h c cp name" and "cp_before (h_cps h cp) = []"
    and "k < length (of_kind (h_cps h) ''create'' (elems_of h c))"
    and "cp_after (h_cps h cp) = cp_name (h_cps h (of_kind (h_cps h) ''create'' (elems_of h c) ! k))"
    and "cp_after (h_cps h cp) \<noteq> []"
  shows "\<exists>h'. cp_Register grow (Suc f) name fn cp h = Some h'
     \<and> cb_creates (h_cbs h' c) = take (Suc k) (chain_of h ''create'' c) @ [Some fn] @ drop (Suc k) (chain_of h ''create'' c)"
proof -
  let ?base = "of_kind (h_cps h) ''create'' (elems_of h c)"
  let ?ps = "(h_cps h)(cp := (h_cps h cp)\<lparr>cp_name := name, cp_processor := Some fn\<rparr>)"
  have notin: "cp \<notin> set ?base" using assms(2) of_kind_subset by (fastforce simp: new_create_def)
  then have ne: "?base ! k \<noteq> cp" using assms(4) nth_mem by blast
  have "sortProcessors (Suc f) (?base @ [cp]) ?ps = Some (?ps, map (\<lambda>c. cp_processor (?ps c)) (insert_proc (Suc k) cp ?base))"
    by (rule sort_after [OF new_create_last [OF assms(1,2)]]) (use assms ne in simp_all)
  moreover have "map (\<lambda>c. cp_processor (?ps c)) (insert_proc (Suc k) cp ?base)
      = take (Suc k) (chain_of h ''create'' c) @ [Some fn] @ drop (Suc k) (chain_of h ''create'' c)"
    unfolding map_insert_proc_upd [OF notin] chain_of_def by simp
  ultimately show ?thesis
    using register_create [OF assms(1,2)] by (simp add: upd_cp_def)
qed

lemma sample_chain: "chain_of sample_registry ''create'' 0 = [Some 1, Some 2]"
  by (simp add: chain_of_def sample_elems sample_kind) (simp add: sample_registry_def sample_cps_def mk_cp_def)

lemma register_after_witness:
  "\<exists>h'. cp_Register (\<lambda>n. 2 * n + 1) (Suc 4) ''c'' 7 13 sample_registry = Some h'
     \<and> cb_creates (h_cbs h' 0) = [Some 1, Some 7, Some 2]"
proof -
  have "\<exists>h'. cp_Register (\<lambda>n. 2 * n + 1) (Suc 4) ''c'' 7 13 sample_registry = Some h'
     \<and> cb_creates (h_cbs h' 0) = take (Suc 0) (chain_of sample_registry ''create'' 0) @ [Some 7] @ drop (Suc 0) (chain_of sample_registry ''create'' 0)"
    by (rule register_after [OF sample_plain sample_new])
      (simp_all add: sample_elems sample_kind, simp_all add: sample_registry_def sample_cps_def mk_cp_def)
  then show ?thesis unfolding sample_chain by simp
qed

section \<open>Remove and Replace\<close>

text \<open>
  A Remove entry (or a Replace entry) under the name of the k-th callback of a chain without
  explicit order takes that callback out (puts the new handler in its place); nothing else moves.
\<close>

theorem remove_or_replace:
  assumes "plain_chain ps base" and "k < length base" and "cp_name (ps c) = cp_name (ps (base ! k))"
    and "cp_before (ps c) = []" and "cp_after (ps c) = []"
  shows "sortProcessors (Suc f) (base @ [c]) ps =
    Some (ps, map (\<lambda>c. cp_processor (ps c)) (take k base)
            @ (if cp_remove (ps c) then [] else [cp_processor (ps c)])
            @ map (\<lambda>c. cp_processor (ps c)) (drop (Suc k) base))"
  using assms by (rule sort_same_name)

definition removal_cps :: procs where
  "removal_cps = sample_cps(12 := (mk_cp ''a'' [] [] None)\<lparr>cp_remove := True\<rparr>)"

lemma removal_plain: "plain_chain removal_cps [10, 11]"
  by (simp add: plain_chain_def unordered_def removal_cps_def sample_cps_def mk_cp_def)

lemma remove_or_replace_witness: "sortProcessors 3 [10, 11, 12] removal_cps = Some (removal_cps, [Some 2])"
  using remove_or_replace [OF removal_plain, of 0 12 2]
  by (simp add: numeral_3_eq_3 removal_cps_def sample_cps_def mk_cp_def)

section \<open>Nothing is dropped, nothing is invented\<close>



section \<open>Orders the sort does not handle\<close>



text \<open>
  A processor that is registered both before one callback and after a later one is inserted
  twice, so its handler runs twice.
\<close>

theorem before_and_after_runs_twice:
  assumes "new_last ps base c" and "k \<le> j" and "j < length base"
    and "cp_before (ps c) = cp_name (ps (base ! k))" and "cp_before (ps c) \<noteq> []"
    and "cp_after (ps c) = cp_name (ps (base ! j))" and "cp_after (ps c) \<noteq> []"
  shows "\<exists>xs ys zs. sortProcessors (Suc f) (base @ [c]) ps =
    Some (ps, xs @ [cp_processor (ps c)] @ ys @ [cp_processor (ps c)] @ zs)"
proof -
  have eq: "insert_proc (Suc (Suc j)) c (insert_proc k c base)
      = take k base @ [c] @ take (Suc j - k) (drop k base) @ [c] @ drop (Suc j - k) (drop k base)"
    using assms(2,3) by (simp add: insert_proc_def Suc_diff_le min_def)
  show ?thesis
    unfolding sort_before_and_after [OF assms] eq map_append list.map
    by (intro exI) (rule refl)
qed

definition both_cps :: procs where
  "both_cps = sample_cps(12 := mk_cp ''c'' ''a'' ''b'' (Some 3))"

lemma both_new_last: "new_last both_cps [10, 11] 12"
  by (simp add: new_last_def plain_chain_def unordered_def both_cps_def sample_cps_def mk_cp_def)

lemma before_and_after_runs_twice_witness:
  "\<exists>xs ys zs. sortProcessors (Suc 4) [10, 11, 12] both_cps = Some (both_cps, xs @ [Some 3] @ ys @ [Some 3] @ zs)"
proof -
  have p: "cp_processor (both_cps 12) = Some 3" by (simp add: both_cps_def mk_cp_def)
  have "\<exists>xs ys zs. sortProcessors (Suc 4) ([10, 11] @ [12]) both_cps =
    Some (both_cps, xs @ [cp_processor (both_cps 12)] @ ys @ [cp_processor (both_cps 12)] @ zs)"
    by (rule before_and_after_runs_twice [OF both_new_last, of 0 1])
      (simp_all add: both_cps_def sample_cps_def mk_cp_def)
  then show ?thesis unfolding p append.simps .
qed

section \<open>Registries cloned from one share their processors\<close>

text \<open>
  Two callback sets cloned from the same set share the backing array of its processors while
  the array has room: registering a processor in the second overwrites the one registered in the
  first, which loses it.
\<close>

theorem cloned_registries_overwrite:
  assumes "c1 \<noteq> c2" and "cb_processors (h_cbs h c1) = s" and "cb_processors (h_cbs h c2) = s"
    and "sl_len s < length (h_arrays h (sl_array s))"
    and "cp_parent (h_cps h p1) = c1" and "cp_parent (h_cps h p2) = c2"
    and "add_processor grow f p1 h = Some h1" and "cp_parent (h_cps h1 p2) = c2"
    and "add_processor grow f p2 h1 = Some h2"
  shows "elems_of h1 c1 = elems_of h c1 @ [p1] \<and> elems_of h2 c1 = elems_of h c1 @ [p2]"
proof -
  have r1: "reorder f c1 (h\<lparr>h_arrays := (h_arrays h)(sl_array s := (h_arrays h (sl_array s))[sl_len s := p1]),
      h_cbs := (h_cbs h)(c1 := (h_cbs h c1)\<lparr>cb_processors := s\<lparr>sl_len := Suc (sl_len s)\<rparr>\<rparr>)\<rparr>) = Some h1"
    using assms(2,4,5,7) by (simp add: add_processor_def slice_append_in_place)
  note k1 = reorder_keeps [OF r1]
  have s2: "cb_processors (h_cbs h1 c2) = s" using k1 assms(1,3) by simp
  have a1: "h_arrays h1 (sl_array s) = (h_arrays h (sl_array s))[sl_len s := p1]" using k1 by simp
  have p1: "cb_processors (h_cbs h1 c1) = s\<lparr>sl_len := Suc (sl_len s)\<rparr>" using k1 by simp
  have r2: "reorder f c2 (h1\<lparr>h_arrays := (h_arrays h1)(sl_array s := (h_arrays h1 (sl_array s))[sl_len s := p2]),
      h_cbs := (h_cbs h1)(c2 := (h_cbs h1 c2)\<lparr>cb_processors := s\<lparr>sl_len := Suc (sl_len s)\<rparr>\<rparr>)\<rparr>) = Some h2"
    using assms(4,8,9) a1 s2 by (simp add: add_processor_def slice_append_in_place)
  note k2 = reorder_keeps [OF r2]
  have "cb_processors (h_cbs h2 c1) = s\<lparr>sl_len := Suc (sl_len s)\<rparr>" using k2 assms(1) p1 by simp
  moreover have "h_arrays h2 (sl_array s) = (h_arrays h (sl_array s))[sl_len s := p2]" using k2 a1 by simp
  ultimately show ?thesis using a1 p1 assms(2,4)
    by (simp add: elems_of_def slice_elems_def take_Suc_conv_app_nth)
qed

definition two_registries :: cbheap where
  "two_registries = sample_registry\<lparr>h_cps := (\<lambda>_. mk_cp ''x'' [] [] None)
     (12 := mk_cp ''c'' [] [] (Some 3), 13 := (mk_cp ''d'' [] [] (Some 4))\<lparr>cp_parent := 1\<rparr>)\<rparr>"

lemma two_registries_cps: "\<forall>c. cp_before (h_cps two_registries c) = [] \<and> cp_after (h_cps two_registries c) = []"
  by (simp add: two_registries_def mk_cp_def)

lemma cloned_registries_overwrite_witness:
  "\<exists>h1 h2. add_processor (\<lambda>n. 2 * n + 1) (Suc 4) 12 two_registries = Some h1
     \<and> add_processor (\<lambda>n. 2 * n + 1) (Suc 4) 13 h1 = Some h2
     \<and> elems_of h1 0 = [10, 11, 12] \<and> elems_of h2 0 = [10, 11, 13]"
proof -
  obtain h1 where h1: "add_processor (\<lambda>n. 2 * n + 1) (Suc 4) 12 two_registries = Some h1" "h_cps h1 = h_cps two_registries"
    using add_processor_unordered [OF two_registries_cps] by metis
  obtain h2 where h2: "add_processor (\<lambda>n. 2 * n + 1) (Suc 4) 13 h1 = Some h2"
    using add_processor_unordered [of h1] two_registries_cps h1(2) by metis
  have el: "elems_of two_registries 0 = [10, 11]"
    by (simp add: two_registries_def elems_of_def slice_elems_def sample_registry_def)
  have "elems_of h1 0 = elems_of two_registries 0 @ [12] \<and> elems_of h2 0 = elems_of two_registries 0 @ [13]"
    by (rule cloned_registries_overwrite [of 0 1 two_registries _ 12 13, OF _ refl _ _ _ _ h1(1) _ h2])
      (simp_all add: h1(2), simp_all add: two_registries_def sample_registry_def mk_cp_def)
  with h1 h2 el show ?thesis by auto
qed

end
