(* ===== verification/GoValues.thy ===== *)
theory GoValues
  imports GoPrelude "HOL-Library.Char_ord" "HOL-Library.List_Lexorder"
begin

text \<open>
  The values gorm handles behind \<^verbatim>\<open>interface{}\<close> and \<^verbatim>\<open>reflect.Value\<close>, and the helper functions of
  \<^verbatim>\<open>utils.go\<close> over them.

  A \<^verbatim>\<open>reflect.Type\<close> is an identity (\<open>rtype\<close>) described by a table from identities to \<open>tinfo\<close>
  records (kind, package path and name, element type, struct members): types compare by identity and
  may refer to each other in cycles, as Go's do.  A dynamic value is a \<open>gval\<close>: the constructors
  are the cases gorm's type switches distinguish.  A value gorm never looks into is a
  \<open>VOpaque\<close>: its kind, whether it is the zero value of its type, and its \<^verbatim>\<open>%v\<close> text.
  A Go map is an association list; the order of the list is the order in which the runtime iterates
  over it, so a statement for every list covers every iteration order.
\<close>

section \<open>Kinds and types\<close>

text \<open>\<^verbatim>\<open>reflect.Kind\<close>, in the order of its constants.\<close>

datatype kind =
    KInvalid | KBool | KInt | KInt8 | KInt16 | KInt32 | KInt64
  | KUint | KUint8 | KUint16 | KUint32 | KUint64 | KUintptr
  | KFloat32 | KFloat64 | KComplex64 | KComplex128
  | KArray | KChan | KFunc | KInterface | KMap | KPtr | KSlice | KString | KStruct | KUnsafePointer

fun kind_ord :: "kind \<Rightarrow> nat" where
  "kind_ord KInvalid = 0" | "kind_ord KBool = 1" | "kind_ord KInt = 2" | "kind_ord KInt8 = 3"
| "kind_ord KInt16 = 4" | "kind_ord KInt32 = 5" | "kind_ord KInt64 = 6" | "kind_ord KUint = 7"
| "kind_ord KUint8 = 8" | "kind_ord KUint16 = 9" | "kind_ord KUint32 = 10" | "kind_ord KUint64 = 11"
| "kind_ord KUintptr = 12" | "kind_ord KFloat32 = 13" | "kind_ord KFloat64 = 14"
| "kind_ord KComplex64 = 15" | "kind_ord KComplex128 = 16" | "kind_ord KArray = 17"
| "kind_ord KChan = 18" | "kind_ord KFunc = 19" | "kind_ord KInterface = 20" | "kind_ord KMap = 21"
| "kind_ord KPtr = 22" | "kind_ord KSlice = 23" | "kind_ord KString = 24" | "kind_ord KStruct = 25"
| "kind_ord KUnsafePointer = 26"

lemma kind_ord_inj: "kind_ord a = kind_ord b \<Longrightarrow> a = b"
  by (cases a; cases b) simp_all

instantiation kind :: linorder
begin

definition less_eq_kind :: "kind \<Rightarrow> kind \<Rightarrow> bool" where
  "less_eq_kind a b = (kind_ord a \<le> kind_ord b)"

definition less_kind :: "kind \<Rightarrow> kind \<Rightarrow> bool" where
  "less_kind a b = (kind_ord a < kind_ord b)"

instance
  by standard (auto simp: less_eq_kind_def less_kind_def kind_ord_inj)

end

text \<open>Signed and unsigned integer kinds with their width in bits (64-bit platform).\<close>

fun signed_bits :: "kind \<Rightarrow> nat option" where
  "signed_bits KInt = Some 64" | "signed_bits KInt8 = Some 8" | "signed_bits KInt16 = Some 16"
| "signed_bits KInt32 = Some 32" | "signed_bits KInt64 = Some 64" | "signed_bits _ = None"

fun unsigned_bits :: "kind \<Rightarrow> nat option" where
  "unsigned_bits KUint = Some 64" | "unsigned_bits KUint8 = Some 8" | "unsigned_bits KUint16 = Some 16"
| "unsigned_bits KUint32 = Some 32" | "unsigned_bits KUint64 = Some 64"
| "unsigned_bits KUintptr = Some 64" | "unsigned_bits _ = None"

definition is_int_kind :: "kind \<Rightarrow> bool" where
  "is_int_kind k = (signed_bits k \<noteq> None \<or> unsigned_bits k \<noteq> None)"

text \<open>Go's integer conversion: the value modulo the width, read in two's complement when signed.\<close>

definition wrap_int :: "kind \<Rightarrow> int \<Rightarrow> int" where
  "wrap_int k i =
     (case signed_bits k of
        Some n \<Rightarrow> (i + 2 ^ (n - 1)) mod 2 ^ n - 2 ^ (n - 1)
      | None \<Rightarrow> (case unsigned_bits k of Some n \<Rightarrow> i mod 2 ^ n | None \<Rightarrow> i))"

lemma wrap_int_id:
  "unsigned_bits k = Some n \<Longrightarrow> 0 \<le> i \<Longrightarrow> i < 2 ^ n \<Longrightarrow> wrap_int k i = i"
  by (cases k) (auto simp: wrap_int_def)

lemma wrap_int_signed_id:
  "signed_bits k = Some n \<Longrightarrow> - (2 ^ (n - 1)) \<le> i \<Longrightarrow> i < 2 ^ (n - 1) \<Longrightarrow> wrap_int k i = i"
  by (cases k) (auto simp: wrap_int_def)

type_synonym rtype = nat

record member =
  m_name :: string
  m_sql_tag :: string
  m_gorm_tag :: string
  m_anonymous :: bool
  m_exported :: bool
  m_type :: rtype

record tinfo =
  t_kind :: kind
  t_path :: string
  t_name :: string
  t_elem :: rtype
  t_len :: nat
  t_members :: "member list"
  t_scanner :: bool
  t_gorm_data_type :: "(string \<times> string) list option"

type_synonym types = "rtype \<Rightarrow> tinfo"

definition is_time_type :: "tinfo \<Rightarrow> bool" where
  "is_time_type t = (t_path t = ''time'' \<and> t_name t = ''Time'')"

definition is_raw_json_type :: "tinfo \<Rightarrow> bool" where
  "is_raw_json_type t = (t_path t = ''encoding/json'' \<and> t_name t = ''RawMessage'')"

text \<open>\<^verbatim>\<open>[]byte\<close> itself (an unnamed type), as the assertion \<^verbatim>\<open>v.([]byte)\<close> tests it.\<close>

definition is_byte_slice_type :: "types \<Rightarrow> tinfo \<Rightarrow> bool" where
  "is_byte_slice_type RT t = (t_kind t = KSlice \<and> t_name t = [] \<and> t_kind (RT (t_elem t)) = KUint8 \<and> t_name (RT (t_elem t)) = ''uint8'')"

section \<open>Dynamic values\<close>

datatype gval =
    VNil
  | VBool bool
  | VInt kind int
  | VFloat kind bool string
  | VStr string
  | VBytes "string option"
  | VTime nat string
  | VPtr nat "gval option"
  | VObj nat
  | VStrs "string list"
  | VList "gval list"
  | VLists "gval list list"
  | VSlice rtype "gval list option"
  | VExpr string "gval list"
  | VMap "(string \<times> gval) list"
  | VExprMap "(string \<times> (string \<times> gval list) option) list"
  | VStruct rtype "(string \<times> gval) list"
  | VNullInt64 int bool
  | VValuer bool string "string + gval"
  | VOpaque kind bool string

text \<open>
  \<^verbatim>\<open>reflect.ValueOf(v).Kind()\<close>.  \<open>VPtr a v\<close> is a pointer at address \<open>a\<close> to the value \<open>v\<close>, \<open>VObj a\<close>
  a pointer to a model object in the object store, \<open>VTime n s\<close> a time (\<open>n = 0\<close> for the zero
  \<^verbatim>\<open>time.Time\<close> only) that prints as \<open>s\<close>, \<open>VValuer z s r\<close> a \<^verbatim>\<open>driver.Valuer\<close> whose \<^verbatim>\<open>Value()\<close>
  returns \<open>r\<close>.
\<close>

fun vkind :: "gval \<Rightarrow> kind" where
  "vkind VNil = KInvalid"
| "vkind (VBool _) = KBool"
| "vkind (VInt k _) = k"
| "vkind (VFloat k _ _) = k"
| "vkind (VStr _) = KString"
| "vkind (VBytes _) = KSlice"
| "vkind (VTime _ _) = KStruct"
| "vkind (VPtr _ _) = KPtr"
| "vkind (VObj _) = KPtr"
| "vkind (VStrs _) = KSlice"
| "vkind (VList _) = KSlice"
| "vkind (VLists _) = KSlice"
| "vkind (VSlice _ _) = KSlice"
| "vkind (VExpr _ _) = KPtr"
| "vkind (VMap _) = KMap"
| "vkind (VExprMap _) = KMap"
| "vkind (VStruct _ _) = KStruct"
| "vkind (VNullInt64 _ _) = KStruct"
| "vkind (VValuer _ _ _) = KStruct"
| "vkind (VOpaque k _ _) = k"

text \<open>\<^verbatim>\<open>isBlank\<close> of \<^verbatim>\<open>utils.go\<close>: zero value of the kind, nil pointer or interface, else \<^verbatim>\<open>DeepEqual\<close> to zero.\<close>

fun isBlank :: "gval \<Rightarrow> bool" where
  "isBlank VNil = True"
| "isBlank (VBool b) = (\<not> b)"
| "isBlank (VInt k i) = (i = 0)"
| "isBlank (VFloat k z s) = z"
| "isBlank (VStr s) = (s = [])"
| "isBlank (VBytes b) = (b = None)"
| "isBlank (VTime n s) = (n = 0)"
| "isBlank (VPtr a v) = (v = None)"
| "isBlank (VObj a) = False"
| "isBlank (VStrs ss) = False"
| "isBlank (VList vs) = False"
| "isBlank (VLists vs) = False"
| "isBlank (VSlice t vs) = (vs = None)"
| "isBlank (VExpr e vs) = False"
| "isBlank (VMap m) = False"
| "isBlank (VExprMap m) = False"
| "isBlank (VStruct t fs) = list_all (\<lambda>p. isBlank (snd p)) fs"
| "isBlank (VNullInt64 i v) = (i = 0 \<and> \<not> v)"
| "isBlank (VValuer z s r) = z"
| "isBlank (VOpaque k z s) = z"

fun hex_nat :: "nat \<Rightarrow> string" where
  "hex_nat n = (let c = (\<lambda>d. char_of (if d < 10 then 48 + d else 87 + d))
                in if n < 16 then [c n] else hex_nat (n div 16) @ [c (n mod 16)])"

declare hex_nat.simps [simp del]

definition bool_str :: "bool \<Rightarrow> string" where
  "bool_str b = (if b then ''true'' else ''false'')"

text \<open>\<^verbatim>\<open>fmt.Sprint(v)\<close> (also \<^verbatim>\<open>%v\<close>), by \<^verbatim>\<open>fmt\<close>'s documented rules.\<close>

fun Sprint :: "gval \<Rightarrow> string" where
  "Sprint VNil = ''<nil>''"
| "Sprint (VBool b) = bool_str b"
| "Sprint (VInt k i) = dec_int i"
| "Sprint (VFloat k z s) = s"
| "Sprint (VStr s) = s"
| "Sprint (VBytes b) = ''['' @ str_join '' '' (map (\<lambda>c. dec_nat (of_char c)) (case b of None \<Rightarrow> [] | Some s \<Rightarrow> s)) @ '']''"
| "Sprint (VTime n s) = s"
| "Sprint (VPtr a v) = (if v = None then ''<nil>'' else ''0x'' @ hex_nat a)"
| "Sprint (VObj a) = ''0x'' @ hex_nat a"
| "Sprint (VStrs ss) = ''['' @ str_join '' '' ss @ '']''"
| "Sprint (VList vs) = ''['' @ str_join '' '' (map Sprint vs) @ '']''"
| "Sprint (VLists vss) = ''['' @ str_join '' '' (map (\<lambda>vs. ''['' @ str_join '' '' (map Sprint vs) @ '']'') vss) @ '']''"
| "Sprint (VSlice t vs) = ''['' @ str_join '' '' (case vs of None \<Rightarrow> [] | Some xs \<Rightarrow> map Sprint xs) @ '']''"
| "Sprint (VExpr e vs) = ''&{'' @ e @ '' ['' @ str_join '' '' (map Sprint vs) @ '']}''"
| "Sprint (VMap m) = ''map['' @ str_join '' '' (map (\<lambda>(k, s). k @ '':'' @ s) (sort_key fst (map (\<lambda>(k, v). (k, Sprint v)) m))) @ '']''"
| "Sprint (VExprMap m) = ''map['' @ str_join '' '' (sort (map fst m)) @ '']''"
| "Sprint (VStruct t fs) = ''{'' @ str_join '' '' (map (\<lambda>p. Sprint (snd p)) fs) @ ''}''"
| "Sprint (VNullInt64 i v) = ''{'' @ dec_int i @ '' '' @ bool_str v @ ''}''"
| "Sprint (VValuer z s r) = s"
| "Sprint (VOpaque k z s) = s"

section \<open>Functions of utils.go\<close>

text \<open>
  \<^verbatim>\<open>toString\<close> follows one pointer (\<^verbatim>\<open>reflect.Indirect\<close>): a nil pointer and a nil interface give
  the empty string.  A pointer to a model object prints through \<^verbatim>\<open>%v\<close> of the object, which is not
  modelled, so it does not occur here as a key value.
\<close>

fun toString :: "gval \<Rightarrow> string" where
  "toString (VList vs) = str_join ''_'' (map toString vs)"
| "toString (VBytes b) = (case b of None \<Rightarrow> [] | Some s \<Rightarrow> s)"
| "toString VNil = []"
| "toString (VPtr a v) = (case v of None \<Rightarrow> [] | Some w \<Rightarrow> Sprint w)"
| "toString v = Sprint v"

definition equalAsString :: "gval \<Rightarrow> gval \<Rightarrow> bool" where
  "equalAsString a b = (toString a = toString b)"

definition toQueryMarks :: "gval list list \<Rightarrow> string" where
  "toQueryMarks primaryValues =
     str_join '','' (map (\<lambda>primaryValue.
        let marks = map (\<lambda>_. ''?'') primaryValue
        in if length marks > 1 then ''('' @ str_join '','' marks @ '')'' else str_join [] marks) primaryValues)"

definition toQueryValues :: "gval list list \<Rightarrow> gval list" where
  "toQueryValues values = concat values"

definition toSearchableMap :: "gval list \<Rightarrow> gval" where
  "toSearchableMap attrs =
     (case attrs of
        [] \<Rightarrow> VNil
      | [a] \<Rightarrow> a
      | a # b # _ \<Rightarrow> (case a of VStr str \<Rightarrow> VMap [(str, b)] | _ \<Rightarrow> VNil))"

definition strInSlice :: "string \<Rightarrow> string list \<Rightarrow> bool" where
  "strInSlice a list = (a \<in> set list)"

definition addExtraSpaceIfExist :: "string \<Rightarrow> string" where
  "addExtraSpaceIfExist str = (if str \<noteq> [] then '' '' @ str else [])"

text \<open>\<^verbatim>\<open>safeMap\<close>: a guarded map; a missing key reads as the empty string.\<close>

type_synonym safeMap = "string \<Rightarrow> string"

definition newSafeMap :: safeMap where
  "newSafeMap = (\<lambda>_. [])"

definition safeMap_Set :: "safeMap \<Rightarrow> string \<Rightarrow> string \<Rightarrow> safeMap" where
  "safeMap_Set m key value = m(key := value)"

definition safeMap_Get :: "safeMap \<Rightarrow> string \<Rightarrow> string" where
  "safeMap_Get m key = m key"

lemma safeMap_Get_Set [simp]: "safeMap_Get (safeMap_Set m k v) k' = (if k' = k then v else safeMap_Get m k')"
  by (simp add: safeMap_Get_def safeMap_Set_def)

section \<open>Counting the placeholders of a key list\<close>

definition count_char :: "char \<Rightarrow> string \<Rightarrow> nat" where
  "count_char c s = length (filter (\<lambda>x. x = c) s)"

lemma count_char_append [simp]: "count_char c (a @ b) = count_char c a + count_char c b"
  by (simp add: count_char_def)

lemma count_char_simps [simp]:
  "count_char c [] = 0"
  "count_char c (x # s) = (if x = c then Suc (count_char c s) else count_char c s)"
  by (simp_all add: count_char_def)

lemma count_char_absent: "c \<notin> set s \<Longrightarrow> count_char c s = 0"
  by (induction s) auto

lemma count_char_join:
  "c \<notin> set sep \<Longrightarrow> count_char c (str_join sep xs) = sum_list (map (count_char c) xs)"
  by (induction sep xs rule: str_join.induct) (auto simp: count_char_absent)

lemma count_marks: "count_char (CHR ''?'') (str_join sep (map (\<lambda>_. ''?'') xs)) = length xs"
  if "CHR ''?'' \<notin> set sep" for xs :: "'a list"
  using that by (simp add: count_char_join o_def sum_list_triv)

end
