(* ===== verification/GormErrors.thy ===== *)
theory GormErrors
  imports GoPrelude
begin

text \<open>
  \<^verbatim>\<open>errors.go\<close>: the sentinel errors, the error collection \<^verbatim>\<open>Errors\<close> and its \<^verbatim>\<open>Add\<close>.

  Go compares error values by identity.  The sentinels are constructors; an error made by
  \<^verbatim>\<open>errors.New\<close> or \<^verbatim>\<open>fmt.Errorf\<close> while the program runs carries a fresh number as its identity, and
  an error that comes from a driver or a user callback is an \<open>ErrExt\<close>.  The elements of an
  \<^verbatim>\<open>Errors\<close> collection are never nil (\<^verbatim>\<open>Add\<close> skips nil); a possibly nil error is an \<open>err option\<close>.
\<close>

datatype err =
    ErrRecordNotFound
  | ErrInvalidSQL
  | ErrInvalidTransaction
  | ErrCantStartTransaction
  | ErrUnaddressable
  | ErrNoRows
  | ErrTxDone
  | ErrText nat string
  | ErrExt nat string
  | Errors "err list"

text \<open>\<^verbatim>\<open>IsRecordNotFoundError\<close>: looks one level into a collection.\<close>

fun IsRecordNotFoundError :: "err option \<Rightarrow> bool" where
  "IsRecordNotFoundError None = False"
| "IsRecordNotFoundError (Some (Errors es)) = (ErrRecordNotFound \<in> set es)"
| "IsRecordNotFoundError (Some e) = (e = ErrRecordNotFound)"

text \<open>
  \<^verbatim>\<open>Errors.Add\<close>: \<open>add_error\<close> is the body of its loop for one non-nil error, \<open>add_errors\<close> the loop
  of the recursive call on a nested collection.
\<close>

fun add_error :: "err list \<Rightarrow> err \<Rightarrow> err list"
  and add_errors :: "err list \<Rightarrow> err list \<Rightarrow> err list" where
  "add_error errs (Errors es) = add_errors errs es"
| "add_error errs e = (if e \<in> set errs then errs else errs @ [e])"
| "add_errors errs [] = errs"
| "add_errors errs (e # es) = add_errors (add_error errs e) es"

fun errors_Add :: "err list \<Rightarrow> err option list \<Rightarrow> err list" where
  "errors_Add errs [] = errs"
| "errors_Add errs (None # es) = errors_Add errs es"
| "errors_Add errs (Some e # es) = errors_Add (add_error errs e) es"

text \<open>\<^verbatim>\<open>Error()\<close> of the errors the model names.\<close>

fun error_text :: "err \<Rightarrow> string" where
  "error_text ErrRecordNotFound = ''record not found''"
| "error_text ErrInvalidSQL = ''invalid SQL''"
| "error_text ErrInvalidTransaction = ''no valid transaction''"
| "error_text ErrCantStartTransaction = ''can'' @ [CHR 0x27] @ ''t start transaction''"
| "error_text ErrUnaddressable = ''using unaddressable value''"
| "error_text ErrNoRows = ''sql: no rows in result set''"
| "error_text ErrTxDone = ''sql: transaction has already been committed or rolled back''"
| "error_text (ErrText n s) = s"
| "error_text (ErrExt n s) = s"
| "error_text (Errors es) = str_join ''; '' (map error_text es)"

section \<open>The collection is flat and holds each error once\<close>

fun leaves :: "err \<Rightarrow> err set" where
  "leaves (Errors es) = (\<Union>e\<in>set es. leaves e)"
| "leaves e = {e}"

fun is_errors :: "err \<Rightarrow> bool" where
  "is_errors (Errors es) = True"
| "is_errors e = False"

definition flat_errors :: "err list \<Rightarrow> bool" where
  "flat_errors es = (distinct es \<and> list_all (\<lambda>e. \<not> is_errors e) es)"

lemma flat_errors_Nil [simp]: "flat_errors []"
  by (simp add: flat_errors_def)

lemma flat_errors_single [simp]: "flat_errors [e] = (\<not> is_errors e)"
  by (simp add: flat_errors_def)

lemma set_add_error:
  "set (add_error errs e) = set errs \<union> leaves e"
  "set (add_errors errs es) = set errs \<union> (\<Union>e\<in>set es. leaves e)"
  by (induction errs e and errs es rule: add_error_add_errors.induct) auto

lemma flat_add_error:
  "flat_errors errs \<Longrightarrow> flat_errors (add_error errs e)"
  "flat_errors errs \<Longrightarrow> flat_errors (add_errors errs es)"
  by (induction errs e and errs es rule: add_error_add_errors.induct) (auto simp: flat_errors_def)

lemma add_error_prefix:
  "\<exists>new. add_error errs e = errs @ new"
  "\<exists>new. add_errors errs es = errs @ new"
  by (induction errs e and errs es rule: add_error_add_errors.induct) 
    (simp_all, (metis append.assoc append_Nil2)+)

lemma add_error_known:
  "leaves e \<subseteq> set errs \<Longrightarrow> add_error errs e = errs"
  "(\<Union>e\<in>set es. leaves e) \<subseteq> set errs \<Longrightarrow> add_errors errs es = errs"
  by (induction errs e and errs es rule: add_error_add_errors.induct) auto

lemma flat_errors_Add: "flat_errors errs \<Longrightarrow> flat_errors (errors_Add errs es)"
  by (induction errs es rule: errors_Add.induct) (simp_all add: flat_add_error)

lemma errors_Add_append: "errors_Add errs (es @ es') = errors_Add (errors_Add errs es) es'"
  by (induction errs es rule: errors_Add.induct) simp_all

lemma set_errors_Add: "set (errors_Add errs es) = set errs \<union> (\<Union>e\<in>{e. Some e \<in> set es}. leaves e)"
  by (induction errs es rule: errors_Add.induct) (auto simp: set_add_error)

lemma leaves_nonempty_sentinel: "ErrRecordNotFound \<in> leaves e \<Longrightarrow> \<not> is_errors e \<Longrightarrow> e = ErrRecordNotFound"
  by (cases e) auto

end
