(* ===== verification/Database.thy ===== *)
theory Database
  imports GoValues GormErrors
begin

text \<open>
  The connection side of \<^verbatim>\<open>interface.go\<close>: what gorm sends to \<^verbatim>\<open>database/sql\<close> and what comes back.

  A connection (\<^verbatim>\<open>SQLCommon\<close>) is the pool itself (\<^verbatim>\<open>*sql.DB\<close>, which alone has \<^verbatim>\<open>Begin\<close>), a
  transaction, the nil transaction a failed \<^verbatim>\<open>BeginTx\<close> leaves in the interface, or some other
  implementation with neither \<^verbatim>\<open>Begin\<close> nor \<^verbatim>\<open>Commit\<close>.  The database is a parameter: an environment
  answers each call as any function of the whole history of calls.  Every call gorm makes is
  recorded in that history, in order, so statements about the history are statements about
  what reaches the database.
\<close>

datatype conn = ConnDB | ConnTx nat | ConnNilTx | ConnOther

datatype dbcall =
    CallExec conn string "gval list"
  | CallQuery conn string "gval list"
  | CallQueryRow conn string "gval list"
  | CallBegin nat
  | CallCommit nat
  | CallRollback nat
  | CallClose

text \<open>
  The reply to a call: its error, and, when there is none, the result's \<^verbatim>\<open>LastInsertId\<close> and
  \<^verbatim>\<open>RowsAffected\<close> (each an error or a value), the columns and rows of a query with the error
  \<^verbatim>\<open>rows.Err\<close> reports at the end.  A transaction is a new object, so it has a fresh number, which the call that
  begins it carries.
\<close>

record reply =
  r_err :: "err option"
  r_last_id :: "err + int"
  r_affected :: "err + int"
  r_columns :: "string list"
  r_rows :: "gval list list"
  r_rows_err :: "err option"

type_synonym history = "dbcall list"
type_synonym dbenv = "history \<Rightarrow> reply"

definition call_db :: "dbenv \<Rightarrow> dbcall \<Rightarrow> history \<Rightarrow> reply \<times> history" where
  "call_db env c h = (env (h @ [c]), h @ [c])"

text \<open>The type assertions \<^verbatim>\<open>db.(sqlDb)\<close>, \<^verbatim>\<open>db.(sqlTx)\<close>, and the test against the nil \<^verbatim>\<open>*sql.Tx\<close>.\<close>

definition is_sqlDb :: "conn \<Rightarrow> bool" where
  "is_sqlDb c = (c = ConnDB)"

definition is_sqlTx :: "conn \<Rightarrow> bool" where
  "is_sqlTx c = (case c of ConnTx n \<Rightarrow> True | ConnNilTx \<Rightarrow> True | _ \<Rightarrow> False)"

lemma call_db_history [simp]: "snd (call_db env c h) = h @ [c]"
  by (simp add: call_db_def)

lemma call_db_reply [simp]: "fst (call_db env c h) = env (h @ [c])"
  by (simp add: call_db_def)

text \<open>What a query that scans one integer, or one string, into a variable leaves in it.\<close>

definition scan_count :: "reply \<Rightarrow> int" where
  "scan_count r =
     (if r_err r \<noteq> None then 0
      else case r_rows r of (VInt k i # _) # _ \<Rightarrow> i | _ \<Rightarrow> 0)"

definition scan_string :: "reply \<Rightarrow> string" where
  "scan_string r =
     (if r_err r \<noteq> None then []
      else case r_rows r of (VStr s # _) # _ \<Rightarrow> s | _ \<Rightarrow> [])"

section \<open>Statements and transactions in a history\<close>

fun is_statement :: "dbcall \<Rightarrow> bool" where
  "is_statement (CallExec c s vs) = True"
| "is_statement (CallQuery c s vs) = True"
| "is_statement (CallQueryRow c s vs) = True"
| "is_statement _ = False"

fun is_write :: "dbcall \<Rightarrow> bool" where
  "is_write (CallExec c s vs) = True"
| "is_write _ = False"

fun on_conn :: "conn \<Rightarrow> dbcall \<Rightarrow> bool" where
  "on_conn c (CallExec c' s vs) = (c' = c)"
| "on_conn c (CallQuery c' s vs) = (c' = c)"
| "on_conn c (CallQueryRow c' s vs) = (c' = c)"
| "on_conn c _ = False"

text \<open>\<open>extends h h'\<close>: only calls were added.\<close>

definition extends :: "history \<Rightarrow> history \<Rightarrow> bool" where
  "extends h h' = (\<exists>new. h' = h @ new)"

lemma extends_refl [simp, intro]: "extends h h"
  by (simp add: extends_def)

lemma extends_trans [trans]: "extends a b \<Longrightarrow> extends b c \<Longrightarrow> extends a c"
  by (auto simp: extends_def)

lemma extends_call [simp, intro]: "extends h (h @ [c])"
  by (simp add: extends_def)

lemma extends_snoc [intro]: "extends h h' \<Longrightarrow> extends h (h' @ [c])"
  by (auto simp: extends_def)

text \<open>
  A history settles a transaction when, after it began, it was committed or rolled back exactly
  once and no call used it later.
\<close>

definition ends_tx :: "nat \<Rightarrow> dbcall \<Rightarrow> bool" where
  "ends_tx t c = (c = CallCommit t \<or> c = CallRollback t)"

definition settled :: "nat \<Rightarrow> history \<Rightarrow> bool" where
  "settled t cs = (\<exists>pre c post. cs = pre @ [c] @ post \<and> ends_tx t c
      \<and> (\<forall>x\<in>set pre. \<not> ends_tx t x) \<and> (\<forall>x\<in>set post. \<not> ends_tx t x \<and> \<not> on_conn (ConnTx t) x))"

lemma settled_last:
  "(\<forall>x\<in>set pre. \<not> ends_tx t x) \<Longrightarrow> ends_tx t c \<Longrightarrow> settled t (pre @ [c])"
  unfolding settled_def by (intro exI [of _ pre] exI [of _ c] exI [of _ "[]"]) simp

end
