(* ===== verification/SearchState.thy ===== *)
theory SearchState
  imports Database
begin

text \<open>
  \<^verbatim>\<open>search.go\<close>: the conditions a chain of \<^verbatim>\<open>Where\<close>, \<^verbatim>\<open>Order\<close>, \<^verbatim>\<open>Limit\<close> and the like collects.  A clause
  (\<^verbatim>\<open>map[string]interface{}{"query": q, "args": a}\<close>) is a pair.  The clause maps are shared by
  clones; the only write to one sets the arguments of a slice query to a value computed from that
  query alone, each time the clause is rendered, so the sharing cannot be observed.  The field
  \<^verbatim>\<open>db\<close> is the handle that holds the search (see the theory of handles).
\<close>

type_synonym clause = "gval \<times> gval list"

record search =
  whereConditions :: "clause list"
  orConditions :: "clause list"
  notConditions :: "clause list"
  havingConditions :: "clause list"
  joinConditions :: "clause list"
  initAttrs :: "gval list"
  assignAttrs :: "gval list"
  selects :: "clause option"
  omits :: "string list"
  orders :: "gval list"
  preload :: "(string \<times> gval list) list"
  s_offset :: gval
  s_limit :: gval
  s_group :: string
  s_tableName :: string
  s_raw :: bool
  s_Unscoped :: bool
  ignoreOrderQuery :: bool

text \<open>\<^verbatim>\<open>&search{}\<close>.\<close>

definition empty_search :: search where
  "empty_search =
     \<lparr>whereConditions = [], orConditions = [], notConditions = [], havingConditions = [], joinConditions = [],
      initAttrs = [], assignAttrs = [], selects = None, omits = [], orders = [], preload = [],
      s_offset = VNil, s_limit = VNil, s_group = [], s_tableName = [], s_raw = False, s_Unscoped = False,
      ignoreOrderQuery = False\<rparr>"

definition search_clone :: "search \<Rightarrow> search" where
  "search_clone s =
     \<lparr>whereConditions = map (\<lambda>v. v) (whereConditions s), orConditions = map (\<lambda>v. v) (orConditions s),
      notConditions = map (\<lambda>v. v) (notConditions s), havingConditions = map (\<lambda>v. v) (havingConditions s),
      joinConditions = map (\<lambda>v. v) (joinConditions s), initAttrs = map (\<lambda>v. v) (initAttrs s),
      assignAttrs = map (\<lambda>v. v) (assignAttrs s), selects = selects s, omits = map (\<lambda>v. v) (omits s),
      orders = map (\<lambda>v. v) (orders s), preload = map (\<lambda>v. v) (preload s), s_offset = s_offset s,
      s_limit = s_limit s, s_group = s_group s, s_tableName = s_tableName s, s_raw = s_raw s,
      s_Unscoped = s_Unscoped s, ignoreOrderQuery = ignoreOrderQuery s\<rparr>"

definition search_Where :: "gval \<Rightarrow> gval list \<Rightarrow> search \<Rightarrow> search" where
  "search_Where query vals s = s\<lparr>whereConditions := whereConditions s @ [(query, vals)]\<rparr>"

definition search_Not :: "gval \<Rightarrow> gval list \<Rightarrow> search \<Rightarrow> search" where
  "search_Not query vals s = s\<lparr>notConditions := notConditions s @ [(query, vals)]\<rparr>"

definition search_Or :: "gval \<Rightarrow> gval list \<Rightarrow> search \<Rightarrow> search" where
  "search_Or query vals s = s\<lparr>orConditions := orConditions s @ [(query, vals)]\<rparr>"

definition search_Attrs :: "gval list \<Rightarrow> search \<Rightarrow> search" where
  "search_Attrs attrs s = s\<lparr>initAttrs := initAttrs s @ [toSearchableMap attrs]\<rparr>"

definition search_Assign :: "gval list \<Rightarrow> search \<Rightarrow> search" where
  "search_Assign attrs s = s\<lparr>assignAttrs := assignAttrs s @ [toSearchableMap attrs]\<rparr>"

definition search_Order :: "gval \<Rightarrow> bool list \<Rightarrow> search \<Rightarrow> search" where
  "search_Order value reorder s =
     (let s = (case reorder of r # rs \<Rightarrow> if r then s\<lparr>orders := []\<rparr> else s | [] \<Rightarrow> s)
      in if value \<noteq> VNil \<and> value \<noteq> VStr [] then s\<lparr>orders := orders s @ [value]\<rparr> else s)"

definition search_Select :: "gval \<Rightarrow> gval list \<Rightarrow> search \<Rightarrow> search" where
  "search_Select query args s = s\<lparr>selects := Some (query, args)\<rparr>"

definition search_Omit :: "string list \<Rightarrow> search \<Rightarrow> search" where
  "search_Omit columns s = s\<lparr>omits := columns\<rparr>"

definition search_Limit :: "gval \<Rightarrow> search \<Rightarrow> search" where
  "search_Limit limit s = s\<lparr>s_limit := limit\<rparr>"

definition search_Offset :: "gval \<Rightarrow> search \<Rightarrow> search" where
  "search_Offset offset s = s\<lparr>s_offset := offset\<rparr>"

text \<open>\<^verbatim>\<open>getInterfaceAsSQL\<close>: the text and the error it adds to the handle.\<close>

definition getInterfaceAsSQL :: "gval \<Rightarrow> string \<times> err option" where
  "getInterfaceAsSQL value =
     (let (str, e) =
        (case value of
           VStr s \<Rightarrow> (s, None)
         | VInt k i \<Rightarrow> if k \<noteq> KUintptr \<and> is_int_kind k then (Sprint value, None) else ([], Some ErrInvalidSQL)
         | _ \<Rightarrow> ([], Some ErrInvalidSQL))
      in (if str = ''-1'' then [] else str, e))"

definition search_Group :: "string \<Rightarrow> search \<Rightarrow> search \<times> err option" where
  "search_Group query s = (case getInterfaceAsSQL (VStr query) of (str, e) \<Rightarrow> (s\<lparr>s_group := str\<rparr>, e))"

definition search_Having :: "gval \<Rightarrow> gval list \<Rightarrow> search \<Rightarrow> search" where
  "search_Having query vals s =
     (case query of
        VExpr e args \<Rightarrow> s\<lparr>havingConditions := havingConditions s @ [(VStr e, args)]\<rparr>
      | _ \<Rightarrow> s\<lparr>havingConditions := havingConditions s @ [(query, vals)]\<rparr>)"

definition search_Joins :: "string \<Rightarrow> gval list \<Rightarrow> search \<Rightarrow> search" where
  "search_Joins query vals s = s\<lparr>joinConditions := joinConditions s @ [(VStr query, vals)]\<rparr>"

definition search_Preload :: "string \<Rightarrow> gval list \<Rightarrow> search \<Rightarrow> search" where
  "search_Preload schema vals s =
     s\<lparr>preload := filter (\<lambda>p. fst p \<noteq> schema) (preload s) @ [(schema, vals)]\<rparr>"

definition search_Raw :: "bool \<Rightarrow> search \<Rightarrow> search" where
  "search_Raw b s = s\<lparr>s_raw := b\<rparr>"

definition search_unscoped :: "search \<Rightarrow> search" where
  "search_unscoped s = s\<lparr>s_Unscoped := True\<rparr>"

definition search_Table :: "string \<Rightarrow> search \<Rightarrow> search" where
  "search_Table name s = s\<lparr>s_tableName := name\<rparr>"

lemma search_clone_eq [simp]: "search_clone s = s"
  by (simp add: search_clone_def)

lemma search_Preload_lookup: "map_of (rev (preload (search_Preload schema vals s))) schema = Some vals"
  by (simp add: search_Preload_def)

lemma search_Preload_distinct:
  "distinct (map fst (preload s)) \<Longrightarrow> distinct (map fst (preload (search_Preload schema vals s)))"
  by (auto simp: search_Preload_def distinct_map_filter)

lemma search_Group_ok: "snd (search_Group query s) = None"
  by (simp add: search_Group_def getInterfaceAsSQL_def)

end
