(* ===== verification/Naming.thy ===== *)
theory Naming
  imports GoValues
begin

text \<open>
  \<^verbatim>\<open>naming.go\<close>: the naming strategy and the default namer, which turns a Go identifier into a
  snake case database name, together with the initialism replacer that \<^verbatim>\<open>utils.go\<close> builds for it.
  The memo table \<^verbatim>\<open>smap\<close> is threaded through explicitly.  Names are ASCII, so runes are bytes.
\<close>

definition commonInitialisms :: "string list" where
  "commonInitialisms =
     [''API'', ''ASCII'', ''CPU'', ''CSS'', ''DNS'', ''EOF'', ''GUID'', ''HTML'', ''HTTP'', ''HTTPS'', ''ID'', ''IP'',
      ''JSON'', ''LHS'', ''QPS'', ''RAM'', ''RHS'', ''RPC'', ''SLA'', ''SMTP'', ''SSH'', ''TLS'', ''TTL'', ''UID'', ''UI'',
      ''UUID'', ''URI'', ''URL'', ''UTF8'', ''VM'', ''XML'', ''XSRF'', ''XSS'']"

text \<open>\<^verbatim>\<open>strings.Title\<close> of a single word.\<close>

fun title_word :: "string \<Rightarrow> string" where
  "title_word [] = []"
| "title_word (c # s) = upper_char c # s"

definition commonInitialismsForReplacer :: "(string \<times> string) list" where
  "commonInitialismsForReplacer = map (\<lambda>w. (w, title_word (to_lower w))) commonInitialisms"

text \<open>
  \<^verbatim>\<open>strings.NewReplacer(...).Replace\<close>: at each position the first pair, in argument order, whose
  old string matches is applied, without overlap.
\<close>

fun replacer_Replace :: "(string \<times> string) list \<Rightarrow> string \<Rightarrow> string" where
  "replacer_Replace ps [] = []"
| "replacer_Replace ps (c # s) =
     (case List.find (\<lambda>p. has_prefix (c # s) (fst p)) ps of
        Some (old, new) \<Rightarrow> new @ replacer_Replace ps (drop (length old - 1) s)
      | None \<Rightarrow> c # replacer_Replace ps s)"

text \<open>The body of the loop of \<^verbatim>\<open>defaultNamer\<close>: (\<^verbatim>\<open>lastCase\<close>, \<^verbatim>\<open>currCase\<close>, \<^verbatim>\<open>buf\<close>) for index \<open>i\<close>.\<close>

definition is_upper :: "char \<Rightarrow> bool" where
  "is_upper c = char_between (CHR ''A'') (CHR ''Z'') c"

definition namer_step :: "string \<Rightarrow> nat \<Rightarrow> bool \<times> bool \<times> string \<Rightarrow> bool \<times> bool \<times> string" where
  "namer_step value i st =
     (let (lastCase, currCase, buf) = st;
          v = value ! i;
          nextCase = is_upper (value ! (i + 1));
          nextNumber = is_digit (value ! (i + 1));
          (currCase', buf') =
            (if i > 0 then
               (if currCase then
                  (if lastCase \<and> (nextCase \<or> nextNumber) then (currCase, buf @ [v])
                   else (currCase,
                         (if value ! (i - 1) \<noteq> CHR ''_'' \<and> value ! (i + 1) \<noteq> CHR ''_''
                          then buf @ [CHR ''_''] else buf) @ [v]))
                else (currCase,
                      buf @ [v] @ (if i = length value - 2 \<and> nextCase \<and> \<not> nextNumber then [CHR ''_''] else [])))
             else (True, buf @ [v]))
      in (currCase', nextCase, buf'))"

definition namer_buf :: "string \<Rightarrow> string" where
  "namer_buf value =
     snd (snd (fold (namer_step value) [0..<length value - 1] (False, False, []))) @ [value ! (length value - 1)]"

definition namer_value :: "string \<Rightarrow> string" where
  "namer_value name =
     (if name = [] then [] else to_lower (namer_buf (replacer_Replace commonInitialismsForReplacer name)))"

definition defaultNamer :: "safeMap \<Rightarrow> string \<Rightarrow> string \<times> safeMap" where
  "defaultNamer smap name =
     (let v = safeMap_Get smap name in
      if v \<noteq> [] then (v, smap)
      else if name = [] then ([], smap)
      else let s = to_lower (namer_buf (replacer_Replace commonInitialismsForReplacer name))
           in (s, safeMap_Set smap name s))"

text \<open>
  The strategy.  A nil namer is \<open>None\<close>; \<^verbatim>\<open>AddNamingStrategy\<close> fills it with the default.
  A user's namer is a function of the name.
\<close>

record NamingStrategy =
  ns_DB :: "(string \<Rightarrow> string) option"
  ns_Table :: "(string \<Rightarrow> string) option"
  ns_Column :: "(string \<Rightarrow> string) option"

definition AddNamingStrategy :: "NamingStrategy \<Rightarrow> NamingStrategy" where
  "AddNamingStrategy ns =
     (let ns = (if ns_DB ns = None then ns \<lparr>ns_DB := Some namer_value\<rparr> else ns);
          ns = (if ns_Table ns = None then ns \<lparr>ns_Table := Some namer_value\<rparr> else ns)
      in if ns_Column ns = None then ns \<lparr>ns_Column := Some namer_value\<rparr> else ns)"

definition TheNamingStrategy0 :: NamingStrategy where
  "TheNamingStrategy0 = \<lparr>ns_DB = Some namer_value, ns_Table = Some namer_value, ns_Column = Some namer_value\<rparr>"

text \<open>Calling a nil namer is a nil dereference: \<open>None\<close>.\<close>

definition NamingStrategy_DBName :: "NamingStrategy \<Rightarrow> string \<Rightarrow> string option" where
  "NamingStrategy_DBName ns name = map_option (\<lambda>f. f name) (ns_DB ns)"

definition NamingStrategy_TableName :: "NamingStrategy \<Rightarrow> string \<Rightarrow> string option" where
  "NamingStrategy_TableName ns name = map_option (\<lambda>f. f name) (ns_Table ns)"

definition NamingStrategy_ColumnName :: "NamingStrategy \<Rightarrow> string \<Rightarrow> string option" where
  "NamingStrategy_ColumnName ns name = map_option (\<lambda>f. f name) (ns_Column ns)"

section \<open>The letters of a name survive, in lower case\<close>

definition no_underscores :: "string \<Rightarrow> string" where
  "no_underscores s = filter (\<lambda>c. c \<noteq> CHR ''_'') s"

lemma no_underscores_simps [simp]:
  "no_underscores [] = []"
  "no_underscores (c # s) = (if c = CHR ''_'' then no_underscores s else c # no_underscores s)"
  "no_underscores (s @ t) = no_underscores s @ no_underscores t"
  by (simp_all add: no_underscores_def)

lemma lower_char_underscore [simp]: "(lower_char c = CHR ''_'') = (c = CHR ''_'')"
proof
  assume eq: "lower_char c = CHR ''_''"
  show "c = CHR ''_''"
  proof (cases "char_between (CHR ''A'') (CHR ''Z'') c")
    case True
    with lower_char_upper_ascii [of c] eq show ?thesis by (simp add: char_between_def)
  next
    case False
    with eq show ?thesis by (simp add: lower_char_def)
  qed
qed (simp add: lower_char_def char_between_def)

lemma no_underscores_to_lower: "no_underscores (to_lower s) = to_lower (no_underscores s)"
  by (induction s) (simp_all add: to_lower_def)

lemma to_lower_replacer:
  assumes "\<forall>p\<in>set ps. to_lower (fst p) = to_lower (snd p) \<and> fst p \<noteq> []"
  shows "to_lower (replacer_Replace ps s) = to_lower s"
  using assms
proof (induction ps s rule: replacer_Replace.induct)
  case (1 ps)
  then show ?case by simp
next
  case (2 ps c s)
  show ?case
  proof (cases "List.find (\<lambda>p. has_prefix (c # s) (fst p)) ps")
    case None
    with 2 show ?thesis by (simp add: to_lower_def)
  next
    case (Some p)
    obtain old new where p: "p = (old, new)" by (cases p)
    have in_ps: "(old, new) \<in> set ps" "has_prefix (c # s) old"
      using find_Some_in [OF Some] p by auto
    then obtain t where t: "c # s = old @ t" by (auto simp: has_prefix_iff)
    have "to_lower old = to_lower new \<and> old \<noteq> []"
      using 2(3) in_ps(1) by fastforce
    then have "old \<noteq> []" "to_lower new = to_lower old" by simp_all
    with t have "drop (length old - 1) s = t" by (cases old) auto
    moreover have "to_lower (replacer_Replace ps (drop (length old - 1) s)) = to_lower (drop (length old - 1) s)"
      using 2(2) [OF Some p [symmetric] 2(3)] .
    ultimately have "to_lower (replacer_Replace ps (c # s)) = to_lower new @ to_lower t"
      using Some p by simp
    with t \<open>to_lower new = to_lower old\<close> show ?thesis by (metis to_lower_append)
  qed
qed

lemma lower_upper_char: "lower_char (upper_char c) = lower_char c"
proof (cases "char_between (CHR ''a'') (CHR ''z'') c")
  case True
  define n :: nat where "n = of_char c"
  from True have n: "97 \<le> n" "n \<le> 122" by (simp_all add: char_between_def n_def)
  have c: "c = char_of n" by (simp add: n_def)
  from n have "(65::nat) \<le> n - 32" "n - 32 \<le> 90" "n - 32 + 32 = n" by linarith+
  with n True show ?thesis
    unfolding upper_char_def lower_char_def char_between_def n_def [symmetric] c by simp
next
  case False
  then show ?thesis by (simp add: upper_char_def)
qed

lemma lower_title_word: "to_lower (title_word s) = to_lower s"
  by (cases s) (simp_all add: to_lower_def lower_upper_char)

lemma initialisms_upper: "\<forall>w\<in>set commonInitialisms. w \<noteq> [] \<and> is_upper (hd w)"
  by (simp add: commonInitialisms_def is_upper_def char_between_def)

lemma initialisms_case_only:
  "\<forall>p\<in>set commonInitialismsForReplacer. to_lower (fst p) = to_lower (snd p) \<and> fst p \<noteq> []"
  using initialisms_upper by (auto simp: commonInitialismsForReplacer_def lower_title_word)

lemma no_underscores_namer_step:
  "no_underscores (snd (snd (namer_step value i st))) = no_underscores (snd (snd st)) @ no_underscores [value ! i]"
  by (cases st) (simp add: namer_step_def Let_def)

lemma no_underscores_namer_buf:
  assumes "value \<noteq> []"
  shows "no_underscores (namer_buf value) = no_underscores value"
proof -
  have "no_underscores (snd (snd (fold (namer_step value) [0..<k] (False, False, [])))) = no_underscores (take k value)"
    if "k \<le> length value" for k
    using that
  proof (induction k)
    case 0
    then show ?case by simp
  next
    case (Suc k)
    then show ?case
      by (simp add: no_underscores_namer_step take_Suc_conv_app_nth del: no_underscores_simps(2))
  qed
  from this [of "length value - 1"] assms show ?thesis
    unfolding namer_buf_def
    by (metis append_butlast_last_id butlast_conv_take diff_le_self last_conv_nth no_underscores_simps(3))
qed

lemma replacer_nonempty: "s \<noteq> [] \<Longrightarrow> replacer_Replace commonInitialismsForReplacer s \<noteq> []"
  using to_lower_replacer [OF initialisms_case_only, of s] by (auto simp: to_lower_def)

lemma no_underscores_namer: "no_underscores (namer_value name) = no_underscores (to_lower name)"
proof (cases "name = []")
  case True
  then show ?thesis by (simp add: namer_value_def to_lower_def)
next
  case False
  let ?v = "replacer_Replace commonInitialismsForReplacer name"
  have "no_underscores (namer_value name) = to_lower (no_underscores (namer_buf ?v))"
    using False by (simp add: namer_value_def no_underscores_to_lower)
  also have "\<dots> = no_underscores (to_lower ?v)"
    by (simp add: no_underscores_namer_buf [OF replacer_nonempty [OF False]] no_underscores_to_lower)
  also have "\<dots> = no_underscores (to_lower name)"
    by (simp add: to_lower_replacer [OF initialisms_case_only])
  finally show ?thesis .
qed

lemma namer_no_upper: "c \<in> set (namer_value name) \<Longrightarrow> \<not> is_upper c"
  by (auto simp: namer_value_def to_lower_def is_upper_def lower_char_not_upper split: if_splits)

section \<open>A name without upper case letters is its own database name\<close>

lemma replacer_no_upper:
  "(\<forall>c\<in>set s. \<not> is_upper c) \<Longrightarrow> replacer_Replace commonInitialismsForReplacer s = s"
proof (induction s)
  case Nil
  then show ?case by simp
next
  case (Cons c s)
  have up: "\<forall>p\<in>set commonInitialismsForReplacer. fst p \<noteq> [] \<and> is_upper (hd (fst p))"
    using initialisms_upper by (auto simp: commonInitialismsForReplacer_def)
  have "List.find (\<lambda>p. has_prefix (c # s) (fst p)) commonInitialismsForReplacer = None"
    unfolding find_None_all
  proof (intro ballI notI)
    fix p assume p: "p \<in> set commonInitialismsForReplacer" "has_prefix (c # s) (fst p)"
    obtain d w where w: "fst p = d # w" using up p(1) by (cases "fst p") auto
    with p(2) have "d = c" by (simp add: has_prefix_def)
    with w up p(1) Cons.prems show False by fastforce
  qed
  with Cons show ?case by simp
qed

lemma namer_buf_no_upper:
  assumes "value \<noteq> []" and lower: "\<forall>c\<in>set value. \<not> is_upper c"
  shows "namer_buf value = value"
proof -
  have "\<exists>l. fold (namer_step value) [0..<k] (False, False, []) = (l, False, take k value)"
    if "k < length value" for k
    using that
  proof (induction k)
    case 0
    then show ?case by (intro exI [of _ False]) simp
  next
    case (Suc k)
    then obtain l where l: "fold (namer_step value) [0..<k] (False, False, []) = (l, False, take k value)" by auto
    have "\<not> is_upper (value ! (k + 1))" using lower Suc.prems by simp
    then have "namer_step value k (l, False, take k value) = (k = 0 \<or> False, False, take (Suc k) value)"
      using Suc.prems by (simp add: namer_step_def Let_def take_Suc_conv_app_nth)
    with l show ?case by simp
  qed
  from this [of "length value - 1"] assms(1) show ?thesis
    unfolding namer_buf_def
    by (metis append_butlast_last_id butlast_conv_take diff_less last_conv_nth length_greater_0_conv snd_conv zero_less_one)
qed

lemma to_lower_no_upper: "(\<forall>c\<in>set s. \<not> is_upper c) \<Longrightarrow> to_lower s = s"
  by (induction s) (auto simp: to_lower_def lower_char_def is_upper_def)

lemma namer_no_upper_id: "(\<forall>c\<in>set name. \<not> is_upper c) \<Longrightarrow> namer_value name = name"
  by (simp add: namer_value_def replacer_no_upper namer_buf_no_upper to_lower_no_upper)

section \<open>The memo table\<close>

definition smap_ok :: "safeMap \<Rightarrow> bool" where
  "smap_ok smap = (\<forall>name. safeMap_Get smap name = [] \<or> safeMap_Get smap name = namer_value name)"

lemma smap_ok_new: "smap_ok newSafeMap"
  by (simp add: smap_ok_def newSafeMap_def safeMap_Get_def)

lemma defaultNamer_value: "smap_ok smap \<Longrightarrow> fst (defaultNamer smap name) = namer_value name"
  by (auto simp: smap_ok_def defaultNamer_def Let_def namer_value_def)

lemma defaultNamer_smap_ok: "smap_ok smap \<Longrightarrow> smap_ok (snd (defaultNamer smap name))"
  by (auto simp: smap_ok_def defaultNamer_def Let_def namer_value_def)

end
