(* ===== verification/ModelFields.thy ===== *)
theory ModelFields
  imports Naming
begin

text \<open>
  The field metadata of \<^verbatim>\<open>model_struct.go\<close>: \<^verbatim>\<open>StructField\<close> with its tag settings, \<^verbatim>\<open>Relationship\<close>,
  the tag parser, and the lookup of a field by name; and \<^verbatim>\<open>JoinTableHandler.Setup\<close> of
  \<^verbatim>\<open>join_table_handler.go\<close>.  Pointers to fields are modelled by value: a copy taken by \<^verbatim>\<open>clone\<close> has
  the same contents, and the locks around the tag map do not appear.
\<close>

section \<open>Join tables\<close>

record JoinTableForeignKey =
  jtk_DBName :: string
  jtk_AssociationDBName :: string

record JoinTableSource =
  jts_ModelType :: rtype
  jts_ForeignKeys :: "JoinTableForeignKey list"

record JoinTableHandler =
  jth_TableName :: string
  jth_Source :: JoinTableSource
  jth_Destination :: JoinTableSource

record Relationship =
  rel_Kind :: string
  rel_PolymorphicType :: string
  rel_PolymorphicDBName :: string
  rel_PolymorphicValue :: string
  rel_ForeignFieldNames :: "string list"
  rel_ForeignDBNames :: "string list"
  rel_AssociationForeignFieldNames :: "string list"
  rel_AssociationForeignDBNames :: "string list"
  rel_JoinTableHandler :: "JoinTableHandler option"

definition empty_Relationship :: Relationship where
  "empty_Relationship =
     \<lparr>rel_Kind = [], rel_PolymorphicType = [], rel_PolymorphicDBName = [], rel_PolymorphicValue = [],
      rel_ForeignFieldNames = [], rel_ForeignDBNames = [],
      rel_AssociationForeignFieldNames = [], rel_AssociationForeignDBNames = [],
      rel_JoinTableHandler = None\<rparr>"

text \<open>
  The loops of \<^verbatim>\<open>Setup\<close>: element \<open>idx\<close> of the database names goes with element \<open>idx\<close> of the
  association names; a missing one is an index out of range (\<open>None\<close>).
\<close>

fun join_keys :: "string list \<Rightarrow> string list \<Rightarrow> JoinTableForeignKey list option" where
  "join_keys [] dbs = Some []"
| "join_keys (name # names) [] = None"
| "join_keys (name # names) (db # dbs) =
     map_option (\<lambda>ks. \<lparr>jtk_DBName = db, jtk_AssociationDBName = name\<rparr> # ks) (join_keys names dbs)"

definition JoinTableHandler_Setup :: "Relationship \<Rightarrow> string \<Rightarrow> rtype \<Rightarrow> rtype \<Rightarrow> JoinTableHandler option" where
  "JoinTableHandler_Setup relationship tableName source destination =
     (case join_keys (rel_ForeignFieldNames relationship) (rel_ForeignDBNames relationship) of
        None \<Rightarrow> None
      | Some sk \<Rightarrow>
         (case join_keys (rel_AssociationForeignFieldNames relationship) (rel_AssociationForeignDBNames relationship) of
            None \<Rightarrow> None
          | Some dk \<Rightarrow> Some \<lparr>jth_TableName = tableName,
                              jth_Source = \<lparr>jts_ModelType = source, jts_ForeignKeys = sk\<rparr>,
                              jth_Destination = \<lparr>jts_ModelType = destination, jts_ForeignKeys = dk\<rparr>\<rparr>))"

section \<open>Struct fields\<close>

type_synonym tagsettings = "string \<rightharpoonup> string"

record StructField =
  sf_DBName :: string
  sf_Name :: string
  sf_Names :: "string list"
  sf_IsPrimaryKey :: bool
  sf_IsNormal :: bool
  sf_IsIgnored :: bool
  sf_IsScanner :: bool
  sf_HasDefaultValue :: bool
  sf_TagSettings :: tagsettings
  sf_Struct :: member
  sf_IsForeignKey :: bool
  sf_Relationship :: "Relationship option"

definition TagSettingsSet :: "string \<Rightarrow> string \<Rightarrow> StructField \<Rightarrow> StructField" where
  "TagSettingsSet key val sf = sf\<lparr>sf_TagSettings := (sf_TagSettings sf)(key \<mapsto> val)\<rparr>"

definition TagSettingsGet :: "StructField \<Rightarrow> string \<Rightarrow> string option" where
  "TagSettingsGet sf key = sf_TagSettings sf key"

definition TagSettingsDelete :: "string \<Rightarrow> StructField \<Rightarrow> StructField" where
  "TagSettingsDelete key sf = sf\<lparr>sf_TagSettings := (sf_TagSettings sf)(key := None)\<rparr>"

definition StructField_clone :: "StructField \<Rightarrow> StructField" where
  "StructField_clone sf =
     \<lparr>sf_DBName = sf_DBName sf, sf_Name = sf_Name sf, sf_Names = sf_Names sf,
      sf_IsPrimaryKey = sf_IsPrimaryKey sf, sf_IsNormal = sf_IsNormal sf, sf_IsIgnored = sf_IsIgnored sf,
      sf_IsScanner = sf_IsScanner sf, sf_HasDefaultValue = sf_HasDefaultValue sf,
      sf_TagSettings = sf_TagSettings sf, sf_Struct = sf_Struct sf, sf_IsForeignKey = sf_IsForeignKey sf,
      sf_Relationship = sf_Relationship sf\<rparr>"

definition getForeignField :: "(string \<Rightarrow> string) \<Rightarrow> string \<Rightarrow> StructField list \<Rightarrow> StructField option" where
  "getForeignField toColumnName column sfs =
     List.find (\<lambda>field. sf_Name field = column \<or> sf_DBName field = column \<or> sf_DBName field = toColumnName column) sfs"

text \<open>
  \<^verbatim>\<open>parseTagSetting\<close>: the \<^verbatim>\<open>sql\<close> tag, then the \<^verbatim>\<open>gorm\<close> tag (\<^verbatim>\<open>tags.Get\<close> has split the raw tag),
  settings separated by semicolons, key and value by the first colon, keys in upper case.
\<close>

definition tag_entry :: "string \<Rightarrow> string \<times> string" where
  "tag_entry value =
     (let v = split_char (CHR '':'') value;
          k = trim_space (to_upper (hd v))
      in (k, if length v \<ge> 2 then str_join '':'' (tl v) else k))"

definition add_tag :: "string \<Rightarrow> tagsettings \<Rightarrow> tagsettings" where
  "add_tag value setting = setting(fst (tag_entry value) \<mapsto> snd (tag_entry value))"

definition parse_tag_part :: "string \<Rightarrow> tagsettings \<Rightarrow> tagsettings" where
  "parse_tag_part str setting =
     (if str = [] then setting
      else fold add_tag (split_char (CHR '';'') str) setting)"

definition parseTagSetting :: "string \<Rightarrow> string \<Rightarrow> tagsettings" where
  "parseTagSetting sql_tag gorm_tag = parse_tag_part gorm_tag (parse_tag_part sql_tag Map.empty)"

section \<open>Facts about tags and lookups\<close>

lemma TagSettingsGet_Set [simp]:
  "TagSettingsGet (TagSettingsSet k v sf) k' = (if k' = k then Some v else TagSettingsGet sf k')"
  by (simp add: TagSettingsGet_def TagSettingsSet_def)

lemma TagSettingsGet_Delete [simp]:
  "TagSettingsGet (TagSettingsDelete k sf) k' = (if k' = k then None else TagSettingsGet sf k')"
  by (simp add: TagSettingsGet_def TagSettingsDelete_def)

lemma StructField_clone_eq [simp]: "StructField_clone sf = sf"
  by (simp add: StructField_clone_def)

lemma getForeignField_in: "getForeignField f c sfs = Some x \<Longrightarrow> x \<in> set sfs"
  unfolding getForeignField_def by (blast dest: find_Some_in)

lemma getForeignField_matches:
  "getForeignField f c sfs = Some x \<Longrightarrow> sf_Name x = c \<or> sf_DBName x = c \<or> sf_DBName x = f c"
  unfolding getForeignField_def by (drule find_Some_in) blast

lemma getForeignField_None:
  "getForeignField f c sfs = None \<longleftrightarrow>
     (\<forall>x\<in>set sfs. sf_Name x \<noteq> c \<and> sf_DBName x \<noteq> c \<and> sf_DBName x \<noteq> f c)"
  unfolding getForeignField_def find_None_all by blast

lemma join_keys_Some: "length names \<le> length dbs \<Longrightarrow> \<exists>ks. join_keys names dbs = Some ks"
  by (induction names dbs rule: join_keys.induct) auto

lemma join_keys_spec:
  "join_keys names dbs = Some ks \<Longrightarrow>
   map jtk_AssociationDBName ks = names \<and> map jtk_DBName ks = take (length names) dbs"
  by (induction names dbs arbitrary: ks rule: join_keys.induct) auto

text \<open>A well-formed tag: the writer that \<^verbatim>\<open>parseTagSetting\<close> inverts.\<close>

definition plain_key :: "string \<Rightarrow> bool" where
  "plain_key k = (k \<noteq> [] \<and> CHR '':'' \<notin> set k \<and> CHR '';'' \<notin> set k \<and> trim_space (to_upper k) = k)"

definition print_tag :: "(string \<times> string) list \<Rightarrow> string" where
  "print_tag kvs = str_join '';'' (map (\<lambda>(k, v). k @ '':'' @ v) kvs)"

lemma split_char_app: "c \<notin> set p \<Longrightarrow> split_char c (p @ c # q) = p # split_char c q"
  by (induction p) auto

lemma tag_entry_print: "plain_key k \<Longrightarrow> tag_entry (k @ CHR '':'' # v) = (k, v)"
proof -
  assume k: "plain_key k"
  then have "split_char (CHR '':'') (k @ CHR '':'' # v) = k # split_char (CHR '':'') v"
    by (simp add: plain_key_def split_char_app)
  then show ?thesis
    using k join_split_char [of "CHR '':''" v]
    by (cases "split_char (CHR '':'') v") (auto simp: tag_entry_def plain_key_def)
qed

lemma parse_print_tag:
  assumes "kvs \<noteq> []" and "\<And>k v. (k, v) \<in> set kvs \<Longrightarrow> plain_key k \<and> CHR '';'' \<notin> set v"
  shows "parse_tag_part (print_tag kvs) m = m ++ map_of (rev kvs)"
proof -
  have split: "split_char (CHR '';'') (print_tag kvs) = map (\<lambda>(k, v). k @ '':'' @ v) kvs"
    unfolding print_tag_def
    by (rule split_char_join) (use assms in \<open>auto simp: plain_key_def dest: assms(2)\<close>)
  have ne: "print_tag kvs \<noteq> []"
    using assms(1) unfolding print_tag_def by (cases kvs rule: list.exhaust; cases "tl kvs") auto
  have "fold add_tag (map (\<lambda>(k, v). k @ '':'' @ v) kvs) m
      = m ++ map_of (rev kvs)"
    using assms(2)
  proof (induction kvs arbitrary: m)
    case Nil
    then show ?case by simp
  next
    case (Cons p kvs)
    obtain k v where p: "p = (k, v)" by (cases p)
    then have "tag_entry (k @ CHR '':'' # v) = (k, v)" using Cons.prems [of k v] by (simp add: tag_entry_print)
    then have "add_tag (k @ '':'' @ v) m = m(k \<mapsto> v)" by (simp add: add_tag_def)
    moreover have "fold add_tag (map (\<lambda>(k, v). k @ '':'' @ v) kvs) (m(k \<mapsto> v)) = m(k \<mapsto> v) ++ map_of (rev kvs)"
      by (rule Cons.IH) (use Cons.prems in auto)
    ultimately show ?case using p by (simp add: map_add_assoc)
  qed
  then show ?thesis by (simp add: parse_tag_part_def ne split)
qed

end
