(* ===== verification/DataTypes.thy ===== *)
theory DataTypes
  imports ModelFields
begin

text \<open>
  The column types of the dialects: \<^verbatim>\<open>ParseFieldStructForDialect\<close> of \<^verbatim>\<open>dialect.go\<close> and the method
  \<^verbatim>\<open>DataTypeOf\<close> of every dialect (\<^verbatim>\<open>dialect_common.go\<close>, \<^verbatim>\<open>dialect_mysql.go\<close>,
  \<^verbatim>\<open>dialect_postgres.go\<close>, \<^verbatim>\<open>dialect_sqlite3.go\<close>, \<^verbatim>\<open>dialects/mssql\<close>, \<^verbatim>\<open>dialects/dameng\<close>).
  A \<^verbatim>\<open>DataTypeOf\<close> that panics is \<open>None\<close>; one that returns gives the type and the field, whose tag
  settings some dialects update.
\<close>

section \<open>ParseFieldStructForDialect\<close>

text \<open>
  Following pointers (and, in \<open>scanner_value\<close>, first members) needs a bound: no type nests more than
  \<open>type_fuel\<close> of them.
\<close>

definition type_fuel :: nat where
  "type_fuel = 64"

fun deref_type :: "nat \<Rightarrow> types \<Rightarrow> rtype \<Rightarrow> rtype" where
  "deref_type 0 RT t = t"
| "deref_type (Suc n) RT t = (if t_kind (RT t) = KPtr then deref_type n RT (t_elem (RT t)) else t)"

text \<open>\<^verbatim>\<open>getScannerValue\<close>: the type reached, and whether it was read through an unexported member.\<close>

fun scanner_value :: "nat \<Rightarrow> types \<Rightarrow> rtype \<times> bool \<Rightarrow> (rtype \<times> bool) option" where
  "scanner_value 0 RT (t, ro) = Some (t, ro)"
| "scanner_value (Suc n) RT (t, ro) =
     (if t_scanner (RT t) \<and> t_kind (RT t) = KStruct
      then (case t_members (RT t) of
              [] \<Rightarrow> None
            | m # ms \<Rightarrow> scanner_value n RT (m_type m, ro \<or> \<not> m_exported m))
      else Some (t, ro))"

lemma deref_type_plain: "t_kind (RT t) \<noteq> KPtr \<Longrightarrow> deref_type n RT t = t"
  by (cases n) simp_all

lemma scanner_value_plain: "\<not> t_scanner (RT t) \<Longrightarrow> scanner_value n RT (t, ro) = Some (t, ro)"
  by (cases n) simp_all

text \<open>\<^verbatim>\<open>strconv.Atoi\<close> with its error ignored: 0 for bad syntax, the nearest bound when out of range.\<close>

definition Atoi_value :: "string \<Rightarrow> int" where
  "Atoi_value s =
     (let (neg, ds) = (case s of [] \<Rightarrow> (False, []) | c # r \<Rightarrow>
            if c = CHR ''-'' then (True, r) else if c = CHR ''+'' then (False, r) else (False, s))
      in case parse_magnitude10 ds of
           None \<Rightarrow> 0
         | Some n \<Rightarrow> if neg then max (- (2 ^ 63)) (- int n) else min (2 ^ 63 - 1) (int n))"

definition tag_or_empty :: "StructField \<Rightarrow> string \<Rightarrow> string" where
  "tag_or_empty sf key = (case TagSettingsGet sf key of None \<Rightarrow> [] | Some v \<Rightarrow> v)"

definition ParseFieldStructForDialect ::
    "types \<Rightarrow> string \<Rightarrow> StructField \<Rightarrow> ((rtype \<times> bool) \<times> string \<times> int \<times> string) option" where
  "ParseFieldStructForDialect RT dialect sf =
     (let reflectType = deref_type type_fuel RT (m_type (sf_Struct sf));
          dataType = (case t_gorm_data_type (RT reflectType) of
                        Some method \<Rightarrow> (case map_of method dialect of None \<Rightarrow> [] | Some s \<Rightarrow> s)
                      | None \<Rightarrow> tag_or_empty sf ''TYPE'');
          fieldValue = (if dataType = [] then scanner_value type_fuel RT (reflectType, False)
                        else Some (reflectType, False));
          sz = (case TagSettingsGet sf ''SIZE'' of Some num \<Rightarrow> Atoi_value num | None \<Rightarrow> 255);
          additionalType = tag_or_empty sf ''NOT NULL'' @ '' '' @ tag_or_empty sf ''UNIQUE'';
          additionalType = (case TagSettingsGet sf ''DEFAULT'' of
                              Some value \<Rightarrow> additionalType @ '' DEFAULT '' @ value | None \<Rightarrow> additionalType);
          additionalType = (case TagSettingsGet sf ''COMMENT'' of
                              Some value \<Rightarrow> if dialect \<noteq> ''sqlite3'' then additionalType @ '' COMMENT '' @ value
                                            else additionalType
                            | None \<Rightarrow> additionalType)
      in map_option (\<lambda>fv. (fv, dataType, sz, trim_space additionalType)) fieldValue)"

section \<open>What the dialects test about the value\<close>

definition value_kind :: "types \<Rightarrow> rtype \<times> bool \<Rightarrow> kind" where
  "value_kind RT v = t_kind (RT (fst v))"

text \<open>
  \<^verbatim>\<open>dataValue.Interface()\<close> panics on a value read through an unexported member.  Where it is used,
  the other outcome of a failed assertion is the panic for an unknown type, so the two are one.
\<close>

definition value_is_time :: "types \<Rightarrow> rtype \<times> bool \<Rightarrow> bool" where
  "value_is_time RT v = (\<not> snd v \<and> is_time_type (RT (fst v)))"

definition value_is_bytes :: "types \<Rightarrow> rtype \<times> bool \<Rightarrow> bool" where
  "value_is_bytes RT v = (\<not> snd v \<and> is_byte_slice_type RT (RT (fst v)))"

definition IsByteArrayOrSlice :: "types \<Rightarrow> rtype \<Rightarrow> bool" where
  "IsByteArrayOrSlice RT t =
     ((t_kind (RT t) = KArray \<or> t_kind (RT t) = KSlice)
      \<and> t_kind (RT (t_elem (RT t))) = KUint8 \<and> t_name (RT (t_elem (RT t))) = ''uint8'')"

definition isUUID :: "types \<Rightarrow> rtype \<Rightarrow> bool" where
  "isUUID RT t =
     (t_kind (RT t) = KArray \<and> t_len (RT t) = 16
      \<and> (to_lower (t_name (RT t)) = ''uuid'' \<or> to_lower (t_name (RT t)) = ''guid''))"

definition isJSON :: "types \<Rightarrow> rtype \<Rightarrow> bool" where
  "isJSON RT t = is_raw_json_type (RT t)"

definition fieldCanAutoIncrement :: "StructField \<Rightarrow> bool" where
  "fieldCanAutoIncrement sf =
     (case TagSettingsGet sf ''AUTO_INCREMENT'' of
        Some value \<Rightarrow> to_lower value \<noteq> ''false''
      | None \<Rightarrow> sf_IsPrimaryKey sf)"

text \<open>The end that the \<^verbatim>\<open>DataTypeOf\<close> methods share: panic without a type, then the additional type.\<close>

definition data_type_result :: "string \<Rightarrow> string \<Rightarrow> StructField \<Rightarrow> (string \<times> StructField) option" where
  "data_type_result sqlType additionalType sf =
     (if sqlType = [] then None
      else if trim_space additionalType = [] then Some (sqlType, sf)
      else Some (sqlType @ '' '' @ additionalType, sf))"

definition sized :: "string \<Rightarrow> int \<Rightarrow> int \<Rightarrow> string \<Rightarrow> string" where
  "sized name limit sz big =
     (if sz > 0 \<and> sz < limit then name @ ''('' @ dec_int sz @ '')'' else big)"

section \<open>DataTypeOf\<close>

definition common_DataTypeOf :: "types \<Rightarrow> StructField \<Rightarrow> (string \<times> StructField) option" where
  "common_DataTypeOf RT sf =
     (case ParseFieldStructForDialect RT ''common'' sf of
        None \<Rightarrow> None
      | Some (dataValue, sqlType, sz, additionalType) \<Rightarrow>
         (let k = value_kind RT dataValue;
              sqlType =
                (if sqlType \<noteq> [] then sqlType
                 else if k = KBool then ''BOOLEAN''
                 else if k \<in> {KInt, KInt8, KInt16, KInt32, KUint, KUint8, KUint16, KUint32, KUintptr} then
                   (if fieldCanAutoIncrement sf then ''INTEGER AUTO_INCREMENT'' else ''INTEGER'')
                 else if k \<in> {KInt64, KUint64} then
                   (if fieldCanAutoIncrement sf then ''BIGINT AUTO_INCREMENT'' else ''BIGINT'')
                 else if k \<in> {KFloat32, KFloat64} then ''FLOAT''
                 else if k = KString then sized ''VARCHAR'' 65532 sz ''VARCHAR(65532)''
                 else if k = KStruct then (if value_is_time RT dataValue then ''TIMESTAMP'' else [])
                 else (if value_is_bytes RT dataValue then sized ''BINARY'' 65532 sz ''BINARY(65532)'' else []))
          in data_type_result sqlType additionalType sf))"

text \<open>An integer branch that records the automatic increment in the field's tags.\<close>

definition auto_int :: "StructField \<Rightarrow> string \<Rightarrow> string \<Rightarrow> string \<times> StructField" where
  "auto_int sf auto plain =
     (if fieldCanAutoIncrement sf then (auto, TagSettingsSet ''AUTO_INCREMENT'' ''AUTO_INCREMENT'' sf)
      else (plain, sf))"

definition mysql_DataTypeOf :: "types \<Rightarrow> StructField \<Rightarrow> (string \<times> StructField) option" where
  "mysql_DataTypeOf RT sf0 =
     (case ParseFieldStructForDialect RT ''mysql'' sf0 of
        None \<Rightarrow> None
      | Some (dataValue, sqlType, sz, additionalType) \<Rightarrow>
         (let sf = (if TagSettingsGet sf0 ''AUTO_INCREMENT'' \<noteq> None
                       \<and> TagSettingsGet sf0 ''INDEX'' = None \<and> \<not> sf_IsPrimaryKey sf0
                    then TagSettingsDelete ''AUTO_INCREMENT'' sf0 else sf0);
              k = value_kind RT dataValue;
              (sqlType, sf) =
                (if sqlType \<noteq> [] then (sqlType, sf)
                 else if k = KBool then (''boolean'', sf)
                 else if k = KInt8 then auto_int sf ''tinyint AUTO_INCREMENT'' ''tinyint''
                 else if k \<in> {KInt, KInt16, KInt32} then auto_int sf ''int AUTO_INCREMENT'' ''int''
                 else if k = KUint8 then auto_int sf ''tinyint unsigned AUTO_INCREMENT'' ''tinyint unsigned''
                 else if k \<in> {KUint, KUint16, KUint32, KUintptr} then auto_int sf ''int unsigned AUTO_INCREMENT'' ''int unsigned''
                 else if k = KInt64 then auto_int sf ''bigint AUTO_INCREMENT'' ''bigint''
                 else if k = KUint64 then auto_int sf ''bigint unsigned AUTO_INCREMENT'' ''bigint unsigned''
                 else if k \<in> {KFloat32, KFloat64} then (''double'', sf)
                 else if k = KString then (sized ''varchar'' 65532 sz ''longtext'', sf)
                 else if k = KStruct then
                   (if value_is_time RT dataValue
                    then (let precision = (case TagSettingsGet sf ''PRECISION'' of Some p \<Rightarrow> ''('' @ p @ '')'' | None \<Rightarrow> [])
                          in if TagSettingsGet sf ''NOT NULL'' \<noteq> None \<or> sf_IsPrimaryKey sf
                             then (''DATETIME'' @ precision, sf) else (''DATETIME'' @ precision @ '' NULL'', sf))
                    else ([], sf))
                 else (if IsByteArrayOrSlice RT (fst dataValue) then (sized ''varbinary'' 65532 sz ''longblob'', sf)
                       else ([], sf)))
          in data_type_result sqlType additionalType sf))"

definition postgres_DataTypeOf :: "types \<Rightarrow> StructField \<Rightarrow> (string \<times> StructField) option" where
  "postgres_DataTypeOf RT sf =
     (case ParseFieldStructForDialect RT ''postgres'' sf of
        None \<Rightarrow> None
      | Some (dataValue, sqlType, sz, additionalType) \<Rightarrow>
         (let k = value_kind RT dataValue;
              (sqlType, sf) =
                (if sqlType \<noteq> [] then (sqlType, sf)
                 else if k = KBool then (''boolean'', sf)
                 else if k \<in> {KInt, KInt8, KInt16, KInt32, KUint, KUint8, KUint16, KUintptr} then auto_int sf ''serial'' ''integer''
                 else if k \<in> {KInt64, KUint32, KUint64} then auto_int sf ''bigserial'' ''bigint''
                 else if k \<in> {KFloat32, KFloat64} then (''numeric'', sf)
                 else if k = KString then
                   (let sz = (if TagSettingsGet sf ''SIZE'' = None then 0 else sz)
                    in (sized ''varchar'' 65532 sz ''text'', sf))
                 else if k = KStruct then
                   (if value_is_time RT dataValue then ''timestamp with time zone'' else [], sf)
                 else if k = KMap then (if t_name (RT (fst dataValue)) = ''Hstore'' then ''hstore'' else [], sf)
                 else (if IsByteArrayOrSlice RT (fst dataValue) \<and> \<not> snd dataValue
                       then (if isJSON RT (fst dataValue) then ''jsonb''
                             else if isUUID RT (fst dataValue) then ''uuid'' else ''bytea'') else [], sf))
          in data_type_result sqlType additionalType sf))"

definition sqlite3_DataTypeOf :: "types \<Rightarrow> StructField \<Rightarrow> (string \<times> StructField) option" where
  "sqlite3_DataTypeOf RT sf =
     (case ParseFieldStructForDialect RT ''sqlite3'' sf of
        None \<Rightarrow> None
      | Some (dataValue, sqlType, sz, additionalType) \<Rightarrow>
         (let k = value_kind RT dataValue;
              (sqlType, sf) =
                (if sqlType \<noteq> [] then (sqlType, sf)
                 else if k = KBool then (''bool'', sf)
                 else if k \<in> {KInt, KInt8, KInt16, KInt32, KUint, KUint8, KUint16, KUint32, KUintptr} then
                   auto_int sf ''integer primary key autoincrement'' ''integer''
                 else if k \<in> {KInt64, KUint64} then auto_int sf ''integer primary key autoincrement'' ''bigint''
                 else if k \<in> {KFloat32, KFloat64} then (''real'', sf)
                 else if k = KString then (sized ''varchar'' 65532 sz ''text'', sf)
                 else if k = KStruct then (if value_is_time RT dataValue then ''datetime'' else [], sf)
                 else (if IsByteArrayOrSlice RT (fst dataValue) then ''blob'' else [], sf))
          in data_type_result sqlType additionalType sf))"

text \<open>mssql has its own \<^verbatim>\<open>fieldCanAutoIncrement\<close>, which compares with upper case \<^verbatim>\<open>FALSE\<close> exactly.\<close>

definition mssql_fieldCanAutoIncrement :: "StructField \<Rightarrow> bool" where
  "mssql_fieldCanAutoIncrement sf =
     (case TagSettingsGet sf ''AUTO_INCREMENT'' of
        Some value \<Rightarrow> value \<noteq> ''FALSE''
      | None \<Rightarrow> sf_IsPrimaryKey sf)"

definition mssql_DataTypeOf :: "types \<Rightarrow> StructField \<Rightarrow> (string \<times> StructField) option" where
  "mssql_DataTypeOf RT sf =
     (case ParseFieldStructForDialect RT ''mssql'' sf of
        None \<Rightarrow> None
      | Some (dataValue, sqlType, sz, additionalType) \<Rightarrow>
         (let k = value_kind RT dataValue;
              auto = (\<lambda>a p. if mssql_fieldCanAutoIncrement sf
                            then (a, TagSettingsSet ''AUTO_INCREMENT'' ''AUTO_INCREMENT'' sf) else (p, sf));
              (sqlType, sf) =
                (if sqlType \<noteq> [] then (sqlType, sf)
                 else if k = KBool then (''bit'', sf)
                 else if k \<in> {KInt, KInt8, KInt16, KInt32, KUint, KUint8, KUint16, KUint32, KUintptr} then
                   auto ''int IDENTITY(1,1)'' ''int''
                 else if k \<in> {KInt64, KUint64} then auto ''bigint IDENTITY(1,1)'' ''bigint''
                 else if k \<in> {KFloat32, KFloat64} then (''float'', sf)
                 else if k = KString then (sized ''nvarchar'' 8000 sz ''nvarchar(max)'', sf)
                 else if k = KStruct then (if value_is_time RT dataValue then ''datetimeoffset'' else [], sf)
                 else (if IsByteArrayOrSlice RT (fst dataValue) then sized ''varbinary'' 8000 sz ''varbinary(max)'' else [], sf))
          in data_type_result sqlType additionalType sf))"

definition dm_bool_default :: "string \<Rightarrow> string \<Rightarrow> string" where
  "dm_bool_default literal extra =
     (let l = to_lower (trim_space literal);
          numeric = (if l = ''true'' then ''1'' else if l = ''false'' then ''0'' else [])
      in if numeric \<noteq> [] then replace_first (trim_space (''DEFAULT '' @ literal)) (''DEFAULT '' @ numeric) extra
         else extra)"

definition dm_DataTypeOf :: "types \<Rightarrow> StructField \<Rightarrow> (string \<times> StructField) option" where
  "dm_DataTypeOf RT sf =
     (case ParseFieldStructForDialect RT ''dm'' sf of
        None \<Rightarrow> None
      | Some (value, typ, sz, extra) \<Rightarrow>
         (let l = to_lower (trim_space typ);
              typ = (if l \<in> {''text'', ''longtext'', ''mediumtext'', ''json'', ''jsonb''} then ''CLOB''
                     else if l \<in> {''blob'', ''bytea''} then ''BLOB''
                     else if l \<in> {''bool'', ''boolean''} then ''BIT'' else typ);
              k = value_kind RT value;
              typ = (if typ \<noteq> [] then typ
                     else if k = KBool then ''BIT''
                     else if k \<in> {KInt, KInt8, KInt16, KInt32, KInt64, KUint, KUint8, KUint16, KUint32, KUint64} then
                       ''BIGINT'' @
                       (case TagSettingsGet sf ''AUTO_INCREMENT'' of
                          None \<Rightarrow> if sf_IsPrimaryKey sf then '' IDENTITY(1,1)'' else []
                        | Some increment \<Rightarrow> if \<not> equal_fold increment ''false'' then '' IDENTITY(1,1)'' else [])
                     else if k \<in> {KFloat32, KFloat64} then ''DOUBLE''
                     else if k = KString then ''VARCHAR('' @ dec_int (if sz \<le> 0 then 255 else sz) @ '')''
                     else if k = KStruct then (if is_time_type (RT (fst value)) then ''TIMESTAMP(6)'' else [])
                     else if k \<in> {KSlice, KArray} then
                       (if t_kind (RT (t_elem (RT (fst value)))) = KUint8 then ''BLOB'' else [])
                     else [])
          in if typ = [] then None
             else let extra = (if k = KBool \<and> equal_fold (trim_space typ) ''BIT''
                               then (case TagSettingsGet sf ''DEFAULT'' of
                                       Some literal \<Rightarrow> dm_bool_default literal extra | None \<Rightarrow> extra)
                               else extra)
                  in Some (trim_space (typ @ '' '' @ extra), sf)))"

end
