(* ===== verification/Dialects.thy ===== *)
theory Dialects
  imports DataTypes Database
begin

text \<open>
  The dialects: \<^verbatim>\<open>dialect.go\<close> (the interface and the registry) and the methods of the six
  implementations.  An implementation is a record of functions (\<open>Dialect\<close>, the method table of the
  Go interface); the connection a dialect was given by \<^verbatim>\<open>SetDB\<close> is an argument of the methods
  that ask the database.  Those methods extend the history of calls; \<open>None\<close> is a panic.
\<close>

section \<open>Shared methods\<close>

definition currentDatabaseAndTable ::
    "(history \<Rightarrow> string \<times> history) \<Rightarrow> string \<Rightarrow> history \<Rightarrow> (string \<times> string) \<times> history" where
  "currentDatabaseAndTable currentDatabase tableName h =
     (if CHR ''.'' \<in> set tableName
      then (case split2 (CHR ''.'') tableName of
              [a, b] \<Rightarrow> ((a, b), h)
            | _ \<Rightarrow> (([], tableName), h))
      else (case currentDatabase h of (d, h) \<Rightarrow> ((d, tableName), h)))"

text \<open>\<^verbatim>\<open>BuildKeyName\<close>: every maximal run of characters that are not letters or digits becomes one underscore.\<close>

definition is_alnum :: "char \<Rightarrow> bool" where
  "is_alnum c = (is_digit c \<or> char_between (CHR ''a'') (CHR ''z'') c \<or> char_between (CHR ''A'') (CHR ''Z'') c)"

fun key_name_clean :: "bool \<Rightarrow> string \<Rightarrow> string" where
  "key_name_clean in_run [] = []"
| "key_name_clean in_run (c # s) =
     (if is_alnum c then c # key_name_clean False s
      else if in_run then key_name_clean True s
      else CHR ''_'' # key_name_clean True s)"

definition common_BuildKeyName :: "string \<Rightarrow> string \<Rightarrow> string list \<Rightarrow> string option" where
  "common_BuildKeyName kind tableName flds =
     Some (key_name_clean False (kind @ ''_'' @ tableName @ ''_'' @ str_join ''_'' flds))"

text \<open>
  \<^verbatim>\<open>LimitAndOffsetSQL\<close>.  A nil argument is \<open>VNil\<close>; a value whose text is not an integer is an error
  (\<open>None\<close>).
\<close>

definition common_parseInt :: "gval \<Rightarrow> int option" where
  "common_parseInt value = parse_int0 (Sprint value)"

definition common_LimitAndOffsetSQL :: "gval \<Rightarrow> gval \<Rightarrow> string option" where
  "common_LimitAndOffsetSQL limit offset =
     (case (if limit \<noteq> VNil then
              (case common_parseInt limit of
                 None \<Rightarrow> None
               | Some parsedLimit \<Rightarrow> Some (if parsedLimit \<ge> 0 then '' LIMIT '' @ dec_int parsedLimit else []))
            else Some []) of
        None \<Rightarrow> None
      | Some sql \<Rightarrow>
         (if offset \<noteq> VNil then
            (case common_parseInt offset of
               None \<Rightarrow> None
             | Some parsedOffset \<Rightarrow> Some (sql @ (if parsedOffset \<ge> 0 then '' OFFSET '' @ dec_int parsedOffset else [])))
          else Some sql))"

definition mysql_LimitAndOffsetSQL :: "gval \<Rightarrow> gval \<Rightarrow> string option" where
  "mysql_LimitAndOffsetSQL limit offset =
     (if limit \<noteq> VNil then
        (case common_parseInt limit of
           None \<Rightarrow> None
         | Some parsedLimit \<Rightarrow>
            (if parsedLimit \<ge> 0 then
               (let sql = '' LIMIT '' @ dec_int parsedLimit
                in if offset \<noteq> VNil then
                     (case common_parseInt offset of
                        None \<Rightarrow> None
                      | Some parsedOffset \<Rightarrow> Some (sql @ (if parsedOffset \<ge> 0 then '' OFFSET '' @ dec_int parsedOffset else [])))
                   else Some sql)
             else Some []))
      else Some [])"

definition mssql_LimitAndOffsetSQL :: "gval \<Rightarrow> gval \<Rightarrow> string option" where
  "mssql_LimitAndOffsetSQL limit offset =
     (case (if offset \<noteq> VNil then
              (case common_parseInt offset of
                 None \<Rightarrow> None
               | Some parsedOffset \<Rightarrow> Some (if parsedOffset \<ge> 0 then '' OFFSET '' @ dec_int parsedOffset @ '' ROWS'' else []))
            else Some []) of
        None \<Rightarrow> None
      | Some sql \<Rightarrow>
         (if limit \<noteq> VNil then
            (case common_parseInt limit of
               None \<Rightarrow> None
             | Some parsedLimit \<Rightarrow>
                Some (if parsedLimit \<ge> 0 then
                        (if sql = [] then '' OFFSET 0 ROWS'' else sql)
                        @ '' FETCH NEXT '' @ dec_int parsedLimit @ '' ROWS ONLY''
                      else sql))
          else Some sql))"

fun dm_limit_loop :: "(string \<times> gval) list \<Rightarrow> string \<Rightarrow> string option" where
  "dm_limit_loop [] sql = Some sql"
| "dm_limit_loop ((name, value) # rest) sql =
     (if value = VNil then dm_limit_loop rest sql
      else (case parse_int10 (Sprint value) of
              None \<Rightarrow> None
            | Some n \<Rightarrow> dm_limit_loop rest (if n \<ge> 0 then sql @ '' '' @ name @ '' '' @ dec_int n else sql)))"

definition dm_LimitAndOffsetSQL :: "gval \<Rightarrow> gval \<Rightarrow> string option" where
  "dm_LimitAndOffsetSQL limit offset = dm_limit_loop [(''LIMIT'', limit), (''OFFSET'', offset)] []"

section \<open>Quoting and bind variables\<close>

definition common_BindVar :: "nat \<Rightarrow> string" where
  "common_BindVar i = ''$$$''"

definition postgres_BindVar :: "nat \<Rightarrow> string" where
  "postgres_BindVar i = ''$'' @ dec_nat i"

definition mssql_BindVar :: "nat \<Rightarrow> string" where
  "mssql_BindVar i = ''$$$''"

definition dm_BindVar :: "nat \<Rightarrow> string" where
  "dm_BindVar i = ''?''"

definition common_Quote :: "string \<Rightarrow> string" where
  "common_Quote key = [CHR 0x22] @ key @ [CHR 0x22]"

definition mysql_Quote :: "string \<Rightarrow> string" where
  "mysql_Quote key = [CHR 0x60] @ key @ [CHR 0x60]"

definition mssql_Quote :: "string \<Rightarrow> string" where
  "mssql_Quote key = ''['' @ key @ '']''"

definition dm_Quote :: "string \<Rightarrow> string" where
  "dm_Quote name = [CHR 0x22] @ replace_all [CHR 0x22] [CHR 0x22, CHR 0x22] name @ [CHR 0x22]"

section \<open>Identity of inserted rows\<close>

definition common_LastInsertIDOutputInterstitial :: "string \<Rightarrow> string \<Rightarrow> string list \<Rightarrow> string" where
  "common_LastInsertIDOutputInterstitial tableName columnName columns = []"

definition mssql_LastInsertIDOutputInterstitial :: "string \<Rightarrow> string \<Rightarrow> string list \<Rightarrow> string" where
  "mssql_LastInsertIDOutputInterstitial tableName columnName columns =
     (if columns = [] then [] else ''OUTPUT Inserted.'' @ columnName)"

definition common_LastInsertIDReturningSuffix :: "string \<Rightarrow> string \<Rightarrow> string" where
  "common_LastInsertIDReturningSuffix tableName columnName = []"

definition postgres_LastInsertIDReturningSuffix :: "string \<Rightarrow> string \<Rightarrow> string" where
  "postgres_LastInsertIDReturningSuffix tableName key = ''RETURNING '' @ tableName @ ''.'' @ key"

definition mssql_LastInsertIDReturningSuffix :: "string \<Rightarrow> string \<Rightarrow> string" where
  "mssql_LastInsertIDReturningSuffix tableName columnName = ''; SELECT SCOPE_IDENTITY()''"

section \<open>Index names\<close>

text \<open>\<^verbatim>\<open>mysqlIndexRegex\<close>, \<^verbatim>\<open>^(.+)\((\d+)\)$\<close>: a name, then a prefix length in parentheses.\<close>

definition mysql_index_match :: "string \<Rightarrow> (string \<times> string) option" where
  "mysql_index_match s =
     (if s \<noteq> [] \<and> last s = CHR '')'' then
        (let r = rev (butlast s);
             ds = takeWhile is_digit r;
             rest = dropWhile is_digit r
         in (case rest of
               c # name \<Rightarrow> if c = CHR ''('' \<and> ds \<noteq> [] \<and> name \<noteq> [] \<and> CHR 0x0A \<notin> set name
                            then Some (rev name, rev ds) else None
             | [] \<Rightarrow> None))
      else None)"

definition mysql_NormalizeIndexAndColumn :: "string \<Rightarrow> string \<Rightarrow> string \<times> string" where
  "mysql_NormalizeIndexAndColumn indexName columnName =
     (case mysql_index_match indexName of
        None \<Rightarrow> (indexName, columnName)
      | Some (name, len) \<Rightarrow> (name, columnName @ ''('' @ len @ '')''))"

definition common_NormalizeIndexAndColumn :: "string \<Rightarrow> string \<Rightarrow> string \<times> string" where
  "common_NormalizeIndexAndColumn indexName columnName = (indexName, columnName)"

text \<open>MySQL shortens a long key name with its SHA-1 (\<open>sha1\<close> gives the hexadecimal digits).\<close>

definition mysql_BuildKeyName :: "(string \<Rightarrow> string) \<Rightarrow> string \<Rightarrow> string \<Rightarrow> string list \<Rightarrow> string option" where
  "mysql_BuildKeyName sha1 kind tableName flds =
     (case common_BuildKeyName kind tableName flds of
        None \<Rightarrow> None
      | Some keyName \<Rightarrow>
         (if length keyName \<le> 64 then Some keyName
          else (case flds of
                  [] \<Rightarrow> None
                | f # fs \<Rightarrow>
                   (let destRunes = key_name_clean False f;
                        destRunes = (if length destRunes > 24 then take 24 destRunes else destRunes)
                    in Some (destRunes @ sha1 keyName)))))"

definition is_quoted_name :: "string \<Rightarrow> bool" where
  "is_quoted_name name = (length name \<ge> 2 \<and> hd name = CHR 0x22 \<and> last name = CHR 0x22)"

definition dm_indexIdentifier :: "string \<Rightarrow> string" where
  "dm_indexIdentifier name =
     (if is_quoted_name name then replace_all [CHR 0x22, CHR 0x22] [CHR 0x22] (butlast (tl name))
      else to_upper name)"

definition dm_indexIdentifierQuoted :: "string \<Rightarrow> string" where
  "dm_indexIdentifierQuoted name =
     (if is_quoted_name name then replace_all [CHR 0x22, CHR 0x22] [CHR 0x22] (butlast (tl name))
      else name)"

definition dm_NormalizeIndexAndColumn :: "string \<Rightarrow> string \<Rightarrow> string \<times> string" where
  "dm_NormalizeIndexAndColumn index column = (dm_Quote (dm_indexIdentifierQuoted index), column)"

section \<open>DM's full-statement upsert\<close>

text \<open>\<^verbatim>\<open>BatchSaveSQL\<close>: a MERGE of one source row; \<open>Inl\<close> is the error text.\<close>

definition src_col :: "string \<Rightarrow> string" where
  "src_col column = [CHR 0x22] @ ''gorm_source'' @ [CHR 0x22] @ ''.'' @ column"

definition tgt_col :: "string \<Rightarrow> string" where
  "tgt_col column = [CHR 0x22] @ ''gorm_target'' @ [CHR 0x22] @ ''.'' @ column"

definition dm_BatchSaveSQL ::
    "string \<Rightarrow> string list \<Rightarrow> string list \<Rightarrow> string list \<Rightarrow> string list list \<Rightarrow> string + string" where
  "dm_BatchSaveSQL table columns conflicts updates vals =
     (if length vals \<noteq> 1 \<or> columns = [] \<or> length (hd vals) \<noteq> length columns \<or> conflicts = []
      then Inl ''gorm: DM MERGE requires one source row and a conflict target''
      else
        (let selects = map (\<lambda>(v, column). v @ '' AS '' @ column) (zip (hd vals) columns);
             insertValues = map src_col columns
         in case List.find (\<lambda>column. column \<notin> set columns) conflicts of
              Some column \<Rightarrow> Inl (''gorm: DM MERGE conflict column '' @ column @ '' is missing from the source row'')
            | None \<Rightarrow>
               (let on = map (\<lambda>column. tgt_col column @ ''='' @ src_col column) conflicts;
                    query = ''MERGE INTO '' @ table @ '' '' @ [CHR 0x22] @ ''gorm_target'' @ [CHR 0x22]
                      @ '' USING (SELECT '' @ str_join '','' selects @ '' FROM DUAL) '' @ [CHR 0x22] @ ''gorm_source'' @ [CHR 0x22]
                      @ '' ON ('' @ str_join '' AND '' on @ '')''
                in case List.find (\<lambda>column. column \<notin> set columns) updates of
                     Some column \<Rightarrow> Inl (''gorm: DM MERGE update column '' @ column @ '' is missing from the source row'')
                   | None \<Rightarrow>
                      Inr (query
                        @ (if updates \<noteq> []
                           then '' WHEN MATCHED THEN UPDATE SET ''
                             @ str_join '','' (map (\<lambda>column. column @ ''='' @ src_col column) updates)
                           else [])
                        @ '' WHEN NOT MATCHED THEN INSERT ('' @ str_join '','' columns @ '') VALUES (''
                        @ str_join '','' insertValues @ '')''))))"

end
