(* ===== verification/DialectTable.thy ===== *)
theory DialectTable
  imports Dialects
begin

text \<open>
  The part of the dialects that asks the database about tables, columns and indexes, and the
  method tables: \<open>Dialect\<close> is the Go interface, the constants \<open>common_dialect\<close> to \<open>dm_dialect\<close>
  its implementations, \<open>newDialect\<close> the registry.
\<close>

definition sq :: "string \<Rightarrow> string" where
  "sq s = [CHR 0x27] @ s @ [CHR 0x27]"

definition bq :: "string \<Rightarrow> string" where
  "bq s = [CHR 0x60] @ s @ [CHR 0x60]"

text \<open>\<^verbatim>\<open>s.db.QueryRow(...).Scan(&count)\<close>, \<^verbatim>\<open>return count > 0\<close>.\<close>

definition query_count :: "dbenv \<Rightarrow> conn \<Rightarrow> string \<Rightarrow> gval list \<Rightarrow> history \<Rightarrow> bool \<times> history" where
  "query_count env c q args h =
     (case call_db env (CallQueryRow c q args) h of (r, h) \<Rightarrow> (scan_count r > 0, h))"

definition exec_err :: "dbenv \<Rightarrow> conn \<Rightarrow> string \<Rightarrow> history \<Rightarrow> err option \<times> history" where
  "exec_err env c q h = (case call_db env (CallExec c q []) h of (r, h) \<Rightarrow> (r_err r, h))"

section \<open>The common dialect\<close>

definition common_CurrentDatabase :: "dbenv \<Rightarrow> conn \<Rightarrow> history \<Rightarrow> string \<times> history" where
  "common_CurrentDatabase env c h =
     (case call_db env (CallQueryRow c ''SELECT DATABASE()'' []) h of (r, h) \<Rightarrow> (scan_string r, h))"

definition common_HasIndex :: "dbenv \<Rightarrow> conn \<Rightarrow> string \<Rightarrow> string \<Rightarrow> history \<Rightarrow> bool option \<times> history" where
  "common_HasIndex env c tableName indexName h =
     (case currentDatabaseAndTable (common_CurrentDatabase env c) tableName h of ((d, t), h) \<Rightarrow>
      case query_count env c ''SELECT count(*) FROM INFORMATION_SCHEMA.STATISTICS WHERE table_schema = ? AND table_name = ? AND index_name = ?''
             [VStr d, VStr t, VStr indexName] h of (b, h) \<Rightarrow> (Some b, h))"

definition common_RemoveIndex :: "dbenv \<Rightarrow> conn \<Rightarrow> string \<Rightarrow> string \<Rightarrow> history \<Rightarrow> err option \<times> history" where
  "common_RemoveIndex env c tableName indexName h = exec_err env c (''DROP INDEX '' @ indexName) h"

definition common_HasForeignKey :: "dbenv \<Rightarrow> conn \<Rightarrow> string \<Rightarrow> string \<Rightarrow> history \<Rightarrow> bool option \<times> history" where
  "common_HasForeignKey env c tableName foreignKeyName h = (Some False, h)"

definition common_HasTable :: "dbenv \<Rightarrow> conn \<Rightarrow> string \<Rightarrow> history \<Rightarrow> bool option \<times> history" where
  "common_HasTable env c tableName h =
     (case currentDatabaseAndTable (common_CurrentDatabase env c) tableName h of ((d, t), h) \<Rightarrow>
      case query_count env c ''SELECT count(*) FROM INFORMATION_SCHEMA.TABLES WHERE table_schema = ? AND table_name = ?''
             [VStr d, VStr t] h of (b, h) \<Rightarrow> (Some b, h))"

definition common_HasColumn :: "dbenv \<Rightarrow> conn \<Rightarrow> string \<Rightarrow> string \<Rightarrow> history \<Rightarrow> bool option \<times> history" where
  "common_HasColumn env c tableName columnName h =
     (case currentDatabaseAndTable (common_CurrentDatabase env c) tableName h of ((d, t), h) \<Rightarrow>
      case query_count env c ''SELECT count(*) FROM INFORMATION_SCHEMA.COLUMNS WHERE table_schema = ? AND table_name = ? AND column_name = ?''
             [VStr d, VStr t, VStr columnName] h of (b, h) \<Rightarrow> (Some b, h))"

definition common_ModifyColumn :: "dbenv \<Rightarrow> conn \<Rightarrow> string \<Rightarrow> string \<Rightarrow> string \<Rightarrow> history \<Rightarrow> err option \<times> history" where
  "common_ModifyColumn env c tableName columnName typ h =
     exec_err env c (''ALTER TABLE '' @ tableName @ '' ALTER COLUMN '' @ columnName @ '' TYPE '' @ typ) h"

section \<open>MySQL\<close>

definition mysql_CurrentDatabase :: "dbenv \<Rightarrow> conn \<Rightarrow> history \<Rightarrow> string \<times> history" where
  "mysql_CurrentDatabase env c h =
     (case call_db env (CallQueryRow c ''SELECT DATABASE()'' []) h of (r, h) \<Rightarrow> (scan_string r, h))"

definition mysql_RemoveIndex :: "dbenv \<Rightarrow> conn \<Rightarrow> string \<Rightarrow> string \<Rightarrow> history \<Rightarrow> err option \<times> history" where
  "mysql_RemoveIndex env c tableName indexName h =
     exec_err env c (''DROP INDEX '' @ indexName @ '' ON '' @ mysql_Quote tableName) h"

definition mysql_ModifyColumn :: "dbenv \<Rightarrow> conn \<Rightarrow> string \<Rightarrow> string \<Rightarrow> string \<Rightarrow> history \<Rightarrow> err option \<times> history" where
  "mysql_ModifyColumn env c tableName columnName typ h =
     exec_err env c (''ALTER TABLE '' @ tableName @ '' MODIFY COLUMN '' @ columnName @ '' '' @ typ) h"

definition mysql_HasForeignKey :: "dbenv \<Rightarrow> conn \<Rightarrow> string \<Rightarrow> string \<Rightarrow> history \<Rightarrow> bool option \<times> history" where
  "mysql_HasForeignKey env c tableName foreignKeyName h =
     (case currentDatabaseAndTable (mysql_CurrentDatabase env c) tableName h of ((d, t), h) \<Rightarrow>
      case query_count env c
             (''SELECT count(*) FROM INFORMATION_SCHEMA.TABLE_CONSTRAINTS WHERE CONSTRAINT_SCHEMA=? AND TABLE_NAME=? AND CONSTRAINT_NAME=? AND CONSTRAINT_TYPE=''
              @ sq ''FOREIGN KEY'')
             [VStr d, VStr t, VStr foreignKeyName] h of (b, h) \<Rightarrow> (Some b, h))"

text \<open>
  \<^verbatim>\<open>HasTable\<close> scans a name and panics on an error other than \<^verbatim>\<open>sql.ErrNoRows\<close>, which is what the
  scan of an empty result reports.
\<close>

definition mysql_HasTable :: "dbenv \<Rightarrow> conn \<Rightarrow> string \<Rightarrow> history \<Rightarrow> bool option \<times> history" where
  "mysql_HasTable env c tableName h =
     (case currentDatabaseAndTable (mysql_CurrentDatabase env c) tableName h of ((d, t), h) \<Rightarrow>
      case call_db env (CallQueryRow c (''SHOW TABLES FROM '' @ bq d @ '' WHERE '' @ bq (''Tables_in_'' @ d) @ '' = ?'') [VStr t]) h of
        (r, h) \<Rightarrow>
          (case r_err r of
             Some e \<Rightarrow> if e = ErrNoRows then (Some False, h) else (None, h)
           | None \<Rightarrow> (Some (r_rows r \<noteq> []), h)))"

definition mysql_has_row :: "dbenv \<Rightarrow> conn \<Rightarrow> string \<Rightarrow> gval list \<Rightarrow> history \<Rightarrow> bool option \<times> history" where
  "mysql_has_row env c q args h =
     (case call_db env (CallQuery c q args) h of (r, h) \<Rightarrow>
        if r_err r \<noteq> None then (None, h) else (Some (r_rows r \<noteq> []), h))"

definition mysql_HasIndex :: "dbenv \<Rightarrow> conn \<Rightarrow> string \<Rightarrow> string \<Rightarrow> history \<Rightarrow> bool option \<times> history" where
  "mysql_HasIndex env c tableName indexName h =
     (case currentDatabaseAndTable (mysql_CurrentDatabase env c) tableName h of ((d, t), h) \<Rightarrow>
      mysql_has_row env c (''SHOW INDEXES FROM '' @ bq t @ '' FROM '' @ bq d @ '' WHERE Key_name = ?'') [VStr indexName] h)"

definition mysql_HasColumn :: "dbenv \<Rightarrow> conn \<Rightarrow> string \<Rightarrow> string \<Rightarrow> history \<Rightarrow> bool option \<times> history" where
  "mysql_HasColumn env c tableName columnName h =
     (case currentDatabaseAndTable (mysql_CurrentDatabase env c) tableName h of ((d, t), h) \<Rightarrow>
      mysql_has_row env c (''SHOW COLUMNS FROM '' @ bq t @ '' FROM '' @ bq d @ '' WHERE Field = ?'') [VStr columnName] h)"

section \<open>PostgreSQL\<close>

definition postgres_HasIndex :: "dbenv \<Rightarrow> conn \<Rightarrow> string \<Rightarrow> string \<Rightarrow> history \<Rightarrow> bool option \<times> history" where
  "postgres_HasIndex env c tableName indexName h =
     (case query_count env c ''SELECT count(*) FROM pg_indexes WHERE tablename = $1 AND indexname = $2 AND schemaname = CURRENT_SCHEMA()''
             [VStr tableName, VStr indexName] h of (b, h) \<Rightarrow> (Some b, h))"

definition postgres_HasForeignKey :: "dbenv \<Rightarrow> conn \<Rightarrow> string \<Rightarrow> string \<Rightarrow> history \<Rightarrow> bool option \<times> history" where
  "postgres_HasForeignKey env c tableName foreignKeyName h =
     (case query_count env c
             (''SELECT count(con.conname) FROM pg_constraint con WHERE $1::regclass::oid = con.conrelid AND con.conname = $2 AND con.contype='' @ sq ''f'')
             [VStr tableName, VStr foreignKeyName] h of (b, h) \<Rightarrow> (Some b, h))"

definition postgres_HasTable :: "dbenv \<Rightarrow> conn \<Rightarrow> string \<Rightarrow> history \<Rightarrow> bool option \<times> history" where
  "postgres_HasTable env c tableName h =
     (case query_count env c
             (''SELECT count(*) FROM INFORMATION_SCHEMA.tables WHERE table_name = $1 AND table_type = '' @ sq ''BASE TABLE''
              @ '' AND table_schema = CURRENT_SCHEMA()'')
             [VStr tableName] h of (b, h) \<Rightarrow> (Some b, h))"

definition postgres_HasColumn :: "dbenv \<Rightarrow> conn \<Rightarrow> string \<Rightarrow> string \<Rightarrow> history \<Rightarrow> bool option \<times> history" where
  "postgres_HasColumn env c tableName columnName h =
     (case query_count env c ''SELECT count(*) FROM INFORMATION_SCHEMA.columns WHERE table_name = $1 AND column_name = $2 AND table_schema = CURRENT_SCHEMA()''
             [VStr tableName, VStr columnName] h of (b, h) \<Rightarrow> (Some b, h))"

definition postgres_CurrentDatabase :: "dbenv \<Rightarrow> conn \<Rightarrow> history \<Rightarrow> string \<times> history" where
  "postgres_CurrentDatabase env c h =
     (case call_db env (CallQueryRow c ''SELECT CURRENT_DATABASE()'' []) h of (r, h) \<Rightarrow> (scan_string r, h))"

section \<open>SQLite\<close>

definition sqlite3_HasIndex :: "dbenv \<Rightarrow> conn \<Rightarrow> string \<Rightarrow> string \<Rightarrow> history \<Rightarrow> bool option \<times> history" where
  "sqlite3_HasIndex env c tableName indexName h =
     (case query_count env c (''SELECT count(*) FROM sqlite_master WHERE type = '' @ sq ''index'' @ '' AND tbl_name = ? AND name = ?'')
             [VStr tableName, VStr indexName] h of (b, h) \<Rightarrow> (Some b, h))"

definition sqlite3_HasTable :: "dbenv \<Rightarrow> conn \<Rightarrow> string \<Rightarrow> history \<Rightarrow> bool option \<times> history" where
  "sqlite3_HasTable env c tableName h =
     (case query_count env c (''SELECT count(*) FROM sqlite_master WHERE type='' @ sq ''table'' @ '' AND name=?'')
             [VStr tableName] h of (b, h) \<Rightarrow> (Some b, h))"

definition sqlite3_HasColumn :: "dbenv \<Rightarrow> conn \<Rightarrow> string \<Rightarrow> string \<Rightarrow> history \<Rightarrow> bool option \<times> history" where
  "sqlite3_HasColumn env c tableName columnName h =
     (case query_count env c
             (''SELECT count(*) FROM sqlite_master WHERE tbl_name = ? AND (sql LIKE ''
              @ sq (''%'' @ [CHR 0x22] @ columnName @ [CHR 0x22] @ '' %'') @ '' OR sql LIKE ''
              @ sq (''%'' @ columnName @ '' %'') @ '');'' @ [CHR 0x0A])
             [VStr tableName] h of (b, h) \<Rightarrow> (Some b, h))"

text \<open>\<^verbatim>\<open>PRAGMA database_list\<close> is scanned into three nullable strings; the second is the name.\<close>

definition sqlite3_CurrentDatabase :: "dbenv \<Rightarrow> conn \<Rightarrow> history \<Rightarrow> string \<times> history" where
  "sqlite3_CurrentDatabase env c h =
     (case call_db env (CallQueryRow c ''PRAGMA database_list'' []) h of (r, h) \<Rightarrow>
        ((if r_err r \<noteq> None then []
          else case r_rows r of [_, VStr name, _] # _ \<Rightarrow> name | _ \<Rightarrow> []), h))"

section \<open>SQL Server\<close>

definition mssql_CurrentDatabase :: "dbenv \<Rightarrow> conn \<Rightarrow> history \<Rightarrow> string \<times> history" where
  "mssql_CurrentDatabase env c h =
     (case call_db env (CallQueryRow c ''SELECT DB_NAME() AS [Current Database]'' []) h of (r, h) \<Rightarrow> (scan_string r, h))"

definition mssql_HasIndex :: "dbenv \<Rightarrow> conn \<Rightarrow> string \<Rightarrow> string \<Rightarrow> history \<Rightarrow> bool option \<times> history" where
  "mssql_HasIndex env c tableName indexName h =
     (case query_count env c ''SELECT count(*) FROM sys.indexes WHERE name=? AND object_id=OBJECT_ID(?)''
             [VStr indexName, VStr tableName] h of (b, h) \<Rightarrow> (Some b, h))"

definition mssql_RemoveIndex :: "dbenv \<Rightarrow> conn \<Rightarrow> string \<Rightarrow> string \<Rightarrow> history \<Rightarrow> err option \<times> history" where
  "mssql_RemoveIndex env c tableName indexName h =
     exec_err env c (''DROP INDEX '' @ indexName @ '' ON '' @ mssql_Quote tableName) h"

definition mssql_HasForeignKey :: "dbenv \<Rightarrow> conn \<Rightarrow> string \<Rightarrow> string \<Rightarrow> history \<Rightarrow> bool option \<times> history" where
  "mssql_HasForeignKey env c tableName foreignKeyName h =
     (case currentDatabaseAndTable (mssql_CurrentDatabase env c) tableName h of ((d, t), h) \<Rightarrow>
      case query_count env c
             (''SELECT count(*) '' @ [CHR 0x0A, CHR 0x09]
              @ ''FROM sys.foreign_keys as F inner join sys.tables as T on F.parent_object_id=T.object_id '' @ [CHR 0x0A, CHR 0x09, CHR 0x09]
              @ ''inner join information_schema.tables as I on I.TABLE_NAME = T.name '' @ [CHR 0x0A, CHR 0x09]
              @ ''WHERE F.name = ? '' @ [CHR 0x0A, CHR 0x09, CHR 0x09]
              @ ''AND T.Name = ? AND I.TABLE_CATALOG = ?;'')
             [VStr foreignKeyName, VStr t, VStr d] h of (b, h) \<Rightarrow> (Some b, h))"

definition mssql_HasTable :: "dbenv \<Rightarrow> conn \<Rightarrow> string \<Rightarrow> history \<Rightarrow> bool option \<times> history" where
  "mssql_HasTable env c tableName h =
     (case currentDatabaseAndTable (mssql_CurrentDatabase env c) tableName h of ((d, t), h) \<Rightarrow>
      case query_count env c ''SELECT count(*) FROM INFORMATION_SCHEMA.tables WHERE table_name = ? AND table_catalog = ?''
             [VStr t, VStr d] h of (b, h) \<Rightarrow> (Some b, h))"

definition mssql_HasColumn :: "dbenv \<Rightarrow> conn \<Rightarrow> string \<Rightarrow> string \<Rightarrow> history \<Rightarrow> bool option \<times> history" where
  "mssql_HasColumn env c tableName columnName h =
     (case currentDatabaseAndTable (mssql_CurrentDatabase env c) tableName h of ((d, t), h) \<Rightarrow>
      case query_count env c ''SELECT count(*) FROM information_schema.columns WHERE table_catalog = ? AND table_name = ? AND column_name = ?''
             [VStr d, VStr t, VStr columnName] h of (b, h) \<Rightarrow> (Some b, h))"

definition mssql_ModifyColumn :: "dbenv \<Rightarrow> conn \<Rightarrow> string \<Rightarrow> string \<Rightarrow> string \<Rightarrow> history \<Rightarrow> err option \<times> history" where
  "mssql_ModifyColumn env c tableName columnName typ h =
     exec_err env c (''ALTER TABLE '' @ tableName @ '' ALTER COLUMN '' @ columnName @ '' '' @ typ) h"

section \<open>DM\<close>

text \<open>\<^verbatim>\<open>count\<close> also requires that the scan succeeded.\<close>

definition dm_count :: "dbenv \<Rightarrow> conn \<Rightarrow> string \<Rightarrow> gval list \<Rightarrow> history \<Rightarrow> bool option \<times> history" where
  "dm_count env c q args h =
     (case call_db env (CallQueryRow c q args) h of (r, h) \<Rightarrow> (Some (r_err r = None \<and> scan_count r > 0), h))"

definition dm_CurrentDatabase :: "dbenv \<Rightarrow> conn \<Rightarrow> history \<Rightarrow> string \<times> history" where
  "dm_CurrentDatabase env c h =
     (case call_db env (CallQueryRow c (''SELECT SYS_CONTEXT('' @ sq ''USERENV'' @ '','' @ sq ''CURRENT_SCHEMA'' @ '') FROM DUAL'') []) h of
        (r, h) \<Rightarrow> (scan_string r, h))"

definition dm_tableName :: "dbenv \<Rightarrow> conn \<Rightarrow> string \<Rightarrow> history \<Rightarrow> (string \<times> string) \<times> history" where
  "dm_tableName env c table h =
     (case split2 (CHR ''.'') table of
        [a, b] \<Rightarrow> ((a, b), h)
      | _ \<Rightarrow> (case dm_CurrentDatabase env c h of (d, h) \<Rightarrow> ((d, table), h)))"

definition dm_HasTable :: "dbenv \<Rightarrow> conn \<Rightarrow> string \<Rightarrow> history \<Rightarrow> bool option \<times> history" where
  "dm_HasTable env c table h =
     (case dm_tableName env c table h of ((owner, name), h) \<Rightarrow>
      dm_count env c ''SELECT COUNT(*) FROM ALL_TABLES WHERE OWNER=? AND TABLE_NAME=?'' [VStr owner, VStr name] h)"

definition dm_HasColumn :: "dbenv \<Rightarrow> conn \<Rightarrow> string \<Rightarrow> string \<Rightarrow> history \<Rightarrow> bool option \<times> history" where
  "dm_HasColumn env c table column h =
     (case dm_tableName env c table h of ((owner, name), h) \<Rightarrow>
      dm_count env c ''SELECT COUNT(*) FROM ALL_TAB_COLUMNS WHERE OWNER=? AND TABLE_NAME=? AND COLUMN_NAME=?''
        [VStr owner, VStr name, VStr column] h)"

definition dm_HasIndex :: "dbenv \<Rightarrow> conn \<Rightarrow> string \<Rightarrow> string \<Rightarrow> history \<Rightarrow> bool option \<times> history" where
  "dm_HasIndex env c table index h =
     (case dm_tableName env c table h of ((owner, name), h) \<Rightarrow>
      dm_count env c ''SELECT COUNT(*) FROM ALL_INDEXES WHERE OWNER=? AND TABLE_NAME=? AND INDEX_NAME=?''
        [VStr owner, VStr name, VStr (dm_indexIdentifier index)] h)"

definition dm_HasForeignKey :: "dbenv \<Rightarrow> conn \<Rightarrow> string \<Rightarrow> string \<Rightarrow> history \<Rightarrow> bool option \<times> history" where
  "dm_HasForeignKey env c table key h =
     (case dm_tableName env c table h of ((owner, name), h) \<Rightarrow>
      dm_count env c
        (''SELECT COUNT(*) FROM ALL_CONSTRAINTS WHERE OWNER=? AND TABLE_NAME=? AND CONSTRAINT_NAME=? AND CONSTRAINT_TYPE='' @ sq ''R'')
        [VStr owner, VStr name, VStr key] h)"

definition dm_RemoveIndex :: "dbenv \<Rightarrow> conn \<Rightarrow> string \<Rightarrow> string \<Rightarrow> history \<Rightarrow> err option \<times> history" where
  "dm_RemoveIndex env c table index h =
     (case dm_tableName env c table h of ((owner, _), h) \<Rightarrow>
      exec_err env c (''DROP INDEX '' @ dm_Quote owner @ ''.'' @ dm_Quote (dm_indexIdentifier index)) h)"

definition dm_ModifyColumn :: "dbenv \<Rightarrow> conn \<Rightarrow> string \<Rightarrow> string \<Rightarrow> string \<Rightarrow> history \<Rightarrow> err option \<times> history" where
  "dm_ModifyColumn env c table column typ h =
     exec_err env c (''ALTER TABLE '' @ table @ '' MODIFY '' @ column @ '' '' @ typ) h"

section \<open>The interface and its implementations\<close>

text \<open>
  The optional extensions are \<open>None\<close> for a dialect that does not implement them: the row limit of
  \<^verbatim>\<open>BatchCreateDialect\<close>, the statement builder of \<^verbatim>\<open>BatchSaveDialect\<close>.
\<close>

record Dialect =
  d_GetName :: string
  d_BindVar :: "nat \<Rightarrow> string"
  d_Quote :: "string \<Rightarrow> string"
  d_DataTypeOf :: "types \<Rightarrow> StructField \<Rightarrow> (string \<times> StructField) option"
  d_HasIndex :: "dbenv \<Rightarrow> conn \<Rightarrow> string \<Rightarrow> string \<Rightarrow> history \<Rightarrow> bool option \<times> history"
  d_HasForeignKey :: "dbenv \<Rightarrow> conn \<Rightarrow> string \<Rightarrow> string \<Rightarrow> history \<Rightarrow> bool option \<times> history"
  d_RemoveIndex :: "dbenv \<Rightarrow> conn \<Rightarrow> string \<Rightarrow> string \<Rightarrow> history \<Rightarrow> err option \<times> history"
  d_HasTable :: "dbenv \<Rightarrow> conn \<Rightarrow> string \<Rightarrow> history \<Rightarrow> bool option \<times> history"
  d_HasColumn :: "dbenv \<Rightarrow> conn \<Rightarrow> string \<Rightarrow> string \<Rightarrow> history \<Rightarrow> bool option \<times> history"
  d_ModifyColumn :: "dbenv \<Rightarrow> conn \<Rightarrow> string \<Rightarrow> string \<Rightarrow> string \<Rightarrow> history \<Rightarrow> err option \<times> history"
  d_LimitAndOffsetSQL :: "gval \<Rightarrow> gval \<Rightarrow> string option"
  d_SelectFromDummyTable :: string
  d_LastInsertIDOutputInterstitial :: "string \<Rightarrow> string \<Rightarrow> string list \<Rightarrow> string"
  d_LastInsertIDReturningSuffix :: "string \<Rightarrow> string \<Rightarrow> string"
  d_DefaultValueStr :: string
  d_BuildKeyName :: "string \<Rightarrow> string \<Rightarrow> string list \<Rightarrow> string option"
  d_NormalizeIndexAndColumn :: "string \<Rightarrow> string \<Rightarrow> string \<times> string"
  d_CurrentDatabase :: "dbenv \<Rightarrow> conn \<Rightarrow> history \<Rightarrow> string \<times> history"
  d_BatchCreateMaxRows :: "int option"
  d_BatchSaveSQL :: "(string \<Rightarrow> string list \<Rightarrow> string list \<Rightarrow> string list \<Rightarrow> string list list \<Rightarrow> string + string) option"

definition common_dialect :: Dialect where
  "common_dialect =
     \<lparr>d_GetName = ''common'', d_BindVar = common_BindVar, d_Quote = common_Quote,
      d_DataTypeOf = common_DataTypeOf, d_HasIndex = common_HasIndex, d_HasForeignKey = common_HasForeignKey,
      d_RemoveIndex = common_RemoveIndex, d_HasTable = common_HasTable, d_HasColumn = common_HasColumn,
      d_ModifyColumn = common_ModifyColumn, d_LimitAndOffsetSQL = common_LimitAndOffsetSQL,
      d_SelectFromDummyTable = [], d_LastInsertIDOutputInterstitial = common_LastInsertIDOutputInterstitial,
      d_LastInsertIDReturningSuffix = common_LastInsertIDReturningSuffix, d_DefaultValueStr = ''DEFAULT VALUES'',
      d_BuildKeyName = common_BuildKeyName, d_NormalizeIndexAndColumn = common_NormalizeIndexAndColumn,
      d_CurrentDatabase = common_CurrentDatabase, d_BatchCreateMaxRows = None, d_BatchSaveSQL = None\<rparr>"

text \<open>An embedded \<^verbatim>\<open>commonDialect\<close> provides every method that the struct does not override.\<close>

definition mysql_dialect :: "(string \<Rightarrow> string) \<Rightarrow> Dialect" where
  "mysql_dialect sha1 = common_dialect
     \<lparr>d_GetName := ''mysql'', d_Quote := mysql_Quote, d_DataTypeOf := mysql_DataTypeOf,
      d_RemoveIndex := mysql_RemoveIndex, d_ModifyColumn := mysql_ModifyColumn,
      d_LimitAndOffsetSQL := mysql_LimitAndOffsetSQL, d_HasForeignKey := mysql_HasForeignKey,
      d_HasTable := mysql_HasTable, d_HasIndex := mysql_HasIndex, d_HasColumn := mysql_HasColumn,
      d_CurrentDatabase := mysql_CurrentDatabase, d_SelectFromDummyTable := ''FROM DUAL'',
      d_BuildKeyName := mysql_BuildKeyName sha1, d_NormalizeIndexAndColumn := mysql_NormalizeIndexAndColumn,
      d_DefaultValueStr := ''VALUES()''\<rparr>"

definition postgres_dialect :: Dialect where
  "postgres_dialect = common_dialect
     \<lparr>d_GetName := ''postgres'', d_BindVar := postgres_BindVar, d_DataTypeOf := postgres_DataTypeOf,
      d_HasIndex := postgres_HasIndex, d_HasForeignKey := postgres_HasForeignKey,
      d_HasTable := postgres_HasTable, d_HasColumn := postgres_HasColumn,
      d_CurrentDatabase := postgres_CurrentDatabase,
      d_LastInsertIDReturningSuffix := postgres_LastInsertIDReturningSuffix\<rparr>"

definition sqlite3_dialect :: Dialect where
  "sqlite3_dialect = common_dialect
     \<lparr>d_GetName := ''sqlite3'', d_DataTypeOf := sqlite3_DataTypeOf, d_HasIndex := sqlite3_HasIndex,
      d_HasTable := sqlite3_HasTable, d_HasColumn := sqlite3_HasColumn,
      d_CurrentDatabase := sqlite3_CurrentDatabase\<rparr>"

definition mssql_dialect :: Dialect where
  "mssql_dialect =
     \<lparr>d_GetName = ''mssql'', d_BindVar = mssql_BindVar, d_Quote = mssql_Quote,
      d_DataTypeOf = mssql_DataTypeOf, d_HasIndex = mssql_HasIndex, d_HasForeignKey = mssql_HasForeignKey,
      d_RemoveIndex = mssql_RemoveIndex, d_HasTable = mssql_HasTable, d_HasColumn = mssql_HasColumn,
      d_ModifyColumn = mssql_ModifyColumn, d_LimitAndOffsetSQL = mssql_LimitAndOffsetSQL,
      d_SelectFromDummyTable = [], d_LastInsertIDOutputInterstitial = mssql_LastInsertIDOutputInterstitial,
      d_LastInsertIDReturningSuffix = mssql_LastInsertIDReturningSuffix, d_DefaultValueStr = ''DEFAULT VALUES'',
      d_BuildKeyName = common_BuildKeyName, d_NormalizeIndexAndColumn = common_NormalizeIndexAndColumn,
      d_CurrentDatabase = mssql_CurrentDatabase, d_BatchCreateMaxRows = None, d_BatchSaveSQL = None\<rparr>"

definition dm_dialect :: Dialect where
  "dm_dialect =
     \<lparr>d_GetName = ''dm'', d_BindVar = dm_BindVar, d_Quote = dm_Quote,
      d_DataTypeOf = dm_DataTypeOf, d_HasIndex = dm_HasIndex, d_HasForeignKey = dm_HasForeignKey,
      d_RemoveIndex = dm_RemoveIndex, d_HasTable = dm_HasTable, d_HasColumn = dm_HasColumn,
      d_ModifyColumn = dm_ModifyColumn, d_LimitAndOffsetSQL = dm_LimitAndOffsetSQL,
      d_SelectFromDummyTable = '' FROM DUAL'', d_LastInsertIDOutputInterstitial = common_LastInsertIDOutputInterstitial,
      d_LastInsertIDReturningSuffix = common_LastInsertIDReturningSuffix, d_DefaultValueStr = ''DEFAULT VALUES'',
      d_BuildKeyName = common_BuildKeyName, d_NormalizeIndexAndColumn = dm_NormalizeIndexAndColumn,
      d_CurrentDatabase = dm_CurrentDatabase, d_BatchCreateMaxRows = Some 1, d_BatchSaveSQL = Some dm_BatchSaveSQL\<rparr>"

text \<open>
  The registry: a map from names to dialects.  \<^verbatim>\<open>newDialect\<close> makes a fresh instance of the registered
  type, or the common dialect for an unknown name.
\<close>

type_synonym dialectsMap = "string \<rightharpoonup> Dialect"

definition RegisterDialect :: "string \<Rightarrow> Dialect \<Rightarrow> dialectsMap \<Rightarrow> dialectsMap" where
  "RegisterDialect name dialect m = m(name \<mapsto> dialect)"

definition GetDialect :: "dialectsMap \<Rightarrow> string \<Rightarrow> Dialect option" where
  "GetDialect m name = m name"

definition newDialect :: "dialectsMap \<Rightarrow> string \<Rightarrow> Dialect" where
  "newDialect m name = (case m name of Some value \<Rightarrow> value | None \<Rightarrow> common_dialect)"

definition initial_dialects :: "(string \<Rightarrow> string) \<Rightarrow> dialectsMap" where
  "initial_dialects sha1 =
     RegisterDialect ''dm'' dm_dialect (RegisterDialect ''mssql'' mssql_dialect
      (RegisterDialect ''sqlite3'' sqlite3_dialect (RegisterDialect ''cloudsqlpostgres'' postgres_dialect
       (RegisterDialect ''postgres'' postgres_dialect (RegisterDialect ''mysql'' (mysql_dialect sha1)
        (RegisterDialect ''common'' common_dialect Map.empty))))))"

text \<open>
  \<^verbatim>\<open>DB.clone\<close> asks for the dialect by the name the current one gives; for every registered
  dialect this is the dialect itself.
\<close>

definition self_named :: "dialectsMap \<Rightarrow> bool" where
  "self_named m = (\<forall>k d. m k = Some d \<longrightarrow> newDialect m (d_GetName d) = d)"

lemma dialect_names [simp]:
  "d_GetName common_dialect = ''common''" "d_GetName (mysql_dialect sha1) = ''mysql''"
  "d_GetName postgres_dialect = ''postgres''" "d_GetName sqlite3_dialect = ''sqlite3''"
  "d_GetName mssql_dialect = ''mssql''" "d_GetName dm_dialect = ''dm''"
  by (simp_all add: common_dialect_def mysql_dialect_def postgres_dialect_def sqlite3_dialect_def
      mssql_dialect_def dm_dialect_def)

lemma initial_dialects_self_named: "self_named (initial_dialects sha1)"
  unfolding self_named_def
proof (intro allI impI)
  fix k d assume "initial_dialects sha1 k = Some d"
  then have "d \<in> {common_dialect, mysql_dialect sha1, postgres_dialect, sqlite3_dialect, mssql_dialect, dm_dialect}"
    by (simp add: initial_dialects_def RegisterDialect_def split: if_splits)
  then show "newDialect (initial_dialects sha1) (d_GetName d) = d"
    by (auto simp: initial_dialects_def RegisterDialect_def newDialect_def)
qed

end
