(* ===== verification/DialectLaws.thy ===== *)
theory DialectLaws
  imports DialectTable
begin

text \<open>
  What gorm's statement builders rely on when they call a dialect, as locales, and the proof that
  the dialects of the model keep it: a limit clause is made of upper case words, digits and blanks
  only (\<open>limit_clause\<close>), quoting is injective (\<open>injective_quote\<close>) and does not introduce the dot that
  separates the parts of a qualified name (\<open>quoting\<close>).
\<close>

section \<open>Limit clauses\<close>

definition limit_char :: "char \<Rightarrow> bool" where
  "limit_char c = (is_digit c \<or> is_upper c \<or> c = CHR '' '')"

locale limit_clause =
  fixes limit_sql :: "gval \<Rightarrow> gval \<Rightarrow> string option"
  assumes nothing: "limit_sql VNil VNil = Some []"
    and harmless: "limit_sql l off = Some s \<Longrightarrow> list_all limit_char s"
    and negative: "\<lbrakk>i < 0; - (2 ^ 63) \<le> i; j < 0; - (2 ^ 63) \<le> j\<rbrakk> \<Longrightarrow> limit_sql (VInt k i) (VInt k' j) = Some []"
begin

lemma no_char: "limit_sql l off = Some s \<Longrightarrow> \<not> limit_char c \<Longrightarrow> c \<notin> set s"
  using harmless by (auto simp: list_all_iff)

lemma no_placeholder: "limit_sql l off = Some s \<Longrightarrow> count_char (CHR ''?'') s = 0"
  by (rule count_char_absent, erule no_char)
    (simp add: limit_char_def is_digit_def is_upper_def char_between_def)

lemma unlimited: "limit_sql (VInt KInt (- 1)) (VInt KInt (- 1)) = Some []"
  by (rule negative) simp_all

end

lemma limit_char_dec_nat: "list_all limit_char (dec_nat n)"
  by (auto simp: list_all_iff limit_char_def dec_nat_digits)

lemma limit_char_dec_int: "0 \<le> i \<Longrightarrow> list_all limit_char (dec_int i)"
  by (simp add: dec_int_def limit_char_dec_nat)

lemma limit_char_letters [simp]:
  "limit_char (CHR '' '')" "limit_char (CHR ''0'')"
  "limit_char (CHR ''L'')" "limit_char (CHR ''I'')" "limit_char (CHR ''M'')" "limit_char (CHR ''T'')"
  "limit_char (CHR ''O'')" "limit_char (CHR ''F'')" "limit_char (CHR ''S'')" "limit_char (CHR ''E'')"
  "limit_char (CHR ''R'')" "limit_char (CHR ''W'')" "limit_char (CHR ''C'')" "limit_char (CHR ''H'')"
  "limit_char (CHR ''N'')" "limit_char (CHR ''X'')" "limit_char (CHR ''Y'')"
  by (simp_all add: limit_char_def is_digit_def is_upper_def char_between_def)

lemma parse_int_Sprint:
  "- (2 ^ 63) \<le> i \<Longrightarrow> i < 2 ^ 63 \<Longrightarrow> common_parseInt (VInt k i) = Some i"
  by (simp add: common_parseInt_def parse_int0_dec_int)

lemma common_limit_harmless: "common_LimitAndOffsetSQL l off = Some s \<Longrightarrow> list_all limit_char s"
  by (auto simp: common_LimitAndOffsetSQL_def limit_char_dec_int split: if_splits option.splits)

lemma mysql_limit_harmless: "mysql_LimitAndOffsetSQL l off = Some s \<Longrightarrow> list_all limit_char s"
  by (auto simp: mysql_LimitAndOffsetSQL_def Let_def limit_char_dec_int split: if_splits option.splits)

lemma mssql_limit_harmless: "mssql_LimitAndOffsetSQL l off = Some s \<Longrightarrow> list_all limit_char s"
  by (auto simp: mssql_LimitAndOffsetSQL_def limit_char_dec_int split: if_splits option.splits)

lemma dm_limit_loop_harmless:
  "dm_limit_loop es sql = Some s \<Longrightarrow> list_all limit_char sql \<Longrightarrow> \<forall>e\<in>set es. list_all limit_char (fst e)
   \<Longrightarrow> list_all limit_char s"
  by (induction es sql rule: dm_limit_loop.induct)
    (auto simp: limit_char_dec_int split: if_splits option.splits)

lemma dm_limit_harmless: "dm_LimitAndOffsetSQL l off = Some s \<Longrightarrow> list_all limit_char s"
  unfolding dm_LimitAndOffsetSQL_def by (erule dm_limit_loop_harmless) simp_all

interpretation common_limit: limit_clause common_LimitAndOffsetSQL
  by unfold_locales
    (simp_all add: common_limit_harmless, simp_all add: common_LimitAndOffsetSQL_def parse_int_Sprint)

interpretation mysql_limit: limit_clause mysql_LimitAndOffsetSQL
  by unfold_locales
    (simp_all add: mysql_limit_harmless, simp_all add: mysql_LimitAndOffsetSQL_def parse_int_Sprint)

interpretation mssql_limit: limit_clause mssql_LimitAndOffsetSQL
  by unfold_locales
    (simp_all add: mssql_limit_harmless, simp_all add: mssql_LimitAndOffsetSQL_def parse_int_Sprint)

interpretation dm_limit: limit_clause dm_LimitAndOffsetSQL
  by unfold_locales
    (simp_all add: dm_limit_harmless, simp_all add: dm_LimitAndOffsetSQL_def parse_int10_dec_int)

section \<open>Quoting\<close>

locale injective_quote =
  fixes Q :: "string \<Rightarrow> string"
  assumes Q_inj: "Q a = Q b \<Longrightarrow> a = b"
begin

lemma eq_iff: "Q a = Q b \<longleftrightarrow> a = b"
  using Q_inj by auto

lemma mem_map: "Q a \<in> set (map Q xs) \<longleftrightarrow> a \<in> set xs"
  using Q_inj by auto

lemma distinct_map: "distinct (map Q xs) = distinct xs"
  by (simp add: List.distinct_map inj_on_def eq_iff)

end

locale quoting = injective_quote +
  assumes Q_dot: "CHR ''.'' \<notin> set a \<Longrightarrow> CHR ''.'' \<notin> set (Q a)"

text \<open>\<^verbatim>\<open>Scope.Quote\<close>: the parts of a qualified name are quoted one by one.\<close>

definition quote_parts :: "(string \<Rightarrow> string) \<Rightarrow> string \<Rightarrow> string" where
  "quote_parts Q str =
     (if CHR ''.'' \<in> set str then str_join ''.'' (map Q (split_char (CHR ''.'') str)) else Q str)"

lemma quote_parts_join: "quote_parts Q str = str_join ''.'' (map Q (split_char (CHR ''.'') str))"
  by (simp add: quote_parts_def split_char_single)

context quoting
begin

lemma split_quote_parts: "split_char (CHR ''.'') (quote_parts Q str) = map Q (split_char (CHR ''.'') str)"
  unfolding quote_parts_join
  by (rule split_char_join) (auto simp: Q_dot dest: split_char_no_sep)

lemma quote_parts_inj: "quote_parts Q a = quote_parts Q b \<Longrightarrow> a = b"
proof -
  assume "quote_parts Q a = quote_parts Q b"
  then have "map Q (split_char (CHR ''.'') a) = map Q (split_char (CHR ''.'') b)"
    by (metis split_quote_parts)
  then have "split_char (CHR ''.'') a = split_char (CHR ''.'') b"
    by (rule map_injective) (simp add: inj_def eq_iff)
  then show "a = b" by (metis join_split_char)
qed

end

sublocale quoting \<subseteq> parts: injective_quote "quote_parts Q"
  by unfold_locales (rule quote_parts_inj)

text \<open>DM doubles the quotes inside a name, and reading a quoted name back halves them.\<close>

abbreviation dquote :: char where "dquote \<equiv> CHR 0x22"

lemma replace_dq_Nil: "replace_all [dquote] [dquote, dquote] [] = []"
  by simp

lemma double_quotes_Cons:
  "replace_all [dquote] [dquote, dquote] (c # s) =
     (if c = dquote then [dquote, dquote] else [c]) @ replace_all [dquote] [dquote, dquote] s"
  by (simp add: replace_all_Cons has_prefix_def)

lemma halve_double: "replace_all [dquote, dquote] [dquote] (replace_all [dquote] [dquote, dquote] s) = s"
proof (induction s)
  case Nil
  then show ?case by simp
next
  case (Cons c s)
  show ?case
  proof (cases "c = dquote")
    case True
    with Cons show ?thesis by (simp add: double_quotes_Cons replace_all_Cons has_prefix_def)
  next
    case False
    with Cons show ?thesis by (simp add: double_quotes_Cons replace_all_Cons has_prefix_def)
  qed
qed

lemma unquote_dm_Quote: "dm_indexIdentifierQuoted (dm_Quote s) = s"
  by (simp add: dm_indexIdentifierQuoted_def dm_Quote_def is_quoted_name_def halve_double)

lemma dm_Quote_dot: "CHR ''.'' \<notin> set a \<Longrightarrow> CHR ''.'' \<notin> set (dm_Quote a)"
proof -
  have "CHR ''.'' \<notin> set a \<Longrightarrow> CHR ''.'' \<notin> set (replace_all [dquote] [dquote, dquote] a)"
    by (induction a) (auto simp: double_quotes_Cons)
  then show "CHR ''.'' \<notin> set a \<Longrightarrow> CHR ''.'' \<notin> set (dm_Quote a)" by (simp add: dm_Quote_def)
qed

interpretation common_q: quoting common_Quote
  by unfold_locales (simp_all add: common_Quote_def)

interpretation mysql_q: quoting mysql_Quote
  by unfold_locales (simp_all add: mysql_Quote_def)

interpretation mssql_q: quoting mssql_Quote
  by unfold_locales (simp_all add: mssql_Quote_def)

interpretation dm_q: quoting dm_Quote
  by unfold_locales (metis unquote_dm_Quote, rule dm_Quote_dot)

text \<open>The dialects that the repository registers, and what their method tables share.\<close>

definition known_dialect :: "(string \<Rightarrow> string) \<Rightarrow> Dialect \<Rightarrow> bool" where
  "known_dialect sha1 d =
     (d = common_dialect \<or> d = mysql_dialect sha1 \<or> d = postgres_dialect \<or> d = sqlite3_dialect
      \<or> d = mssql_dialect \<or> d = dm_dialect)"

lemma dialect_methods [simp]:
  "d_Quote common_dialect = common_Quote" "d_Quote (mysql_dialect sha1) = mysql_Quote"
  "d_Quote postgres_dialect = common_Quote" "d_Quote sqlite3_dialect = common_Quote"
  "d_Quote mssql_dialect = mssql_Quote" "d_Quote dm_dialect = dm_Quote"
  "d_LimitAndOffsetSQL common_dialect = common_LimitAndOffsetSQL"
  "d_LimitAndOffsetSQL (mysql_dialect sha1) = mysql_LimitAndOffsetSQL"
  "d_LimitAndOffsetSQL postgres_dialect = common_LimitAndOffsetSQL"
  "d_LimitAndOffsetSQL sqlite3_dialect = common_LimitAndOffsetSQL"
  "d_LimitAndOffsetSQL mssql_dialect = mssql_LimitAndOffsetSQL"
  "d_LimitAndOffsetSQL dm_dialect = dm_LimitAndOffsetSQL"
  "d_BindVar common_dialect = common_BindVar" "d_BindVar (mysql_dialect sha1) = common_BindVar"
  "d_BindVar postgres_dialect = postgres_BindVar" "d_BindVar sqlite3_dialect = common_BindVar"
  "d_BindVar mssql_dialect = mssql_BindVar" "d_BindVar dm_dialect = dm_BindVar"
  "d_BatchCreateMaxRows common_dialect = None" "d_BatchCreateMaxRows (mysql_dialect sha1) = None"
  "d_BatchCreateMaxRows postgres_dialect = None" "d_BatchCreateMaxRows sqlite3_dialect = None"
  "d_BatchCreateMaxRows mssql_dialect = None" "d_BatchCreateMaxRows dm_dialect = Some 1"
  "d_BatchSaveSQL common_dialect = None" "d_BatchSaveSQL (mysql_dialect sha1) = None"
  "d_BatchSaveSQL postgres_dialect = None" "d_BatchSaveSQL sqlite3_dialect = None"
  "d_BatchSaveSQL mssql_dialect = None" "d_BatchSaveSQL dm_dialect = Some dm_BatchSaveSQL"
  by (simp_all add: common_dialect_def mysql_dialect_def postgres_dialect_def sqlite3_dialect_def
      mssql_dialect_def dm_dialect_def)

lemma known_dialect_quoting: "known_dialect sha1 d \<Longrightarrow> quoting (d_Quote d)"
  unfolding known_dialect_def
  by (elim disjE)
    (simp_all add: common_q.quoting_axioms mysql_q.quoting_axioms mssql_q.quoting_axioms dm_q.quoting_axioms)

lemma known_dialect_limit: "known_dialect sha1 d \<Longrightarrow> limit_clause (d_LimitAndOffsetSQL d)"
  unfolding known_dialect_def
  by (elim disjE)
    (simp_all add: common_limit.limit_clause_axioms mysql_limit.limit_clause_axioms
      mssql_limit.limit_clause_axioms dm_limit.limit_clause_axioms)

section \<open>Key names\<close>

definition key_char :: "char \<Rightarrow> bool" where
  "key_char c = (is_alnum c \<or> c = CHR ''_'')"

lemma key_name_clean_chars: "list_all key_char (key_name_clean b s)"
  by (induction b s rule: key_name_clean.induct) (auto simp: key_char_def)

lemma key_name_clean_length: "length (key_name_clean b s) \<le> length s"
  by (induction b s rule: key_name_clean.induct) auto

fun no_double_underscore :: "string \<Rightarrow> bool" where
  "no_double_underscore (a # b # s) = (\<not> (a = CHR ''_'' \<and> b = CHR ''_'') \<and> no_double_underscore (b # s))"
| "no_double_underscore s = True"

lemma underscore_not_alnum: "is_alnum c \<Longrightarrow> c \<noteq> CHR ''_''"
  by (auto simp: is_alnum_def is_digit_def char_between_def)

lemma key_name_clean_runs:
  "no_double_underscore (key_name_clean b s) \<and> (b \<longrightarrow> key_name_clean b s = [] \<or> hd (key_name_clean b s) \<noteq> CHR ''_'')"
proof (induction b s rule: key_name_clean.induct)
  case (1 b)
  then show ?case by simp
next
  case (2 b c s)
  show ?case
  proof (cases "is_alnum c")
    case True
    with 2 show ?thesis
      by (cases "key_name_clean False s") (auto dest: underscore_not_alnum)
  next
    case False
    with 2 show ?thesis by (cases b; cases "key_name_clean True s") auto
  qed
qed

lemma key_name_clean_id:
  "list_all key_char s \<Longrightarrow> no_double_underscore s \<Longrightarrow> (b \<longrightarrow> s = [] \<or> hd s \<noteq> CHR ''_'') \<Longrightarrow> key_name_clean b s = s"
proof (induction b s rule: key_name_clean.induct)
  case (1 b)
  then show ?case by simp
next
  case (2 b c s)
  show ?case
  proof (cases "is_alnum c")
    case True
    with 2 show ?thesis by (cases s) auto
  next
    case False
    with 2 show ?thesis by (cases s) (auto simp: key_char_def)
  qed
qed

end
