(* ===== verification/Handle.thy ===== *)
theory Handle
  imports SearchState DialectLaws
begin

text \<open>
  The handle \<^verbatim>\<open>DB\<close> of \<^verbatim>\<open>main.go\<close>: its state, \<^verbatim>\<open>clone\<close>, the methods that collect conditions, the
  error that sticks to a handle, and transactions.

  \<open>genv\<close> holds what the code takes from elsewhere: the types, the database, the registered dialects,
  the naming strategy, the clock, the pluralizer and other third-party or user functions.  \<open>world\<close>
  is the mutable rest: the history of database calls, the model objects by address, the counter for
  fresh identities, the clock's reading count and the fields of the root handle (\<^verbatim>\<open>db.parent\<close>) that
  clones read through their parent.  \<open>g_assign\<close> is the conversion of a column value, as the driver
  delivers it, into a destination variable (\<^verbatim>\<open>rows.Scan\<close>).  Log lines are in \<open>Logging\<close>.
\<close>

record ModelStruct =
  ms_PrimaryFields :: "StructField list"
  ms_StructFields :: "StructField list"
  ms_ModelType :: "rtype option"

record genv =
  g_types :: types
  g_db :: dbenv
  g_dialects :: dialectsMap
  g_toDBName :: "string \<Rightarrow> string"
  g_toTableName :: "string \<Rightarrow> string"
  g_toColumnName :: "string \<Rightarrow> string"
  g_models :: "rtype \<Rightarrow> ModelStruct"
  g_plural :: "string \<Rightarrow> string"
  g_tableNameHandler :: "string \<Rightarrow> string"
  g_tabler :: "gval \<Rightarrow> string option"
  g_type_tabler :: "rtype \<Rightarrow> string option"
  g_now :: "nat \<Rightarrow> gval"
  g_convert :: "gval \<Rightarrow> rtype \<Rightarrow> gval option"
  g_scan :: "gval \<Rightarrow> rtype \<Rightarrow> (err + gval) option"
  g_assign :: "gval \<Rightarrow> rtype \<Rightarrow> err + gval"

record world =
  w_hist :: history
  w_objs :: "nat \<Rightarrow> (rtype \<times> gval list) option"
  w_next :: nat
  w_clock :: nat
  w_parent_conn :: conn
  w_singularTable :: bool

text \<open>\<^verbatim>\<open>logModeValue\<close>.\<close>

datatype logMode = defaultLogMode | noLogMode | detailedLogMode

record db =
  db_Value :: gval
  db_Error :: "err option"
  db_RowsAffected :: int
  db_conn :: conn
  db_blockGlobalUpdate :: bool
  db_logMode :: logMode
  db_search :: "search option"
  db_values :: "string \<rightharpoonup> gval"
  db_dialect :: Dialect
  db_nowFuncOverride :: "(nat \<Rightarrow> gval) option"

definition call :: "genv \<Rightarrow> dbcall \<Rightarrow> world \<Rightarrow> reply \<times> world" where
  "call G c w = (case call_db (g_db G) c (w_hist w) of (r, h) \<Rightarrow> (r, w\<lparr>w_hist := h\<rparr>))"

definition fresh :: "world \<Rightarrow> nat \<times> world" where
  "fresh w = (w_next w, w\<lparr>w_next := Suc (w_next w)\<rparr>)"

text \<open>\<^verbatim>\<open>errors.New\<close> and \<^verbatim>\<open>fmt.Errorf\<close>.\<close>

definition new_error :: "string \<Rightarrow> world \<Rightarrow> err \<times> world" where
  "new_error msg w = (case fresh w of (n, w) \<Rightarrow> (ErrText n msg, w))"

section \<open>Errors of a handle\<close>

definition GetErrors :: "db \<Rightarrow> err list" where
  "GetErrors s = (case db_Error s of Some (Errors errs) \<Rightarrow> errs | Some e \<Rightarrow> [e] | None \<Rightarrow> [])"

definition AddError :: "err option \<Rightarrow> db \<Rightarrow> err option \<times> db" where
  "AddError e s =
     (case e of
        None \<Rightarrow> (None, s)
      | Some err \<Rightarrow>
         (let err = (if err \<noteq> ErrRecordNotFound
                     then (let errors = errors_Add (GetErrors s) [Some err]
                           in if length errors > 1 then Errors errors else err)
                     else err)
          in (Some err, s\<lparr>db_Error := Some err\<rparr>)))"

definition add_err :: "err option \<Rightarrow> db \<Rightarrow> db" where
  "add_err e s = snd (AddError e s)"

definition RecordNotFound :: "db \<Rightarrow> bool" where
  "RecordNotFound s = (List.find (\<lambda>err. err = ErrRecordNotFound) (GetErrors s) \<noteq> None)"

section \<open>clone and settings\<close>

definition DB_clone :: "genv \<Rightarrow> db \<Rightarrow> db" where
  "DB_clone G s =
     \<lparr>db_Value = db_Value s, db_Error = db_Error s, db_RowsAffected = 0, db_conn = db_conn s,
      db_blockGlobalUpdate = db_blockGlobalUpdate s, db_logMode = db_logMode s,
      db_search = Some (case db_search s of
                          None \<Rightarrow> empty_search\<lparr>s_limit := VInt KInt (- 1), s_offset := VInt KInt (- 1)\<rparr>
                        | Some sr \<Rightarrow> search_clone sr),
      db_values = db_values s,
      db_dialect = newDialect (g_dialects G) (d_GetName (db_dialect s)),
      db_nowFuncOverride = db_nowFuncOverride s\<rparr>"

definition DB_New :: "genv \<Rightarrow> db \<Rightarrow> db" where
  "DB_New G s = (DB_clone G s)\<lparr>db_search := None, db_Value := VNil\<rparr>"

definition DB_Model :: "genv \<Rightarrow> gval \<Rightarrow> db \<Rightarrow> db" where
  "DB_Model G value s = (DB_clone G s)\<lparr>db_Value := value\<rparr>"

definition InstantSet :: "string \<Rightarrow> gval \<Rightarrow> db \<Rightarrow> db" where
  "InstantSet name value s = s\<lparr>db_values := (db_values s)(name \<mapsto> value)\<rparr>"

definition DB_Set :: "genv \<Rightarrow> string \<Rightarrow> gval \<Rightarrow> db \<Rightarrow> db" where
  "DB_Set G name value s = InstantSet name value (DB_clone G s)"

definition DB_Get :: "db \<Rightarrow> string \<Rightarrow> gval option" where
  "DB_Get s name = db_values s name"

definition DB_LogMode :: "bool \<Rightarrow> db \<Rightarrow> db" where
  "DB_LogMode enable s = s\<lparr>db_logMode := (if enable then detailedLogMode else noLogMode)\<rparr>"

definition DB_Debug :: "genv \<Rightarrow> db \<Rightarrow> db" where
  "DB_Debug G s = DB_LogMode True (DB_clone G s)"

definition SetNowFuncOverride :: "(nat \<Rightarrow> gval) option \<Rightarrow> db \<Rightarrow> db" where
  "SetNowFuncOverride f s = s\<lparr>db_nowFuncOverride := f\<rparr>"

text \<open>\<^verbatim>\<open>nowFunc\<close> and \<^verbatim>\<open>NowFunc\<close>: each reading of a clock is a new one.\<close>

definition nowFunc :: "genv \<Rightarrow> db \<Rightarrow> world \<Rightarrow> gval \<times> world" where
  "nowFunc G s w =
     ((case db_nowFuncOverride s of Some f \<Rightarrow> f (w_clock w) | None \<Rightarrow> g_now G (w_clock w)),
      w\<lparr>w_clock := Suc (w_clock w)\<rparr>)"

definition BlockGlobalUpdate :: "bool \<Rightarrow> db \<Rightarrow> db" where
  "BlockGlobalUpdate enable s = s\<lparr>db_blockGlobalUpdate := enable\<rparr>"

definition HasBlockGlobalUpdate :: "db \<Rightarrow> bool" where
  "HasBlockGlobalUpdate s = db_blockGlobalUpdate s"

definition SingularTable :: "bool \<Rightarrow> world \<Rightarrow> world" where
  "SingularTable enable w = w\<lparr>w_singularTable := enable\<rparr>"

section \<open>Conditions\<close>

text \<open>\<^verbatim>\<open>s.clone().search.X(...).db\<close>: the operation acts on the clone's own search.\<close>

definition on_search :: "(search \<Rightarrow> search) \<Rightarrow> db \<Rightarrow> db" where
  "on_search f s = s\<lparr>db_search := map_option f (db_search s)\<rparr>"

definition DB_Where :: "genv \<Rightarrow> gval \<Rightarrow> gval list \<Rightarrow> db \<Rightarrow> db" where
  "DB_Where G query args s = on_search (search_Where query args) (DB_clone G s)"

definition DB_Or :: "genv \<Rightarrow> gval \<Rightarrow> gval list \<Rightarrow> db \<Rightarrow> db" where
  "DB_Or G query args s = on_search (search_Or query args) (DB_clone G s)"

definition DB_Not :: "genv \<Rightarrow> gval \<Rightarrow> gval list \<Rightarrow> db \<Rightarrow> db" where
  "DB_Not G query args s = on_search (search_Not query args) (DB_clone G s)"

definition DB_Limit :: "genv \<Rightarrow> gval \<Rightarrow> db \<Rightarrow> db" where
  "DB_Limit G limit s = on_search (search_Limit limit) (DB_clone G s)"

definition DB_Offset :: "genv \<Rightarrow> gval \<Rightarrow> db \<Rightarrow> db" where
  "DB_Offset G offset s = on_search (search_Offset offset) (DB_clone G s)"

definition DB_Order :: "genv \<Rightarrow> gval \<Rightarrow> bool list \<Rightarrow> db \<Rightarrow> db" where
  "DB_Order G value reorder s = on_search (search_Order value reorder) (DB_clone G s)"

definition DB_Select :: "genv \<Rightarrow> gval \<Rightarrow> gval list \<Rightarrow> db \<Rightarrow> db" where
  "DB_Select G query args s = on_search (search_Select query args) (DB_clone G s)"

definition DB_Omit :: "genv \<Rightarrow> string list \<Rightarrow> db \<Rightarrow> db" where
  "DB_Omit G columns s = on_search (search_Omit columns) (DB_clone G s)"

definition DB_Group :: "genv \<Rightarrow> string \<Rightarrow> db \<Rightarrow> db" where
  "DB_Group G query s =
     (let c = DB_clone G s
      in case db_search c of
           None \<Rightarrow> c
         | Some sr \<Rightarrow> (case search_Group query sr of (sr, e) \<Rightarrow> add_err e (c\<lparr>db_search := Some sr\<rparr>)))"

definition DB_Having :: "genv \<Rightarrow> gval \<Rightarrow> gval list \<Rightarrow> db \<Rightarrow> db" where
  "DB_Having G query args s = on_search (search_Having query args) (DB_clone G s)"

definition DB_Joins :: "genv \<Rightarrow> string \<Rightarrow> gval list \<Rightarrow> db \<Rightarrow> db" where
  "DB_Joins G query args s = on_search (search_Joins query args) (DB_clone G s)"

definition DB_Scopes :: "(db \<Rightarrow> db) list \<Rightarrow> db \<Rightarrow> db" where
  "DB_Scopes funcs s = fold (\<lambda>f s. f s) funcs s"

definition DB_Unscoped :: "genv \<Rightarrow> db \<Rightarrow> db" where
  "DB_Unscoped G s = on_search search_unscoped (DB_clone G s)"

definition DB_Attrs :: "genv \<Rightarrow> gval list \<Rightarrow> db \<Rightarrow> db" where
  "DB_Attrs G attrs s = on_search (search_Attrs attrs) (DB_clone G s)"

definition DB_Assign :: "genv \<Rightarrow> gval list \<Rightarrow> db \<Rightarrow> db" where
  "DB_Assign G attrs s = on_search (search_Assign attrs) (DB_clone G s)"

definition DB_Raw :: "genv \<Rightarrow> string \<Rightarrow> gval list \<Rightarrow> db \<Rightarrow> db" where
  "DB_Raw G sql vals s = on_search (\<lambda>sr. search_Where (VStr sql) vals (search_Raw True sr)) (DB_clone G s)"

definition DB_Table :: "genv \<Rightarrow> string \<Rightarrow> db \<Rightarrow> db" where
  "DB_Table G name s = (on_search (search_Table name) (DB_clone G s))\<lparr>db_Value := VNil\<rparr>"

definition DB_Preload :: "genv \<Rightarrow> string \<Rightarrow> gval list \<Rightarrow> db \<Rightarrow> db" where
  "DB_Preload G column conditions s = on_search (search_Preload column conditions) (DB_clone G s)"

section \<open>Transactions\<close>

text \<open>\<^verbatim>\<open>BeginTx\<close>: a failed one leaves the nil transaction in the clone.\<close>

definition DB_Begin :: "genv \<Rightarrow> db \<Rightarrow> world \<Rightarrow> db \<times> world" where
  "DB_Begin G s w =
     (let c = DB_clone G s
      in if is_sqlDb (db_conn c)
         then (case fresh w of (t, w) \<Rightarrow>
               case call G (CallBegin t) w of (r, w) \<Rightarrow>
                 (add_err (r_err r) (c\<lparr>db_conn := (if r_err r = None then ConnTx t else ConnNilTx)\<rparr>), w))
         else (add_err (Some ErrCantStartTransaction) c, w))"

definition DB_Commit :: "genv \<Rightarrow> db \<Rightarrow> world \<Rightarrow> db \<times> world" where
  "DB_Commit G s w =
     (case db_conn s of
        ConnTx t \<Rightarrow> (case call G (CallCommit t) w of (r, w) \<Rightarrow> (add_err (r_err r) s, w))
      | _ \<Rightarrow> (add_err (Some ErrInvalidTransaction) s, w))"

definition DB_Rollback :: "genv \<Rightarrow> db \<Rightarrow> world \<Rightarrow> db \<times> world" where
  "DB_Rollback G s w =
     (case db_conn s of
        ConnTx t \<Rightarrow> (case call G (CallRollback t) w of (r, w) \<Rightarrow>
                      (if r_err r \<noteq> None \<and> r_err r \<noteq> Some ErrTxDone then add_err (r_err r) s else s, w))
      | _ \<Rightarrow> (add_err (Some ErrInvalidTransaction) s, w))"

definition RollbackUnlessCommitted :: "genv \<Rightarrow> db \<Rightarrow> world \<Rightarrow> db \<times> world" where
  "RollbackUnlessCommitted G s w =
     (case db_conn s of
        ConnTx t \<Rightarrow> (case call G (CallRollback t) w of (r, w) \<Rightarrow>
                      (if r_err r \<noteq> Some ErrTxDone then add_err (r_err r) s else s, w))
      | _ \<Rightarrow> (add_err (Some ErrInvalidTransaction) s, w))"

text \<open>
  \<^verbatim>\<open>Transaction\<close> with a user function that returns nil or an error, or panics; the function may
  change the handle it is given and the world.
\<close>

datatype fc_result = FcNil | FcErr err | FcPanic

datatype tx_outcome = TxReturned "err option" | TxPanicked

definition DB_Transaction :: "genv \<Rightarrow> (db \<Rightarrow> world \<Rightarrow> fc_result \<times> db \<times> world) \<Rightarrow> db \<Rightarrow> world \<Rightarrow> tx_outcome \<times> world" where
  "DB_Transaction G fc s w =
     (if is_sqlTx (db_conn s)
      then (case fc s w of (r, s, w) \<Rightarrow>
              ((case r of FcNil \<Rightarrow> TxReturned None | FcErr e \<Rightarrow> TxReturned (Some e) | FcPanic \<Rightarrow> TxPanicked), w))
      else (case DB_Begin G s w of (tx, w) \<Rightarrow>
            case fc tx w of (r, tx, w) \<Rightarrow>
              (case r of
                 FcPanic \<Rightarrow> (TxPanicked, snd (DB_Rollback G tx w))
               | FcErr e \<Rightarrow> (TxReturned (Some e), snd (DB_Rollback G tx w))
               | FcNil \<Rightarrow> (case DB_Commit G tx w of (tx, w) \<Rightarrow>
                            (TxReturned (db_Error tx),
                             if db_Error tx \<noteq> None then snd (DB_Rollback G tx w) else w)))))"

end
