(* ===== verification/ScopeCore.thy ===== *)
theory ScopeCore
  imports Handle
begin

text \<open>
  The scope of one operation (\<^verbatim>\<open>scope.go\<close>) and its basic operations: the fields of the value, lookups,
  setting a field (\<^verbatim>\<open>Field.Set\<close> of \<^verbatim>\<open>field.go\<close>) or a column, bind variables, the table name,
  executing the statement, and the transaction a scope opens.

  A scope holds the handle it works on and the world, so its operations are functions from scope to
  scope.  A model object lives in the world's object store under an address; its values are listed in
  the order of the model's struct fields (embedded structs flattened, as \<^verbatim>\<open>StructField.Names\<close> flattens
  them).  A slice is an object too, with its elements as values.  A \<^verbatim>\<open>*Field\<close> is an index into the
  scope's fields; a field knows where its value lives and caches whether it was blank when last set.
  \<open>sc_row_result\<close> is what the row query callback has put into the result object it was given.
\<close>

datatype fref = FRef nat nat | FVal gval | FInvalid

record Field =
  f_sf :: StructField
  f_IsBlank :: bool
  f_ref :: fref

record scope =
  sc_Search :: search
  sc_Value :: gval
  sc_SQL :: string
  sc_SQLVars :: "gval list"
  sc_db :: db
  sc_instanceID :: string
  sc_skipLeft :: bool
  sc_skipBindVarKnown :: bool
  sc_skipBindVar :: bool
  sc_fields :: "Field list option"
  sc_selectAttrs :: "string list option"
  sc_row_result :: "reply option"
  sc_w :: world

definition new_scope :: "db \<Rightarrow> search \<Rightarrow> gval \<Rightarrow> world \<Rightarrow> scope" where
  "new_scope db search value w =
     \<lparr>sc_Search = search, sc_Value = value, sc_SQL = [], sc_SQLVars = [], sc_db = db, sc_instanceID = [],
      sc_skipLeft = False, sc_skipBindVarKnown = False, sc_skipBindVar = False, sc_fields = None,
      sc_selectAttrs = None, sc_row_result = None, sc_w = w\<rparr>"

text \<open>\<^verbatim>\<open>DB.NewScope\<close>, \<^verbatim>\<open>Scope.NewDB\<close>, \<^verbatim>\<open>Scope.New\<close>.\<close>

definition NewScope :: "genv \<Rightarrow> db \<Rightarrow> gval \<Rightarrow> world \<Rightarrow> scope" where
  "NewScope G s value w =
     new_scope ((DB_clone G s)\<lparr>db_Value := value\<rparr>)
       (case db_search s of Some sr \<Rightarrow> search_clone sr | None \<Rightarrow> empty_search) value w"

definition Scope_NewDB :: "genv \<Rightarrow> scope \<Rightarrow> db" where
  "Scope_NewDB G sc = (DB_clone G (sc_db sc))\<lparr>db_search := None, db_Value := VNil\<rparr>"

definition Scope_New :: "genv \<Rightarrow> gval \<Rightarrow> scope \<Rightarrow> scope" where
  "Scope_New G value sc = new_scope (Scope_NewDB G sc) empty_search value (sc_w sc)"

definition Dialect_of :: "scope \<Rightarrow> Dialect" where
  "Dialect_of sc = db_dialect (sc_db sc)"

definition Scope_Quote :: "scope \<Rightarrow> string \<Rightarrow> string" where
  "Scope_Quote sc str = quote_parts (d_Quote (Dialect_of sc)) str"

definition Scope_Err :: "err option \<Rightarrow> scope \<Rightarrow> scope" where
  "Scope_Err e sc = (if e \<noteq> None then sc\<lparr>sc_db := add_err e (sc_db sc)\<rparr> else sc)"

definition HasError :: "scope \<Rightarrow> bool" where
  "HasError sc = (db_Error (sc_db sc) \<noteq> None)"

definition SkipLeft :: "scope \<Rightarrow> scope" where
  "SkipLeft sc = sc\<lparr>sc_skipLeft := True\<rparr>"

definition scope_error :: "string \<Rightarrow> scope \<Rightarrow> scope" where
  "scope_error msg sc = (case new_error msg (sc_w sc) of (e, w) \<Rightarrow> Scope_Err (Some e) (sc\<lparr>sc_w := w\<rparr>))"

section \<open>The value and its fields\<close>

definition obj_value :: "world \<Rightarrow> nat \<Rightarrow> nat \<Rightarrow> gval" where
  "obj_value w a i =
     (case w_objs w a of
        Some (t, vs) \<Rightarrow> if i < length vs then vs ! i else VNil
      | None \<Rightarrow> VNil)"

definition set_obj_value :: "nat \<Rightarrow> nat \<Rightarrow> gval \<Rightarrow> world \<Rightarrow> world" where
  "set_obj_value a i v w =
     (case w_objs w a of
        Some (t, vs) \<Rightarrow> w\<lparr>w_objs := (w_objs w)(a \<mapsto> (t, vs[i := v]))\<rparr>
      | None \<Rightarrow> w)"

definition value_type :: "world \<Rightarrow> gval \<Rightarrow> rtype option" where
  "value_type w v =
     (case v of
        VObj a \<Rightarrow> map_option fst (w_objs w a)
      | VStruct t fs \<Rightarrow> Some t
      | VSlice t vs \<Rightarrow> Some t
      | _ \<Rightarrow> None)"

text \<open>\<^verbatim>\<open>scope.IndirectValue().Kind()\<close>.\<close>

definition indirect_kind :: "genv \<Rightarrow> world \<Rightarrow> gval \<Rightarrow> kind" where
  "indirect_kind G w v =
     (case v of
        VObj a \<Rightarrow> (case w_objs w a of Some (t, vs) \<Rightarrow> t_kind (g_types G t) | None \<Rightarrow> KInvalid)
      | VPtr a (Some u) \<Rightarrow> vkind u
      | VPtr a None \<Rightarrow> KInvalid
      | _ \<Rightarrow> vkind v)"

fun elem_type :: "nat \<Rightarrow> types \<Rightarrow> rtype \<Rightarrow> rtype" where
  "elem_type 0 RT t = t"
| "elem_type (Suc n) RT t =
     (if t_kind (RT t) = KSlice \<or> t_kind (RT t) = KPtr then elem_type n RT (t_elem (RT t)) else t)"

lemma elem_type_plain: "t_kind (RT t) \<noteq> KSlice \<Longrightarrow> t_kind (RT t) \<noteq> KPtr \<Longrightarrow> elem_type n RT t = t"
  by (cases n) simp_all

definition empty_ModelStruct :: ModelStruct where
  "empty_ModelStruct = \<lparr>ms_PrimaryFields = [], ms_StructFields = [], ms_ModelType = None\<rparr>"

text \<open>\<^verbatim>\<open>GetModelStruct\<close>: the model of the struct type behind slices and pointers; none for other values.\<close>

definition GetModelStruct :: "genv \<Rightarrow> scope \<Rightarrow> ModelStruct" where
  "GetModelStruct G sc =
     (case value_type (sc_w sc) (sc_Value sc) of
        None \<Rightarrow> empty_ModelStruct
      | Some t \<Rightarrow>
         (let t = elem_type type_fuel (g_types G) t
          in if t_kind (g_types G t) = KStruct then g_models G t else empty_ModelStruct))"

definition GetStructFields :: "genv \<Rightarrow> scope \<Rightarrow> StructField list" where
  "GetStructFields G sc = ms_StructFields (GetModelStruct G sc)"

text \<open>
  \<^verbatim>\<open>isBlank\<close> of a field's value.  A struct held by value is, like a pointer to one, an object of its
  own; it is blank (\<^verbatim>\<open>DeepEqual\<close> to the zero value) when its fields are.  The fuel bounds the nesting.
\<close>

fun struct_blank :: "nat \<Rightarrow> genv \<Rightarrow> world \<Rightarrow> rtype \<Rightarrow> gval \<Rightarrow> bool" where
  "struct_blank 0 G w t v = isBlank v"
| "struct_blank (Suc n) G w t v =
     (case v of
        VObj a \<Rightarrow>
          (if t_kind (g_types G t) = KStruct
           then (case w_objs w a of
                   Some (t', vs) \<Rightarrow>
                     list_all (\<lambda>(sf, u). struct_blank n G w (m_type (sf_Struct sf)) u) (zip (ms_StructFields (g_models G t')) vs)
                 | None \<Rightarrow> False)
           else False)
      | _ \<Rightarrow> isBlank v)"

definition value_blank :: "genv \<Rightarrow> world \<Rightarrow> StructField \<Rightarrow> gval \<Rightarrow> bool" where
  "value_blank G w sf v = struct_blank type_fuel G w (m_type (sf_Struct sf)) v"

lemma struct_blank_plain: "(\<forall>a. v \<noteq> VObj a) \<Longrightarrow> struct_blank n G w t v = isBlank v"
  by (cases n; cases v) simp_all

lemma value_blank_plain [simp]: "(\<forall>a. v \<noteq> VObj a) \<Longrightarrow> value_blank G w sf v = isBlank v"
  by (simp add: value_blank_def struct_blank_plain)

definition make_field :: "genv \<Rightarrow> scope \<Rightarrow> bool \<Rightarrow> nat \<times> StructField \<Rightarrow> Field" where
  "make_field G sc isStruct p =
     (if isStruct then
        (case sc_Value sc of
           VObj a \<Rightarrow>
            \<lparr>f_sf = snd p, f_IsBlank = value_blank G (sc_w sc) (snd p) (obj_value (sc_w sc) a (fst p)),
             f_ref = FRef a (fst p)\<rparr>
         | VStruct t fs \<Rightarrow>
            (let v = (if fst p < length fs then snd (fs ! fst p) else VNil)
             in \<lparr>f_sf = snd p, f_IsBlank = value_blank G (sc_w sc) (snd p) v, f_ref = FVal v\<rparr>)
         | _ \<Rightarrow> \<lparr>f_sf = snd p, f_IsBlank = True, f_ref = FInvalid\<rparr>)
      else \<lparr>f_sf = snd p, f_IsBlank = True, f_ref = FInvalid\<rparr>)"

definition compute_fields :: "genv \<Rightarrow> scope \<Rightarrow> Field list" where
  "compute_fields G sc =
     (let isStruct = indirect_kind G (sc_w sc) (sc_Value sc) = KStruct
      in map (make_field G sc isStruct) (enumerate 0 (GetStructFields G sc)))"

text \<open>\<^verbatim>\<open>Fields\<close> computes once.  \<open>cache_fields\<close> is its effect, \<open>Fields\<close> its result.\<close>

definition Fields :: "genv \<Rightarrow> scope \<Rightarrow> Field list" where
  "Fields G sc = (case sc_fields sc of Some fs \<Rightarrow> fs | None \<Rightarrow> compute_fields G sc)"

definition cache_fields :: "genv \<Rightarrow> scope \<Rightarrow> scope" where
  "cache_fields G sc = sc\<lparr>sc_fields := Some (Fields G sc)\<rparr>"

definition field_value :: "world \<Rightarrow> Field \<Rightarrow> gval" where
  "field_value w f = (case f_ref f of FRef a i \<Rightarrow> obj_value w a i | FVal v \<Rightarrow> v | FInvalid \<Rightarrow> VNil)"

definition f_DBName :: "Field \<Rightarrow> string" where "f_DBName f = sf_DBName (f_sf f)"
definition f_Name :: "Field \<Rightarrow> string" where "f_Name f = sf_Name (f_sf f)"

text \<open>\<^verbatim>\<open>FieldByName\<close>: a field of that name or column first, else the last one with the derived column.\<close>

fun field_by_name :: "string \<Rightarrow> string \<Rightarrow> Field list \<Rightarrow> nat \<Rightarrow> nat option \<Rightarrow> nat option" where
  "field_by_name name dbName [] i mostMatched = mostMatched"
| "field_by_name name dbName (f # fs) i mostMatched =
     (if f_Name f = name \<or> f_DBName f = name then Some i
      else field_by_name name dbName fs (Suc i) (if f_DBName f = dbName then Some i else mostMatched))"

definition FieldByName :: "genv \<Rightarrow> scope \<Rightarrow> string \<Rightarrow> nat option" where
  "FieldByName G sc name = field_by_name name (g_toColumnName G name) (Fields G sc) 0 None"

definition field_at :: "genv \<Rightarrow> scope \<Rightarrow> nat \<Rightarrow> Field" where
  "field_at G sc i = Fields G sc ! i"

definition PrimaryFields :: "genv \<Rightarrow> scope \<Rightarrow> Field list" where
  "PrimaryFields G sc = filter (\<lambda>f. sf_IsPrimaryKey (f_sf f)) (Fields G sc)"

definition PrimaryField_index :: "genv \<Rightarrow> scope \<Rightarrow> nat option" where
  "PrimaryField_index G sc =
     (let primaryFields = ms_PrimaryFields (GetModelStruct G sc);
          first = List.find (\<lambda>i. sf_IsPrimaryKey (f_sf (field_at G sc i))) [0..<length (Fields G sc)]
      in if length primaryFields > 0
         then (if length primaryFields > 1
               then (case FieldByName G sc ''id'' of Some i \<Rightarrow> Some i | None \<Rightarrow> first)
               else first)
         else None)"

definition PrimaryField :: "genv \<Rightarrow> scope \<Rightarrow> Field option" where
  "PrimaryField G sc = map_option (field_at G sc) (PrimaryField_index G sc)"

definition PrimaryKey :: "genv \<Rightarrow> scope \<Rightarrow> string" where
  "PrimaryKey G sc = (case PrimaryField G sc of Some f \<Rightarrow> f_DBName f | None \<Rightarrow> [])"

definition PrimaryKeyZero :: "genv \<Rightarrow> scope \<Rightarrow> bool" where
  "PrimaryKeyZero G sc = (case PrimaryField G sc of Some f \<Rightarrow> f_IsBlank f | None \<Rightarrow> True)"

definition PrimaryKeyValue :: "genv \<Rightarrow> scope \<Rightarrow> gval" where
  "PrimaryKeyValue G sc =
     (case PrimaryField G sc of
        Some f \<Rightarrow> if f_ref f \<noteq> FInvalid then field_value (sc_w sc) f else VInt KInt 0
      | None \<Rightarrow> VInt KInt 0)"

definition HasColumn :: "genv \<Rightarrow> scope \<Rightarrow> string \<Rightarrow> bool" where
  "HasColumn G sc column =
     (List.find (\<lambda>f. sf_IsNormal f \<and> (sf_Name f = column \<or> sf_DBName f = column)) (GetStructFields G sc) \<noteq> None)"

section \<open>Instance settings\<close>

text \<open>
  \<^verbatim>\<open>InstanceID\<close> is the text of two addresses that no other scope has: a fresh number.
\<close>

definition InstanceID :: "scope \<Rightarrow> string \<times> scope" where
  "InstanceID sc =
     (if sc_instanceID sc = []
      then (case fresh (sc_w sc) of (n, w) \<Rightarrow>
             (let i = ''0x'' @ hex_nat n in (i, sc\<lparr>sc_instanceID := i, sc_w := w\<rparr>)))
      else (sc_instanceID sc, sc))"

definition Scope_Set :: "string \<Rightarrow> gval \<Rightarrow> scope \<Rightarrow> scope" where
  "Scope_Set name value sc = sc\<lparr>sc_db := InstantSet name value (sc_db sc)\<rparr>"

definition Scope_Get :: "scope \<Rightarrow> string \<Rightarrow> gval option" where
  "Scope_Get sc name = DB_Get (sc_db sc) name"

definition InstanceSet :: "string \<Rightarrow> gval \<Rightarrow> scope \<Rightarrow> scope" where
  "InstanceSet name value sc =
     (let sc = (if name = ''skip_bindvar'' then sc\<lparr>sc_skipBindVar := True, sc_skipBindVarKnown := True\<rparr> else sc)
      in case InstanceID sc of (i, sc) \<Rightarrow> Scope_Set (name @ i) value sc)"

definition InstanceGet :: "string \<Rightarrow> scope \<Rightarrow> gval option \<times> scope" where
  "InstanceGet name sc = (case InstanceID sc of (i, sc) \<Rightarrow> (Scope_Get sc (name @ i), sc))"

end
