(* ===== verification/ScopeOps.thy ===== *)
theory ScopeOps
  imports ScopeCore
begin

text \<open>
  The operations of a scope that change it: setting fields and columns, bind variables, calling the
  model's hook methods, the table name, executing SQL, and the scope's transaction.
\<close>

section \<open>Field.Set\<close>

text \<open>
  \<^verbatim>\<open>reflect\<close>'s \<^verbatim>\<open>ConvertibleTo\<close> and \<^verbatim>\<open>Convert\<close> for the values gorm itself stores (integers, booleans,
  strings, byte slices, times); conversions of other values (floats, user types) are the parameter
  \<open>g_convert\<close>.
\<close>

definition reflect_convert :: "genv \<Rightarrow> gval \<Rightarrow> rtype \<Rightarrow> gval option" where
  "reflect_convert G v t =
     (let T = g_types G t; k = t_kind T in
      case v of
        VInt k0 i \<Rightarrow> if is_int_kind k then Some (VInt k (wrap_int k i)) else g_convert G v t
      | VBool b \<Rightarrow> if k = KBool then Some (VBool b) else g_convert G v t
      | VStr s \<Rightarrow> if k = KString then Some (VStr s)
                 else if is_byte_slice_type (g_types G) T then Some (VBytes (Some s)) else g_convert G v t
      | VBytes b \<Rightarrow> if k = KString then Some (VStr (case b of None \<Rightarrow> [] | Some s \<Rightarrow> s))
                   else if is_byte_slice_type (g_types G) T then Some (VBytes b) else g_convert G v t
      | VTime n s \<Rightarrow> if is_time_type T then Some (VTime n s) else g_convert G v t
      | _ \<Rightarrow> g_convert G v t)"

text \<open>\<^verbatim>\<open>reflect.Zero\<close>.\<close>

definition zero_value :: "genv \<Rightarrow> rtype \<Rightarrow> gval" where
  "zero_value G t =
     (let T = g_types G t; k = t_kind T in
      if is_int_kind k then VInt k 0
      else if k = KBool then VBool False
      else if k = KString then VStr []
      else if k \<in> {KFloat32, KFloat64} then VFloat k True ''0''
      else if is_byte_slice_type (g_types G) T then VBytes None
      else if is_time_type T then VTime 0 ''0001-01-01 00:00:00 +0000 UTC''
      else if k = KPtr then VPtr 0 None
      else if k = KSlice then VSlice (t_elem T) None
      else VOpaque k True [])"

text \<open>What \<^verbatim>\<open>Set\<close> stores, and its error; the value is \<open>Inl\<close> the message of a new error.\<close>

definition convert_or_scan :: "genv \<Rightarrow> string \<Rightarrow> gval \<Rightarrow> rtype \<Rightarrow> (string + err + gval)" where
  "convert_or_scan G name v t =
     (case reflect_convert G v t of
        Some u \<Rightarrow> Inr (Inr u)
      | None \<Rightarrow>
         (let scanned = (case v of
                           VValuer z s (Inl e) \<Rightarrow> if g_scan G v t = None then None else Some (Inl (ErrExt 0 e))
                         | VValuer z s (Inr d) \<Rightarrow> g_scan G d t
                         | _ \<Rightarrow> g_scan G v t)
          in case scanned of
               Some r \<Rightarrow> Inr r
             | None \<Rightarrow> Inl (''could not convert argument of field '' @ name)))"

definition set_ref_value :: "fref \<Rightarrow> gval \<Rightarrow> world \<Rightarrow> world" where
  "set_ref_value r v w = (case r of FRef a i \<Rightarrow> set_obj_value a i v w | _ \<Rightarrow> w)"

definition Field_Set :: "genv \<Rightarrow> gval \<Rightarrow> Field \<Rightarrow> world \<Rightarrow> err option \<times> Field \<times> world" where
  "Field_Set G value f w =
     (case f_ref f of
        FInvalid \<Rightarrow> (case new_error ''field value not valid'' w of (e, w) \<Rightarrow> (Some e, f, w))
      | FVal _ \<Rightarrow> (Some ErrUnaddressable, f, w)
      | FRef a i \<Rightarrow>
         (let t = m_type (sf_Struct (f_sf f));
              (e, w) =
                (if value = VNil then (None, set_obj_value a i (zero_value G t) w)
                 else case reflect_convert G value t of
                        Some u \<Rightarrow> (None, set_obj_value a i u w)
                      | None \<Rightarrow>
                         (let (ptr, w, elem_t) =
                            (if t_kind (g_types G t) = KPtr
                             then (case obj_value w a i of
                                     VPtr p (Some u) \<Rightarrow> (Some p, w, t_elem (g_types G t))
                                   | _ \<Rightarrow> (case fresh w of (p, w) \<Rightarrow>
                                            (Some p, set_obj_value a i (VPtr p (Some (zero_value G (t_elem (g_types G t))))) w,
                                             t_elem (g_types G t))))
                             else (None, w, t));
                              store = (\<lambda>u w. set_obj_value a i (case ptr of Some p \<Rightarrow> VPtr p (Some u) | None \<Rightarrow> u) w)
                          in case convert_or_scan G (f_Name f) value elem_t of
                               Inl msg \<Rightarrow> (case new_error msg w of (e, w) \<Rightarrow> (Some e, w))
                             | Inr (Inl e) \<Rightarrow> (Some e, w)
                             | Inr (Inr u) \<Rightarrow> (None, store u w)))
          in (e, f\<lparr>f_IsBlank := value_blank G w (f_sf f) (obj_value w a i)\<rparr>, w)))"

text \<open>Setting field \<open>i\<close> of the scope.\<close>

definition set_field :: "genv \<Rightarrow> nat \<Rightarrow> gval \<Rightarrow> scope \<Rightarrow> err option \<times> scope" where
  "set_field G i value sc =
     (case Field_Set G value (field_at G sc i) (sc_w sc) of
        (e, f, w) \<Rightarrow> (e, sc\<lparr>sc_fields := Some ((Fields G sc)[i := f]), sc_w := w\<rparr>))"

text \<open>The loop of \<^verbatim>\<open>SetColumn\<close> for a name: \<open>Inl\<close> a field to set at once, \<open>Inr\<close> the best match.\<close>

fun column_match :: "string \<Rightarrow> string \<Rightarrow> gval \<Rightarrow> Field list \<Rightarrow> nat \<Rightarrow> nat option \<Rightarrow> nat + nat option" where
  "column_match name dbName value [] i mostMatched = Inr mostMatched"
| "column_match name dbName value (f # fs) i mostMatched =
     (if VStr (f_DBName f) = value then Inl i
      else column_match name dbName value fs (Suc i)
             (if \<not> sf_IsIgnored (f_sf f) \<and> (f_DBName f = dbName \<or> (f_Name f = name \<and> mostMatched = None))
              then Some i else mostMatched))"

definition set_update_attr :: "gval option \<Rightarrow> string \<Rightarrow> gval \<Rightarrow> scope \<Rightarrow> scope" where
  "set_update_attr attrs dbName value sc =
     (case attrs of
        Some (VMap m) \<Rightarrow> InstanceSet ''gorm:update_attrs'' (VMap (alist_set dbName value m)) sc
      | _ \<Rightarrow> sc)"

definition SetColumn :: "genv \<Rightarrow> string \<Rightarrow> gval \<Rightarrow> scope \<Rightarrow> err option \<times> scope" where
  "SetColumn G name value sc =
     (case InstanceGet ''gorm:update_attrs'' sc of (attrs, sc) \<Rightarrow>
      case column_match name (g_toDBName G name) value (Fields G sc) 0 None of
        Inl i \<Rightarrow> set_field G i value (set_update_attr attrs (f_DBName (field_at G sc i)) value sc)
      | Inr (Some i) \<Rightarrow> set_field G i value (set_update_attr attrs (f_DBName (field_at G sc i)) value sc)
      | Inr None \<Rightarrow> (case new_error ''could not convert column to field'' (sc_w sc) of (e, w) \<Rightarrow> (Some e, sc\<lparr>sc_w := w\<rparr>)))"

text \<open>\<^verbatim>\<open>SetColumn\<close> when it is given the field itself.\<close>

definition SetColumn_field :: "genv \<Rightarrow> nat \<Rightarrow> gval \<Rightarrow> scope \<Rightarrow> err option \<times> scope" where
  "SetColumn_field G i value sc =
     (case InstanceGet ''gorm:update_attrs'' sc of (attrs, sc) \<Rightarrow>
        set_field G i value (set_update_attr attrs (f_DBName (field_at G sc i)) value sc))"

section \<open>Bind variables\<close>

text \<open>
  \<^verbatim>\<open>AddToVars\<close> on the statement's variables: an expression's placeholders are replaced one by one
  by the text its arguments get, unless bind variables are skipped.
\<close>

fun add_to_vars :: "(nat \<Rightarrow> string) \<Rightarrow> bool \<Rightarrow> gval \<Rightarrow> gval list \<Rightarrow> string \<times> gval list"
  and add_args :: "(nat \<Rightarrow> string) \<Rightarrow> bool \<Rightarrow> string \<Rightarrow> gval list \<Rightarrow> gval list \<Rightarrow> string \<times> gval list" where
  "add_to_vars bind skip (VExpr exp args) vars = add_args bind skip exp args vars"
| "add_to_vars bind skip v vars =
     (let vars = vars @ [v] in (if skip then ''?'' else bind (length vars), vars))"
| "add_args bind skip exp [] vars = (exp, vars)"
| "add_args bind skip exp (arg # args) vars =
     (case add_to_vars bind skip arg vars of (s, vars) \<Rightarrow>
        add_args bind skip (if skip then exp else replace_first ''?'' s exp) args vars)"

definition resolve_skip :: "scope \<Rightarrow> scope" where
  "resolve_skip sc =
     (if sc_skipBindVarKnown sc then sc
      else case InstanceGet ''skip_bindvar'' sc of
             (v, sc) \<Rightarrow> sc\<lparr>sc_skipBindVar := (v \<noteq> None), sc_skipBindVarKnown := True\<rparr>)"

definition AddToVars :: "gval \<Rightarrow> scope \<Rightarrow> string \<times> scope" where
  "AddToVars value sc =
     (let sc = resolve_skip sc
      in case add_to_vars (d_BindVar (Dialect_of sc)) (sc_skipBindVar sc) value (sc_SQLVars sc) of
           (s, vars) \<Rightarrow> (s, sc\<lparr>sc_SQLVars := vars\<rparr>))"

section \<open>Selected and omitted attributes\<close>

definition select_attr :: "gval \<Rightarrow> string list" where
  "select_attr value =
     (case value of
        VStr str \<Rightarrow> [str]
      | VStrs strs \<Rightarrow> strs
      | VList vs \<Rightarrow> map Sprint vs
      | _ \<Rightarrow> [])"

text \<open>
  \<^verbatim>\<open>range scope.Search.selects\<close> runs over the two entries of the clause map, \<^verbatim>\<open>query\<close> and \<^verbatim>\<open>args\<close>
  (a \<^verbatim>\<open>[]interface{}\<close>), in this order or the other; the attributes are the same set.
\<close>

definition compute_selectAttrs :: "search \<Rightarrow> string list" where
  "compute_selectAttrs s =
     (case selects s of None \<Rightarrow> [] | Some (query, args) \<Rightarrow> select_attr query @ select_attr (VList args))"

definition SelectAttrs :: "scope \<Rightarrow> string list" where
  "SelectAttrs sc = (case sc_selectAttrs sc of Some a \<Rightarrow> a | None \<Rightarrow> compute_selectAttrs (sc_Search sc))"

definition OmitAttrs :: "scope \<Rightarrow> string list" where
  "OmitAttrs sc = omits (sc_Search sc)"

definition changeableField :: "scope \<Rightarrow> Field \<Rightarrow> bool" where
  "changeableField sc f =
     (if SelectAttrs sc \<noteq> []
      then List.find (\<lambda>attr. f_Name f = attr \<or> f_DBName f = attr) (SelectAttrs sc) \<noteq> None
      else List.find (\<lambda>attr. f_Name f = attr \<or> f_DBName f = attr) (OmitAttrs sc) = None)"

section \<open>Table names\<close>

text \<open>
  The name of a model's table is computed once and kept in \<^verbatim>\<open>defaultTableName\<close>.  It depends on
  \<^verbatim>\<open>singularTable\<close> only, so the model, which computes it each time, is the code as long as
  \<^verbatim>\<open>SingularTable\<close> is called before the first use of the model's table.
\<close>

definition ModelStruct_TableName :: "genv \<Rightarrow> world \<Rightarrow> ModelStruct \<Rightarrow> string" where
  "ModelStruct_TableName G w ms =
     g_tableNameHandler G
       (case ms_ModelType ms of
          None \<Rightarrow> []
        | Some t \<Rightarrow>
           (case g_type_tabler G t of
              Some name \<Rightarrow> name
            | None \<Rightarrow>
               (let tableName = g_toTableName G (t_name (g_types G t))
                in if \<not> w_singularTable w then g_plural G tableName else tableName)))"

definition TableName :: "genv \<Rightarrow> scope \<Rightarrow> string" where
  "TableName G sc =
     (if length (s_tableName (sc_Search sc)) > 0 then s_tableName (sc_Search sc)
      else case g_tabler G (sc_Value sc) of
             Some name \<Rightarrow> name
           | None \<Rightarrow> ModelStruct_TableName G (sc_w sc) (GetModelStruct G sc))"

definition QuotedTableName :: "genv \<Rightarrow> scope \<Rightarrow> string" where
  "QuotedTableName G sc =
     (if length (s_tableName (sc_Search sc)) > 0
      then (if CHR '' '' \<in> set (s_tableName (sc_Search sc)) then s_tableName (sc_Search sc)
            else Scope_Quote sc (s_tableName (sc_Search sc)))
      else Scope_Quote sc (TableName G sc))"

section \<open>Running the statement\<close>

definition Scope_Raw :: "string \<Rightarrow> scope \<Rightarrow> scope" where
  "Scope_Raw sql sc = sc\<lparr>sc_SQL := replace_all ''$$$'' ''?'' sql\<rparr>"

definition scope_call :: "genv \<Rightarrow> dbcall \<Rightarrow> scope \<Rightarrow> reply \<times> scope" where
  "scope_call G c sc = (case call G c (sc_w sc) of (r, w) \<Rightarrow> (r, sc\<lparr>sc_w := w\<rparr>))"

definition Scope_Exec :: "genv \<Rightarrow> scope \<Rightarrow> scope" where
  "Scope_Exec G sc =
     (if \<not> HasError sc then
        (case scope_call G (CallExec (db_conn (sc_db sc)) (sc_SQL sc) (sc_SQLVars sc)) sc of (r, sc) \<Rightarrow>
           (case r_err r of
              Some e \<Rightarrow> Scope_Err (Some e) sc
            | None \<Rightarrow>
               (case r_affected r of
                  Inl e \<Rightarrow> Scope_Err (Some e) sc
                | Inr count \<Rightarrow> sc\<lparr>sc_db := (sc_db sc)\<lparr>db_RowsAffected := count\<rparr>\<rparr>)))
      else sc)"

definition Scope_Begin :: "genv \<Rightarrow> scope \<Rightarrow> scope" where
  "Scope_Begin G sc =
     (if is_sqlDb (db_conn (sc_db sc)) then
        (case fresh (sc_w sc) of (t, w) \<Rightarrow>
         case scope_call G (CallBegin t) (sc\<lparr>sc_w := w\<rparr>) of (r, sc) \<Rightarrow>
           (case r_err r of
              Some e \<Rightarrow> Scope_Err (Some e) sc
            | None \<Rightarrow> InstanceSet ''gorm:started_transaction'' (VBool True)
                       (sc\<lparr>sc_db := (sc_db sc)\<lparr>db_conn := ConnTx t\<rparr>\<rparr>)))
      else sc)"

definition CommitOrRollback :: "genv \<Rightarrow> scope \<Rightarrow> scope" where
  "CommitOrRollback G sc =
     (case InstanceGet ''gorm:started_transaction'' sc of (v, sc) \<Rightarrow>
        if v \<noteq> None then
          (case db_conn (sc_db sc) of
             ConnTx t \<Rightarrow>
               (let sc = (if HasError sc then snd (scope_call G (CallRollback t) sc)
                          else (case scope_call G (CallCommit t) sc of (r, sc) \<Rightarrow> Scope_Err (r_err r) sc))
                in sc\<lparr>sc_db := (sc_db sc)\<lparr>db_conn := w_parent_conn (sc_w sc)\<rparr>\<rparr>)
           | _ \<Rightarrow> sc)
        else sc)"

section \<open>Hook methods and callback chains\<close>

text \<open>
  User code.  A hook returns (its error, or none) or panics, after any change it makes to the world,
  the scope or the new handle it is given; \<open>HookUnsupported\<close> is a method of another signature.  A
  callback returns the scope or panics with the state it has reached.
\<close>

datatype hook_out = HReturn "err option" | HPanic

datatype hook =
    HookFunc "world \<Rightarrow> hook_out \<times> world"
  | HookScope "scope \<Rightarrow> hook_out \<times> scope"
  | HookDB "db \<Rightarrow> world \<Rightarrow> hook_out \<times> db \<times> world"
  | HookUnsupported

type_synonym hooks = "world \<Rightarrow> string \<Rightarrow> gval \<Rightarrow> hook option"

datatype outcome = Done scope | Panicked scope

fun and_then :: "outcome \<Rightarrow> (scope \<Rightarrow> outcome) \<Rightarrow> outcome" where
  "and_then (Done sc) f = f sc"
| "and_then (Panicked sc) f = Panicked sc"

fun out_scope :: "outcome \<Rightarrow> scope" where
  "out_scope (Done sc) = sc"
| "out_scope (Panicked sc) = sc"

definition callMethod_one :: "genv \<Rightarrow> hooks \<Rightarrow> string \<Rightarrow> gval \<Rightarrow> scope \<Rightarrow> outcome" where
  "callMethod_one G hooks methodName v sc =
     (case hooks (sc_w sc) methodName v of
        None \<Rightarrow> Done sc
      | Some (HookFunc f) \<Rightarrow>
         (case f (sc_w sc) of
            (HReturn e, w) \<Rightarrow> Done (Scope_Err e (sc\<lparr>sc_w := w\<rparr>))
          | (HPanic, w) \<Rightarrow> Panicked (sc\<lparr>sc_w := w\<rparr>))
      | Some (HookScope f) \<Rightarrow>
         (case f sc of
            (HReturn e, sc) \<Rightarrow> Done (Scope_Err e sc)
          | (HPanic, sc) \<Rightarrow> Panicked sc)
      | Some (HookDB f) \<Rightarrow>
         (case f (Scope_NewDB G sc) (sc_w sc) of
            (HReturn e, d, w) \<Rightarrow> Done (Scope_Err (db_Error d) (Scope_Err e (sc\<lparr>sc_w := w\<rparr>)))
          | (HPanic, d, w) \<Rightarrow> Panicked (sc\<lparr>sc_w := w\<rparr>))
      | Some HookUnsupported \<Rightarrow> Done (scope_error (''unsupported function '' @ methodName) sc))"

fun call_method_loop :: "genv \<Rightarrow> hooks \<Rightarrow> string \<Rightarrow> gval list \<Rightarrow> scope \<Rightarrow> outcome" where
  "call_method_loop G hooks methodName [] sc = Done sc"
| "call_method_loop G hooks methodName (v # vs) sc =
     and_then (callMethod_one G hooks methodName v sc) (call_method_loop G hooks methodName vs)"

text \<open>The elements of a slice value.\<close>

definition slice_values :: "scope \<Rightarrow> gval list" where
  "slice_values sc =
     (case sc_Value sc of
        VObj a \<Rightarrow> (case w_objs (sc_w sc) a of Some (t, vs) \<Rightarrow> vs | None \<Rightarrow> [])
      | VSlice t (Some vs) \<Rightarrow> vs
      | VList vs \<Rightarrow> vs
      | _ \<Rightarrow> [])"

definition CallMethod :: "genv \<Rightarrow> hooks \<Rightarrow> string \<Rightarrow> scope \<Rightarrow> outcome" where
  "CallMethod G hooks methodName sc =
     (if sc_Value sc = VNil then Done sc
      else if indirect_kind G (sc_w sc) (sc_Value sc) = KSlice
      then call_method_loop G hooks methodName (slice_values sc) sc
      else callMethod_one G hooks methodName (sc_Value sc) sc)"

type_synonym callback = "scope \<Rightarrow> outcome"

fun run_callbacks :: "callback list \<Rightarrow> scope \<Rightarrow> outcome" where
  "run_callbacks [] sc = Done sc"
| "run_callbacks (f # fs) sc =
     and_then (f sc) (\<lambda>sc. if sc_skipLeft sc then Done sc else run_callbacks fs sc)"

definition callCallbacks :: "genv \<Rightarrow> callback list \<Rightarrow> scope \<Rightarrow> outcome" where
  "callCallbacks G funcs sc =
     (case run_callbacks funcs sc of
        Done sc \<Rightarrow> Done sc
      | Panicked sc \<Rightarrow>
         (case db_conn (sc_db sc) of
            ConnTx t \<Rightarrow> Panicked (snd (scope_call G (CallRollback t) sc))
          | _ \<Rightarrow> Panicked sc))"

end
