(* ===== verification/Samples.thy ===== *)
theory Samples
  imports ScopeOps
begin

text \<open>
  Concrete data on which the properties are applied: a model \<^verbatim>\<open>User\<close> with a primary key, two columns
  and a soft-delete column, an object of it, an environment and handles over the dialects.
\<close>

definition basic_type :: "kind \<Rightarrow> tinfo" where
  "basic_type k =
     \<lparr>t_kind = k, t_path = [], t_name = [], t_elem = 0, t_len = 0, t_members = [], t_scanner = False,
      t_gorm_data_type = None\<rparr>"

text \<open>Types: 0 the model, 1 \<^verbatim>\<open>int64\<close>, 2 \<^verbatim>\<open>string\<close>, 3 \<^verbatim>\<open>*time.Time\<close>, 4 \<^verbatim>\<open>time.Time\<close>, 5 \<^verbatim>\<open>int\<close>, 6 \<^verbatim>\<open>[]User\<close>.\<close>

definition sample_types :: types where
  "sample_types t =
     (if t = 0 then (basic_type KStruct)\<lparr>t_path := ''app'', t_name := ''User''\<rparr>
      else if t = 1 then (basic_type KInt64)\<lparr>t_name := ''int64''\<rparr>
      else if t = 2 then (basic_type KString)\<lparr>t_name := ''string''\<rparr>
      else if t = 3 then (basic_type KPtr)\<lparr>t_elem := 4\<rparr>
      else if t = 4 then (basic_type KStruct)\<lparr>t_path := ''time'', t_name := ''Time''\<rparr>
      else if t = 6 then basic_type KSlice
      else (basic_type KInt)\<lparr>t_name := ''int''\<rparr>)"

definition sample_member :: "string \<Rightarrow> rtype \<Rightarrow> member" where
  "sample_member name t =
     \<lparr>m_name = name, m_sql_tag = [], m_gorm_tag = [], m_anonymous = False, m_exported = True, m_type = t\<rparr>"

definition sample_field :: "string \<Rightarrow> string \<Rightarrow> bool \<Rightarrow> rtype \<Rightarrow> StructField" where
  "sample_field name column primary t =
     \<lparr>sf_DBName = column, sf_Name = name, sf_Names = [name], sf_IsPrimaryKey = primary, sf_IsNormal = True,
      sf_IsIgnored = False, sf_IsScanner = False, sf_HasDefaultValue = False, sf_TagSettings = Map.empty,
      sf_Struct = sample_member name t, sf_IsForeignKey = False, sf_Relationship = None\<rparr>"

definition id_field :: StructField where "id_field = sample_field ''ID'' ''id'' True 1"
definition name_field :: StructField where "name_field = sample_field ''Name'' ''name'' False 2"
definition age_field :: StructField where "age_field = sample_field ''Age'' ''age'' False 5"
definition deleted_field :: StructField where "deleted_field = sample_field ''DeletedAt'' ''deleted_at'' False 3"

definition user_model :: ModelStruct where
  "user_model =
     \<lparr>ms_PrimaryFields = [id_field], ms_StructFields = [id_field, name_field, age_field, deleted_field],
      ms_ModelType = Some 0\<rparr>"

text \<open>A database that accepts every call: one row is affected, no row is returned.\<close>

definition ok_reply :: reply where
  "ok_reply = \<lparr>r_err = None, r_last_id = Inr 1, r_affected = Inr 1, r_columns = [], r_rows = [], r_rows_err = None\<rparr>"

definition sample_env :: genv where
  "sample_env =
     \<lparr>g_types = sample_types, g_db = (\<lambda>_. ok_reply), g_dialects = initial_dialects (\<lambda>s. s),
      g_toDBName = namer_value, g_toTableName = namer_value, g_toColumnName = namer_value,
      g_models = (\<lambda>_. user_model), g_plural = (\<lambda>s. s @ ''s''), g_tableNameHandler = (\<lambda>s. s),
      g_tabler = (\<lambda>_. None), g_type_tabler = (\<lambda>_. None), g_now = (\<lambda>n. VTime (Suc n) ''now''),
      g_convert = (\<lambda>_ _. None), g_scan = (\<lambda>_ _. None), g_assign = (\<lambda>v t. Inr v)\<rparr>"

definition sample_user :: "gval list" where
  "sample_user = [VInt KInt64 7, VStr ''bob'', VInt KInt 20, VPtr 0 None]"

definition sample_world :: world where
  "sample_world =
     \<lparr>w_hist = [], w_objs = [2 \<mapsto> (0, sample_user)], w_next = 10, w_clock = 0, w_parent_conn = ConnDB,
      w_singularTable = False\<rparr>"

definition sample_db :: "Dialect \<Rightarrow> db" where
  "sample_db d =
     \<lparr>db_Value = VNil, db_Error = None, db_RowsAffected = 0, db_conn = ConnDB,
      db_blockGlobalUpdate = False, db_logMode = noLogMode, db_search = None, db_values = Map.empty,
      db_dialect = d, db_nowFuncOverride = None\<rparr>"

definition sample_scope :: "Dialect \<Rightarrow> gval \<Rightarrow> scope" where
  "sample_scope d v = new_scope (sample_db d) empty_search v sample_world"

lemma sample_scope_simps [simp]:
  "sc_Search (sample_scope d v) = empty_search" "sc_Value (sample_scope d v) = v"
  "sc_SQLVars (sample_scope d v) = []" "sc_db (sample_scope d v) = sample_db d"
  "sc_w (sample_scope d v) = sample_world" "sc_fields (sample_scope d v) = None"
  "sc_skipBindVarKnown (sample_scope d v) = False" "sc_skipBindVar (sample_scope d v) = False"
  "sc_selectAttrs (sample_scope d v) = None" "Dialect_of (sample_scope d v) = d"
  by (simp_all add: sample_scope_def new_scope_def Dialect_of_def sample_db_def)

lemma known_dialects [simp]:
  "known_dialect sha1 common_dialect" "known_dialect sha1 (mysql_dialect sha1)"
  "known_dialect sha1 postgres_dialect" "known_dialect sha1 sqlite3_dialect"
  "known_dialect sha1 mssql_dialect" "known_dialect sha1 dm_dialect"
  unfolding known_dialect_def by blast+

text \<open>The scope of the sample user.\<close>

definition user_fields :: "Field list" where
  "user_fields =
     [\<lparr>f_sf = id_field, f_IsBlank = False, f_ref = FRef 2 0\<rparr>,
      \<lparr>f_sf = name_field, f_IsBlank = False, f_ref = FRef 2 1\<rparr>,
      \<lparr>f_sf = age_field, f_IsBlank = False, f_ref = FRef 2 2\<rparr>,
      \<lparr>f_sf = deleted_field, f_IsBlank = True, f_ref = FRef 2 3\<rparr>]"

lemma sample_model [simp]: "GetModelStruct sample_env (sample_scope d (VObj 2)) = user_model"
  by (simp add: GetModelStruct_def value_type_def sample_world_def sample_env_def sample_types_def basic_type_def
      elem_type_plain Let_def)

lemma sample_struct_kind [simp]: "indirect_kind sample_env sample_world (VObj 2) = KStruct"
  by (simp add: indirect_kind_def sample_world_def sample_env_def sample_types_def basic_type_def)

lemma sample_Fields [simp]: "Fields sample_env (sample_scope d (VObj 2)) = user_fields"
proof -
  have "GetStructFields sample_env (sample_scope d (VObj 2)) = [id_field, name_field, age_field, deleted_field]"
    by (simp add: GetStructFields_def user_model_def)
  moreover have "obj_value sample_world 2 n = (if n < 4 then sample_user ! n else VNil)" for n
    by (simp add: obj_value_def sample_world_def sample_user_def)
  ultimately show ?thesis
    by (simp add: Fields_def compute_fields_def make_field_def user_fields_def sample_user_def)
qed

lemma sample_table: "QuotedTableName sample_env (sample_scope d (VObj 2)) = d_Quote d ''users''"
proof -
  have name: "namer_value ''User'' = ''user''" by code_simp
  have env: "g_tableNameHandler sample_env = (\<lambda>s. s)" "g_type_tabler sample_env = (\<lambda>_. None)"
    "g_tabler sample_env = (\<lambda>_. None)" "g_toTableName sample_env = namer_value"
    "g_plural sample_env = (\<lambda>s. s @ ''s'')" "t_name (g_types sample_env 0) = ''User''"
    by (simp_all add: sample_env_def sample_types_def)
  have "ms_ModelType user_model = Some 0" "w_singularTable sample_world = False"
    by (simp_all add: user_model_def sample_world_def)
  then have "TableName sample_env (sample_scope d (VObj 2)) = ''users''"
    by (simp add: TableName_def ModelStruct_TableName_def empty_search_def env name)
  then show ?thesis
    by (simp add: QuotedTableName_def Scope_Quote_def quote_parts_def empty_search_def)
qed

end
