(* ===== verification/CoreProps.thy ===== *)
theory CoreProps
  imports Samples DataTypes
begin

text \<open>
  Properties of the parts that do not run statements: errors and the error of a handle, names, tag
  settings, and the dialects.
\<close>

section \<open>Errors\<close>

lemma distinct_add_error:
  "distinct errs \<Longrightarrow> distinct (add_error errs e)"
  "distinct errs \<Longrightarrow> distinct (add_errors errs es)"
  by (induction errs e and errs es rule: add_error_add_errors.induct) auto

lemma errors_Add_prefix: "\<exists>new. errors_Add errs es = errs @ new"
proof (induction errs es rule: errors_Add.induct)
  case (3 errs e es)
  then show ?case using add_error_prefix(1) [of errs e] by (metis append.assoc errors_Add.simps(3))
qed auto

lemma distinct_errors_Add: "distinct errs \<Longrightarrow> distinct (errors_Add errs es)"
  by (induction errs es rule: errors_Add.induct) (simp_all add: distinct_add_error)

text \<open>
  Adding errors to a collection keeps what is there in place and in order, adds exactly the
  individual errors of the new ones, flattens nested collections and never holds an error twice.
\<close>

theorem errors_add_spec:
  assumes "flat_errors errs" and "distinct errs"
  shows "(\<exists>new. errors_Add errs es = errs @ new)
    \<and> set (errors_Add errs es) = set errs \<union> (\<Union>e\<in>{e. Some e \<in> set es}. leaves e)
    \<and> flat_errors (errors_Add errs es) \<and> distinct (errors_Add errs es)"
  using errors_Add_prefix [of errs es] set_errors_Add [of errs es] flat_errors_Add [OF assms(1), of es]
    distinct_errors_Add [OF assms(2), of es] by blast

lemma errors_add_spec_witness:
  "distinct (errors_Add [ErrInvalidSQL] [Some (Errors [ErrTxDone, Errors [ErrInvalidSQL]]), None, Some ErrTxDone])
   \<and> errors_Add [ErrInvalidSQL] [Some (Errors [ErrTxDone, Errors [ErrInvalidSQL]]), None, Some ErrTxDone] = [ErrInvalidSQL, ErrTxDone]"
proof -
  have "flat_errors [ErrInvalidSQL]" "distinct [ErrInvalidSQL]" by simp_all
  from errors_add_spec [OF this] show ?thesis by simp
qed

lemma GetErrors_add_err_plain:
  assumes "e \<noteq> ErrRecordNotFound" and "\<not> is_errors e"
  shows "GetErrors (add_err (Some e) s) = (if e \<in> set (GetErrors s) then GetErrors s else GetErrors s @ [e])"
proof -
  have add: "errors_Add (GetErrors s) [Some e] = (if e \<in> set (GetErrors s) then GetErrors s else GetErrors s @ [e])"
    using assms(2) by (cases e) auto
  show ?thesis
  proof (cases "length (errors_Add (GetErrors s) [Some e]) > 1")
    case True
    then have "db_Error (add_err (Some e) s) = Some (Errors (errors_Add (GetErrors s) [Some e]))"
      using assms(1) by (simp add: add_err_def AddError_def Let_def)
    then show ?thesis using add by (simp add: GetErrors_def)
  next
    case False
    then have "db_Error (add_err (Some e) s) = Some e"
      using assms(1) by (simp add: add_err_def AddError_def Let_def)
    then have "GetErrors (add_err (Some e) s) = [e]" using assms(2) by (cases e) (simp_all add: GetErrors_def)
    moreover have "(if e \<in> set (GetErrors s) then GetErrors s else GetErrors s @ [e]) = [e]"
      using False add by (cases "GetErrors s") (auto split: if_splits)
    ultimately show ?thesis by simp
  qed
qed

text \<open>
  An error added to a handle stays with it: the errors the handle reports are those it had, in
  order, followed by the new one unless it is among them already.  (\<^verbatim>\<open>ErrRecordNotFound\<close> is the
  exception, see the next property.)
\<close>

theorem handle_errors_accumulate:
  assumes "e \<noteq> ErrRecordNotFound" and "\<not> is_errors e"
  shows "GetErrors (add_err (Some e) s) = (if e \<in> set (GetErrors s) then GetErrors s else GetErrors s @ [e])
    \<and> db_Error (add_err (Some e) s) \<noteq> None"
  using GetErrors_add_err_plain [OF assms] by (simp add: add_err_def AddError_def Let_def)

lemma handle_errors_accumulate_witness:
  "GetErrors (add_err (Some ErrTxDone) ((sample_db common_dialect)\<lparr>db_Error := Some ErrInvalidSQL\<rparr>)) = [ErrInvalidSQL, ErrTxDone]"
  using handle_errors_accumulate [of ErrTxDone "(sample_db common_dialect)\<lparr>db_Error := Some ErrInvalidSQL\<rparr>"]
  by (simp add: GetErrors_def)

text \<open>
  \<^verbatim>\<open>ErrRecordNotFound\<close> replaces whatever the handle had collected: after it, \<^verbatim>\<open>GetErrors\<close> reports it
  alone, and the errors from before are gone for good.
\<close>

theorem record_not_found_overwrites:
  "db_Error (add_err (Some ErrRecordNotFound) s) = Some ErrRecordNotFound
   \<and> GetErrors (add_err (Some ErrRecordNotFound) s) = [ErrRecordNotFound]
   \<and> RecordNotFound (add_err (Some ErrRecordNotFound) s)"
  by (simp add: add_err_def AddError_def GetErrors_def RecordNotFound_def)

section \<open>Names\<close>

text \<open>
  The memo table of \<^verbatim>\<open>defaultNamer\<close> cannot be observed: whatever was looked up before, the name is
  that of the uncached computation, and the table stays one for which this holds.
\<close>

theorem namer_cache_transparent:
  assumes "smap_ok smap"
  shows "fst (defaultNamer smap name) = namer_value name \<and> smap_ok (snd (defaultNamer smap name))"
  using defaultNamer_value [OF assms] defaultNamer_smap_ok [OF assms] by simp

lemma namer_cache_transparent_witness:
  "fst (defaultNamer (snd (defaultNamer newSafeMap ''UserID'')) ''UserID'') = ''user_id''"
proof -
  have "smap_ok (snd (defaultNamer newSafeMap ''UserID''))"
    using namer_cache_transparent [OF smap_ok_new, of "''UserID''"] by simp
  then have "fst (defaultNamer (snd (defaultNamer newSafeMap ''UserID'')) ''UserID'') = namer_value ''UserID''"
    using namer_cache_transparent by blast
  also have "namer_value ''UserID'' = ''user_id''" by code_simp
  finally show ?thesis .
qed

text \<open>
  The default naming strategy only changes case and inserts underscores: a name keeps all its
  letters and digits in order, holds no capital, and naming it again changes nothing.
\<close>

theorem namer_keeps_letters:
  "no_underscores (namer_value name) = no_underscores (to_lower name)
   \<and> list_all (\<lambda>c. \<not> is_upper c) (namer_value name) \<and> namer_value (namer_value name) = namer_value name"
  using no_underscores_namer namer_no_upper namer_no_upper_id by (simp add: list_all_iff)

section \<open>Tags\<close>

text \<open>
  C31: Settings written as \<^verbatim>\<open>KEY:value\<close> pairs separated by semicolons are read back exactly, later
  pairs winning and the \<^verbatim>\<open>gorm\<close> tag winning over the \<^verbatim>\<open>sql\<close> tag; values may contain colons.
\<close>

theorem tag_round_trip:
  assumes "sqls \<noteq> []" and "\<forall>p\<in>set sqls. plain_key (fst p) \<and> CHR '';'' \<notin> set (snd p)"
    and "gorms \<noteq> []" and "\<forall>p\<in>set gorms. plain_key (fst p) \<and> CHR '';'' \<notin> set (snd p)"
  shows "parseTagSetting (print_tag sqls) (print_tag gorms) = map_of (rev sqls) ++ map_of (rev gorms)"
proof -
  have "parse_tag_part (print_tag sqls) Map.empty = Map.empty ++ map_of (rev sqls)"
    by (rule parse_print_tag [OF assms(1)]) (use assms(2) in auto)
  moreover have "parse_tag_part (print_tag gorms) (map_of (rev sqls)) = map_of (rev sqls) ++ map_of (rev gorms)"
    by (rule parse_print_tag [OF assms(3)]) (use assms(4) in auto)
  ultimately show ?thesis by (simp add: parseTagSetting_def)
qed

lemma tag_round_trip_witness:
  "parseTagSetting (print_tag [(''SIZE'', ''64'')]) (print_tag [(''COLUMN'', ''a:b''), (''SIZE'', ''32'')]) ''SIZE'' = Some ''32''"
proof -
  have k: "plain_key ''SIZE''" "plain_key ''COLUMN''" by code_simp+
  have "parseTagSetting (print_tag [(''SIZE'', ''64'')]) (print_tag [(''COLUMN'', ''a:b''), (''SIZE'', ''32'')])
      = map_of (rev [(''SIZE'', ''64'')]) ++ map_of (rev [(''COLUMN'', ''a:b''), (''SIZE'', ''32'')])"
    by (rule tag_round_trip) (simp_all add: k)
  then show ?thesis by simp
qed

section \<open>Dialects\<close>

text \<open>
  The limit and offset of a query can be any value, even text from outside; the clause that every
  registered dialect makes of them consists of digits, capitals and blanks, or it is an error.
\<close>

theorem limit_clause_harmless:
  assumes "known_dialect sha1 d" and "d_LimitAndOffsetSQL d limit offset = Some sql" and "c \<in> set sql"
  shows "is_digit c \<or> is_upper c \<or> c = CHR '' ''"
  using limit_clause.harmless [OF known_dialect_limit [OF assms(1)] assms(2)] assms(3)
  by (auto simp: list_all_iff limit_char_def)

lemma limit_clause_harmless_witness:
  "\<exists>sql. d_LimitAndOffsetSQL dm_dialect (VInt KInt 10) VNil = Some sql \<and> sql \<noteq> []
     \<and> (\<forall>c\<in>set sql. is_digit c \<or> is_upper c \<or> c = CHR '' '')"
proof -
  have d: "d_LimitAndOffsetSQL dm_dialect (VInt KInt 10) VNil = Some ('' LIMIT '' @ dec_int 10)"
    by (simp add: dm_LimitAndOffsetSQL_def parse_int10_dec_int)
  moreover have "known_dialect (\<lambda>s. s) dm_dialect" by (simp add: known_dialect_def)
  ultimately show ?thesis using limit_clause_harmless [of "\<lambda>s. s" dm_dialect "VInt KInt 10" VNil] by fastforce
qed

text \<open>C32: A scope quotes different (possibly qualified) names differently, under every registered dialect.\<close>

theorem quoting_injective:
  assumes "known_dialect sha1 (Dialect_of sc)" and "Scope_Quote sc a = Scope_Quote sc b"
  shows "a = b"
proof -
  have "quoting (d_Quote (Dialect_of sc))" by (rule known_dialect_quoting [OF assms(1)])
  then show ?thesis using quoting.quote_parts_inj assms(2) by (simp add: Scope_Quote_def)
qed

lemma quoting_injective_witness:
  "Scope_Quote (sample_scope dm_dialect VNil) ''a'' \<noteq> Scope_Quote (sample_scope dm_dialect VNil) ''b''"
proof
  assume eq: "Scope_Quote (sample_scope dm_dialect VNil) ''a'' = Scope_Quote (sample_scope dm_dialect VNil) ''b''"
  have "''a'' = ''b''"
    by (rule quoting_injective [OF _ eq, of "\<lambda>s. s"]) simp
  then show False by simp
qed

text \<open>
  For an index that comes from a tag, DM looks for exactly the index that it creates: the name
  in the statement is the tag's name quoted, and the lookup reads that name back, for every name.
\<close>

theorem dm_index_lookup_agrees:
  "dm_indexIdentifier (fst (dm_NormalizeIndexAndColumn name column)) = dm_indexIdentifierQuoted name
   \<and> snd (dm_NormalizeIndexAndColumn name column) = column"
proof -
  have "is_quoted_name (dm_Quote s)" for s by (simp add: is_quoted_name_def dm_Quote_def)
  then have "dm_indexIdentifier (dm_Quote s) = dm_indexIdentifierQuoted (dm_Quote s)" for s
    by (simp add: dm_indexIdentifier_def dm_indexIdentifierQuoted_def)
  then show ?thesis by (simp add: dm_NormalizeIndexAndColumn_def unquote_dm_Quote)
qed

text \<open>
  MySQL key names fit the server's limit of 64 characters and consist of letters, digits and
  underscores, given that a SHA-1 digest is 40 such characters.
\<close>

theorem mysql_key_name_bounded:
  assumes "\<forall>s. length (sha1 s) = 40 \<and> list_all key_char (sha1 s)"
    and "mysql_BuildKeyName sha1 kind tableName flds = Some name"
  shows "length name \<le> 64 \<and> list_all key_char name"
proof -
  have t: "list_all key_char (take 24 (key_name_clean False f))" for f
    using key_name_clean_chars [of False f] by (auto simp: list_all_iff dest: in_set_takeD)
  show ?thesis
    using assms(2) assms(1) t
    by (auto simp: mysql_BuildKeyName_def common_BuildKeyName_def Let_def key_name_clean_chars
        split: if_splits list.splits)
qed

lemma mysql_BuildKeyName_some: "\<exists>name. mysql_BuildKeyName sha1 kind tableName (f # fs) = Some name"
  by (simp add: mysql_BuildKeyName_def common_BuildKeyName_def Let_def)

lemma mysql_key_name_bounded_witness:
  "\<exists>name. mysql_BuildKeyName (\<lambda>s. replicate 40 (CHR ''a'')) ''fk'' (replicate 70 (CHR ''t'')) [''user_id''] = Some name
     \<and> length name \<le> 64"
proof -
  obtain name where n: "mysql_BuildKeyName (\<lambda>s. replicate 40 (CHR ''a'')) ''fk'' (replicate 70 (CHR ''t'')) [''user_id''] = Some name"
    using mysql_BuildKeyName_some by metis
  have "key_char (CHR ''a'')" by code_simp
  then have "length name \<le> 64"
    using mysql_key_name_bounded [OF _ n] by (simp add: list_all_iff)
  with n show ?thesis by blast
qed

text \<open>
  DM's MERGE is built exactly for one source row that has a value for every column and holds
  all conflict and update columns; anything else is an error, never a malformed statement.
\<close>

theorem dm_merge_well_formed:
  "(\<exists>sql. dm_BatchSaveSQL table columns conflicts updates vals = Inr sql) \<longleftrightarrow>
   (\<exists>row. vals = [row] \<and> length row = length columns) \<and> columns \<noteq> [] \<and> conflicts \<noteq> []
   \<and> set conflicts \<subseteq> set columns \<and> set updates \<subseteq> set columns"
proof -
  have find: "(List.find (\<lambda>column. column \<notin> set columns) xs = None) = (set xs \<subseteq> set columns)" for xs
    by (auto simp: find_None_all)
  have one: "(length vals = 1) = (\<exists>row. vals = [row])" by (cases vals) auto
  show ?thesis
    unfolding dm_BatchSaveSQL_def Let_def
    using find [of conflicts] find [of updates] one
    by (cases "List.find (\<lambda>column. column \<notin> set columns) conflicts";
        cases "List.find (\<lambda>column. column \<notin> set columns) updates") auto
qed

text \<open>
  MySQL allows an automatic increment on keys only: for a field that is neither a primary key
  nor indexed the setting is dropped, and the column's type is the one without it.
\<close>

theorem mysql_auto_increment_needs_key:
  assumes "\<not> sf_IsPrimaryKey sf" and "TagSettingsGet sf ''INDEX'' = None"
    and "mysql_DataTypeOf RT sf = Some (typ, sf')"
  shows "TagSettingsGet sf' ''AUTO_INCREMENT'' = None
    \<and> mysql_DataTypeOf RT (TagSettingsDelete ''AUTO_INCREMENT'' sf) = Some (typ, sf')"
proof -
  let ?del = "TagSettingsDelete ''AUTO_INCREMENT'' sf"
  have del_idle: "?del = sf" if "TagSettingsGet sf ''AUTO_INCREMENT'' = None"
    using that by (cases sf) (simp add: TagSettingsDelete_def TagSettingsGet_def fun_upd_idem)
  have tag: "tag_or_empty ?del key = tag_or_empty sf key" if "key \<noteq> ''AUTO_INCREMENT''" for key
    using that by (simp add: tag_or_empty_def)
  have "sf_Struct ?del = sf_Struct sf" by (simp add: TagSettingsDelete_def)
  then have parse: "ParseFieldStructForDialect RT d ?del = ParseFieldStructForDialect RT d sf" for d
    by (simp add: ParseFieldStructForDialect_def tag cong: option.case_cong)
  have noauto: "auto_int sf1 a b = (b, sf1)"
    if "TagSettingsGet sf1 ''AUTO_INCREMENT'' = None" "\<not> sf_IsPrimaryKey sf1" for sf1 a b
    using that by (simp add: auto_int_def fieldCanAutoIncrement_def)
  have pk: "\<not> sf_IsPrimaryKey ?del" using assms(1) by (simp add: TagSettingsDelete_def)
  let ?f = "mysql_DataTypeOf RT"
  have same: "?f ?del = ?f sf"
  proof (cases "TagSettingsGet sf ''AUTO_INCREMENT''")
    case None
    then show ?thesis by (simp add: del_idle)
  next
    case (Some v)
    then show ?thesis using assms(1,2) by (simp add: mysql_DataTypeOf_def parse)
  qed
  have "?f ?del = Some (typ, sf')" using assms(3) same by simp
  then have "TagSettingsGet sf' ''AUTO_INCREMENT'' = None"
    by (auto simp: mysql_DataTypeOf_def data_type_result_def noauto pk Let_def
        split: if_splits option.splits prod.splits)
  then show ?thesis using same assms(3) by simp
qed

lemma mysql_auto_increment_needs_key_witness:
  "\<exists>sf'. mysql_DataTypeOf sample_types (TagSettingsSet ''AUTO_INCREMENT'' ''true'' age_field) = Some (''int'', sf')
     \<and> TagSettingsGet sf' ''AUTO_INCREMENT'' = None"
proof -
  let ?sf = "TagSettingsSet ''AUTO_INCREMENT'' ''true'' age_field"
  have m: "mysql_DataTypeOf sample_types ?sf = Some (''int'', TagSettingsDelete ''AUTO_INCREMENT'' ?sf)"
    by (simp add: mysql_DataTypeOf_def ParseFieldStructForDialect_def deref_type_plain scanner_value_plain
        TagSettingsSet_def TagSettingsGet_def TagSettingsDelete_def age_field_def sample_field_def sample_member_def
        sample_types_def basic_type_def tag_or_empty_def value_kind_def auto_int_def fieldCanAutoIncrement_def
        data_type_result_def trim_space_def is_space_def)
  have "\<not> sf_IsPrimaryKey ?sf" "TagSettingsGet ?sf ''INDEX'' = None"
    by (simp_all add: TagSettingsSet_def TagSettingsGet_def age_field_def sample_field_def)
  from mysql_auto_increment_needs_key [OF this m] m show ?thesis by blast
qed

end
