(* ===== verification/ScopeSql.thy ===== *)
theory ScopeSql
  imports ScopeOps
begin

text \<open>
  The SQL text a scope generates (\<^verbatim>\<open>scope.go\<close>): conditions, select lists, order, joins, group, having,
  limit, and the queries put together from them.  Every value goes through \<^verbatim>\<open>AddToVars\<close>, which
  appends it to the statement's variables and returns the placeholder.
\<close>

section \<open>Regular expressions\<close>

definition is_word_char :: "char \<Rightarrow> bool" where
  "is_word_char c = (is_alnum c \<or> c = CHR ''_'')"

text \<open>\<^verbatim>\<open>columnRegexp\<close>: words separated by dots.\<close>

definition column_regexp :: "string \<Rightarrow> bool" where
  "column_regexp str = list_all (\<lambda>p. p \<noteq> [] \<and> list_all is_word_char p) (split_char (CHR ''.'') str)"

definition is_re_space :: "char \<Rightarrow> bool" where
  "is_re_space c = (c \<in> {CHR '' '', CHR 0x09, CHR 0x0A, CHR 0x0C, CHR 0x0D})"

text \<open>\<^verbatim>\<open>isNumberRegexp\<close>.\<close>

definition is_number_string :: "string \<Rightarrow> bool" where
  "is_number_string s =
     (let t = rev (dropWhile is_re_space (rev (dropWhile is_re_space s)))
      in t \<noteq> [] \<and> list_all is_digit t)"

lemma dropWhile_keeps: "\<not> P c \<Longrightarrow> c \<in> set (dropWhile P (xs @ [c]))"
  by (induction xs) auto

lemma starts_upper_not_number: "\<not> is_re_space c \<Longrightarrow> \<not> is_digit c \<Longrightarrow> \<not> is_number_string (c # s)"
  using dropWhile_keeps [of is_re_space c "rev s"] by (auto simp: is_number_string_def Let_def list_all_iff)

text \<open>\<^verbatim>\<open>comparisonRegexp\<close>.\<close>

definition has_comparison :: "string \<Rightarrow> bool" where
  "has_comparison s =
     list_ex (str_contains (to_lower s))
       ['' = '', '' <> '', '' > '', '' < '', '' >= '', '' <= '', '' like '', '' is '', '' in '']"

text \<open>\<^verbatim>\<open>countingQueryRegexp\<close>.\<close>

definition is_counting_query :: "string \<Rightarrow> bool" where
  "is_counting_query s =
     (has_prefix (to_lower s) ''count'' \<and> length s > 5 \<and> CHR 0x0A \<notin> set (drop 5 s))"

definition quoteIfPossible :: "scope \<Rightarrow> string \<Rightarrow> string" where
  "quoteIfPossible sc str = (if column_regexp str then Scope_Quote sc str else str)"

section \<open>Conditions\<close>

text \<open>\<^verbatim>\<open>PrimaryKey()\<close> computes the fields when the model has a primary key.\<close>

definition touch_primary :: "genv \<Rightarrow> scope \<Rightarrow> scope" where
  "touch_primary G sc = (if ms_PrimaryFields (GetModelStruct G sc) \<noteq> [] then cache_fields G sc else sc)"

fun add_all :: "gval list \<Rightarrow> scope \<Rightarrow> string list \<times> scope" where
  "add_all [] sc = ([], sc)"
| "add_all (v # vs) sc =
     (case AddToVars v sc of (s, sc) \<Rightarrow> case add_all vs sc of (ss, sc) \<Rightarrow> (s # ss, sc))"

text \<open>\<^verbatim>\<open>[][]interface{}\<close>: a parenthesised list of marks for every nonempty row.\<close>

fun add_rows :: "gval list list \<Rightarrow> scope \<Rightarrow> string list \<times> scope" where
  "add_rows [] sc = ([], sc)"
| "add_rows (a # as) sc =
     (case add_all a sc of (arrayMarks, sc) \<Rightarrow> case add_rows as sc of (rest, sc) \<Rightarrow>
        ((if arrayMarks \<noteq> [] then [''('' @ str_join '','' arrayMarks @ '')''] else []) @ rest, sc))"

definition slice_replacement :: "gval list \<Rightarrow> scope \<Rightarrow> string list \<times> scope" where
  "slice_replacement vs sc =
     (if vs \<noteq> [] then (case add_all vs sc of (marks, sc) \<Rightarrow> ([str_join '','' marks], sc))
      else (case AddToVars (VExpr ''NULL'' []) sc of (s, sc) \<Rightarrow> ([s], sc)))"

text \<open>The body of the loop over a clause's arguments: the replacements it appends.\<close>

definition arg_replacement :: "gval \<Rightarrow> scope \<Rightarrow> string list \<times> scope" where
  "arg_replacement arg sc =
     (case arg of
        VBytes b \<Rightarrow> (case AddToVars arg sc of (s, sc) \<Rightarrow> ([s], sc))
      | VLists as \<Rightarrow>
         (case add_rows as sc of (tempMarks, sc) \<Rightarrow>
            (if tempMarks \<noteq> [] then [str_join '','' tempMarks] else [], sc))
      | VStrs ss \<Rightarrow> slice_replacement (map VStr ss) sc
      | VList vs \<Rightarrow> slice_replacement vs sc
      | VSlice t vs \<Rightarrow> slice_replacement (case vs of None \<Rightarrow> [] | Some vs \<Rightarrow> vs) sc
      | VNullInt64 i valid \<Rightarrow>
         (case AddToVars (if valid then VInt KInt64 i else VNil) sc of (s, sc) \<Rightarrow> ([s], sc))
      | VValuer z txt (Inl e) \<Rightarrow>
         (case AddToVars VNil sc of (s, sc) \<Rightarrow> ([s], Scope_Err (Some (ErrExt 0 e)) sc))
      | VValuer z txt (Inr v) \<Rightarrow> (case AddToVars v sc of (s, sc) \<Rightarrow> ([s], sc))
      | _ \<Rightarrow> (case AddToVars arg sc of (s, sc) \<Rightarrow> ([s], sc)))"

fun arg_replacements :: "gval list \<Rightarrow> scope \<Rightarrow> string list \<times> scope" where
  "arg_replacements [] sc = ([], sc)"
| "arg_replacements (arg # args) sc =
     (case arg_replacement arg sc of (r, sc) \<Rightarrow> case arg_replacements args sc of (rs, sc) \<Rightarrow> (r @ rs, sc))"

text \<open>The last loop of \<^verbatim>\<open>buildCondition\<close>: question marks are filled while replacements last.\<close>

fun fill_marks :: "string \<Rightarrow> string list \<Rightarrow> string" where
  "fill_marks [] rs = []"
| "fill_marks (c # s) rs =
     (case rs of
        r # rs' \<Rightarrow> if c = CHR ''?'' then r @ fill_marks s rs' else c # fill_marks s rs
      | [] \<Rightarrow> c # fill_marks s rs)"

fun map_conditions :: "string \<Rightarrow> bool \<Rightarrow> (string \<times> gval) list \<Rightarrow> scope \<Rightarrow> string list \<times> scope" where
  "map_conditions tbl include [] sc = ([], sc)"
| "map_conditions tbl include ((key, value) # ps) sc =
     (case (if value \<noteq> VNil
            then (case AddToVars value sc of (s, sc) \<Rightarrow>
                    (''('' @ tbl @ ''.'' @ Scope_Quote sc key @ '' '' @ (if include then ''='' else ''<>'') @ '' '' @ s @ '')'', sc))
            else (''('' @ tbl @ ''.'' @ Scope_Quote sc key @ (if include then '' IS NULL)'' else '' IS NOT NULL)''), sc)) of
        (c, sc) \<Rightarrow> case map_conditions tbl include ps sc of (cs, sc) \<Rightarrow> (c # cs, sc))"

text \<open>The fields of a struct used as a condition that take part in it.\<close>

definition condition_field :: "Field \<Rightarrow> bool" where
  "condition_field f = (\<not> sf_IsIgnored (f_sf f) \<and> \<not> f_IsBlank f \<and> sf_Relationship (f_sf f) = None)"

fun struct_conditions :: "string \<Rightarrow> bool \<Rightarrow> (Field \<times> gval) list \<Rightarrow> scope \<Rightarrow> string list \<times> scope" where
  "struct_conditions tbl include [] sc = ([], sc)"
| "struct_conditions tbl include ((f, v) # fs) sc =
     (if condition_field f
      then (case AddToVars v sc of (s, sc) \<Rightarrow>
            case struct_conditions tbl include fs sc of (cs, sc) \<Rightarrow>
              ((''('' @ tbl @ ''.'' @ Scope_Quote sc (f_DBName f) @ '' '' @ (if include then ''='' else ''<>'') @ '' '' @ s @ '')'') # cs, sc))
      else struct_conditions tbl include fs sc)"

text \<open>\<^verbatim>\<open>[]int\<close> to \<^verbatim>\<open>[]uint64\<close>, \<^verbatim>\<open>[]string\<close> and \<^verbatim>\<open>[]interface{}\<close>, which are taken as primary keys.\<close>

definition is_key_slice :: "genv \<Rightarrow> gval \<Rightarrow> bool" where
  "is_key_slice G v =
     (case v of
        VStrs ss \<Rightarrow> True
      | VList vs \<Rightarrow> True
      | VBytes b \<Rightarrow> True
      | VSlice t vs \<Rightarrow> t_path (g_types G t) = [] \<and> t_kind (g_types G t) \<noteq> KUintptr
                       \<and> (is_int_kind (t_kind (g_types G t)) \<or> t_kind (g_types G t) = KString)
      | _ \<Rightarrow> False)"

definition key_slice_length :: "gval \<Rightarrow> nat" where
  "key_slice_length v =
     (case v of
        VStrs ss \<Rightarrow> length ss
      | VList vs \<Rightarrow> length vs
      | VBytes b \<Rightarrow> (case b of None \<Rightarrow> 0 | Some s \<Rightarrow> length s)
      | VSlice t vs \<Rightarrow> (case vs of None \<Rightarrow> 0 | Some vs \<Rightarrow> length vs)
      | _ \<Rightarrow> 0)"

definition fill_condition :: "string \<Rightarrow> gval list \<Rightarrow> scope \<Rightarrow> string \<times> scope" where
  "fill_condition str args sc =
     (case arg_replacements args sc of (replacements, sc) \<Rightarrow> (fill_marks str replacements, sc))"

definition buildCondition :: "genv \<Rightarrow> clause \<Rightarrow> bool \<Rightarrow> scope \<Rightarrow> string \<times> scope" where
  "buildCondition G clause include sc0 =
     (let quotedTableName = QuotedTableName G sc0;
          quotedPrimaryKey = Scope_Quote sc0 (PrimaryKey G sc0);
          sc = touch_primary G sc0;
          equalSQL = (if include then ''='' else ''<>'');
          inSQL = (if include then ''IN'' else ''NOT IN'');
          key = ''('' @ quotedTableName @ ''.'' @ quotedPrimaryKey @ '' '';
          value = fst clause; args = snd clause
      in if is_key_slice G value then
           (if \<not> include \<and> key_slice_length value = 0 then ([], sc)
            else fill_condition (key @ inSQL @ '' (?))'') [value] sc)
         else
         case value of
           VNullInt64 i valid \<Rightarrow> (key @ equalSQL @ '' '' @ dec_int i @ '')'', sc)
         | VInt k i \<Rightarrow>
            if k \<noteq> KUintptr then (key @ equalSQL @ '' '' @ dec_int i @ '')'', sc)
            else ([], scope_error (''invalid query condition: '' @ Sprint value) sc)
         | VStr s \<Rightarrow>
            (if is_number_string s
             then (case AddToVars value sc of (v, sc) \<Rightarrow> (key @ equalSQL @ '' '' @ v @ '')'', sc))
             else
               (let str = (if s \<noteq> [] then
                             (if \<not> include then
                                (if has_comparison s then ''NOT ('' @ s @ '')''
                                 else ''('' @ quotedTableName @ ''.'' @ Scope_Quote sc s @ '' NOT IN (?))'')
                              else ''('' @ s @ '')'')
                           else [])
                in fill_condition str args sc))
         | VMap m \<Rightarrow> (case map_conditions quotedTableName include m sc of (sqls, sc) \<Rightarrow> (str_join '' AND '' sqls, sc))
         | VNil \<Rightarrow> ([], scope_error ''invalid query condition: <nil>'' sc)
         | _ \<Rightarrow>
            (let newScope = Scope_New G value sc;
                 fs = Fields G newScope
             in if fs = [] then ([], scope_error (''invalid query condition: '' @ Sprint value) sc)
                else (case struct_conditions (QuotedTableName G newScope) include
                             (map (\<lambda>f. (f, field_value (sc_w sc) f)) fs) sc of
                        (sqls, sc) \<Rightarrow> (str_join '' AND '' sqls, sc))))"

end
