(* ===== verification/ScopeQuery.thy ===== *)
theory ScopeQuery
  imports ScopeSql
begin

text \<open>
  The rest of the query text of \<^verbatim>\<open>scope.go\<close>: select lists, \<^verbatim>\<open>WHERE\<close>, order, group, having, joins,
  limit, \<^verbatim>\<open>prepareQuerySQL\<close>; reading rows into fields; and the maps of attributes that updates and
  \<^verbatim>\<open>FirstOrInit\<close> use.
\<close>

section \<open>Select lists\<close>

text \<open>The elements \<^verbatim>\<open>values.Index(i).Interface()\<close> of an argument of slice kind.\<close>

definition arg_elements :: "gval \<Rightarrow> gval list option" where
  "arg_elements arg =
     (case arg of
        VBytes b \<Rightarrow> Some (map (\<lambda>c. VInt KUint8 (int (of_char c))) (case b of None \<Rightarrow> [] | Some s \<Rightarrow> s))
      | VStrs ss \<Rightarrow> Some (map VStr ss)
      | VList vs \<Rightarrow> Some vs
      | VLists vss \<Rightarrow> Some (map VList vss)
      | VSlice t vs \<Rightarrow> Some (case vs of None \<Rightarrow> [] | Some vs \<Rightarrow> vs)
      | _ \<Rightarrow> None)"

definition select_replacement :: "gval \<Rightarrow> scope \<Rightarrow> string \<times> scope" where
  "select_replacement arg sc =
     (case arg_elements arg of
        Some vs \<Rightarrow> (case add_all vs sc of (tempMarks, sc) \<Rightarrow> (str_join '','' tempMarks, sc))
      | None \<Rightarrow>
         (case arg of
            VNullInt64 i valid \<Rightarrow> AddToVars (if valid then VInt KInt64 i else VNil) sc
          | VValuer z txt (Inl e) \<Rightarrow> AddToVars VNil sc
          | VValuer z txt (Inr v) \<Rightarrow> AddToVars v sc
          | _ \<Rightarrow> AddToVars arg sc))"

fun select_replacements :: "gval list \<Rightarrow> scope \<Rightarrow> string list \<times> scope" where
  "select_replacements [] sc = ([], sc)"
| "select_replacements (arg # args) sc =
     (case select_replacement arg sc of (r, sc) \<Rightarrow>
      case select_replacements args sc of (rs, sc) \<Rightarrow> (r # rs, sc))"

text \<open>More question marks than arguments is an index out of range: \<open>None\<close>.\<close>

fun fill_select :: "string \<Rightarrow> string list \<Rightarrow> string option" where
  "fill_select [] rs = Some []"
| "fill_select (c # s) rs =
     (if c = CHR ''?''
      then (case rs of [] \<Rightarrow> None | r # rs \<Rightarrow> map_option (\<lambda>t. r @ t) (fill_select s rs))
      else map_option (\<lambda>t. c # t) (fill_select s rs))"

definition buildSelectQuery :: "clause \<Rightarrow> scope \<Rightarrow> string option \<times> scope" where
  "buildSelectQuery clause sc =
     (let str = (case fst clause of VStr s \<Rightarrow> s | VStrs ss \<Rightarrow> str_join '', '' ss | _ \<Rightarrow> [])
      in case select_replacements (snd clause) sc of
           (replacements, sc) \<Rightarrow> (fill_select str replacements, sc))"

definition selectSQL :: "genv \<Rightarrow> scope \<Rightarrow> string option \<times> scope" where
  "selectSQL G sc =
     (case selects (sc_Search sc) of
        None \<Rightarrow> (Some (if joinConditions (sc_Search sc) \<noteq> [] then QuotedTableName G sc @ ''.*'' else ''*''), sc)
      | Some clause \<Rightarrow> buildSelectQuery clause sc)"

section \<open>The WHERE clause\<close>

fun primary_conditions :: "string \<Rightarrow> Field list \<Rightarrow> scope \<Rightarrow> string list \<times> scope" where
  "primary_conditions tbl [] sc = ([], sc)"
| "primary_conditions tbl (f # fs) sc =
     (case AddToVars (field_value (sc_w sc) f) sc of (v, sc) \<Rightarrow>
      case primary_conditions tbl fs sc of (cs, sc) \<Rightarrow>
        ((tbl @ ''.'' @ Scope_Quote sc (f_DBName f) @ '' = '' @ v) # cs, sc))"

text \<open>A loop over clauses that keeps the conditions that are not empty.\<close>

fun build_all :: "genv \<Rightarrow> bool \<Rightarrow> clause list \<Rightarrow> scope \<Rightarrow> string list \<times> scope" where
  "build_all G include [] sc = ([], sc)"
| "build_all G include (clause # clauses) sc =
     (case buildCondition G clause include sc of (sql, sc) \<Rightarrow>
      case build_all G include clauses sc of (sqls, sc) \<Rightarrow>
        ((if sql \<noteq> [] then [sql] else []) @ sqls, sc))"

definition soft_delete_conditions :: "genv \<Rightarrow> scope \<Rightarrow> string list" where
  "soft_delete_conditions G sc =
     (case FieldByName G sc ''DeletedAt'' of
        Some i \<Rightarrow>
          if \<not> s_Unscoped (sc_Search sc)
          then [QuotedTableName G sc @ ''.'' @ Scope_Quote sc (f_DBName (field_at G sc i)) @ '' IS NULL'']
          else []
      | None \<Rightarrow> [])"

definition combine_conditions :: "string list \<Rightarrow> string list \<Rightarrow> string" where
  "combine_conditions andConditions orParts =
     (let orSQL = str_join '' OR '' orParts;
          combinedSQL = str_join '' AND '' andConditions
      in if length combinedSQL > 0
         then (if length orSQL > 0 then combinedSQL @ '' OR '' @ orSQL else combinedSQL)
         else orSQL)"

definition where_text :: "string list \<Rightarrow> string \<Rightarrow> string" where
  "where_text primaryConditions combinedSQL =
     (if length primaryConditions > 0
      then ''WHERE '' @ str_join '' AND '' primaryConditions
           @ (if length combinedSQL > 0 then '' AND ('' @ combinedSQL @ '')'' else [])
      else if length combinedSQL > 0 then ''WHERE '' @ combinedSQL else [])"

definition whereSQL :: "genv \<Rightarrow> scope \<Rightarrow> string \<times> scope" where
  "whereSQL G sc0 =
     (let quotedTableName = QuotedTableName G sc0;
          sc = cache_fields G sc0;
          softDelete = soft_delete_conditions G sc
      in case (if \<not> PrimaryKeyZero G sc then primary_conditions quotedTableName (PrimaryFields G sc) sc else ([], sc)) of
           (keys, sc) \<Rightarrow>
         case build_all G True (whereConditions (sc_Search sc)) sc of (ands, sc) \<Rightarrow>
         case build_all G True (orConditions (sc_Search sc)) sc of (ors, sc) \<Rightarrow>
         case build_all G False (notConditions (sc_Search sc)) sc of (nots, sc) \<Rightarrow>
           (where_text (softDelete @ keys) (combine_conditions (ands @ nots) ors), sc))"

section \<open>Order, limit, group, having, joins\<close>

fun order_expr :: "string \<Rightarrow> gval list \<Rightarrow> scope \<Rightarrow> string \<times> scope" where
  "order_expr exp [] sc = (exp, sc)"
| "order_expr exp (arg # args) sc =
     (case AddToVars arg sc of (s, sc) \<Rightarrow> order_expr (replace_first ''?'' s exp) args sc)"

fun order_list :: "gval list \<Rightarrow> scope \<Rightarrow> string list \<times> scope" where
  "order_list [] sc = ([], sc)"
| "order_list (order # rest) sc =
     (case (case order of
              VStr str \<Rightarrow> ([quoteIfPossible sc str], sc)
            | VExpr exp args \<Rightarrow> (case order_expr exp args sc of (s, sc) \<Rightarrow> ([s], sc))
            | _ \<Rightarrow> ([], sc)) of
        (o1, sc) \<Rightarrow> case order_list rest sc of (os, sc) \<Rightarrow> (o1 @ os, sc))"

definition orderSQL :: "scope \<Rightarrow> string \<times> scope" where
  "orderSQL sc =
     (if orders (sc_Search sc) = [] \<or> ignoreOrderQuery (sc_Search sc) then ([], sc)
      else case order_list (orders (sc_Search sc)) sc of (os, sc) \<Rightarrow> ('' ORDER BY '' @ str_join '','' os, sc))"

text \<open>The error is the \<^verbatim>\<open>NumError\<close> of \<^verbatim>\<open>strconv.ParseInt\<close>, a new object.\<close>

definition limitAndOffsetSQL :: "scope \<Rightarrow> string \<times> scope" where
  "limitAndOffsetSQL sc =
     (case d_LimitAndOffsetSQL (Dialect_of sc) (s_limit (sc_Search sc)) (s_offset (sc_Search sc)) of
        None \<Rightarrow> ([], scope_error ''strconv.ParseInt: parsing limit or offset'' sc)
      | Some sql \<Rightarrow> (sql, sc))"

definition groupSQL :: "scope \<Rightarrow> string" where
  "groupSQL sc = (if length (s_group (sc_Search sc)) = 0 then [] else '' GROUP BY '' @ s_group (sc_Search sc))"

definition havingSQL :: "genv \<Rightarrow> scope \<Rightarrow> string \<times> scope" where
  "havingSQL G sc =
     (if havingConditions (sc_Search sc) = [] then ([], sc)
      else case build_all G True (havingConditions (sc_Search sc)) sc of (andConditions, sc) \<Rightarrow>
        (let combinedSQL = str_join '' AND '' andConditions
         in (if length combinedSQL = 0 then [] else '' HAVING '' @ combinedSQL, sc)))"

definition joinsSQL :: "genv \<Rightarrow> scope \<Rightarrow> string \<times> scope" where
  "joinsSQL G sc =
     (case build_all G True (joinConditions (sc_Search sc)) sc of (conds, sc) \<Rightarrow>
        (str_join '' '' (map (\<lambda>sql. trim_suffix (trim_prefix sql ''('') '')'') conds) @ '' '', sc))"

definition CombinedConditionSql :: "genv \<Rightarrow> scope \<Rightarrow> string \<times> scope" where
  "CombinedConditionSql G sc =
     (case joinsSQL G sc of (joinSQL, sc) \<Rightarrow>
      case whereSQL G sc of (wsql, sc) \<Rightarrow>
        (let wsql = (if s_raw (sc_Search sc) then trim_suffix (trim_prefix wsql ''WHERE ('') '')'' else wsql)
         in case havingSQL G sc of (having, sc) \<Rightarrow>
            case orderSQL sc of (order, sc) \<Rightarrow>
            case limitAndOffsetSQL sc of (limit, sc) \<Rightarrow>
              (joinSQL @ wsql @ groupSQL sc @ having @ order @ limit, sc)))"

definition query_option :: "string \<Rightarrow> scope \<Rightarrow> string" where
  "query_option sql sc =
     (case Scope_Get sc ''gorm:query_option'' of
        Some str \<Rightarrow> sql @ addExtraSpaceIfExist (Sprint str)
      | None \<Rightarrow> sql)"

definition prepareQuerySQL :: "genv \<Rightarrow> scope \<Rightarrow> outcome" where
  "prepareQuerySQL G sc =
     (if s_raw (sc_Search sc)
      then (case CombinedConditionSql G sc of (sql, sc) \<Rightarrow> Done (Scope_Raw (query_option sql sc) sc))
      else case selectSQL G sc of
             (None, sc) \<Rightarrow> Panicked sc
           | (Some sel, sc) \<Rightarrow>
              (let tbl = QuotedTableName G sc
               in case CombinedConditionSql G sc of (cond, sc) \<Rightarrow>
                    Done (Scope_Raw (query_option (''SELECT '' @ sel @ '' FROM '' @ tbl @ '' '' @ cond) sc) sc)))"

definition inlineCondition :: "gval list \<Rightarrow> scope \<Rightarrow> scope" where
  "inlineCondition vs sc =
     (case vs of
        [] \<Rightarrow> sc
      | v # rest \<Rightarrow> sc\<lparr>sc_Search := search_Where v rest (sc_Search sc)\<rparr>)"

definition isQueryForColumn :: "scope \<Rightarrow> gval \<Rightarrow> string \<Rightarrow> bool" where
  "isQueryForColumn sc query column =
     (let queryStr = to_lower (Sprint query)
      in queryStr = column \<or> has_suffix queryStr (''as '' @ column)
         \<or> has_suffix queryStr (''as '' @ Scope_Quote sc column))"

definition hasConditions :: "genv \<Rightarrow> scope \<Rightarrow> bool" where
  "hasConditions G sc =
     (\<not> PrimaryKeyZero G sc \<or> whereConditions (sc_Search sc) \<noteq> [] \<or> orConditions (sc_Search sc) \<noteq> []
      \<or> notConditions (sc_Search sc) \<noteq> [])"

section \<open>Scanning rows\<close>

text \<open>
  \<^verbatim>\<open>buildScanPlan\<close>.  The inner loop looks for the column in the fields from \<open>offset\<close> on, remembers the
  last one found and stops at a normal field.
\<close>

fun scan_search :: "string \<Rightarrow> Field list \<Rightarrow> nat \<Rightarrow> nat option \<Rightarrow> nat option" where
  "scan_search column [] i found = found"
| "scan_search column (f # fs) i found =
     (if f_DBName f = column
      then (if sf_IsNormal (f_sf f) then Some i else scan_search column fs (Suc i) (Some i))
      else scan_search column fs (Suc i) found)"

fun scan_plan_loop :: "string list \<Rightarrow> Field list \<Rightarrow> (string \<rightharpoonup> nat) \<Rightarrow> int list" where
  "scan_plan_loop [] fs selected = []"
| "scan_plan_loop (column # columns) fs selected =
     (let offset = (case selected column of Some idx \<Rightarrow> Suc idx | None \<Rightarrow> 0)
      in case scan_search column (drop offset fs) offset None of
           Some i \<Rightarrow> int i # scan_plan_loop columns fs (selected(column \<mapsto> i))
         | None \<Rightarrow> - 1 # scan_plan_loop columns fs selected)"

definition buildScanPlan :: "string list \<Rightarrow> Field list \<Rightarrow> int list" where
  "buildScanPlan columns fs = scan_plan_loop columns fs (\<lambda>_. None)"

text \<open>
  \<^verbatim>\<open>scanWithPlan\<close>.  A pointer field is scanned in place; another one through a pointer that a NULL
  leaves nil, so that the field keeps its value.  \<^verbatim>\<open>rows.Scan\<close> stops at the first value that does not
  convert, whose destination it has already reset to the zero value.
\<close>

definition scan_into :: "genv \<Rightarrow> Field \<Rightarrow> gval \<Rightarrow> world \<Rightarrow> err option \<times> world" where
  "scan_into G f v w =
     (let t = m_type (sf_Struct (f_sf f)); T = g_types G t
      in if t_kind T = KPtr
         then (if v = VNil then (None, set_ref_value (f_ref f) (VPtr 0 None) w)
               else (case fresh w of (p, w) \<Rightarrow>
                     case g_assign G v (t_elem T) of
                       Inl e \<Rightarrow> (Some e, set_ref_value (f_ref f) (VPtr p (Some (zero_value G (t_elem T)))) w)
                     | Inr u \<Rightarrow> (None, set_ref_value (f_ref f) (VPtr p (Some u)) w)))
         else if v = VNil then (None, w)
         else (case g_assign G v t of
                 Inl e \<Rightarrow> (Some e, set_ref_value (f_ref f) (zero_value G t) w)
               | Inr u \<Rightarrow> (None, set_ref_value (f_ref f) u w)))"

fun scan_row :: "genv \<Rightarrow> Field list \<Rightarrow> (int \<times> gval) list \<Rightarrow> world \<Rightarrow> err option \<times> world" where
  "scan_row G fs [] w = (None, w)"
| "scan_row G fs ((i, v) # ps) w =
     (if i < 0 \<or> int (length fs) \<le> i then scan_row G fs ps w
      else case scan_into G (fs ! nat i) v w of
             (Some e, w) \<Rightarrow> (Some e, w)
           | (None, w) \<Rightarrow> scan_row G fs ps w)"

definition scanWithPlan :: "genv \<Rightarrow> gval list \<Rightarrow> Field list \<Rightarrow> int list \<Rightarrow> scope \<Rightarrow> scope" where
  "scanWithPlan G row fs plan sc =
     (case scan_row G fs (zip plan row) (sc_w sc) of (e, w) \<Rightarrow> Scope_Err e (sc\<lparr>sc_w := w\<rparr>))"

section \<open>Maps of attributes\<close>

text \<open>
  A Go map is an association list in the order a range over it takes.  The fields of a struct are
  those of a scope made for it.
\<close>

definition struct_attrs :: "genv \<Rightarrow> bool \<Rightarrow> db \<Rightarrow> world \<Rightarrow> gval \<Rightarrow> (string \<times> gval) list" where
  "struct_attrs G withIgnoredField d w v =
     fold (\<lambda>f attrs. if \<not> f_IsBlank f \<and> (withIgnoredField \<or> \<not> sf_IsIgnored (f_sf f))
                      then alist_set (f_DBName f) (field_value w f) attrs else attrs)
       (Fields G (new_scope d empty_search v w)) []"

fun convertInterfaceToMap :: "genv \<Rightarrow> bool \<Rightarrow> db \<Rightarrow> world \<Rightarrow> gval \<Rightarrow> (string \<times> gval) list"
  and convert_all :: "genv \<Rightarrow> bool \<Rightarrow> db \<Rightarrow> world \<Rightarrow> gval list \<Rightarrow> (string \<times> gval) list \<Rightarrow> (string \<times> gval) list" where
  "convertInterfaceToMap G withIgnoredField d w (VMap m) = m"
| "convertInterfaceToMap G withIgnoredField d w (VList vs) = convert_all G withIgnoredField d w vs []"
| "convertInterfaceToMap G withIgnoredField d w VNil = []"
| "convertInterfaceToMap G withIgnoredField d w v = struct_attrs G withIgnoredField d w v"
| "convert_all G withIgnoredField d w [] attrs = attrs"
| "convert_all G withIgnoredField d w (v # vs) attrs =
     convert_all G withIgnoredField d w vs
       (fold (\<lambda>p attrs. alist_set (fst p) (snd p) attrs) (convertInterfaceToMap G withIgnoredField d w v) attrs)"

definition is_expr :: "gval \<Rightarrow> bool" where
  "is_expr v = (case v of VExpr e as \<Rightarrow> True | _ \<Rightarrow> False)"

text \<open>One entry of the loop of \<^verbatim>\<open>updatedAttrsWithValues\<close>.\<close>

definition updated_attr :: "genv \<Rightarrow> string \<times> gval \<Rightarrow> (string \<times> gval) list \<times> bool \<times> scope \<Rightarrow> (string \<times> gval) list \<times> bool \<times> scope" where
  "updated_attr G kv st =
     (case st of (results, hasUpdate, sc) \<Rightarrow>
        (let sc = cache_fields G sc in
         case FieldByName G sc (fst kv) of
           None \<Rightarrow> (alist_set (fst kv) (snd kv) results, hasUpdate, sc)
         | Some i \<Rightarrow>
            (let f = field_at G sc i in
             if changeableField sc f then
               (if is_expr (snd kv) then (alist_set (f_DBName f) (snd kv) results, True, sc)
                else case set_field G i (snd kv) sc of (e, sc) \<Rightarrow>
                  (if sf_IsNormal (f_sf f) \<and> \<not> sf_IsIgnored (f_sf f)
                   then (alist_set (f_DBName f)
                           (if e = Some ErrUnaddressable then snd kv else field_value (sc_w sc) (field_at G sc i)) results,
                         True, sc)
                   else (results, hasUpdate, sc)))
             else (results, hasUpdate, sc))))"

definition updatedAttrsWithValues :: "genv \<Rightarrow> gval \<Rightarrow> scope \<Rightarrow> (string \<times> gval) list \<times> bool \<times> scope" where
  "updatedAttrsWithValues G value sc =
     (if indirect_kind G (sc_w sc) (sc_Value sc) \<noteq> KStruct
      then (convertInterfaceToMap G False (sc_db sc) (sc_w sc) value, True, sc)
      else fold (updated_attr G) (convertInterfaceToMap G True (sc_db sc) (sc_w sc) value) ([], False, sc))"

definition apply_attrs :: "genv \<Rightarrow> gval \<Rightarrow> scope \<Rightarrow> scope" where
  "apply_attrs G value sc = snd (snd (updatedAttrsWithValues G value sc))"

definition initialize :: "genv \<Rightarrow> scope \<Rightarrow> scope" where
  "initialize G sc =
     (let sc = fold (\<lambda>clause. apply_attrs G (fst clause)) (whereConditions (sc_Search sc)) sc;
          sc = apply_attrs G (VList (initAttrs (sc_Search sc))) sc
      in apply_attrs G (VList (assignAttrs (sc_Search sc))) sc)"

end
