(* ===== verification/SqlText.thy ===== *)
theory SqlText
  imports ScopeQuery Samples
begin

text \<open>
  Facts about generated SQL: how values become bind variables, how question marks are filled, what
  guards a \<^verbatim>\<open>WHERE\<close> clause, and how result columns are matched with fields.
\<close>

section \<open>Filling question marks\<close>

text \<open>The text between the marks, with the replacements between them.\<close>

fun weave :: "string list \<Rightarrow> string list \<Rightarrow> string" where
  "weave [] rs = []"
| "weave [p] rs = p"
| "weave (p # q # ps) [] = p @ ''?'' @ weave (q # ps) []"
| "weave (p # q # ps) (r # rs) = p @ r @ weave (q # ps) rs"

lemma split_char_Cons_ne: "\<exists>p ps. split_char c s = p # ps"
  by (induction s) (auto split: list.splits)

lemma weave_Cons_hd: "weave ((c # p) # ps) rs = c # weave (p # ps) rs"
  by (cases ps; cases rs) simp_all

lemma weave_Nil_hd: "weave ([] # p # ps) (r # rs) = r @ weave (p # ps) rs"
  "weave ([] # p # ps) [] = CHR ''?'' # weave (p # ps) []"
  by simp_all

lemma fill_marks_weave: "fill_marks s rs = weave (split_char (CHR ''?'') s) rs"
proof (induction s rs rule: fill_marks.induct)
  case (1 rs)
  then show ?case by simp
next
  case (2 c s rs)
  obtain p ps where p: "split_char (CHR ''?'') s = p # ps" using split_char_Cons_ne by blast
  show ?case
    using 2 p by (cases rs; cases "c = CHR ''?''") (simp_all add: weave_Cons_hd weave_Nil_hd del: weave.simps(2-4))
qed

lemma fill_marks_Nil [simp]: "fill_marks s [] = s"
  by (induction s) simp_all

lemma fill_marks_no_mark: "CHR ''?'' \<notin> set p \<Longrightarrow> fill_marks (p @ s) rs = p @ fill_marks s rs"
  by (induction p) (auto split: list.splits)

lemma count_fill_marks:
  "length rs \<le> count_char (CHR ''?'') s \<Longrightarrow>
   count_char (CHR ''?'') (fill_marks s rs) + length rs =
   count_char (CHR ''?'') s + sum_list (map (count_char (CHR ''?'')) rs)"
  by (induction s rs rule: fill_marks.induct) (auto split: list.splits)

section \<open>Bind variables\<close>

definition plain_arg :: "gval \<Rightarrow> bool" where
  "plain_arg v =
     (case v of
        VNil \<Rightarrow> True | VBool b \<Rightarrow> True | VInt k i \<Rightarrow> True | VFloat k z s \<Rightarrow> True | VStr s \<Rightarrow> True
      | VBytes b \<Rightarrow> True | VTime n s \<Rightarrow> True | VPtr a u \<Rightarrow> True | _ \<Rightarrow> False)"

text \<open>The text of the \<open>n\<close>-th bind variable in a scope.\<close>

definition mark :: "scope \<Rightarrow> nat \<Rightarrow> string" where
  "mark sc n = (if sc_skipBindVar (resolve_skip sc) then ''?'' else d_BindVar (Dialect_of sc) n)"

lemma resolve_skip_known [simp]: "sc_skipBindVarKnown sc \<Longrightarrow> resolve_skip sc = sc"
  by (simp add: resolve_skip_def)

lemma resolve_skip_fields [simp]:
  "sc_skipBindVarKnown (resolve_skip sc)" "sc_SQLVars (resolve_skip sc) = sc_SQLVars sc"
  "sc_Search (resolve_skip sc) = sc_Search sc" "Dialect_of (resolve_skip sc) = Dialect_of sc"
  "sc_Value (resolve_skip sc) = sc_Value sc" "sc_db (resolve_skip sc) = sc_db sc"
  "sc_fields (resolve_skip sc) = sc_fields sc"
  by (simp_all add: resolve_skip_def InstanceGet_def InstanceID_def fresh_def Dialect_of_def Let_def split: prod.splits)

lemma mark_resolve [simp]: "mark (resolve_skip sc) n = mark sc n"
  by (simp add: mark_def)

lemma mark_vars [simp]:
  "sc_skipBindVarKnown sc \<Longrightarrow> mark (sc\<lparr>sc_SQLVars := vs\<rparr>) n = mark sc n"
  by (simp add: mark_def Dialect_of_def)

lemma AddToVars_plain:
  "\<not> is_expr v \<Longrightarrow>
   AddToVars v sc = (mark sc (Suc (length (sc_SQLVars sc))), (resolve_skip sc)\<lparr>sc_SQLVars := sc_SQLVars sc @ [v]\<rparr>)"
  by (cases v) (simp_all add: AddToVars_def Let_def mark_def is_expr_def)

lemma plain_arg_not_expr: "plain_arg v \<Longrightarrow> \<not> is_expr v"
  by (cases v) (simp_all add: plain_arg_def is_expr_def)

lemma arg_replacement_plain:
  "plain_arg v \<Longrightarrow>
   arg_replacement v sc = ([mark sc (Suc (length (sc_SQLVars sc)))], (resolve_skip sc)\<lparr>sc_SQLVars := sc_SQLVars sc @ [v]\<rparr>)"
  using plain_arg_not_expr [of v]
  by (cases v) (simp_all add: arg_replacement_def AddToVars_plain plain_arg_def)

lemma arg_replacements_known:
  "list_all plain_arg args \<Longrightarrow> sc_skipBindVarKnown sc \<Longrightarrow>
   arg_replacements args sc =
     (map (mark sc) [Suc (length (sc_SQLVars sc))..<Suc (length (sc_SQLVars sc) + length args)],
      sc\<lparr>sc_SQLVars := sc_SQLVars sc @ args\<rparr>)"
proof (induction args arbitrary: sc)
  case Nil
  then show ?case by simp
next
  case (Cons a args)
  then show ?case by (simp add: arg_replacement_plain upt_conv_Cons del: upt_Suc)
qed

lemma arg_replacements_plain:
  assumes "list_all plain_arg args" and "args \<noteq> []"
  shows "arg_replacements args sc =
     (map (mark sc) [Suc (length (sc_SQLVars sc))..<Suc (length (sc_SQLVars sc) + length args)],
      (resolve_skip sc)\<lparr>sc_SQLVars := sc_SQLVars sc @ args\<rparr>)"
proof -
  obtain a as where a: "args = a # as" using assms(2) by (cases args) auto
  then show ?thesis
    using assms(1) by (simp add: arg_replacement_plain arg_replacements_known upt_conv_Cons del: upt_Suc)
qed

lemma touch_primary_fields [simp]:
  "sc_SQLVars (touch_primary G sc) = sc_SQLVars sc" "sc_skipBindVarKnown (touch_primary G sc) = sc_skipBindVarKnown sc"
  "sc_Search (touch_primary G sc) = sc_Search sc" "Dialect_of (touch_primary G sc) = Dialect_of sc"
  by (simp_all add: touch_primary_def cache_fields_def Dialect_of_def)

lemma mark_touch [simp]: "mark (touch_primary G sc) n = mark sc n"
  by (simp add: mark_def touch_primary_def cache_fields_def Dialect_of_def resolve_skip_def InstanceGet_def
      InstanceID_def Scope_Get_def fresh_def Let_def split: prod.splits)

lemma mark_touch_eq: "mark (touch_primary G sc) = mark sc"
  by (rule ext) simp

section \<open>Expressions\<close>

text \<open>The contract of a bind variable that a later replacement cannot mistake for a mark.\<close>

locale unmarked_bind =
  fixes bind :: "nat \<Rightarrow> string"
  assumes no_mark: "CHR ''?'' \<notin> set (bind n)"
begin

lemma fill_step: "fill_marks (replace_first ''?'' (bind n) s) rs = fill_marks s (bind n # rs)"
  by (induction s) (auto simp: has_prefix_def fill_marks_no_mark no_mark split: list.splits)

lemma add_args_plain:
  "list_all (\<lambda>v. \<not> is_expr v) args \<Longrightarrow>
   add_args bind False exp args vars =
     (fill_marks exp (map bind [Suc (length vars)..<Suc (length vars + length args)]), vars @ args)"
proof (induction args arbitrary: exp vars)
  case Nil
  then show ?case by simp
next
  case (Cons a args)
  then have "add_to_vars bind False a vars = (bind (Suc (length vars)), vars @ [a])"
    by (cases a) (simp_all add: is_expr_def)
  with Cons show ?case by (simp add: fill_step upt_conv_Cons del: upt_Suc)
qed

end

interpretation common_bind: unmarked_bind common_BindVar
  by unfold_locales (simp add: common_BindVar_def)

interpretation mssql_bind: unmarked_bind mssql_BindVar
  by unfold_locales (simp add: mssql_BindVar_def)

interpretation postgres_bind: unmarked_bind postgres_BindVar
  by unfold_locales (auto simp: postgres_BindVar_def is_digit_def char_between_def dest: dec_nat_digits)

section \<open>Scan plans\<close>

lemma scan_search_Some:
  "scan_search column fs i found = Some k \<Longrightarrow>
   found = Some k \<or> (i \<le> k \<and> k < i + length fs \<and> f_DBName (fs ! (k - i)) = column)"
proof (induction fs arbitrary: i found)
  case Nil
  then show ?case by simp
next
  case (Cons f fs)
  have shift: ?case if "Suc i \<le> k \<and> k < Suc i + length fs \<and> f_DBName (fs ! (k - Suc i)) = column"
    using that nth_Cons_Suc [of f fs "k - Suc i"] by (simp add: Suc_diff_Suc [symmetric] less_eq_Suc_le)
  show ?case
    using Cons.prems Cons.IH [of "Suc i" "Some i"] Cons.IH [of "Suc i" found] shift
    by (auto split: if_splits)
qed

lemma scan_search_exists:
  "\<exists>f\<in>set fs. f_DBName f = column \<Longrightarrow> scan_search column fs i found \<noteq> None"
  "found \<noteq> None \<Longrightarrow> scan_search column fs i found \<noteq> None"
  by (induction fs arbitrary: i found) auto

lemma scan_search_drop:
  assumes "scan_search column (drop off fs) off None = Some k"
  shows "off \<le> k \<and> k < length fs \<and> f_DBName (fs ! k) = column"
  using scan_search_Some [OF assms] by auto

lemma scan_plan_length [simp]: "length (scan_plan_loop columns fs selected) = length columns"
  by (induction columns arbitrary: selected) (simp_all add: Let_def split: option.splits)

lemma scan_plan_sound:
  "n < length columns \<Longrightarrow> scan_plan_loop columns fs selected ! n \<noteq> - 1 \<Longrightarrow>
   \<exists>k. scan_plan_loop columns fs selected ! n = int k \<and> k < length fs \<and> f_DBName (fs ! k) = columns ! n
     \<and> (\<forall>i. selected (columns ! n) = Some i \<longrightarrow> i < k)"
proof (induction columns arbitrary: n selected)
  case Nil
  then show ?case by simp
next
  case (Cons column columns)
  let ?off = "case selected column of Some idx \<Rightarrow> Suc idx | None \<Rightarrow> 0"
  show ?case
  proof (cases "scan_search column (drop ?off fs) ?off None")
    case None
    with Cons show ?thesis by (cases n) auto
  next
    case (Some k)
    note k = scan_search_drop [OF Some]
    show ?thesis
    proof (cases n)
      case 0
      with Some k show ?thesis by (auto split: option.splits)
    next
      case (Suc m)
      with Cons.prems Some have "m < length columns"
        "scan_plan_loop columns fs (selected(column \<mapsto> k)) ! m \<noteq> - 1" by simp_all
      from Cons.IH [OF this] obtain j where j: "scan_plan_loop columns fs (selected(column \<mapsto> k)) ! m = int j"
        "j < length fs" "f_DBName (fs ! j) = columns ! m"
        "\<forall>i. (selected(column \<mapsto> k)) (columns ! m) = Some i \<longrightarrow> i < j" by blast
      have "i < j" if "selected (columns ! m) = Some i" for i
        using that j(4) k by (cases "columns ! m = column") auto
      with j Suc Some show ?thesis by auto
    qed
  qed
qed

lemma scan_plan_injective:
  "m < n \<Longrightarrow> n < length columns \<Longrightarrow> scan_plan_loop columns fs selected ! m = scan_plan_loop columns fs selected ! n
   \<Longrightarrow> scan_plan_loop columns fs selected ! m = - 1"
proof (induction columns arbitrary: m n selected)
  case Nil
  then show ?case by simp
next
  case (Cons column columns)
  obtain n' where n: "n = Suc n'" using Cons.prems(1) by (cases n) auto
  let ?off = "case selected column of Some idx \<Rightarrow> Suc idx | None \<Rightarrow> 0"
  show ?case
  proof (cases "scan_search column (drop ?off fs) ?off None")
    case None
    with Cons n show ?thesis by (cases m) auto
  next
    case (Some k)
    note k = scan_search_drop [OF Some]
    show ?thesis
    proof (cases m)
      case (Suc m')
      then show ?thesis
        using Cons.prems n Some Cons.IH [of m' n' "selected(column \<mapsto> k)"] by (simp del: fun_upd_apply)
    next
      case 0
      have eq: "scan_plan_loop columns fs (selected(column \<mapsto> k)) ! n' = int k"
        using Cons.prems Some n 0 by simp
      have "n' < length columns" using Cons.prems(2) n by simp
      from scan_plan_sound [OF this, of fs "selected(column \<mapsto> k)"] eq
      have "f_DBName (fs ! k) = columns ! n'" "\<forall>i. (selected(column \<mapsto> k)) (columns ! n') = Some i \<longrightarrow> i < k"
        by auto
      with k show ?thesis by auto
    qed
  qed
qed

lemma scan_plan_complete:
  "n < length columns \<Longrightarrow> columns ! n \<notin> set (take n columns) \<Longrightarrow> selected (columns ! n) = None \<Longrightarrow>
   \<exists>f\<in>set fs. f_DBName f = columns ! n \<Longrightarrow> scan_plan_loop columns fs selected ! n \<noteq> - 1"
proof (induction columns arbitrary: n selected)
  case Nil
  then show ?case by simp
next
  case (Cons column columns)
  show ?case
  proof (cases n)
    case 0
    with Cons.prems scan_search_exists(1) [of fs column 0 None] show ?thesis by auto
  next
    case (Suc m)
    with Cons show ?thesis by (auto simp: Let_def split: option.splits)
  qed
qed

section \<open>Maps of attributes\<close>

lemma Fields_cache [simp]: "Fields G (cache_fields G sc) = Fields G sc"
  by (simp add: Fields_def [of G "cache_fields G sc"]) (simp add: cache_fields_def)

lemma cache_fields_simps [simp]:
  "sc_Search (cache_fields G sc) = sc_Search sc" "sc_Value (cache_fields G sc) = sc_Value sc"
  "sc_w (cache_fields G sc) = sc_w sc" "sc_db (cache_fields G sc) = sc_db sc"
  "sc_SQLVars (cache_fields G sc) = sc_SQLVars sc" "sc_selectAttrs (cache_fields G sc) = sc_selectAttrs sc"
  by (simp_all add: cache_fields_def)

lemma cache_fields_reads [simp]:
  "GetModelStruct G' (cache_fields G sc) = GetModelStruct G' sc" "Dialect_of (cache_fields G sc) = Dialect_of sc"
  "Scope_Quote (cache_fields G sc) str = Scope_Quote sc str"
  "TableName G' (cache_fields G sc) = TableName G' sc" "QuotedTableName G' (cache_fields G sc) = QuotedTableName G' sc"
  by (simp_all add: GetModelStruct_def Dialect_of_def Scope_Quote_def TableName_def QuotedTableName_def cong: option.case_cong)

text \<open>Setting a field changes neither the struct fields nor the lists of selected and omitted names.\<close>

lemma Field_Set_sf: "f_sf (fst (snd (Field_Set G v f w))) = f_sf f"
  by (auto simp: Field_Set_def new_error_def Let_def split: fref.splits prod.splits)

definition field_infos :: "genv \<Rightarrow> scope \<Rightarrow> StructField list" where
  "field_infos G sc = map f_sf (Fields G sc)"

definition same_attrs :: "genv \<Rightarrow> scope \<Rightarrow> scope \<Rightarrow> bool" where
  "same_attrs G sc sc' =
     (field_infos G sc' = field_infos G sc \<and> sc_Search sc' = sc_Search sc \<and> sc_selectAttrs sc' = sc_selectAttrs sc)"

lemma same_attrs_refl [simp]: "same_attrs G sc sc"
  by (simp add: same_attrs_def)

lemma same_attrs_trans: "same_attrs G a b \<Longrightarrow> same_attrs G b c \<Longrightarrow> same_attrs G a c"
  by (simp add: same_attrs_def)

lemma same_attrs_cache [simp]: "same_attrs G sc (cache_fields G sc)"
  by (simp add: same_attrs_def field_infos_def cache_fields_def Fields_def)

lemma same_attrs_set_field: "same_attrs G sc (snd (set_field G i v sc))"
proof -
  have "map f_sf ((Fields G sc)[i := fst (snd (Field_Set G v (field_at G sc i) (sc_w sc)))]) = map f_sf (Fields G sc)"
    by (cases "i < length (Fields G sc)")
      (simp_all add: map_update Field_Set_sf field_at_def list_update_same_conv list_update_beyond)
  moreover obtain e f w where "Field_Set G v (field_at G sc i) (sc_w sc) = (e, f, w)"
    by (cases "Field_Set G v (field_at G sc i) (sc_w sc)") auto
  ultimately show ?thesis
    by (simp add: same_attrs_def field_infos_def set_field_def Fields_def)
qed

lemma changeableField_cong:
  "same_attrs G sc sc' \<Longrightarrow> f_sf f' = f_sf f \<Longrightarrow> changeableField sc' f' = changeableField sc f"
proof -
  assume same: "same_attrs G sc sc'" and sf: "f_sf f' = f_sf f"
  then have "SelectAttrs sc' = SelectAttrs sc" "OmitAttrs sc' = OmitAttrs sc"
    by (simp_all add: same_attrs_def SelectAttrs_def OmitAttrs_def cong: option.case_cong)
  with sf show "changeableField sc' f' = changeableField sc f"
    by (simp add: changeableField_def f_Name_def f_DBName_def)
qed

lemma field_by_name_cong:
  "map f_sf fs = map f_sf gs \<Longrightarrow> field_by_name name dbName fs i m = field_by_name name dbName gs i m"
proof -
  assume "map f_sf fs = map f_sf gs"
  moreover from this have "length fs = length gs" by (rule map_eq_imp_length_eq)
  ultimately show ?thesis
    by (induction fs gs arbitrary: i m rule: list_induct2') (simp_all add: f_Name_def f_DBName_def)
qed

lemma FieldByName_cong: "same_attrs G sc sc' \<Longrightarrow> FieldByName G sc' name = FieldByName G sc name"
  unfolding FieldByName_def same_attrs_def field_infos_def by (rule field_by_name_cong) simp

lemma field_by_name_bound:
  "field_by_name name dbName fs i m = Some k \<Longrightarrow> m = Some k \<or> (i \<le> k \<and> k < i + length fs)"
  by (induction fs arbitrary: i m) (fastforce split: if_splits)+

lemma FieldByName_bound: "FieldByName G sc name = Some i \<Longrightarrow> i < length (Fields G sc)"
  using field_by_name_bound by (fastforce simp: FieldByName_def)

text \<open>
  What may be among the attributes of an update: the column of a field that may be changed, or a key
  that names no field.
\<close>

definition allowed_key :: "genv \<Rightarrow> scope \<Rightarrow> string \<Rightarrow> bool" where
  "allowed_key G sc k =
     (FieldByName G sc k = None \<or> (\<exists>f\<in>set (Fields G sc). f_DBName f = k \<and> changeableField sc f))"

lemma allowed_key_cong: "same_attrs G sc sc' \<Longrightarrow> allowed_key G sc' k = allowed_key G sc k"
proof -
  assume same: "same_attrs G sc sc'"
  have imp: "\<exists>f\<in>set (Fields G b). f_DBName f = k \<and> changeableField b f"
    if ab: "same_attrs G a b" and ex: "\<exists>f\<in>set (Fields G a). f_DBName f = k \<and> changeableField a f" for a b
  proof -
    obtain f where f: "f \<in> set (Fields G a)" "f_DBName f = k" "changeableField a f" using ex by blast
    have "f_sf ` set (Fields G b) = f_sf ` set (Fields G a)"
      using ab by (metis same_attrs_def field_infos_def list.set_map)
    then obtain g where g: "g \<in> set (Fields G b)" "f_sf g = f_sf f" using f(1) by (metis imageE imageI)
    moreover have "changeableField b g" using changeableField_cong [OF ab g(2)] f(3) by simp
    moreover have "f_DBName g = k" using f(2) g(2) by (simp add: f_DBName_def)
    ultimately show ?thesis by blast
  qed
  have rev: "same_attrs G sc' sc" using same by (simp add: same_attrs_def)
  show ?thesis
    unfolding allowed_key_def FieldByName_cong [OF same]
    using imp [OF same] imp [OF rev] by blast
qed

definition allowed_keys :: "genv \<Rightarrow> scope \<Rightarrow> (string \<times> gval) list \<Rightarrow> bool" where
  "allowed_keys G sc m = (\<forall>k\<in>fst ` set m. allowed_key G sc k)"

lemma allowed_keys_set:
  "allowed_key G sc k \<Longrightarrow> allowed_keys G sc m \<Longrightarrow> allowed_keys G sc (alist_set k v m)"
  by (simp add: allowed_keys_def keys_alist_set)

lemma allowed_keys_cong: "same_attrs G sc sc' \<Longrightarrow> allowed_keys G sc' m = allowed_keys G sc m"
  by (simp add: allowed_keys_def allowed_key_cong)

lemma updated_attr_allowed:
  assumes "updated_attr G kv (results, u, sc) = (results', u', sc')" and old: "allowed_keys G sc results"
  shows "same_attrs G sc sc' \<and> allowed_keys G sc results'"
proof -
  let ?sc = "cache_fields G sc"
  have same: "same_attrs G sc ?sc" by simp
  show ?thesis
  proof (cases "FieldByName G ?sc (fst kv)")
    case None
    then have "allowed_key G sc (fst kv)" using FieldByName_cong [OF same] by (simp add: allowed_key_def)
    then show ?thesis
      using assms(1) None allowed_keys_set [OF _ old] by (auto simp: updated_attr_def Let_def)
  next
    case (Some i)
    let ?f = "field_at G ?sc i"
    have mem: "?f \<in> set (Fields G ?sc)" using FieldByName_bound [OF Some] by (simp add: field_at_def)
    have key: "allowed_keys G sc (alist_set (f_DBName ?f) v results)" if "changeableField ?sc ?f" for v
    proof -
      have "allowed_key G ?sc (f_DBName ?f)" using that mem by (auto simp: allowed_key_def)
      then show ?thesis using allowed_keys_set old allowed_key_cong [OF same] by blast
    qed
    have set1: "same_attrs G sc (snd (set_field G i (snd kv) ?sc))"
      using same_attrs_trans [OF same same_attrs_set_field] .
    show ?thesis
      using assms(1) old Some key set1 same
      by (auto simp: updated_attr_def Let_def split: if_splits prod.splits)
  qed
qed

lemma updated_attrs_allowed:
  "fold (updated_attr G) kvs (results, u, sc) = (results', u', sc') \<Longrightarrow> allowed_keys G sc results \<Longrightarrow>
   same_attrs G sc sc' \<and> allowed_keys G sc results'"
proof (induction kvs arbitrary: results u sc)
  case Nil
  then show ?case by simp
next
  case (Cons kv kvs)
  obtain r1 u1 sc1 where step: "updated_attr G kv (results, u, sc) = (r1, u1, sc1)"
    by (cases "updated_attr G kv (results, u, sc)") auto
  note one = updated_attr_allowed [OF step Cons.prems(2)]
  have "fold (updated_attr G) kvs (r1, u1, sc1) = (results', u', sc')" using Cons.prems(1) step by simp
  moreover have "allowed_keys G sc1 r1" using one allowed_keys_cong by blast
  ultimately have "same_attrs G sc1 sc' \<and> allowed_keys G sc1 results'" by (rule Cons.IH)
  then show ?case using one same_attrs_trans allowed_keys_cong by blast
qed

end
