(* ===== verification/SqlProps.thy ===== *)
theory SqlProps
  imports SqlText
begin

text \<open>Properties of the generated SQL.\<close>

section \<open>Values are bound, not written\<close>



text \<open>
  The marks of a condition are filled from left to right: the text between the marks is kept
  verbatim, the \<open>n\<close>-th mark becomes the \<open>n\<close>-th replacement, marks without one stay, and a question
  mark inside a replacement is never taken for a mark.
\<close>

theorem fill_marks_interleaves:
  "fill_marks str replacements = weave (split_char (CHR ''?'') str) replacements"
  by (rule fill_marks_weave)

text \<open>
  An expression with plain arguments, under the dialects whose placeholder has no question mark
  in it (common, MySQL, PostgreSQL, mssql), gets its marks filled in order.
\<close>

theorem expression_arguments_in_order:
  assumes "bind \<in> {common_BindVar, postgres_BindVar, mssql_BindVar}" and "list_all (\<lambda>v. \<not> is_expr v) args"
  shows "add_to_vars bind False (VExpr exp args) vars =
    (fill_marks exp (map bind [Suc (length vars)..<Suc (length vars + length args)]), vars @ args)"
  using assms common_bind.add_args_plain postgres_bind.add_args_plain mssql_bind.add_args_plain by auto

lemma expression_arguments_in_order_witness:
  "add_to_vars mssql_BindVar False (VExpr ''price * ? + ?'' [VInt KInt 2, VInt KInt 100]) [] =
     (''price * $$$ + $$$'', [VInt KInt 2, VInt KInt 100])"
  using expression_arguments_in_order [of mssql_BindVar "[VInt KInt 2, VInt KInt 100]" "''price * ? + ?''" "[]"]
  by (simp add: is_expr_def mssql_BindVar_def)

text \<open>
  Under DM, whose placeholder is the question mark itself, an expression among the arguments goes
  to the place of the first mark, also when it belongs to the second: the value before it is then
  bound to the wrong place.
\<close>

theorem dm_expression_misplaced:
  assumes "CHR ''?'' \<notin> set p" and "\<not> is_expr v"
  shows "add_to_vars dm_BindVar False (VExpr (p @ ''?'' @ q @ ''?'' @ t) [v, VExpr e []]) vars =
    (p @ e @ q @ ''?'' @ t, vars @ [v])"
proof -
  have v: "add_to_vars dm_BindVar False v vars = (''?'', vars @ [v])"
    using assms(2) by (cases v) (simp_all add: is_expr_def dm_BindVar_def)
  have first: "replace_first ''?'' r (p @ CHR ''?'' # u) = p @ r @ u" for r u
    using assms(1) by (induction p) (auto simp: has_prefix_def)
  show ?thesis by (simp add: v first)
qed

lemma dm_expression_misplaced_witness:
  "add_to_vars dm_BindVar False (VExpr ''? - ?'' [VInt KInt 1, VExpr ''price'' []]) [] = (''price - ?'', [VInt KInt 1])"
  using dm_expression_misplaced [of "[]" "VInt KInt 1" "'' - ''" "[]" "''price''" "[]"] by (simp add: is_expr_def)

section \<open>The soft-delete guard\<close>

lemma str_join_Cons: "str_join sep (x # xs) = x @ (if xs = [] then [] else sep @ str_join sep xs)"
  by (cases xs) simp_all



section \<open>Columns and fields\<close>

text \<open>
  C27: The scan plan maps each result column to a field of that column name or to none, never two
  result columns to one field, and the first occurrence of a name to a field whenever there is one.
\<close>

theorem scan_plan_correct:
  "length (buildScanPlan columns fs) = length columns
   \<and> (\<forall>n<length columns. buildScanPlan columns fs ! n \<noteq> - 1 \<longrightarrow>
        (\<exists>k. buildScanPlan columns fs ! n = int k \<and> k < length fs \<and> f_DBName (fs ! k) = columns ! n))
   \<and> (\<forall>n<length columns. \<forall>m<n. buildScanPlan columns fs ! m = buildScanPlan columns fs ! n
        \<longrightarrow> buildScanPlan columns fs ! n = - 1)
   \<and> (\<forall>n<length columns. columns ! n \<notin> set (take n columns) \<and> (\<exists>f\<in>set fs. f_DBName f = columns ! n)
        \<longrightarrow> buildScanPlan columns fs ! n \<noteq> - 1)"
proof -
  let ?plan = "scan_plan_loop columns fs (\<lambda>_. None)"
  have "\<exists>k. ?plan ! n = int k \<and> k < length fs \<and> f_DBName (fs ! k) = columns ! n"
    if "n < length columns" "?plan ! n \<noteq> - 1" for n
    using scan_plan_sound [OF that] by blast
  moreover have "?plan ! n = - 1" if "n < length columns" "m < n" "?plan ! m = ?plan ! n" for m n
    using scan_plan_injective [OF that(2,1,3)] that(3) by simp
  moreover have "?plan ! n \<noteq> - 1"
    if "n < length columns" "columns ! n \<notin> set (take n columns)" "\<exists>f\<in>set fs. f_DBName f = columns ! n" for n
    by (rule scan_plan_complete [OF that(1,2) _ that(3)]) simp
  ultimately show ?thesis unfolding buildScanPlan_def by simp
qed



lemma scan_plan_correct_witness:
  "buildScanPlan [''name'', ''x'', ''name''] user_fields ! 0 \<noteq> - 1"
proof -
  have "\<exists>f\<in>set user_fields. f_DBName f = ''name''"
    by (simp add: user_fields_def f_DBName_def name_field_def sample_field_def)
  then show ?thesis
    using scan_plan_correct [of "[''name'', ''x'', ''name'']" user_fields] by fastforce
qed

end
