(* ===== verification/CrudCallbacks.thy ===== *)
theory CrudCallbacks
  imports ScopeQuery
begin

text \<open>
  The default callbacks (\<^verbatim>\<open>callback_create.go\<close>, \<^verbatim>\<open>callback_update.go\<close>, \<^verbatim>\<open>callback_delete.go\<close>,
  \<^verbatim>\<open>callback_query.go\<close>, \<^verbatim>\<open>callback_save.go\<close>): one definition per callback, a function from scope to
  outcome, and the chains they form.  Deferred log lines are in \<open>Logging\<close>.
\<close>

section \<open>Transaction and hooks\<close>

definition beginTransactionCallback :: "genv \<Rightarrow> callback" where
  "beginTransactionCallback G sc = Done (Scope_Begin G sc)"

definition commitOrRollbackTransactionCallback :: "genv \<Rightarrow> callback" where
  "commitOrRollbackTransactionCallback G sc = Done (CommitOrRollback G sc)"

text \<open>\<^verbatim>\<open>if !scope.HasError() { scope.CallMethod(name) }\<close>.\<close>

definition call_hook :: "genv \<Rightarrow> hooks \<Rightarrow> string \<Rightarrow> callback" where
  "call_hook G hooks name sc = (if \<not> HasError sc then CallMethod G hooks name sc else Done sc)"

definition beforeCreateCallback :: "genv \<Rightarrow> hooks \<Rightarrow> callback" where
  "beforeCreateCallback G hooks sc =
     and_then (call_hook G hooks ''BeforeSave'' sc) (call_hook G hooks ''BeforeCreate'')"

definition afterCreateCallback :: "genv \<Rightarrow> hooks \<Rightarrow> callback" where
  "afterCreateCallback G hooks sc =
     and_then (call_hook G hooks ''AfterCreate'' sc) (call_hook G hooks ''AfterSave'')"

text \<open>Setting a timestamp column only when it is blank; the error of \<^verbatim>\<open>Set\<close> is dropped.\<close>

definition set_blank_field :: "genv \<Rightarrow> string \<Rightarrow> gval \<Rightarrow> scope \<Rightarrow> scope" where
  "set_blank_field G name v sc =
     (let sc = cache_fields G sc
      in case FieldByName G sc name of
           Some i \<Rightarrow> if f_IsBlank (field_at G sc i) then snd (set_field G i v sc) else sc
         | None \<Rightarrow> sc)"

definition updateTimeStampForCreateCallback :: "genv \<Rightarrow> callback" where
  "updateTimeStampForCreateCallback G sc =
     (if \<not> HasError sc then
        (case nowFunc G (sc_db sc) (sc_w sc) of (now, w) \<Rightarrow>
           Done (set_blank_field G ''UpdatedAt'' now (set_blank_field G ''CreatedAt'' now (sc\<lparr>sc_w := w\<rparr>))))
      else Done sc)"

section \<open>Create\<close>

definition createColumnValue :: "scope \<Rightarrow> Field \<Rightarrow> gval" where
  "createColumnValue sc f =
     (let value = field_value (sc_w sc) f
      in case Scope_Get sc ''gorm:create_column_expressions'' of
           Some (VExprMap expressions) \<Rightarrow>
             (case map_of expressions (f_DBName f) of
                Some (Some (e, args)) \<Rightarrow> VExpr e args
              | _ \<Rightarrow> value)
         | _ \<Rightarrow> value)"

text \<open>The columns and placeholders collected so far, the blank columns with a default, and the scope.\<close>

type_synonym create_state = "string list \<times> string list \<times> string list \<times> scope"

definition add_create_column :: "Field \<Rightarrow> create_state \<Rightarrow> create_state" where
  "add_create_column f st =
     (case st of (columns, placeholders, blanks, sc) \<Rightarrow>
        case AddToVars (createColumnValue sc f) sc of (p, sc') \<Rightarrow>
          (columns @ [Scope_Quote sc (f_DBName f)], placeholders @ [p], blanks, sc'))"

definition add_foreign_column :: "genv \<Rightarrow> string \<Rightarrow> create_state \<Rightarrow> create_state" where
  "add_foreign_column G foreignKey st =
     (case st of (columns, placeholders, blanks, sc) \<Rightarrow>
        (case FieldByName G sc foreignKey of
           Some i \<Rightarrow> if \<not> changeableField sc (field_at G sc i) then add_create_column (field_at G sc i) st else st
         | None \<Rightarrow> st))"

definition create_column :: "genv \<Rightarrow> Field \<Rightarrow> create_state \<Rightarrow> create_state" where
  "create_column G f st =
     (case st of (columns, placeholders, blanks, sc) \<Rightarrow>
        if changeableField sc f then
          (if sf_IsNormal (f_sf f) \<and> \<not> sf_IsIgnored (f_sf f) then
             (if f_IsBlank f \<and> sf_HasDefaultValue (f_sf f) then
                (let blanks = blanks @ [Scope_Quote sc (f_DBName f)]
                 in (columns, placeholders, blanks,
                     InstanceSet ''gorm:blank_columns_with_default_value'' (VStrs blanks) sc))
              else if \<not> sf_IsPrimaryKey (f_sf f) \<or> \<not> f_IsBlank f then add_create_column f st
              else st)
           else (case sf_Relationship (f_sf f) of
                   Some r \<Rightarrow> if rel_Kind r = ''belongs_to''
                             then fold (add_foreign_column G) (rel_ForeignDBNames r) st else st
                 | None \<Rightarrow> st))
        else st)"

definition setting_text :: "scope \<Rightarrow> string \<Rightarrow> string" where
  "setting_text sc name = (case Scope_Get sc name of Some v \<Rightarrow> Sprint v | None \<Rightarrow> [])"

definition insert_modifier :: "scope \<Rightarrow> string" where
  "insert_modifier sc =
     (let m = to_upper (setting_text sc ''gorm:insert_modifier'') in if m = ''INTO'' then [] else m)"

definition insert_text :: "genv \<Rightarrow> scope \<Rightarrow> string list \<Rightarrow> string list \<Rightarrow> string \<Rightarrow> string \<Rightarrow> string" where
  "insert_text G sc columns placeholders interstitial returning =
     (let insertModifier = insert_modifier sc;
          extraOption = setting_text sc ''gorm:insert_option''
      in if columns = []
         then ''INSERT'' @ addExtraSpaceIfExist insertModifier @ '' INTO '' @ QuotedTableName G sc @ '' ''
              @ d_DefaultValueStr (Dialect_of sc) @ addExtraSpaceIfExist extraOption @ addExtraSpaceIfExist returning
         else ''INSERT'' @ addExtraSpaceIfExist insertModifier @ '' INTO '' @ QuotedTableName G sc
              @ '' ('' @ str_join '','' columns @ '')'' @ addExtraSpaceIfExist interstitial
              @ '' VALUES ('' @ str_join '','' placeholders @ '')'' @ addExtraSpaceIfExist extraOption
              @ addExtraSpaceIfExist returning)"

text \<open>\<^verbatim>\<open>n, _ = result.RowsAffected()\<close>.\<close>

definition affected_or_zero :: "reply \<Rightarrow> int" where
  "affected_or_zero r = (case r_affected r of Inr n \<Rightarrow> n | Inl e \<Rightarrow> 0)"

definition set_rows_affected :: "int \<Rightarrow> scope \<Rightarrow> scope" where
  "set_rows_affected n sc = sc\<lparr>sc_db := (sc_db sc)\<lparr>db_RowsAffected := n\<rparr>\<rparr>"

text \<open>Executing the insert, and reading \<^verbatim>\<open>LastInsertId\<close> into a blank primary field.\<close>

definition create_exec :: "genv \<Rightarrow> nat option \<Rightarrow> scope \<Rightarrow> scope" where
  "create_exec G primaryField sc =
     (case scope_call G (CallExec (db_conn (sc_db sc)) (sc_SQL sc) (sc_SQLVars sc)) sc of (r, sc) \<Rightarrow>
        case r_err r of
          Some e \<Rightarrow> Scope_Err (Some e) sc
        | None \<Rightarrow>
           (let sc = set_rows_affected (affected_or_zero r) sc
            in case primaryField of
                 None \<Rightarrow> sc
               | Some i \<Rightarrow>
                  (if f_IsBlank (field_at G sc i)
                   then (case r_last_id r of
                           Inl e \<Rightarrow> Scope_Err (Some e) sc
                         | Inr newId \<Rightarrow> (case set_field G i (VInt KInt64 newId) sc of (e, sc) \<Rightarrow> Scope_Err e sc))
                   else sc)))"

text \<open>
  \<^verbatim>\<open>Scan\<close> of one value into a variable of type \<open>t\<close>: its error, the new content if the variable
  was written.
\<close>

definition scan_dest :: "genv \<Rightarrow> rtype \<Rightarrow> gval \<Rightarrow> world \<Rightarrow> err option \<times> gval option \<times> world" where
  "scan_dest G t v w =
     (let T = g_types G t in
      if t_kind T = KPtr
      then (if v = VNil then (None, Some (VPtr 0 None), w)
            else case fresh w of (p, w) \<Rightarrow>
                   (case g_assign G v (t_elem T) of
                      Inl e \<Rightarrow> (Some e, Some (VPtr p (Some (zero_value G (t_elem T)))), w)
                    | Inr u \<Rightarrow> (None, Some (VPtr p (Some u)), w)))
      else (case g_assign G v t of Inl e \<Rightarrow> (Some e, None, w) | Inr u \<Rightarrow> (None, Some u, w)))"

text \<open>
  \<^verbatim>\<open>Row.Scan\<close> of one destination: the query's error, or that there is no row, or that the row has
  another number of columns.
\<close>

definition row_scan :: "genv \<Rightarrow> rtype \<Rightarrow> reply \<Rightarrow> world \<Rightarrow> err option \<times> gval option \<times> world" where
  "row_scan G t r w =
     (case r_err r of
        Some e \<Rightarrow> (Some e, None, w)
      | None \<Rightarrow>
         (case r_rows r of
            [] \<Rightarrow> (Some (case r_rows_err r of Some e \<Rightarrow> e | None \<Rightarrow> ErrNoRows), None, w)
          | row # rest \<Rightarrow>
             (case row of
                [v] \<Rightarrow> scan_dest G t v w
              | _ \<Rightarrow> (case new_error ''sql: expected another number of destination arguments'' w of (e, w) \<Rightarrow> (Some e, None, w)))))"

definition scan_identity :: "genv \<Rightarrow> nat \<Rightarrow> reply \<Rightarrow> scope \<Rightarrow> err option \<times> scope" where
  "scan_identity G i r sc =
     (let f = field_at G sc i
      in case row_scan G (m_type (sf_Struct (f_sf f))) r (sc_w sc) of (e, v, w) \<Rightarrow>
           (e, sc\<lparr>sc_w := (case v of Some u \<Rightarrow> set_ref_value (f_ref f) u w | None \<Rightarrow> w)\<rparr>))"

definition create_query :: "genv \<Rightarrow> nat \<Rightarrow> scope \<Rightarrow> scope" where
  "create_query G i sc =
     (case f_ref (field_at G sc i) of
        FRef a j \<Rightarrow>
          (case scope_call G (CallQueryRow (db_conn (sc_db sc)) (sc_SQL sc) (sc_SQLVars sc)) sc of (r, sc) \<Rightarrow>
           case scan_identity G i r sc of
             (Some e, sc) \<Rightarrow> Scope_Err (Some e) sc
           | (None, sc) \<Rightarrow>
               set_rows_affected 1 (sc\<lparr>sc_fields := Some ((Fields G sc)[i := (field_at G sc i)\<lparr>f_IsBlank := False\<rparr>])\<rparr>))
      | _ \<Rightarrow> Scope_Err (Some ErrUnaddressable) sc)"

definition createCallback :: "genv \<Rightarrow> callback" where
  "createCallback G sc0 =
     (if \<not> HasError sc0 then
        (let sc = cache_fields G sc0
         in case fold (create_column G) (Fields G sc) ([], [], [], sc) of (columns, placeholders, blanks, sc) \<Rightarrow>
           (let quotedTableName = QuotedTableName G sc;
                primaryField = PrimaryField_index G sc;
                returningColumn = (case primaryField of Some i \<Rightarrow> Scope_Quote sc (f_DBName (field_at G sc i)) | None \<Rightarrow> ''*'');
                interstitial = d_LastInsertIDOutputInterstitial (Dialect_of sc) quotedTableName returningColumn columns;
                returning = (if interstitial = [] then d_LastInsertIDReturningSuffix (Dialect_of sc) quotedTableName returningColumn else []);
                sc = Scope_Raw (insert_text G sc columns placeholders interstitial returning) sc
            in case primaryField of
                 None \<Rightarrow> Done (create_exec G None sc)
               | Some i \<Rightarrow> Done (if returning = [] \<and> interstitial = [] then create_exec G (Some i) sc else create_query G i sc)))
      else Done sc0)"

section \<open>Update\<close>

definition assignUpdatingAttributesCallback :: "genv \<Rightarrow> callback" where
  "assignUpdatingAttributesCallback G sc =
     (case InstanceGet ''gorm:update_interface'' sc of
        (None, sc) \<Rightarrow> Done sc
      | (Some attrs, sc) \<Rightarrow>
         (case updatedAttrsWithValues G attrs sc of (updateMaps, hasUpdate, sc) \<Rightarrow>
            Done (if hasUpdate then InstanceSet ''gorm:update_attrs'' (VMap updateMaps) sc else SkipLeft sc)))"

definition beforeUpdateCallback :: "genv \<Rightarrow> hooks \<Rightarrow> callback" where
  "beforeUpdateCallback G hooks sc0 =
     (let sc = (if HasBlockGlobalUpdate (sc_db sc0) then touch_primary G sc0 else sc0) in
      if HasBlockGlobalUpdate (sc_db sc) \<and> \<not> hasConditions G sc
      then Done (scope_error ''missing WHERE clause while updating'' sc)
      else if Scope_Get sc ''gorm:update_column'' = None
      then and_then (call_hook G hooks ''BeforeSave'' sc) (call_hook G hooks ''BeforeUpdate'')
      else Done sc)"

definition updateTimeStampForUpdateCallback :: "genv \<Rightarrow> callback" where
  "updateTimeStampForUpdateCallback G sc =
     (if Scope_Get sc ''gorm:update_column'' = None
      then (case nowFunc G (sc_db sc) (sc_w sc) of (now, w) \<Rightarrow> Done (snd (SetColumn G ''UpdatedAt'' now (sc\<lparr>sc_w := w\<rparr>))))
      else Done sc)"

text \<open>\<^verbatim>\<open>column = placeholder\<close> for a value.\<close>

definition assignment :: "string \<Rightarrow> gval \<Rightarrow> string list \<times> scope \<Rightarrow> string list \<times> scope" where
  "assignment column value st =
     (case st of (sqls, sc) \<Rightarrow>
        case AddToVars value sc of (p, sc') \<Rightarrow> (sqls @ [Scope_Quote sc column @ '' = '' @ p], sc'))"

text \<open>The columns of the attribute map in sorted order.\<close>

definition attr_assignments :: "(string \<times> gval) list \<Rightarrow> scope \<Rightarrow> string list \<times> scope" where
  "attr_assignments m sc =
     fold (\<lambda>column. assignment column (case map_of m column of Some v \<Rightarrow> v | None \<Rightarrow> VNil)) (sort (map fst m)) ([], sc)"

definition foreign_assignment :: "genv \<Rightarrow> string \<Rightarrow> string list \<times> scope \<Rightarrow> string list \<times> scope" where
  "foreign_assignment G foreignKey st =
     (case FieldByName G (snd st) foreignKey of
        Some i \<Rightarrow>
          (let f = field_at G (snd st) i
           in if \<not> changeableField (snd st) f then assignment (f_DBName f) (field_value (sc_w (snd st)) f) st else st)
      | None \<Rightarrow> st)"

definition field_assignment :: "genv \<Rightarrow> Field \<Rightarrow> string list \<times> scope \<Rightarrow> string list \<times> scope" where
  "field_assignment G f st =
     (if changeableField (snd st) f then
        (if \<not> sf_IsPrimaryKey (f_sf f) \<and> sf_IsNormal (f_sf f) \<and> (f_Name f \<noteq> ''CreatedAt'' \<or> \<not> f_IsBlank f) then
           (if \<not> sf_IsForeignKey (f_sf f) \<or> \<not> f_IsBlank f \<or> \<not> sf_HasDefaultValue (f_sf f)
            then assignment (f_DBName f) (field_value (sc_w (snd st)) f) st else st)
         else (case sf_Relationship (f_sf f) of
                 Some r \<Rightarrow> if rel_Kind r = ''belongs_to'' then fold (foreign_assignment G) (rel_ForeignDBNames r) st else st
               | None \<Rightarrow> st))
      else st)"

definition updateCallback :: "genv \<Rightarrow> callback" where
  "updateCallback G sc =
     (if \<not> HasError sc then
        (case (case InstanceGet ''gorm:update_attrs'' sc of
                 (Some (VMap m), sc) \<Rightarrow> attr_assignments m sc
               | (_, sc) \<Rightarrow> (let sc = cache_fields G sc in fold (field_assignment G) (Fields G sc) ([], sc))) of
           (sqls, sc) \<Rightarrow>
             (let extraOption = setting_text sc ''gorm:update_option''
              in if sqls \<noteq> []
                 then (let tbl = QuotedTableName G sc
                       in case CombinedConditionSql G sc of (cond, sc) \<Rightarrow>
                            Done (Scope_Exec G (Scope_Raw (''UPDATE '' @ tbl @ '' SET '' @ str_join '', '' sqls
                                    @ addExtraSpaceIfExist cond @ addExtraSpaceIfExist extraOption) sc)))
                 else Done sc))
      else Done sc)"

definition afterUpdateCallback :: "genv \<Rightarrow> hooks \<Rightarrow> callback" where
  "afterUpdateCallback G hooks sc =
     (if Scope_Get sc ''gorm:update_column'' = None
      then and_then (call_hook G hooks ''AfterUpdate'' sc) (call_hook G hooks ''AfterSave'')
      else Done sc)"

section \<open>Delete\<close>

definition beforeDeleteCallback :: "genv \<Rightarrow> hooks \<Rightarrow> callback" where
  "beforeDeleteCallback G hooks sc0 =
     (let sc = (if HasBlockGlobalUpdate (sc_db sc0) then touch_primary G sc0 else sc0) in
      if HasBlockGlobalUpdate (sc_db sc) \<and> \<not> hasConditions G sc
      then Done (scope_error ''missing WHERE clause while deleting'' sc)
      else call_hook G hooks ''BeforeDelete'' sc)"

definition deleteCallback :: "genv \<Rightarrow> callback" where
  "deleteCallback G sc0 =
     (if \<not> HasError sc0 then
        (let extraOption = setting_text sc0 ''gorm:delete_option'';
             sc = cache_fields G sc0;
             tbl = QuotedTableName G sc
         in case (if \<not> s_Unscoped (sc_Search sc) then FieldByName G sc ''DeletedAt'' else None) of
              Some i \<Rightarrow>
                (let column = Scope_Quote sc (f_DBName (field_at G sc i))
                 in case nowFunc G (sc_db sc) (sc_w sc) of (now, w) \<Rightarrow>
                    case AddToVars now (sc\<lparr>sc_w := w\<rparr>) of (p, sc) \<Rightarrow>
                    case CombinedConditionSql G sc of (cond, sc) \<Rightarrow>
                      Done (Scope_Exec G (Scope_Raw (''UPDATE '' @ tbl @ '' SET '' @ column @ ''='' @ p
                              @ addExtraSpaceIfExist cond @ addExtraSpaceIfExist extraOption) sc)))
            | None \<Rightarrow>
                (case CombinedConditionSql G sc of (cond, sc) \<Rightarrow>
                   Done (Scope_Exec G (Scope_Raw (''DELETE FROM '' @ tbl
                           @ addExtraSpaceIfExist cond @ addExtraSpaceIfExist extraOption) sc))))
      else Done sc0)"

definition afterDeleteCallback :: "genv \<Rightarrow> hooks \<Rightarrow> callback" where
  "afterDeleteCallback G hooks = call_hook G hooks ''AfterDelete''"

end
