(* ===== verification/Crud.thy ===== *)
theory Crud
  imports CrudCallbacks
begin

text \<open>
  Queries (\<^verbatim>\<open>callback_query.go\<close>, \<^verbatim>\<open>callback_row_query.go\<close>) and the operations of \<^verbatim>\<open>main.go\<close> that run a
  chain of callbacks: create, update, save, delete, find and their variants.  The chains are a
  parameter, the sets of callbacks that \<^verbatim>\<open>db.parent.callbacks\<close> holds; the default chains are defined
  at the end.
\<close>

section \<open>Query\<close>

text \<open>A new element of a result slice: an object with zero values.\<close>

definition new_object :: "genv \<Rightarrow> rtype \<Rightarrow> world \<Rightarrow> nat \<times> world" where
  "new_object G t w =
     (case fresh w of (a, w) \<Rightarrow>
        (a, w\<lparr>w_objs := (w_objs w)(a \<mapsto>
               (t, map (\<lambda>sf. zero_value G (m_type (sf_Struct sf))) (ms_StructFields (g_models G t))))\<rparr>))"

definition append_element :: "nat \<Rightarrow> gval \<Rightarrow> world \<Rightarrow> world" where
  "append_element a v w =
     (case w_objs w a of
        Some (t, vs) \<Rightarrow> w\<lparr>w_objs := (w_objs w)(a \<mapsto> (t, vs @ [v]))\<rparr>
      | None \<Rightarrow> w)"

text \<open>Where the rows go: one object, or a slice object with its element type; nowhere addressable.\<close>

datatype destination = DestStruct nat | DestSlice nat rtype | DestUnaddressable | DestBad

definition query_destination :: "genv \<Rightarrow> world \<Rightarrow> gval \<Rightarrow> destination" where
  "query_destination G w v =
     (case indirect_kind G w v of
        KSlice \<Rightarrow>
          (case v of
             VObj a \<Rightarrow> (case w_objs w a of
                          Some (t, vs) \<Rightarrow>
                            (let rt = t_elem (g_types G t)
                             in DestSlice a (if t_kind (g_types G rt) = KPtr then t_elem (g_types G rt) else rt))
                        | None \<Rightarrow> DestBad)
           | _ \<Rightarrow> DestUnaddressable)
      | KStruct \<Rightarrow> (case v of VObj a \<Rightarrow> DestStruct a | _ \<Rightarrow> DestUnaddressable)
      | _ \<Rightarrow> DestBad)"

definition clear_slice :: "nat \<Rightarrow> world \<Rightarrow> world" where
  "clear_slice a w =
     (case w_objs w a of Some (t, vs) \<Rightarrow> w\<lparr>w_objs := (w_objs w)(a \<mapsto> (t, []))\<rparr> | None \<Rightarrow> w)"

text \<open>One row: the plan is made with the fields of the first element.\<close>

definition scan_query_row :: "genv \<Rightarrow> destination \<Rightarrow> string list \<Rightarrow> gval list \<Rightarrow> int list option \<times> scope \<Rightarrow> int list option \<times> scope" where
  "scan_query_row G dest columns row st =
     (case st of (plan, sc) \<Rightarrow>
        (let sc = set_rows_affected (db_RowsAffected (sc_db sc) + 1) sc;
             (a, sc) = (case dest of
                          DestSlice s t \<Rightarrow> (case new_object G t (sc_w sc) of (a, w) \<Rightarrow> (a, sc\<lparr>sc_w := w\<rparr>))
                        | DestStruct a \<Rightarrow> (a, sc)
                        | _ \<Rightarrow> (0, sc));
             fs = Fields G (Scope_New G (VObj a) sc);
             plan = (case plan of Some p \<Rightarrow> p | None \<Rightarrow> buildScanPlan columns fs);
             sc = scanWithPlan G row fs plan sc
         in (Some plan,
             case dest of DestSlice s t \<Rightarrow> sc\<lparr>sc_w := append_element s (VObj a) (sc_w sc)\<rparr> | _ \<Rightarrow> sc)))"

definition scan_query_rows :: "genv \<Rightarrow> destination \<Rightarrow> string list \<Rightarrow> gval list list \<Rightarrow> scope \<Rightarrow> scope" where
  "scan_query_rows G dest columns rows sc = snd (fold (scan_query_row G dest columns) rows (None, sc))"

definition with_hint :: "scope \<Rightarrow> scope" where
  "with_hint sc =
     (case Scope_Get sc ''gorm:query_hint'' of
        Some str \<Rightarrow> sc\<lparr>sc_SQL := Sprint str @ sc_SQL sc\<rparr>
      | None \<Rightarrow> sc)"

text \<open>A struct that is not addressable panics when the first row arrives.\<close>

definition run_query :: "genv \<Rightarrow> destination \<Rightarrow> callback" where
  "run_query G dest sc =
     (if \<not> HasError sc then
        (let sc = with_hint (set_rows_affected 0 sc)
         in case scope_call G (CallQuery (db_conn (sc_db sc)) (sc_SQL sc) (sc_SQLVars sc)) sc of (r, sc) \<Rightarrow>
            (case r_err r of
               Some e \<Rightarrow> Done (Scope_Err (Some e) sc)
             | None \<Rightarrow>
                (if dest = DestUnaddressable \<and> r_rows r \<noteq> [] then Panicked (set_rows_affected 1 sc)
                 else
                   (let sc = scan_query_rows G dest (r_columns r) (r_rows r) sc
                    in case r_rows_err r of
                         Some e \<Rightarrow> Done (Scope_Err (Some e) sc)
                       | None \<Rightarrow>
                          Done (case dest of
                                  DestSlice a t \<Rightarrow> sc
                                | _ \<Rightarrow> if db_RowsAffected (sc_db sc) = 0 then Scope_Err (Some ErrRecordNotFound) sc else sc)))))
      else Done sc)"

definition order_by_primary :: "genv \<Rightarrow> scope \<Rightarrow> scope" where
  "order_by_primary G sc0 =
     (case Scope_Get sc0 ''gorm:order_by_primary_key'' of
        None \<Rightarrow> sc0
      | Some orderBy \<Rightarrow>
         (let sc = touch_primary G sc0
          in case PrimaryField G sc of
               None \<Rightarrow> sc
             | Some f \<Rightarrow>
                sc\<lparr>sc_Search := search_Order (VStr (QuotedTableName G sc @ ''.'' @ Scope_Quote sc (f_DBName f) @ '' '' @ Sprint orderBy))
                                 [] (sc_Search sc)\<rparr>))"

definition queryCallback :: "genv \<Rightarrow> callback" where
  "queryCallback G sc0 =
     (case InstanceGet ''gorm:skip_query_callback'' sc0 of
        (Some v, sc) \<Rightarrow> Done sc
      | (None, sc) \<Rightarrow>
         (case InstanceGet ''gorm:only_preload'' sc of
            (Some v, sc) \<Rightarrow> Done sc
          | (None, sc) \<Rightarrow>
             (let sc = order_by_primary G sc;
                  v = (case Scope_Get sc ''gorm:query_destination'' of Some value \<Rightarrow> value | None \<Rightarrow> sc_Value sc);
                  dest = query_destination G (sc_w sc) v
              in case dest of
                   DestBad \<Rightarrow> Done (scope_error ''unsupported destination, should be slice or struct'' sc)
                 | DestSlice a t \<Rightarrow>
                    and_then (prepareQuerySQL G (sc\<lparr>sc_w := clear_slice a (sc_w sc)\<rparr>)) (run_query G dest)
                 | DestUnaddressable \<Rightarrow>
                    (if indirect_kind G (sc_w sc) v = KSlice then Panicked sc
                     else and_then (prepareQuerySQL G sc) (run_query G dest))
                 | DestStruct a \<Rightarrow> and_then (prepareQuerySQL G sc) (run_query G dest))))"

definition afterQueryCallback :: "genv \<Rightarrow> hooks \<Rightarrow> callback" where
  "afterQueryCallback G hooks = call_hook G hooks ''AfterFind''"

text \<open>The result object of \<^verbatim>\<open>row()\<close> and \<^verbatim>\<open>rows()\<close>, as the setting that names it.\<close>

definition row_query_marker :: "bool \<Rightarrow> gval" where
  "row_query_marker isRow = VOpaque KPtr False (if isRow then ''*RowQueryResult'' else ''*RowsQueryResult'')"

definition rowQueryCallback :: "genv \<Rightarrow> callback" where
  "rowQueryCallback G sc0 =
     (case InstanceGet ''row_query_result'' sc0 of
        (None, sc) \<Rightarrow> Done sc
      | (Some result, sc) \<Rightarrow>
         and_then (prepareQuerySQL G sc) (\<lambda>sc.
           (let sc = with_hint sc in
            if result = row_query_marker True then
              (case scope_call G (CallQueryRow (db_conn (sc_db sc)) (sc_SQL sc) (sc_SQLVars sc)) sc of
                 (r, sc) \<Rightarrow> Done (sc\<lparr>sc_row_result := Some r\<rparr>))
            else if result = row_query_marker False then
              (case scope_call G (CallQuery (db_conn (sc_db sc)) (sc_SQL sc) (sc_SQLVars sc)) sc of
                 (r, sc) \<Rightarrow> Done (sc\<lparr>sc_row_result := Some r\<rparr>))
            else Done sc)))"

section \<open>Operations\<close>

record chains =
  ch_creates :: "callback list"
  ch_updates :: "callback list"
  ch_deletes :: "callback list"
  ch_queries :: "callback list"
  ch_rowQueries :: "callback list"

text \<open>\<^verbatim>\<open>row()\<close> and \<^verbatim>\<open>rows()\<close>.\<close>

definition scope_row :: "genv \<Rightarrow> chains \<Rightarrow> bool \<Rightarrow> scope \<Rightarrow> outcome" where
  "scope_row G C isRow sc =
     callCallbacks G (ch_rowQueries C) (InstanceSet ''row_query_result'' (row_query_marker isRow) (sc\<lparr>sc_row_result := None\<rparr>))"

text \<open>\<^verbatim>\<open>pluck\<close>: each row is scanned into a new element, appended also when the scan failed.\<close>

definition pluck_row :: "genv \<Rightarrow> nat \<Rightarrow> rtype \<Rightarrow> gval list \<Rightarrow> scope \<Rightarrow> scope" where
  "pluck_row G a t row sc =
     (case row_scan G t \<lparr>r_err = None, r_last_id = Inr 0, r_affected = Inr 0, r_columns = [], r_rows = [row], r_rows_err = None\<rparr> (sc_w sc) of
        (e, v, w) \<Rightarrow>
          Scope_Err e (sc\<lparr>sc_w := append_element a (case v of Some u \<Rightarrow> u | None \<Rightarrow> zero_value G t) w\<rparr>))"

definition pluck_select :: "string \<Rightarrow> scope \<Rightarrow> scope" where
  "pluck_select column sc =
     (case selects (sc_Search sc) of
        Some (query, args) \<Rightarrow>
          if isQueryForColumn sc query column then sc
          else sc\<lparr>sc_Search := search_Select (VStr column) [] (sc_Search sc)\<rparr>
      | None \<Rightarrow> sc\<lparr>sc_Search := search_Select (VStr column) [] (sc_Search sc)\<rparr>)"

definition pluck :: "genv \<Rightarrow> chains \<Rightarrow> string \<Rightarrow> gval \<Rightarrow> scope \<Rightarrow> outcome" where
  "pluck G C column value sc0 =
     (case value of
        VObj a \<Rightarrow>
          (case w_objs (sc_w sc0) a of
             Some (t, vs) \<Rightarrow>
               (if t_kind (g_types G t) \<noteq> KSlice then Done (scope_error ''results should be a slice'' sc0)
                else and_then (scope_row G C False (pluck_select column (sc0\<lparr>sc_w := clear_slice a (sc_w sc0)\<rparr>)))
                  (\<lambda>sc. case sc_row_result sc of
                          None \<Rightarrow> Panicked sc
                        | Some r \<Rightarrow>
                           (case r_err r of
                              Some e \<Rightarrow> Done (Scope_Err (Some e) sc)
                            | None \<Rightarrow> Done (Scope_Err (r_rows_err r) (fold (pluck_row G a (t_elem (g_types G t))) (r_rows r) sc)))))
           | None \<Rightarrow> Done (scope_error ''results should be a slice'' sc0))
      | _ \<Rightarrow> Done (scope_error ''results should be a slice'' sc0))"

text \<open>
  \<^verbatim>\<open>count\<close> into a variable of type \<open>t\<close>: with the outcome, what the variable holds if it was written.
\<close>

definition count_select :: "genv \<Rightarrow> scope \<Rightarrow> outcome" where
  "count_select G sc =
     (if (case selects (sc_Search sc) of Some (query, args) \<Rightarrow> is_counting_query (Sprint query) | None \<Rightarrow> False) then Done sc
      else if s_group (sc_Search sc) \<noteq> [] then
        (if havingConditions (sc_Search sc) \<noteq> [] then
           and_then (prepareQuerySQL G sc) (\<lambda>sc. Done (sc\<lparr>sc_Search :=
             search_Table (''( '' @ sc_SQL sc @ '' ) AS count_table'') (search_Select (VStr ''count(*)'') [] empty_search)\<rparr>))
         else Done (sc\<lparr>sc_Search :=
             (search_Select (VStr ''count(*) FROM ( SELECT count(*) as name '') [] (sc_Search sc))
               \<lparr>s_group := s_group (sc_Search sc) @ '' ) AS count_table''\<rparr>\<rparr>))
      else Done (sc\<lparr>sc_Search := search_Select (VStr ''count(*)'') [] (sc_Search sc)\<rparr>))"

definition count_scan :: "genv \<Rightarrow> rtype \<Rightarrow> scope \<Rightarrow> outcome \<times> gval option" where
  "count_scan G t sc =
     (case sc_row_result sc of
        None \<Rightarrow> (Panicked sc, None)
      | Some r \<Rightarrow> (case row_scan G t r (sc_w sc) of (e, v, w) \<Rightarrow> (Done (Scope_Err e (sc\<lparr>sc_w := w\<rparr>)), v)))"

definition count :: "genv \<Rightarrow> chains \<Rightarrow> rtype \<Rightarrow> scope \<Rightarrow> outcome \<times> gval option" where
  "count G C t sc =
     (case and_then (count_select G sc)
             (\<lambda>sc. scope_row G C True (sc\<lparr>sc_Search := (sc_Search sc)\<lparr>ignoreOrderQuery := True\<rparr>\<rparr>)) of
        Done sc \<Rightarrow> count_scan G t sc
      | Panicked sc \<Rightarrow> (Panicked sc, None))"

definition DB_Create :: "genv \<Rightarrow> chains \<Rightarrow> gval \<Rightarrow> db \<Rightarrow> world \<Rightarrow> outcome" where
  "DB_Create G C value s w = callCallbacks G (ch_creates C) (NewScope G s value w)"

definition CreateWithColumnExpressions ::
    "genv \<Rightarrow> chains \<Rightarrow> gval \<Rightarrow> (string \<times> (string \<times> gval list) option) list \<Rightarrow> db \<Rightarrow> world \<Rightarrow> outcome" where
  "CreateWithColumnExpressions G C value expressions s w =
     (if expressions = [] then DB_Create G C value s w
      else DB_Create G C value (DB_Set G ''gorm:create_column_expressions'' (VExprMap expressions) s) w)"

definition limit_scope :: "gval \<Rightarrow> scope \<Rightarrow> scope" where
  "limit_scope n sc = sc\<lparr>sc_Search := search_Limit n (sc_Search sc)\<rparr>"

definition DB_First :: "genv \<Rightarrow> chains \<Rightarrow> gval \<Rightarrow> gval list \<Rightarrow> db \<Rightarrow> world \<Rightarrow> outcome" where
  "DB_First G C out conds s w =
     callCallbacks G (ch_queries C) (inlineCondition conds
       (Scope_Set ''gorm:order_by_primary_key'' (VStr ''ASC'') (limit_scope (VInt KInt 1) (NewScope G s out w))))"

definition DB_Take :: "genv \<Rightarrow> chains \<Rightarrow> gval \<Rightarrow> gval list \<Rightarrow> db \<Rightarrow> world \<Rightarrow> outcome" where
  "DB_Take G C out conds s w =
     callCallbacks G (ch_queries C) (inlineCondition conds (limit_scope (VInt KInt 1) (NewScope G s out w)))"

definition DB_Last :: "genv \<Rightarrow> chains \<Rightarrow> gval \<Rightarrow> gval list \<Rightarrow> db \<Rightarrow> world \<Rightarrow> outcome" where
  "DB_Last G C out conds s w =
     callCallbacks G (ch_queries C) (inlineCondition conds
       (Scope_Set ''gorm:order_by_primary_key'' (VStr ''DESC'') (limit_scope (VInt KInt 1) (NewScope G s out w))))"

definition DB_Find :: "genv \<Rightarrow> chains \<Rightarrow> gval \<Rightarrow> gval list \<Rightarrow> db \<Rightarrow> world \<Rightarrow> outcome" where
  "DB_Find G C out conds s w = callCallbacks G (ch_queries C) (inlineCondition conds (NewScope G s out w))"

definition DB_Preloads :: "genv \<Rightarrow> chains \<Rightarrow> gval \<Rightarrow> db \<Rightarrow> world \<Rightarrow> outcome" where
  "DB_Preloads G C out s w =
     callCallbacks G (ch_queries C) (InstanceSet ''gorm:only_preload'' (VInt KInt 1) (NewScope G s out w))"

definition DB_Scan :: "genv \<Rightarrow> callback list \<Rightarrow> gval \<Rightarrow> db \<Rightarrow> world \<Rightarrow> outcome" where
  "DB_Scan G queries dest s w =
     callCallbacks G queries (Scope_Set ''gorm:query_destination'' dest (NewScope G s (db_Value s) w))"

definition DB_Pluck :: "genv \<Rightarrow> chains \<Rightarrow> string \<Rightarrow> gval \<Rightarrow> db \<Rightarrow> world \<Rightarrow> outcome" where
  "DB_Pluck G C column value s w = pluck G C column value (NewScope G s (db_Value s) w)"

definition DB_Count :: "genv \<Rightarrow> chains \<Rightarrow> rtype \<Rightarrow> db \<Rightarrow> world \<Rightarrow> outcome \<times> gval option" where
  "DB_Count G C t s w = count G C t (NewScope G s (db_Value s) w)"

definition DB_Updates :: "genv \<Rightarrow> chains \<Rightarrow> gval \<Rightarrow> bool list \<Rightarrow> db \<Rightarrow> world \<Rightarrow> outcome" where
  "DB_Updates G C vals ignoreProtectedAttrs s w =
     callCallbacks G (ch_updates C)
       (InstanceSet ''gorm:update_interface'' vals
         (Scope_Set ''gorm:ignore_protected_attrs'' (VBool (ignoreProtectedAttrs \<noteq> [])) (NewScope G s (db_Value s) w)))"

definition DB_Update :: "genv \<Rightarrow> chains \<Rightarrow> gval list \<Rightarrow> db \<Rightarrow> world \<Rightarrow> outcome" where
  "DB_Update G C attrs s w = DB_Updates G C (toSearchableMap attrs) [True] s w"

definition UpdateColumns :: "genv \<Rightarrow> chains \<Rightarrow> gval \<Rightarrow> db \<Rightarrow> world \<Rightarrow> outcome" where
  "UpdateColumns G C vals s w =
     callCallbacks G (ch_updates C)
       (InstanceSet ''gorm:update_interface'' vals
         (Scope_Set ''gorm:save_associations'' (VBool False)
           (Scope_Set ''gorm:update_column'' (VBool True) (NewScope G s (db_Value s) w))))"

definition UpdateColumn :: "genv \<Rightarrow> chains \<Rightarrow> gval list \<Rightarrow> db \<Rightarrow> world \<Rightarrow> outcome" where
  "UpdateColumn G C attrs s w = UpdateColumns G C (toSearchableMap attrs) s w"

definition DB_Delete :: "genv \<Rightarrow> chains \<Rightarrow> gval \<Rightarrow> gval list \<Rightarrow> db \<Rightarrow> world \<Rightarrow> outcome" where
  "DB_Delete G C value conds s w = callCallbacks G (ch_deletes C) (inlineCondition conds (NewScope G s value w))"

definition NewRecord :: "genv \<Rightarrow> gval \<Rightarrow> db \<Rightarrow> world \<Rightarrow> bool" where
  "NewRecord G value s w = PrimaryKeyZero G (NewScope G s value w)"

definition DB_Exec :: "genv \<Rightarrow> string \<Rightarrow> gval list \<Rightarrow> db \<Rightarrow> world \<Rightarrow> scope" where
  "DB_Exec G sql vals s w =
     (case buildCondition G (VStr sql, vals) True (NewScope G s VNil w) of (generatedSQL, sc) \<Rightarrow>
        Scope_Exec G (Scope_Raw (trim_suffix (trim_prefix generatedSQL ''('') '')'') sc))"

text \<open>\<^verbatim>\<open>QueryExpr\<close> and \<^verbatim>\<open>SubQuery\<close>: the expression, or the panic of the query text.\<close>

definition QueryExpr :: "genv \<Rightarrow> db \<Rightarrow> world \<Rightarrow> gval option" where
  "QueryExpr G s w =
     (case prepareQuerySQL G (InstanceSet ''skip_bindvar'' (VBool True) (NewScope G s (db_Value s) w)) of
        Done sc \<Rightarrow> Some (VExpr (sc_SQL sc) (sc_SQLVars sc))
      | Panicked sc \<Rightarrow> None)"

definition SubQuery :: "genv \<Rightarrow> db \<Rightarrow> world \<Rightarrow> gval option" where
  "SubQuery G s w =
     (case prepareQuerySQL G (InstanceSet ''skip_bindvar'' (VBool True) (NewScope G s (db_Value s) w)) of
        Done sc \<Rightarrow> Some (VExpr (''('' @ sc_SQL sc @ '')'') (sc_SQLVars sc))
      | Panicked sc \<Rightarrow> None)"

text \<open>
  \<^verbatim>\<open>FirstOrInit\<close> and \<^verbatim>\<open>FirstOrCreate\<close>: the scope whose handle is returned.  \<^verbatim>\<open>FirstOrInit\<close> returns
  the clone it started from, as a scope in the world it leaves.
\<close>

definition in_world :: "db \<Rightarrow> world \<Rightarrow> scope" where
  "in_world s w = new_scope s empty_search (db_Value s) w"

definition clone_search :: "db \<Rightarrow> search" where
  "clone_search c = (case db_search c of Some sr \<Rightarrow> sr | None \<Rightarrow> empty_search)"

definition FirstOrInit :: "genv \<Rightarrow> chains \<Rightarrow> gval \<Rightarrow> gval list \<Rightarrow> db \<Rightarrow> world \<Rightarrow> outcome" where
  "FirstOrInit G C out conds s w =
     (let c = DB_clone G s in
      and_then (DB_First G C out conds c w) (\<lambda>sc.
        if db_Error (sc_db sc) \<noteq> None then
          (if \<not> RecordNotFound (sc_db sc) then Done sc
           else Done (in_world c (sc_w (initialize G (inlineCondition conds (NewScope G c out (sc_w sc)))))))
        else Done (in_world c (sc_w (apply_attrs G (VList (assignAttrs (clone_search c))) (NewScope G c out (sc_w sc)))))))"

definition FirstOrCreate :: "genv \<Rightarrow> chains \<Rightarrow> gval \<Rightarrow> gval list \<Rightarrow> db \<Rightarrow> world \<Rightarrow> outcome" where
  "FirstOrCreate G C out conds s w =
     (let c = DB_clone G s in
      and_then (DB_First G C out conds s w) (\<lambda>sc.
        if db_Error (sc_db sc) \<noteq> None then
          (if \<not> RecordNotFound (sc_db sc) then Done sc
           else callCallbacks G (ch_creates C) (initialize G (inlineCondition conds (NewScope G c out (sc_w sc)))))
        else if assignAttrs (clone_search c) \<noteq> [] then
          callCallbacks G (ch_updates C)
            (InstanceSet ''gorm:update_interface'' (VList (assignAttrs (clone_search c))) (NewScope G c out (sc_w sc)))
        else Done (in_world c (sc_w sc))))"

definition DB_Save :: "genv \<Rightarrow> chains \<Rightarrow> gval \<Rightarrow> db \<Rightarrow> world \<Rightarrow> outcome" where
  "DB_Save G C value s w =
     (let sc = touch_primary G (NewScope G s value w) in
      if \<not> PrimaryKeyZero G sc then
        and_then (callCallbacks G (ch_updates C) sc) (\<lambda>sc.
          if db_Error (sc_db sc) = None \<and> db_RowsAffected (sc_db sc) = 0
          then FirstOrCreate G C value [] (DB_Table G (TableName G sc) (DB_New G s)) (sc_w sc)
          else Done sc)
      else callCallbacks G (ch_creates C) sc)"

definition ScanRows :: "genv \<Rightarrow> string list \<Rightarrow> gval list \<Rightarrow> gval \<Rightarrow> db \<Rightarrow> world \<Rightarrow> err option \<times> world" where
  "ScanRows G columns row result s w =
     (let sc = cache_fields G (NewScope G s result w);
          sc = scanWithPlan G row (Fields G sc) (buildScanPlan columns (Fields G sc)) sc
      in (db_Error (sc_db sc), sc_w sc))"

text \<open>A handle is returned, or the operation panics.\<close>

datatype db_out = DbDone db world | DbPanic db world

fun db_of_outcome :: "outcome \<Rightarrow> db_out" where
  "db_of_outcome (Done sc) = DbDone (sc_db sc) (sc_w sc)"
| "db_of_outcome (Panicked sc) = DbPanic (sc_db sc) (sc_w sc)"

end
