(* ===== verification/JoinTables.thy ===== *)
theory JoinTables
  imports Crud
begin

text \<open>
  The operations of a join table (\<^verbatim>\<open>join_table_handler.go\<close>) and the columns of values as arrays
  (\<^verbatim>\<open>getColumnAsArray\<close> of \<^verbatim>\<open>scope.go\<close>, \<^verbatim>\<open>toQueryCondition\<close> of \<^verbatim>\<open>utils.go\<close>).

  The handler of a relationship is the default one.  A Go map built here is listed in the order in
  which its keys were first assigned; the runtime may iterate in another one.
\<close>

section \<open>Columns as arrays\<close>

text \<open>
  The operands of \<^verbatim>\<open>fmt.Sprint\<close> are separated by a space where neither neighbour is a string.
\<close>

fun sprint_args :: "gval list \<Rightarrow> string" where
  "sprint_args [] = []"
| "sprint_args [v] = Sprint v"
| "sprint_args (v # u # vs) =
     Sprint v @ (case (v, u) of (VStr a, _) \<Rightarrow> [] | (_, VStr b) \<Rightarrow> [] | _ \<Rightarrow> '' '') @ sprint_args (u # vs)"

text \<open>\<^verbatim>\<open>FieldByName\<close> of \<^verbatim>\<open>reflect\<close> on the struct behind a value; \<open>None\<close> when there is no such field.\<close>

definition go_field :: "genv \<Rightarrow> world \<Rightarrow> gval \<Rightarrow> string \<Rightarrow> gval option" where
  "go_field G w v column =
     (case v of
        VObj a \<Rightarrow>
          (case w_objs w a of
             Some (t, vs) \<Rightarrow>
               (case List.find (\<lambda>p. sf_Name (snd p) = column) (enumerate 0 (ms_StructFields (g_models G t))) of
                  Some (i, sf) \<Rightarrow> Some (obj_value w a i)
                | None \<Rightarrow> None)
           | None \<Rightarrow> None)
      | VStruct t fs \<Rightarrow> map_of fs column
      | _ \<Rightarrow> None)"

fun go_fields :: "genv \<Rightarrow> world \<Rightarrow> gval \<Rightarrow> string list \<Rightarrow> gval list option" where
  "go_fields G w v [] = Some []"
| "go_fields G w v (column # columns) =
     (case go_field G w v column of
        None \<Rightarrow> None
      | Some x \<Rightarrow> map_option (\<lambda>xs. x # xs) (go_fields G w v columns))"

text \<open>The objects a value stands for: the elements of a slice, or the struct.\<close>

definition value_objects :: "genv \<Rightarrow> world \<Rightarrow> gval \<Rightarrow> gval list" where
  "value_objects G w v =
     (case indirect_kind G w v of
        KSlice \<Rightarrow>
          (case v of
             VObj a \<Rightarrow> (case w_objs w a of Some (t, vs) \<Rightarrow> vs | None \<Rightarrow> [])
           | VSlice t (Some vs) \<Rightarrow> vs
           | VList vs \<Rightarrow> vs
           | _ \<Rightarrow> [])
      | KStruct \<Rightarrow> [v]
      | _ \<Rightarrow> [])"

text \<open>
  One object: its row is kept when it has a value that is not blank and no earlier row has the
  same text.  A missing field panics.
\<close>

fun column_rows ::
    "genv \<Rightarrow> world \<Rightarrow> string list \<Rightarrow> gval list \<Rightarrow> (string \<times> gval list) list \<Rightarrow> (string \<times> gval list) list option" where
  "column_rows G w columns [] resultMap = Some resultMap"
| "column_rows G w columns (v # vs) resultMap =
     (case go_fields G w v columns of
        None \<Rightarrow> None
      | Some result \<Rightarrow>
         column_rows G w columns vs
           (if list_ex (\<lambda>x. \<not> isBlank x) result \<and> map_of resultMap (sprint_args result) = None
            then resultMap @ [(sprint_args result, result)] else resultMap))"

definition getColumnAsArray :: "genv \<Rightarrow> string list \<Rightarrow> gval \<Rightarrow> world \<Rightarrow> gval list list option" where
  "getColumnAsArray G columns v w = map_option (map snd) (column_rows G w columns (value_objects G w v) [])"

definition toQueryCondition :: "scope \<Rightarrow> string list \<Rightarrow> string" where
  "toQueryCondition sc columns =
     (let newColumns = map (Scope_Quote sc) columns
      in if length columns > 1 then ''('' @ str_join '','' newColumns @ '')'' else str_join '','' newColumns)"

section \<open>The default handler\<close>

definition jth_Table :: "genv \<Rightarrow> JoinTableHandler \<Rightarrow> string" where
  "jth_Table G h = g_tableNameHandler G (jth_TableName h)"

definition condition_keys :: "genv \<Rightarrow> scope \<Rightarrow> JoinTableForeignKey list \<Rightarrow> (string \<times> gval) list \<Rightarrow> (string \<times> gval) list" where
  "condition_keys G sc keys m =
     fold (\<lambda>k m. case FieldByName G sc (jtk_AssociationDBName k) of
                    Some i \<Rightarrow> alist_set (jtk_DBName k) (field_value (sc_w sc) (field_at G sc i)) m
                  | None \<Rightarrow> m) keys m"

text \<open>For every source, the first join-table side of its model type.\<close>

definition updateConditionMap ::
    "genv \<Rightarrow> db \<Rightarrow> world \<Rightarrow> JoinTableSource list \<Rightarrow> gval list \<Rightarrow> (string \<times> gval) list \<Rightarrow> (string \<times> gval) list" where
  "updateConditionMap G d w joinTableSources sources m =
     fold (\<lambda>source m.
        (let sc = NewScope G d source w
         in case List.find (\<lambda>s. Some (jts_ModelType s) = ms_ModelType (GetModelStruct G sc)) joinTableSources of
              Some s \<Rightarrow> condition_keys G sc (jts_ForeignKeys s) m
            | None \<Rightarrow> m)) sources m"

definition insert_missing_sql :: "scope \<Rightarrow> string \<Rightarrow> string list \<Rightarrow> string" where
  "insert_missing_sql sc tbl keys =
     (let quotedTable = Scope_Quote sc tbl
      in ''INSERT INTO '' @ quotedTable @ '' ('' @ str_join '','' (map (Scope_Quote sc) keys) @ '') SELECT ''
         @ str_join '','' (map (\<lambda>_. ''?'') keys) @ '' '' @ d_SelectFromDummyTable (Dialect_of sc)
         @ '' WHERE NOT EXISTS (SELECT * FROM '' @ quotedTable @ '' WHERE ''
         @ str_join '' AND '' (map (\<lambda>k. Scope_Quote sc k @ '' = ?'') keys) @ '')'')"

definition jth_Add :: "genv \<Rightarrow> JoinTableHandler \<Rightarrow> db \<Rightarrow> gval \<Rightarrow> gval \<Rightarrow> world \<Rightarrow> err option \<times> world" where
  "jth_Add G h d source destination w =
     (let m = updateConditionMap G d w [jth_Destination h] [destination]
                (updateConditionMap G d w [jth_Source h] [source] []);
          vals = map snd m;
          sc = DB_Exec G (insert_missing_sql (NewScope G d (VStr []) w) (jth_Table G h) (map fst m)) (vals @ vals) d w
      in (db_Error (sc_db sc), sc_w sc))"

definition jth_Delete :: "genv \<Rightarrow> chains \<Rightarrow> JoinTableHandler \<Rightarrow> db \<Rightarrow> gval list \<Rightarrow> world \<Rightarrow> outcome" where
  "jth_Delete G C h d sources w =
     (let sc = NewScope G d VNil w;
          m = updateConditionMap G d w [jth_Source h, jth_Destination h] sources []
      in DB_Delete G C (VStr []) []
           (DB_Where G (VStr (str_join '' AND '' (map (\<lambda>k. Scope_Quote sc k @ '' = ?'') (map fst m)))) (map snd m)
             (DB_Table G (jth_Table G h) d)) w)"

definition join_on :: "scope \<Rightarrow> string \<Rightarrow> string \<Rightarrow> JoinTableForeignKey list \<Rightarrow> string" where
  "join_on sc quotedTableName destinationTableName keys =
     str_join '' AND '' (map (\<lambda>k. quotedTableName @ ''.'' @ Scope_Quote sc (jtk_DBName k) @ '' = ''
                                   @ destinationTableName @ ''.'' @ Scope_Quote sc (jtk_AssociationDBName k)) keys)"

definition source_field_names :: "genv \<Rightarrow> scope \<Rightarrow> JoinTableForeignKey list \<Rightarrow> string list" where
  "source_field_names G sc keys =
     concat (map (\<lambda>k. case FieldByName G sc (jtk_AssociationDBName k) of
                         Some i \<Rightarrow> [f_Name (field_at G sc i)] | None \<Rightarrow> []) keys)"

text \<open>
  The handle with the join and the condition on the source's keys; a source of another type is an
  error of the handle.  \<open>None\<close> is the panic of \<^verbatim>\<open>getColumnAsArray\<close>.
\<close>

definition jth_JoinWith :: "genv \<Rightarrow> JoinTableHandler \<Rightarrow> db \<Rightarrow> gval \<Rightarrow> world \<Rightarrow> db option \<times> world" where
  "jth_JoinWith G h d source w =
     (let sc = NewScope G d source w;
          tableName = jth_Table G h;
          quotedTableName = Scope_Quote sc tableName
      in if Some (jts_ModelType (jth_Source h)) = ms_ModelType (GetModelStruct G sc) then
           (case new_object G (jts_ModelType (jth_Destination h)) w of (a, w) \<Rightarrow>
              (let destinationTableName = QuotedTableName G (NewScope G d (VObj a) w);
                   keys = jts_ForeignKeys (jth_Source h)
               in case getColumnAsArray G (source_field_names G sc keys) source w of
                    None \<Rightarrow> (None, w)
                  | Some rows \<Rightarrow>
                     (let condString =
                            (if rows \<noteq> []
                             then toQueryCondition sc (map (\<lambda>k. tableName @ ''.'' @ jtk_DBName k) keys)
                                  @ '' IN ('' @ toQueryMarks rows @ '')''
                             else ''1 <> 1'')
                      in (Some (DB_Where G (VStr condString) (toQueryValues rows)
                            (DB_Joins G (''INNER JOIN '' @ quotedTableName @ '' ON ''
                               @ join_on sc quotedTableName destinationTableName (jts_ForeignKeys (jth_Destination h))) [] d)), w))))
         else (case new_error ''wrong source type for join table handler'' w of (e, w) \<Rightarrow> (Some (d\<lparr>db_Error := Some e\<rparr>), w)))"

section \<open>Properties of the array of columns\<close>

text \<open>Every row is kept under its text, so the rows have different texts, and each is an object's.\<close>

lemma column_rows_keys:
  "column_rows G w columns vs m = Some m' \<Longrightarrow> map sprint_args (map snd m) = map fst m \<Longrightarrow> distinct (map fst m) \<Longrightarrow>
   map sprint_args (map snd m') = map fst m' \<and> distinct (map fst m')"
proof (induction vs arbitrary: m)
  case Nil
  then show ?case by simp
next
  case (Cons v vs)
  from Cons.prems(1) obtain r where r: "go_fields G w v columns = Some r" by (cases "go_fields G w v columns") simp_all
  show ?case
  proof (cases "list_ex (\<lambda>x. \<not> isBlank x) r \<and> map_of m (sprint_args r) = None")
    case True
    have "column_rows G w columns vs (m @ [(sprint_args r, r)]) = Some m'"
      using Cons.prems(1) r True by (simp del: map_map)
    moreover have "map sprint_args (map snd (m @ [(sprint_args r, r)])) = map fst (m @ [(sprint_args r, r)])"
      using Cons.prems(2) by simp
    moreover have "distinct (map fst (m @ [(sprint_args r, r)]))"
      using Cons.prems(3) True by (simp add: map_of_eq_None_iff)
    ultimately show ?thesis by (rule Cons.IH)
  next
    case False
    then have "column_rows G w columns vs m = Some m'" using Cons.prems(1) r by (simp only: column_rows.simps option.case if_False)
    then show ?thesis using Cons.prems(2,3) by (rule Cons.IH)
  qed
qed

lemma getColumnAsArray_distinct:
  assumes "getColumnAsArray G columns v w = Some rows" shows "distinct (map sprint_args rows)"
proof -
  obtain m where m: "column_rows G w columns (value_objects G w v) [] = Some m" and rows: "rows = map snd m"
    using assms by (auto simp: getColumnAsArray_def)
  have "map sprint_args (map snd m) = map fst m \<and> distinct (map fst m)"
    by (rule column_rows_keys [OF m]) simp_all
  then show ?thesis by (simp only: rows)
qed

end
