(* ===== verification/SaveAssociations.thy ===== *)
theory SaveAssociations
  imports JoinTables
begin

text \<open>
  Saving the associations of a value (\<^verbatim>\<open>callback_save.go\<close>), reloading defaults after a create, the
  callbacks of the mssql dialect (\<^verbatim>\<open>dialects/mssql/mssql.go\<close>), and the default chains in the order in
  which the \<^verbatim>\<open>init\<close> functions register them.

  A struct or a pointer to one in a field is an object (\<open>VObj\<close>), a slice field a \<open>VSlice\<close> of objects,
  whose elements are those it has when the callback reaches the field.  Saving an
  association calls \<^verbatim>\<open>Save\<close> again; here that call is the parameter \<open>save\<close>, and the chains tie it to
  \<^verbatim>\<open>DB_Save\<close> with fuel for the nesting.
\<close>

definition checkTruth :: "gval \<Rightarrow> bool" where
  "checkTruth value =
     (case value of VBool b \<Rightarrow> b | VStr s \<Rightarrow> to_lower s = ''true'' | _ \<Rightarrow> True)"

text \<open>A setting of the handle first, else a tag of the field, else what it was.\<close>

definition association_flag :: "scope \<Rightarrow> Field \<Rightarrow> string \<Rightarrow> string \<Rightarrow> bool \<Rightarrow> bool" where
  "association_flag sc f setting tag old =
     (case Scope_Get sc setting of
        Some value \<Rightarrow> checkTruth value
      | None \<Rightarrow> (case TagSettingsGet (f_sf f) tag of Some value \<Rightarrow> checkTruth (VStr value) | None \<Rightarrow> old))"

definition saveAssociationCheck :: "scope \<Rightarrow> Field \<Rightarrow> (bool \<times> bool \<times> bool \<times> Relationship) option" where
  "saveAssociationCheck sc f =
     (if changeableField sc f \<and> \<not> f_IsBlank f \<and> \<not> sf_IsIgnored (f_sf f) then
        (case sf_Relationship (f_sf f) of
           None \<Rightarrow> None
         | Some r \<Rightarrow>
            (let all = association_flag sc f ''gorm:save_associations'' ''SAVE_ASSOCIATIONS'' True
             in Some (association_flag sc f ''gorm:association_autoupdate'' ''ASSOCIATION_AUTOUPDATE'' all,
                      association_flag sc f ''gorm:association_autocreate'' ''ASSOCIATION_AUTOCREATE'' all,
                      association_flag sc f ''gorm:association_save_reference'' ''ASSOCIATION_SAVE_REFERENCE'' all, r)))
      else None)"

type_synonym save_fun = "db \<Rightarrow> gval \<Rightarrow> world \<Rightarrow> outcome"

text \<open>\<^verbatim>\<open>scope.Err(db.Save(value).Error)\<close>.\<close>

definition save_value :: "save_fun \<Rightarrow> db \<Rightarrow> gval \<Rightarrow> scope \<Rightarrow> outcome" where
  "save_value save d v sc =
     (case save d v (sc_w sc) of
        Panicked s \<Rightarrow> Panicked (sc\<lparr>sc_w := sc_w s\<rparr>)
      | Done s \<Rightarrow> Done (Scope_Err (db_Error (sc_db s)) (sc\<lparr>sc_w := sc_w s\<rparr>)))"

definition save_if_wanted :: "save_fun \<Rightarrow> bool \<Rightarrow> bool \<Rightarrow> bool \<Rightarrow> db \<Rightarrow> gval \<Rightarrow> scope \<Rightarrow> outcome" where
  "save_if_wanted save zero autoCreate autoUpdate d v sc =
     (if (if zero then autoCreate else autoUpdate) then save_value save d v sc else Done sc)"

text \<open>
  The keys of a belongs-to association go into the value's foreign fields.  A foreign field without
  an association name is an index out of range.
\<close>

fun take_foreign_keys :: "genv \<Rightarrow> gval \<Rightarrow> string list \<Rightarrow> string list \<Rightarrow> scope \<Rightarrow> outcome" where
  "take_foreign_keys G v [] assocs sc = Done sc"
| "take_foreign_keys G v (name # names) [] sc = Panicked sc"
| "take_foreign_keys G v (name # names) (assoc # assocs) sc =
     (let ns = Scope_New G v sc
      in take_foreign_keys G v names assocs
           (case FieldByName G ns assoc of
              Some i \<Rightarrow> (case SetColumn G name (field_value (sc_w sc) (field_at G ns i)) sc of (e, sc) \<Rightarrow> Scope_Err e sc)
            | None \<Rightarrow> sc))"

definition save_before_field :: "genv \<Rightarrow> save_fun \<Rightarrow> nat \<Rightarrow> scope \<Rightarrow> outcome" where
  "save_before_field G save i sc =
     (let f = field_at G sc i in
      case saveAssociationCheck sc f of
        None \<Rightarrow> Done sc
      | Some (autoUpdate, autoCreate, saveReference, r) \<Rightarrow>
         (if rel_Kind r = ''belongs_to'' then
            (let v = field_value (sc_w sc) f
             in and_then (save_if_wanted save (PrimaryKeyZero G (Scope_New G v sc)) autoCreate autoUpdate (Scope_NewDB G sc) v sc)
                  (\<lambda>sc. if saveReference
                        then take_foreign_keys G v (rel_ForeignFieldNames r) (rel_AssociationForeignDBNames r) sc
                        else Done sc))
          else Done sc))"

fun each_field :: "(nat \<Rightarrow> scope \<Rightarrow> outcome) \<Rightarrow> nat list \<Rightarrow> scope \<Rightarrow> outcome" where
  "each_field step [] sc = Done sc"
| "each_field step (i # is) sc = and_then (step i sc) (each_field step is)"

definition saveBeforeAssociationsCallback :: "genv \<Rightarrow> save_fun \<Rightarrow> callback" where
  "saveBeforeAssociationsCallback G save sc =
     (let sc = cache_fields G sc
      in each_field (save_before_field G save) [0..<length (Fields G sc)] sc)"

text \<open>
  An associated value after the save: its foreign keys and polymorphic type are set in a scope of its
  own (\<open>ns\<close>), whose errors go to the scope; the two share the world.
\<close>

definition set_in_new :: "genv \<Rightarrow> string \<Rightarrow> gval \<Rightarrow> scope \<times> scope \<Rightarrow> scope \<times> scope" where
  "set_in_new G name v st =
     (case st of (ns, sc) \<Rightarrow>
        case SetColumn G name v (ns\<lparr>sc_w := sc_w sc\<rparr>) of (e, ns) \<Rightarrow> (ns, Scope_Err e (sc\<lparr>sc_w := sc_w ns\<rparr>)))"

fun give_foreign_keys :: "genv \<Rightarrow> string list \<Rightarrow> string list \<Rightarrow> scope \<times> scope \<Rightarrow> (scope \<times> scope) option" where
  "give_foreign_keys G [] assocs st = Some st"
| "give_foreign_keys G (name # names) [] st = None"
| "give_foreign_keys G (name # names) (assoc # assocs) st =
     give_foreign_keys G names assocs
       (case FieldByName G (snd st) assoc of
          Some i \<Rightarrow> set_in_new G name (field_value (sc_w (snd st)) (field_at G (snd st) i)) st
        | None \<Rightarrow> st)"

definition give_reference :: "genv \<Rightarrow> Relationship \<Rightarrow> bool \<Rightarrow> scope \<times> scope \<Rightarrow> (scope \<times> scope) option" where
  "give_reference G r withKeys st =
     map_option (\<lambda>st. if rel_PolymorphicType r \<noteq> []
                       then set_in_new G (rel_PolymorphicType r) (VStr (rel_PolymorphicValue r)) st else st)
       (if withKeys then give_foreign_keys G (rel_ForeignFieldNames r) (rel_AssociationForeignDBNames r) st else Some st)"

text \<open>An element of a slice field, with the entry in the join table.\<close>

definition save_element :: "genv \<Rightarrow> save_fun \<Rightarrow> bool \<times> bool \<times> bool \<times> Relationship \<Rightarrow> gval \<Rightarrow> scope \<Rightarrow> outcome" where
  "save_element G save check elem sc0 =
     (case check of (autoUpdate, autoCreate, saveReference, r) \<Rightarrow>
        (let newDB = Scope_NewDB G sc0;
             st = (NewScope G newDB elem (sc_w sc0), sc0)
         in case (if saveReference then give_reference G r (rel_JoinTableHandler r = None) st else Some st) of
              None \<Rightarrow> Panicked sc0
            | Some (ns, sc) \<Rightarrow>
               and_then (save_if_wanted save (PrimaryKeyZero G (ns\<lparr>sc_w := sc_w sc\<rparr>)) autoCreate autoUpdate newDB elem sc)
                 (\<lambda>sc. if saveReference \<and> \<not> PrimaryKeyZero G (Scope_New G elem sc)
                       then (case rel_JoinTableHandler r of
                               Some h \<Rightarrow> (case jth_Add G h newDB (sc_Value sc) elem (sc_w sc) of
                                            (e, w) \<Rightarrow> Done (Scope_Err e (sc\<lparr>sc_w := w\<rparr>)))
                             | None \<Rightarrow> Done sc)
                       else Done sc)))"

fun save_elements :: "genv \<Rightarrow> save_fun \<Rightarrow> bool \<times> bool \<times> bool \<times> Relationship \<Rightarrow> gval list \<Rightarrow> scope \<Rightarrow> outcome" where
  "save_elements G save check [] sc = Done sc"
| "save_elements G save check (v # vs) sc = and_then (save_element G save check v sc) (save_elements G save check vs)"

definition save_single :: "genv \<Rightarrow> save_fun \<Rightarrow> bool \<times> bool \<times> bool \<times> Relationship \<Rightarrow> gval \<Rightarrow> scope \<Rightarrow> outcome" where
  "save_single G save check elem sc0 =
     (case check of (autoUpdate, autoCreate, saveReference, r) \<Rightarrow>
        (let st = (Scope_New G elem sc0, sc0)
         in case (if saveReference then give_reference G r True st else Some st) of
              None \<Rightarrow> Panicked sc0
            | Some (ns, sc) \<Rightarrow>
               save_if_wanted save (PrimaryKeyZero G (ns\<lparr>sc_w := sc_w sc\<rparr>)) autoCreate autoUpdate (Scope_NewDB G sc) elem sc))"

definition save_after_field :: "genv \<Rightarrow> save_fun \<Rightarrow> nat \<Rightarrow> scope \<Rightarrow> outcome" where
  "save_after_field G save i sc =
     (let f = field_at G sc i in
      case saveAssociationCheck sc f of
        None \<Rightarrow> Done sc
      | Some check \<Rightarrow>
         (if rel_Kind (snd (snd (snd check))) \<in> {''has_one'', ''has_many'', ''many_to_many''} then
            (let v = field_value (sc_w sc) f
             in case v of
                  VSlice t vs \<Rightarrow> save_elements G save check (case vs of None \<Rightarrow> [] | Some vs \<Rightarrow> vs) sc
                | _ \<Rightarrow> save_single G save check v sc)
          else Done sc))"

definition saveAfterAssociationsCallback :: "genv \<Rightarrow> save_fun \<Rightarrow> callback" where
  "saveAfterAssociationsCallback G save sc =
     (let sc = cache_fields G sc
      in each_field (save_after_field G save) [0..<length (Fields G sc)] sc)"

section \<open>Reloading defaults\<close>

text \<open>The reload queries on a new handle, whose errors are dropped.\<close>

definition forceReloadAfterCreateCallback :: "genv \<Rightarrow> callback list \<Rightarrow> callback" where
  "forceReloadAfterCreateCallback G queries sc0 =
     (case InstanceGet ''gorm:blank_columns_with_default_value'' sc0 of
        (None, sc) \<Rightarrow> Done sc
      | (Some blanks, sc1) \<Rightarrow>
         (let sc = cache_fields G sc1;
              keys = filter (\<lambda>f. sf_IsPrimaryKey (f_sf f) \<and> \<not> f_IsBlank f) (Fields G sc);
              d = fold (\<lambda>f d. DB_Where G (VStr (f_DBName f @ '' = ?'')) [field_value (sc_w sc) f] d) keys
                    (DB_Select G blanks [] (DB_Table G (TableName G sc) (DB_New G (sc_db sc))))
          in if keys = [] then Done sc
             else case DB_Scan G queries (sc_Value sc) d (sc_w sc) of
                    Done s \<Rightarrow> Done (sc\<lparr>sc_w := sc_w s\<rparr>)
                  | Panicked s \<Rightarrow> Panicked (sc\<lparr>sc_w := sc_w s\<rparr>)))"

section \<open>Identity insert of mssql\<close>

definition setIdentityInsert :: "genv \<Rightarrow> callback" where
  "setIdentityInsert G sc =
     (if d_GetName (Dialect_of sc) = ''mssql'' then
        Done (fold (\<lambda>f sc.
                 if TagSettingsGet (f_sf f) ''AUTO_INCREMENT'' \<noteq> None \<and> \<not> f_IsBlank f
                 then (let s = DB_Exec G (''SET IDENTITY_INSERT '' @ TableName G sc @ '' ON'') [] (Scope_NewDB G sc) (sc_w sc)
                       in InstanceSet ''mssql:identity_insert_on'' (VBool True) (sc\<lparr>sc_w := sc_w s\<rparr>))
                 else sc) (PrimaryFields G (cache_fields G sc)) (cache_fields G sc))
      else Done sc)"

definition turnOffIdentityInsert :: "genv \<Rightarrow> callback" where
  "turnOffIdentityInsert G sc =
     (if d_GetName (Dialect_of sc) = ''mssql'' then
        (case InstanceGet ''mssql:identity_insert_on'' sc of
           (Some v, sc) \<Rightarrow>
             (let s = DB_Exec G (''SET IDENTITY_INSERT '' @ TableName G sc @ '' OFF'') [] (Scope_NewDB G sc) (sc_w sc)
              in Done (sc\<lparr>sc_w := sc_w s\<rparr>))
         | (None, sc) \<Rightarrow> Done sc)
      else Done sc)"

section \<open>The default chains\<close>

text \<open>
  The functions in the order of registration.  The chain of queries is a parameter of the others: it
  is used by the reload.
\<close>

definition create_chain :: "genv \<Rightarrow> hooks \<Rightarrow> callback list \<Rightarrow> save_fun \<Rightarrow> callback list" where
  "create_chain G hooks queries save =
     [beginTransactionCallback G, beforeCreateCallback G hooks, saveBeforeAssociationsCallback G save,
      updateTimeStampForCreateCallback G, createCallback G, forceReloadAfterCreateCallback G queries,
      saveAfterAssociationsCallback G save, afterCreateCallback G hooks, commitOrRollbackTransactionCallback G]"

definition update_chain :: "genv \<Rightarrow> hooks \<Rightarrow> save_fun \<Rightarrow> callback list" where
  "update_chain G hooks save =
     [assignUpdatingAttributesCallback G, beginTransactionCallback G, beforeUpdateCallback G hooks,
      saveBeforeAssociationsCallback G save, updateTimeStampForUpdateCallback G, updateCallback G,
      saveAfterAssociationsCallback G save, afterUpdateCallback G hooks, commitOrRollbackTransactionCallback G]"

definition delete_chain :: "genv \<Rightarrow> hooks \<Rightarrow> callback list" where
  "delete_chain G hooks =
     [beginTransactionCallback G, beforeDeleteCallback G hooks, deleteCallback G, afterDeleteCallback G hooks,
      commitOrRollbackTransactionCallback G]"

definition query_chain :: "genv \<Rightarrow> hooks \<Rightarrow> callback \<Rightarrow> callback list" where
  "query_chain G hooks preloading = [queryCallback G, preloading, afterQueryCallback G hooks]"

definition default_chains :: "genv \<Rightarrow> hooks \<Rightarrow> callback \<Rightarrow> save_fun \<Rightarrow> chains" where
  "default_chains G hooks preloading save =
     \<lparr>ch_creates = create_chain G hooks (query_chain G hooks preloading) save,
      ch_updates = update_chain G hooks save,
      ch_deletes = delete_chain G hooks,
      ch_queries = query_chain G hooks preloading,
      ch_rowQueries = [rowQueryCallback G]\<rparr>"

text \<open>
  \<^verbatim>\<open>Save\<close> with the nesting of associations bounded by the fuel; without fuel it panics, where the
  code would overflow its stack.
\<close>

fun save_at :: "nat \<Rightarrow> genv \<Rightarrow> hooks \<Rightarrow> callback \<Rightarrow> save_fun" where
  "save_at 0 G hooks preloading d v w = Panicked (in_world d w)"
| "save_at (Suc n) G hooks preloading d v w =
     DB_Save G (default_chains G hooks preloading (save_at n G hooks preloading)) v d w"

definition chains_at :: "nat \<Rightarrow> genv \<Rightarrow> hooks \<Rightarrow> callback \<Rightarrow> chains" where
  "chains_at n G hooks preloading = default_chains G hooks preloading (save_at n G hooks preloading)"

end
