(* ===== verification/Silent.thy ===== *)
theory Silent
  imports SaveAssociations
begin

text \<open>
  What the operations of a scope leave alone.  \<open>shaped\<close>: an object keeps its type and its number of members,
  which are fixed when it is made.  \<open>silent\<close>: objects keep their shape, no call reaches the database, the connection,
  the settings and the search stay, the instance identity stays once it is made, and an error is never lost.
  Generating SQL text is silent; the lemmas say so for every function of it, in a form that chains
  through the state passing.
\<close>

definition shaped :: "world \<Rightarrow> world \<Rightarrow> bool" where
  "shaped w w' =
     (\<forall>a t vs. w_objs w a = Some (t, vs) \<longrightarrow> (\<exists>vs'. w_objs w' a = Some (t, vs') \<and> length vs' = length vs))"

lemma shaped_refl [simp]: "shaped w w"
  by (simp add: shaped_def)

lemma shaped_trans: "shaped a b \<Longrightarrow> shaped b c \<Longrightarrow> shaped a c"
  unfolding shaped_def by metis

lemma shaped_same: "w_objs w' = w_objs w \<Longrightarrow> shaped w w'"
  by (simp add: shaped_def)

lemma shaped_updates [simp]:
  "shaped w (u\<lparr>w_next := n\<rparr>) = shaped w u" "shaped w (u\<lparr>w_hist := h\<rparr>) = shaped w u"
  "shaped w (u\<lparr>w_clock := n\<rparr>) = shaped w u" "shaped w (u\<lparr>w_parent_conn := c\<rparr>) = shaped w u"
  by (simp_all add: shaped_def)

lemma shaped_set_obj [simp]: "shaped w (set_obj_value a i v w)"
  by (auto simp: shaped_def set_obj_value_def split: option.splits)

lemma shaped_set_obj_value [simp]: "shaped w u \<Longrightarrow> shaped w (set_obj_value a i v u)"
  by (rule shaped_trans [OF _ shaped_set_obj])

lemma shaped_new_obj [simp]: "w_objs w a = None \<Longrightarrow> shaped w (w\<lparr>w_objs := (w_objs w)(a \<mapsto> x)\<rparr>)"
  by (auto simp: shaped_def)

definition silent :: "scope \<Rightarrow> scope \<Rightarrow> bool" where
  "silent sc sc' =
     (w_hist (sc_w sc') = w_hist (sc_w sc) \<and> shaped (sc_w sc) (sc_w sc') \<and> db_conn (sc_db sc') = db_conn (sc_db sc)
      \<and> db_values (sc_db sc') = db_values (sc_db sc) \<and> db_dialect (sc_db sc') = db_dialect (sc_db sc)
      \<and> (sc_instanceID sc \<noteq> [] \<longrightarrow> sc_instanceID sc' = sc_instanceID sc)
      \<and> (HasError sc \<longrightarrow> HasError sc') \<and> sc_skipLeft sc' = sc_skipLeft sc \<and> sc_Search sc' = sc_Search sc \<and> sc_Value sc' = sc_Value sc)"

named_theorems silent_intros

lemma silent_refl [simp, silent_intros]: "silent sc sc"
  by (simp add: silent_def)

lemma silent_trans [trans]: "silent a b \<Longrightarrow> silent b c \<Longrightarrow> silent a c"
  unfolding silent_def using shaped_trans by metis

lemma silent_updates [simp]:
  "silent a (b\<lparr>sc_SQLVars := vs\<rparr>) = silent a b" "silent a (b\<lparr>sc_SQL := sql\<rparr>) = silent a b"
  "silent a (b\<lparr>sc_skipBindVar := x, sc_skipBindVarKnown := y\<rparr>) = silent a b"
  "silent a (b\<lparr>sc_fields := fs\<rparr>) = silent a b" "silent a (b\<lparr>sc_fields := fs, sc_w := w\<rparr>) = silent a (b\<lparr>sc_w := w\<rparr>)"
  "silent a (b\<lparr>sc_skipBindVarKnown := y\<rparr>) = silent a b" "silent a (b\<lparr>sc_skipBindVar := y\<rparr>) = silent a b"
  by (simp_all add: silent_def HasError_def)

lemma silent_world: "silent a b \<Longrightarrow> w_hist w = w_hist (sc_w b) \<Longrightarrow> shaped (sc_w b) w \<Longrightarrow> silent a (b\<lparr>sc_w := w\<rparr>)"
  using shaped_trans by (auto simp: silent_def HasError_def)

lemma fresh_hist [simp]: "w_hist (snd (fresh w)) = w_hist w"
  by (simp add: fresh_def)

lemma new_error_hist [simp]: "w_hist (snd (new_error msg w)) = w_hist w"
  by (simp add: new_error_def fresh_def)

lemma fresh_shaped [simp]: "shaped w (snd (fresh u)) = shaped w u" "shaped w (snd (new_error msg u)) = shaped w u"
  by (simp_all add: new_error_def fresh_def)

lemma set_obj_value_hist [simp]: "w_hist (set_obj_value a i v w) = w_hist w"
  by (simp add: set_obj_value_def split: option.splits)

lemma add_err_fields [simp]:
  "db_conn (add_err e d) = db_conn d" "db_values (add_err e d) = db_values d" "db_dialect (add_err e d) = db_dialect d"
  "db_blockGlobalUpdate (add_err e d) = db_blockGlobalUpdate d" "db_RowsAffected (add_err e d) = db_RowsAffected d"
  by (simp_all add: add_err_def AddError_def Let_def split: option.splits)

lemma add_err_error [simp]: "db_Error (add_err (Some e) d) \<noteq> None" "add_err None d = d"
  by (simp_all add: add_err_def AddError_def Let_def)

lemma add_err_some [simp]: "\<exists>e'. db_Error (add_err (Some e) d) = Some e'"
  using add_err_error(1) [of e d] by blast

lemma silent_Err [silent_intros]: "silent a b \<Longrightarrow> silent a (Scope_Err e b)"
  by (cases e) (auto simp: silent_def Scope_Err_def HasError_def)

lemma silent_error [silent_intros]: "silent a b \<Longrightarrow> silent a (scope_error msg b)"
  unfolding scope_error_def case_prod_unfold by (intro silent_Err silent_world) simp_all

lemma silent_InstanceID [silent_intros]: "silent a b \<Longrightarrow> silent a (snd (InstanceID b))"
  by (auto simp: InstanceID_def silent_def HasError_def fresh_def Let_def)

lemma silent_InstanceGet [silent_intros]: "silent a b \<Longrightarrow> silent a (snd (InstanceGet name b))"
  unfolding InstanceGet_def case_prod_unfold by (simp add: silent_InstanceID)

lemma silent_resolve_skip [silent_intros]: "silent a b \<Longrightarrow> silent a (resolve_skip b)"
  unfolding resolve_skip_def case_prod_unfold by (simp add: silent_InstanceGet)

lemma silent_AddToVars [silent_intros]: "silent a b \<Longrightarrow> silent a (snd (AddToVars v b))"
  unfolding AddToVars_def Let_def case_prod_unfold by (simp add: silent_resolve_skip)

lemma silent_cache_fields [silent_intros]: "silent a b \<Longrightarrow> silent a (cache_fields G b)"
  by (simp add: cache_fields_def)

lemma silent_touch_primary [silent_intros]: "silent a b \<Longrightarrow> silent a (touch_primary G b)"
  by (simp add: touch_primary_def silent_cache_fields)

lemma silent_add_all [silent_intros]: "silent a b \<Longrightarrow> silent a (snd (add_all vs b))"
  by (induction vs arbitrary: b) (auto simp: case_prod_unfold silent_AddToVars)

lemma silent_add_rows [silent_intros]: "silent a b \<Longrightarrow> silent a (snd (add_rows vs b))"
  by (induction vs arbitrary: b) (auto simp: case_prod_unfold silent_add_all)

lemma silent_slice_replacement [silent_intros]: "silent a b \<Longrightarrow> silent a (snd (slice_replacement vs b))"
  by (auto simp: slice_replacement_def case_prod_unfold intro: silent_intros)

lemma silent_arg_replacement [silent_intros]: "silent a b \<Longrightarrow> silent a (snd (arg_replacement v b))"
  by (auto simp: arg_replacement_def case_prod_unfold intro: silent_intros split: gval.splits sum.splits)

lemma silent_arg_replacements [silent_intros]: "silent a b \<Longrightarrow> silent a (snd (arg_replacements vs b))"
  by (induction vs arbitrary: b) (auto simp: case_prod_unfold silent_arg_replacement)

lemma silent_fill_condition [silent_intros]: "silent a b \<Longrightarrow> silent a (snd (fill_condition str vs b))"
  by (simp add: fill_condition_def case_prod_unfold silent_arg_replacements)

lemma silent_map_conditions [silent_intros]: "silent a b \<Longrightarrow> silent a (snd (map_conditions tbl inc m b))"
  by (induction m arbitrary: b) (auto simp: case_prod_unfold silent_AddToVars)

lemma silent_struct_conditions [silent_intros]: "silent a b \<Longrightarrow> silent a (snd (struct_conditions tbl inc m b))"
  by (induction m arbitrary: b) (auto simp: case_prod_unfold silent_AddToVars)

lemma silent_buildCondition [silent_intros]: "silent a b \<Longrightarrow> silent a (snd (buildCondition G clause inc b))"
  unfolding buildCondition_def Let_def case_prod_unfold
  by (auto intro: silent_intros split: gval.splits)

lemma silent_build_all [silent_intros]: "silent a b \<Longrightarrow> silent a (snd (build_all G inc cs b))"
  by (induction cs arbitrary: b) (auto simp: case_prod_unfold silent_buildCondition)

lemma silent_primary_conditions [silent_intros]: "silent a b \<Longrightarrow> silent a (snd (primary_conditions tbl fs b))"
  by (induction fs arbitrary: b) (auto simp: case_prod_unfold silent_AddToVars)

lemma silent_whereSQL [silent_intros]: "silent a b \<Longrightarrow> silent a (snd (whereSQL G b))"
  unfolding whereSQL_def Let_def case_prod_unfold by (auto intro!: silent_intros)

lemma silent_order_expr [silent_intros]: "silent a b \<Longrightarrow> silent a (snd (order_expr exp vs b))"
  by (induction vs arbitrary: exp b) (auto simp: case_prod_unfold silent_AddToVars)

lemma silent_order_list [silent_intros]: "silent a b \<Longrightarrow> silent a (snd (order_list vs b))"
  by (induction vs arbitrary: b) (auto simp: case_prod_unfold silent_order_expr split: gval.splits)

lemma silent_orderSQL [silent_intros]: "silent a b \<Longrightarrow> silent a (snd (orderSQL b))"
  by (simp add: orderSQL_def case_prod_unfold silent_order_list)

lemma silent_limit [silent_intros]: "silent a b \<Longrightarrow> silent a (snd (limitAndOffsetSQL b))"
  by (simp add: limitAndOffsetSQL_def silent_error split: option.splits)

lemma silent_havingSQL [silent_intros]: "silent a b \<Longrightarrow> silent a (snd (havingSQL G b))"
  by (simp add: havingSQL_def case_prod_unfold Let_def silent_build_all)

lemma silent_joinsSQL [silent_intros]: "silent a b \<Longrightarrow> silent a (snd (joinsSQL G b))"
  by (simp add: joinsSQL_def case_prod_unfold silent_build_all)

lemma silent_Combined [silent_intros]: "silent a b \<Longrightarrow> silent a (snd (CombinedConditionSql G b))"
  unfolding CombinedConditionSql_def Let_def case_prod_unfold by (simp add: silent_intros)

lemma silent_select_replacement [silent_intros]: "silent a b \<Longrightarrow> silent a (snd (select_replacement v b))"
  by (auto simp: select_replacement_def case_prod_unfold intro: silent_intros split: option.splits gval.splits sum.splits)

lemma silent_select_replacements [silent_intros]: "silent a b \<Longrightarrow> silent a (snd (select_replacements vs b))"
  by (induction vs arbitrary: b) (auto simp: case_prod_unfold silent_select_replacement)

lemma silent_selectSQL [silent_intros]: "silent a b \<Longrightarrow> silent a (snd (selectSQL G b))"
  by (simp add: selectSQL_def buildSelectQuery_def case_prod_unfold silent_select_replacements split: option.splits)

lemma silent_Scope_Raw [silent_intros]: "silent a b \<Longrightarrow> silent a (Scope_Raw sql b)"
  by (simp add: Scope_Raw_def)

lemma silent_prepareQuerySQL: "silent a b \<Longrightarrow> silent a (out_scope (prepareQuerySQL G b))"
  unfolding prepareQuerySQL_def Let_def case_prod_unfold
  by (auto intro!: silent_intros split: option.splits)

section \<open>Setting fields\<close>

lemma Field_Set_hist [simp]: "w_hist (snd (snd (Field_Set G v f w))) = w_hist w"
  unfolding Field_Set_def Let_def case_prod_unfold
  by (auto split: fref.splits option.splits sum.splits gval.splits)

lemma Field_Set_shaped [simp]: "shaped w (snd (snd (Field_Set G v f w)))"
  unfolding Field_Set_def Let_def case_prod_unfold
  by (simp split: fref.split option.split sum.split gval.split)

lemma silent_set_field [silent_intros]: "silent a b \<Longrightarrow> silent a (snd (set_field G i v b))"
  unfolding set_field_def case_prod_unfold by (auto intro: silent_world)

lemma nowFunc_hist [simp]: "w_hist (snd (nowFunc G d w)) = w_hist w" "shaped w (snd (nowFunc G d w))"
  by (simp_all add: nowFunc_def)

end
