(* ===== verification/Batch.thy ===== *)
theory Batch
  imports Crud
begin

text \<open>
  Batched inserts and upserts: \<^verbatim>\<open>batch_create.go\<close>, \<^verbatim>\<open>batch_save.go\<close> and \<^verbatim>\<open>batch_dialect.go\<close>.

  The rows of a batch share one handle, the transaction \<^verbatim>\<open>txn\<close>: \<open>load\<close> puts the current handle and
  world into a row's scope before an operation on it, and the result carries them on.  The elements
  of the slice are read when they are used; an element is an object (a struct or a pointer to one), a nil
  pointer, a nil interface, or a struct that cannot be addressed.  Error texts leave out the Go type and the
  quoted name that the code prints in them.  \<open>BErr\<close> is a returned error,
  \<open>BPanic\<close> a panic of a hook.
\<close>

datatype 'a bres = BOk 'a db world | BErr err db world | BPanic db world

fun b_bind :: "'a bres \<Rightarrow> ('a \<Rightarrow> db \<Rightarrow> world \<Rightarrow> 'b bres) \<Rightarrow> 'b bres" where
  "b_bind (BOk x t w) f = f x t w"
| "b_bind (BErr e t w) f = BErr e t w"
| "b_bind (BPanic t w) f = BPanic t w"

definition load :: "db \<Rightarrow> world \<Rightarrow> scope \<Rightarrow> scope" where
  "load t w sc = sc\<lparr>sc_db := t, sc_w := w\<rparr>"

definition new_error_of :: "string \<Rightarrow> db \<Rightarrow> world \<Rightarrow> 'a bres" where
  "new_error_of msg t w = (case new_error msg w of (e, w) \<Rightarrow> BErr e t w)"

section \<open>The upsert a save asks for\<close>

type_synonym batchSave = "string list"

definition newBatchSave :: "string list \<Rightarrow> batchSave" where
  "newBatchSave args =
     filter (\<lambda>name. name \<noteq> []) (map trim_space (concat (map (split_char (CHR '','')) args)))"

definition targets :: "genv \<Rightarrow> batchSave \<Rightarrow> Field \<Rightarrow> bool" where
  "targets G b f = list_ex (\<lambda>name. f_Name f = name \<or> f_DBName f = name \<or> f_DBName f = g_toColumnName G name) b"

definition keepsPrimaryKey :: "genv \<Rightarrow> batchSave \<Rightarrow> Field \<Rightarrow> bool" where
  "keepsPrimaryKey G b f = (b = [] \<or> targets G b f)"

text \<open>The conflict target as column names; \<open>Inl\<close> the text of the error.\<close>

fun target_columns :: "genv \<Rightarrow> scope \<Rightarrow> string list \<Rightarrow> string + string list" where
  "target_columns G sc [] = Inr []"
| "target_columns G sc (name # names) =
     (case FieldByName G sc name of
        None \<Rightarrow> Inl (''gorm: SaveInBatches conflict column is not a column: '' @ name)
      | Some i \<Rightarrow>
         (if \<not> sf_IsNormal (f_sf (field_at G sc i)) \<or> sf_IsIgnored (f_sf (field_at G sc i))
          then Inl (''gorm: SaveInBatches conflict column is not a column: '' @ name)
          else (case target_columns G sc names of
                  Inl e \<Rightarrow> Inl e
                | Inr ns \<Rightarrow> Inr (f_DBName (field_at G sc i) # ns))))"

definition batch_target :: "genv \<Rightarrow> batchSave \<Rightarrow> scope \<Rightarrow> string + string list" where
  "batch_target G b sc =
     (if b = [] then
        (let names = map f_DBName (PrimaryFields G sc)
         in if names = [] then Inl ''gorm: SaveInBatches needs conflict columns, the model has no primary key''
            else Inr names)
      else target_columns G sc b)"

definition fixed_columns :: "genv \<Rightarrow> scope \<Rightarrow> string list \<Rightarrow> string list" where
  "fixed_columns G sc target =
     map (Scope_Quote sc) target @ map (\<lambda>f. Scope_Quote sc (f_DBName f)) (PrimaryFields G sc)
     @ (case FieldByName G sc ''CreatedAt'' of
          Some i \<Rightarrow> [Scope_Quote sc (f_DBName (field_at G sc i))] | None \<Rightarrow> [])"

definition statementColumns :: "genv \<Rightarrow> batchSave \<Rightarrow> scope \<Rightarrow> string list \<Rightarrow> string + (string list \<times> string list)" where
  "statementColumns G b sc columns =
     (case batch_target G b sc of
        Inl e \<Rightarrow> Inl e
      | Inr target \<Rightarrow>
          Inr (map (Scope_Quote sc) target,
               filter (\<lambda>column. column \<notin> set (fixed_columns G sc target)) columns))"

fun deref_all :: "nat \<Rightarrow> types \<Rightarrow> rtype \<Rightarrow> rtype" where
  "deref_all 0 RT t = t"
| "deref_all (Suc n) RT t = (if t_kind (RT t) = KPtr then deref_all n RT (t_elem (RT t)) else t)"

definition generatedPrimaryInsert :: "genv \<Rightarrow> batchSave \<Rightarrow> scope \<Rightarrow> string list \<Rightarrow> bool" where
  "generatedPrimaryInsert G b sc columns =
     (case (batch_target G b sc, PrimaryFields G sc) of
        (Inr [column], [f]) \<Rightarrow>
          (if column \<noteq> f_DBName f \<or> \<not> f_IsBlank f then False
           else if (case TagSettingsGet (f_sf f) ''AUTO_INCREMENT'' of Some auto \<Rightarrow> to_lower auto = ''false'' | None \<Rightarrow> False)
           then False
           else (let kind = t_kind (g_types G (deref_all type_fuel (g_types G) (m_type (sf_Struct (f_sf f)))))
                 in if kind < KInt \<or> kind > KUint64 then False
                    else Scope_Quote sc (f_DBName f) \<notin> set columns))
      | _ \<Rightarrow> False)"

definition insertOption :: "genv \<Rightarrow> batchSave \<Rightarrow> scope \<Rightarrow> string list \<Rightarrow> string + string" where
  "insertOption G b sc columns =
     (case statementColumns G b sc columns of
        Inl e \<Rightarrow> Inl e
      | Inr (quotedTarget, updates) \<Rightarrow>
         (let dialect = d_GetName (Dialect_of sc)
          in if dialect = ''mysql'' then
               (let assignments = map (\<lambda>c. c @ ''=VALUES('' @ c @ '')'') updates;
                    assignments = (if assignments = [] then [hd quotedTarget @ ''='' @ hd quotedTarget] else assignments)
                in Inr (''ON DUPLICATE KEY UPDATE '' @ str_join '','' assignments))
             else if dialect = ''sqlite3'' \<or> dialect = ''postgres'' then
               (let conflict = ''ON CONFLICT('' @ str_join '','' quotedTarget @ '')''
                in if updates = [] then Inr (conflict @ '' DO NOTHING'')
                   else Inr (conflict @ '' DO UPDATE SET '' @ str_join '','' (map (\<lambda>c. c @ ''=excluded.'' @ c) updates)))
             else Inl (''gorm: SaveInBatches does not support the dialect '' @ dialect)))"

section \<open>Rows\<close>

record batchCreateRow =
  br_scope :: scope
  br_primaryField :: "nat option"
  br_columns :: "string list"
  br_values :: "gval list"

definition isNilBatchElem :: "gval \<Rightarrow> bool" where
  "isNilBatchElem v = (case v of VNil \<Rightarrow> True | VPtr a u \<Rightarrow> u = None | _ \<Rightarrow> False)"

text \<open>
  \<^verbatim>\<open>appendColumn\<close>: while the columns match the previous row's, only an index is kept; the first
  difference copies the matched part.
\<close>

record column_state =
  cs_match :: bool
  cs_index :: nat
  cs_columns :: "string list"
  cs_values :: "gval list"

definition appendColumn :: "string list \<Rightarrow> string \<times> gval \<Rightarrow> column_state \<Rightarrow> column_state" where
  "appendColumn expected cv s =
     (let s = (if cs_match s \<and> (cs_index s \<ge> length expected \<or> expected ! cs_index s \<noteq> fst cv)
               then s\<lparr>cs_columns := cs_columns s @ take (cs_index s) expected, cs_match := False\<rparr> else s);
          s = (if \<not> cs_match s then s\<lparr>cs_columns := cs_columns s @ [fst cv]\<rparr> else s)
      in s\<lparr>cs_values := cs_values s @ [snd cv], cs_index := Suc (cs_index s)\<rparr>)"

definition finish_columns :: "string list \<Rightarrow> column_state \<Rightarrow> string list" where
  "finish_columns expected s =
     (if cs_match s
      then (if cs_index s = length expected then expected else cs_columns s @ take (cs_index s) expected)
      else cs_columns s)"

text \<open>The columns one field contributes, with their values.\<close>

definition foreign_cell :: "genv \<Rightarrow> scope \<Rightarrow> string \<Rightarrow> (string \<times> gval) list" where
  "foreign_cell G sc foreignKey =
     (case FieldByName G sc foreignKey of
        Some i \<Rightarrow> (let f = field_at G sc i
                   in if \<not> changeableField sc f then [(Scope_Quote sc (f_DBName f), field_value (sc_w sc) f)] else [])
      | None \<Rightarrow> [])"

definition field_cells :: "genv \<Rightarrow> batchSave option \<Rightarrow> scope \<Rightarrow> Field \<Rightarrow> (string \<times> gval) list" where
  "field_cells G save sc f =
     (if \<not> changeableField sc f then []
      else if sf_IsNormal (f_sf f) \<and> \<not> sf_IsIgnored (f_sf f) then
        (if f_IsBlank f \<and> sf_HasDefaultValue (f_sf f) then []
         else if (case save of Some b \<Rightarrow> sf_IsPrimaryKey (f_sf f) \<and> \<not> keepsPrimaryKey G b f | None \<Rightarrow> False) then []
         else if \<not> sf_IsPrimaryKey (f_sf f) \<or> \<not> f_IsBlank f
         then [(Scope_Quote sc (f_DBName f), field_value (sc_w sc) f)] else [])
      else (case sf_Relationship (f_sf f) of
              Some r \<Rightarrow> if rel_Kind r = ''belongs_to'' then concat (map (foreign_cell G sc) (rel_ForeignDBNames r)) else []
            | None \<Rightarrow> []))"

definition last_primary :: "Field list \<Rightarrow> nat option" where
  "last_primary fs =
     (case filter (\<lambda>i. sf_IsPrimaryKey (f_sf (fs ! i))) [0..<length fs] of [] \<Rightarrow> None | is \<Rightarrow> Some (last is))"

definition make_row :: "genv \<Rightarrow> batchSave option \<Rightarrow> string list \<Rightarrow> scope \<Rightarrow> batchCreateRow" where
  "make_row G save expected sc =
     (let cells = concat (map (field_cells G save sc) (Fields G sc));
          s = fold (appendColumn expected) cells
                \<lparr>cs_match = (expected \<noteq> []), cs_index = 0, cs_columns = [], cs_values = []\<rparr>
      in \<lparr>br_scope = sc, br_primaryField = last_primary (Fields G sc),
          br_columns = finish_columns expected s, br_values = cs_values s\<rparr>)"

text \<open>\<^verbatim>\<open>CreatedAt\<close> when blank, \<^verbatim>\<open>UpdatedAt\<close> when blank or always for a save.\<close>

definition stamp_field :: "genv \<Rightarrow> string \<Rightarrow> bool \<Rightarrow> gval \<Rightarrow> scope \<Rightarrow> err option \<times> scope" where
  "stamp_field G name always now sc =
     (case FieldByName G sc name of
        Some i \<Rightarrow> if always \<or> f_IsBlank (field_at G sc i) then set_field G i now sc else (None, sc)
      | None \<Rightarrow> (None, sc))"

definition prepare_row_of ::
    "genv \<Rightarrow> hooks \<Rightarrow> gval \<Rightarrow> gval \<Rightarrow> string list \<Rightarrow> batchSave option \<Rightarrow> db \<Rightarrow> world \<Rightarrow> batchCreateRow bres" where
  "prepare_row_of G hooks value now expected save t w =
     (case and_then (call_hook G hooks ''BeforeSave'' (new_scope t empty_search value w)) (call_hook G hooks ''BeforeCreate'') of
        Panicked sc \<Rightarrow> BPanic (sc_db sc) (sc_w sc)
      | Done sc \<Rightarrow>
         (case db_Error (sc_db sc) of
            Some e \<Rightarrow> BErr e (sc_db sc) (sc_w sc)
          | None \<Rightarrow>
             (case stamp_field G ''CreatedAt'' False now (cache_fields G sc) of
                (Some e, sc) \<Rightarrow> BErr e (sc_db sc) (sc_w sc)
              | (None, sc) \<Rightarrow>
                 (case stamp_field G ''UpdatedAt'' (save \<noteq> None) now sc of
                    (Some e, sc) \<Rightarrow> BErr e (sc_db sc) (sc_w sc)
                  | (None, sc) \<Rightarrow> BOk (make_row G save expected sc) (sc_db sc) (sc_w sc)))))"

definition prepareBatchCreateRow ::
    "genv \<Rightarrow> hooks \<Rightarrow> gval \<Rightarrow> gval \<Rightarrow> string list \<Rightarrow> batchSave option \<Rightarrow> db \<Rightarrow> world \<Rightarrow> batchCreateRow bres" where
  "prepareBatchCreateRow G hooks elem now expected save t w =
     (case elem of
        VNil \<Rightarrow> new_error_of ''gorm: nil interface in CreateInBatches'' t w
      | VPtr a None \<Rightarrow> new_error_of ''gorm: nil pointer in CreateInBatches'' t w
      | VPtr a (Some u) \<Rightarrow> prepare_row_of G hooks elem now expected save t w
      | VObj a \<Rightarrow> prepare_row_of G hooks elem now expected save t w
      | _ \<Rightarrow> BErr ErrUnaddressable t w)"

definition sameBatchColumns :: "string list \<Rightarrow> string list \<Rightarrow> bool" where
  "sameBatchColumns left right =
     (length left = length right \<and> list_all (\<lambda>p. fst p = snd p) (zip left right))"

definition maxBindVars :: "string \<Rightarrow> nat" where
  "maxBindVars dialect =
     (if dialect = ''sqlite3'' then 32766
      else if dialect = ''mysql'' then 65535
      else if dialect = ''postgres'' then 65535
      else if dialect = ''mssql'' then 2100
      else 0)"

definition maxCreateBatchRows :: "string \<Rightarrow> nat \<Rightarrow> nat \<Rightarrow> nat" where
  "maxCreateBatchRows dialect columnCount requested0 =
     (let requested = (if requested0 < 1 then 1 else requested0) in
      if columnCount < 1 then 1
      else if maxBindVars dialect = 0 then requested
      else (let bounded = maxBindVars dialect div columnCount
            in if bounded < requested then (if bounded < 1 then 1 else bounded) else requested))"

section \<open>Executing a group of rows\<close>

text \<open>The value lists of the rows: the placeholders of each row, bound in order.\<close>

fun bind_rows :: "batchCreateRow list \<Rightarrow> string list \<Rightarrow> scope \<Rightarrow> string list list option \<times> scope" where
  "bind_rows [] columns sc = (Some [], sc)"
| "bind_rows (row # rows) columns sc =
     (if \<not> sameBatchColumns columns (br_columns row) \<or> length (br_values row) \<noteq> length columns then (None, sc)
      else (case add_all (br_values row) sc of (marks, sc) \<Rightarrow>
            case bind_rows rows columns sc of (rest, sc) \<Rightarrow> (map_option (\<lambda>r. marks # r) rest, sc)))"

definition placeholders_text :: "string list list \<Rightarrow> string" where
  "placeholders_text rows = str_join '','' (map (\<lambda>marks. ''('' @ str_join '','' marks @ '')'') rows)"

text \<open>
  The identity of inserted rows.  A row's primary field is set in its own scope; the first error
  ends the loop.
\<close>

definition set_row_key :: "genv \<Rightarrow> nat \<Rightarrow> int \<Rightarrow> batchCreateRow \<Rightarrow> db \<Rightarrow> world \<Rightarrow> batchCreateRow bres" where
  "set_row_key G i n row t w =
     (case set_field G i (VInt KInt64 n) (load t w (br_scope row)) of
        (Some e, sc) \<Rightarrow> BErr e (sc_db sc) (sc_w sc)
      | (None, sc) \<Rightarrow> BOk (row\<lparr>br_scope := sc\<rparr>) (sc_db sc) (sc_w sc))"

definition row_key_blank :: "genv \<Rightarrow> batchCreateRow \<Rightarrow> nat option" where
  "row_key_blank G row =
     (case br_primaryField row of
        Some i \<Rightarrow> if f_IsBlank (field_at G (br_scope row) i) then Some i else None
      | None \<Rightarrow> None)"

definition assignSingleBatchPrimaryKey ::
    "genv \<Rightarrow> batchCreateRow list \<Rightarrow> int \<Rightarrow> err + int \<Rightarrow> db \<Rightarrow> world \<Rightarrow> batchCreateRow list bres" where
  "assignSingleBatchPrimaryKey G rows rowsAffected lastInsertID t w =
     (case rows of
        [row] \<Rightarrow>
          (if rowsAffected \<noteq> 1 then BOk rows t w
           else case row_key_blank G row of
                  None \<Rightarrow> BOk rows t w
                | Some i \<Rightarrow>
                   (case lastInsertID of
                      Inl e \<Rightarrow> BErr e t w
                    | Inr n \<Rightarrow> b_bind (set_row_key G i n row t w) (\<lambda>row. BOk [row])))
      | _ \<Rightarrow> BOk rows t w)"

fun assign_keys :: "genv \<Rightarrow> int \<Rightarrow> nat \<Rightarrow> batchCreateRow list \<Rightarrow> db \<Rightarrow> world \<Rightarrow> batchCreateRow list bres" where
  "assign_keys G firstID index [] t w = BOk [] t w"
| "assign_keys G firstID index (row # rows) t w =
     b_bind (case row_key_blank G row of
               None \<Rightarrow> BOk row t w
             | Some i \<Rightarrow> set_row_key G i (wrap_int KInt64 (firstID + int index)) row t w)
       (\<lambda>row t w. b_bind (assign_keys G firstID (Suc index) rows t w) (\<lambda>rows. BOk (row # rows)))"

definition first_generated :: "string \<Rightarrow> int \<Rightarrow> int \<Rightarrow> int option" where
  "first_generated dialect rowsAffected lastID =
     (if dialect = ''sqlite3'' then Some (wrap_int KInt64 (lastID - (rowsAffected - 1)))
      else if dialect = ''mysql'' then Some lastID
      else None)"

definition assignBatchPrimaryKeys ::
    "genv \<Rightarrow> string \<Rightarrow> batchCreateRow list \<Rightarrow> int \<Rightarrow> err + int \<Rightarrow> db \<Rightarrow> world \<Rightarrow> batchCreateRow list bres" where
  "assignBatchPrimaryKeys G dialect rows rowsAffected lastInsertID t w =
     (if rows = [] \<or> rowsAffected \<noteq> int (length rows) \<or> row_key_blank G (hd rows) = None then BOk rows t w
      else case lastInsertID of
             Inl e \<Rightarrow> BOk rows t w
           | Inr lastID \<Rightarrow>
              (case first_generated dialect rowsAffected lastID of
                 None \<Rightarrow> BOk rows t w
               | Some firstID \<Rightarrow> if firstID \<le> 0 then BOk rows t w else assign_keys G firstID 0 rows t w))"

text \<open>The hooks after the insert, on every row's scope.\<close>

fun after_hooks :: "genv \<Rightarrow> hooks \<Rightarrow> batchCreateRow list \<Rightarrow> db \<Rightarrow> world \<Rightarrow> unit bres" where
  "after_hooks G hooks [] t w = BOk () t w"
| "after_hooks G hooks (row # rows) t w =
     (case and_then (call_hook G hooks ''AfterCreate'' (load t w (br_scope row))) (call_hook G hooks ''AfterSave'') of
        Panicked sc \<Rightarrow> BPanic (sc_db sc) (sc_w sc)
      | Done sc \<Rightarrow>
         (case db_Error (sc_db sc) of
            Some e \<Rightarrow> BErr e (sc_db sc) (sc_w sc)
          | None \<Rightarrow> after_hooks G hooks rows (sc_db sc) (sc_w sc)))"

text \<open>
  The statement of a group of rows, \<open>Inl\<close> the error message.  \<open>full\<close> is the builder of a dialect
  that writes the whole upsert, with its target and update columns.
\<close>

type_synonym save_builder = "string \<Rightarrow> string list \<Rightarrow> string list \<Rightarrow> string list \<Rightarrow> string list list \<Rightarrow> string + string"

definition group_statement ::
    "genv \<Rightarrow> batchCreateRow list \<Rightarrow> string list \<Rightarrow> (save_builder \<times> string list \<times> string list) option \<Rightarrow>
     string \<Rightarrow> string \<Rightarrow> scope \<Rightarrow> (string + string) \<times> scope" where
  "group_statement G rows columns full insertModifier extraOption sc =
     (if columns = [] then
        (if full \<noteq> None then (Inl ''gorm: SaveInBatches has no values for its conflict target'', sc)
         else if length rows \<noteq> 1 then (Inl ''gorm: cannot batch multiple DEFAULT VALUES rows'', sc)
         else (Inr (''INSERT'' @ addExtraSpaceIfExist insertModifier @ '' INTO '' @ QuotedTableName G sc @ '' ''
                    @ d_DefaultValueStr (Dialect_of sc) @ addExtraSpaceIfExist extraOption), sc))
      else
        (case bind_rows rows columns sc of
           (None, sc) \<Rightarrow> (Inl ''gorm: inconsistent columns in CreateInBatches'', sc)
         | (Some marks, sc) \<Rightarrow>
            (case full of
               Some (build, quotedTarget, updates) \<Rightarrow> (build (QuotedTableName G sc) columns quotedTarget updates marks, sc)
             | None \<Rightarrow> (Inr (''INSERT'' @ addExtraSpaceIfExist insertModifier @ '' INTO '' @ QuotedTableName G sc
                             @ '' ('' @ str_join '','' columns @ '') VALUES '' @ placeholders_text marks
                             @ addExtraSpaceIfExist extraOption), sc))))"

text \<open>What a save adds: the suffix, or the builder; \<open>Inl\<close> the error message.\<close>

definition save_plan ::
    "genv \<Rightarrow> batchSave option \<Rightarrow> string list \<Rightarrow> string \<Rightarrow> string \<Rightarrow> scope \<Rightarrow>
     string + (string \<times> (save_builder \<times> string list \<times> string list) option)" where
  "save_plan G save columns insertModifier extraOption sc =
     (case save of
        None \<Rightarrow> Inr (extraOption, None)
      | Some b \<Rightarrow>
         (case d_BatchSaveSQL (Dialect_of sc) of
            None \<Rightarrow>
              (if columns = [] then Inr (extraOption, None)
               else (case insertOption G b sc columns of Inl e \<Rightarrow> Inl e | Inr option \<Rightarrow> Inr (option, None)))
          | Some build \<Rightarrow>
              (if insertModifier \<noteq> []
               then Inl ''gorm: SaveInBatches full-statement upsert cannot be combined with gorm:insert_modifier''
               else (case statementColumns G b sc columns of
                       Inl e \<Rightarrow> Inl e
                     | Inr (quotedTarget, updates) \<Rightarrow>
                         Inr (extraOption,
                              if generatedPrimaryInsert G b sc columns then None
                              else Some (build, quotedTarget, updates))))))"

definition executeBatchCreateRows ::
    "genv \<Rightarrow> hooks \<Rightarrow> batchCreateRow list \<Rightarrow> batchSave option \<Rightarrow> db \<Rightarrow> world \<Rightarrow> int bres" where
  "executeBatchCreateRows G hooks rows save t w =
     (if rows = [] then BOk 0 t w
      else
        (let sc = cache_fields G (NewScope G t (sc_Value (br_scope (hd rows))) w);
             columns = br_columns (hd rows);
             insertModifier = insert_modifier sc
         in case save_plan G save columns insertModifier (setting_text sc ''gorm:insert_option'') sc of
              Inl msg \<Rightarrow> new_error_of msg t (sc_w sc)
            | Inr (extraOption, full) \<Rightarrow>
               (case group_statement G rows columns full insertModifier extraOption sc of
                  (Inl msg, sc) \<Rightarrow> new_error_of msg t (sc_w sc)
                | (Inr sql, sc) \<Rightarrow>
                   (let sc = Scope_Raw sql sc
                    in case scope_call G (CallExec (db_conn (sc_db sc)) (sc_SQL sc) (sc_SQLVars sc)) sc of (r, sc) \<Rightarrow>
                       (case r_err r of
                          Some e \<Rightarrow> BErr e t (sc_w sc)
                        | None \<Rightarrow>
                           (let rowsAffected = affected_or_zero r
                            in b_bind (if save \<noteq> None then BOk rows t (sc_w sc)
                                       else if d_BatchCreateMaxRows (Dialect_of sc) = Some 1
                                       then assignSingleBatchPrimaryKey G rows rowsAffected (r_last_id r) t (sc_w sc)
                                       else assignBatchPrimaryKeys G (d_GetName (Dialect_of sc)) rows rowsAffected (r_last_id r) t (sc_w sc))
                                 (\<lambda>rows t w. b_bind (after_hooks G hooks rows t w) (\<lambda>u. BOk rowsAffected))))))))"

section \<open>Batches\<close>

text \<open>The elements of the slice or array value, and its length; \<open>None\<close> for another value.\<close>

definition batch_elements :: "genv \<Rightarrow> gval \<Rightarrow> world \<Rightarrow> gval list option" where
  "batch_elements G value w =
     (case value of
        VObj a \<Rightarrow>
          (case w_objs w a of
             Some (t, vs) \<Rightarrow> if t_kind (g_types G t) = KSlice \<or> t_kind (g_types G t) = KArray then Some vs else None
           | None \<Rightarrow> None)
      | VSlice t vs \<Rightarrow> Some (case vs of None \<Rightarrow> [] | Some vs \<Rightarrow> vs)
      | VList vs \<Rightarrow> Some vs
      | _ \<Rightarrow> None)"

text \<open>\<^verbatim>\<open>rv.Index(i)\<close>; an index out of range panics.\<close>

definition batch_index :: "genv \<Rightarrow> gval \<Rightarrow> nat \<Rightarrow> world \<Rightarrow> gval option" where
  "batch_index G value i w =
     (case batch_elements G value w of
        Some vs \<Rightarrow> if i < length vs then Some (vs ! i) else None
      | None \<Rightarrow> None)"

fun prepare_rows ::
    "genv \<Rightarrow> hooks \<Rightarrow> gval \<Rightarrow> gval \<Rightarrow> batchSave option \<Rightarrow> nat list \<Rightarrow> string list \<Rightarrow> db \<Rightarrow> world \<Rightarrow> batchCreateRow list bres" where
  "prepare_rows G hooks value now save [] expected t w = BOk [] t w"
| "prepare_rows G hooks value now save (i # is) expected t w =
     (case batch_index G value i w of
        None \<Rightarrow> BPanic t w
      | Some elem \<Rightarrow>
         (if isNilBatchElem elem then prepare_rows G hooks value now save is expected t w
          else b_bind (prepareBatchCreateRow G hooks elem now expected save t w)
                 (\<lambda>row t w. b_bind (prepare_rows G hooks value now save is (br_columns row) t w)
                    (\<lambda>rows. BOk (row # rows)))))"

definition group_limit :: "Dialect \<Rightarrow> batchCreateRow list \<Rightarrow> nat" where
  "group_limit d rows =
     (let maxRows = maxCreateBatchRows (d_GetName d) (length (br_columns (hd rows))) (length rows)
      in case d_BatchCreateMaxRows d of
           Some limit \<Rightarrow> if limit > 0 \<and> limit < int maxRows then nat limit else maxRows
         | None \<Rightarrow> maxRows)"

text \<open>The length of the first group: rows with the first row's columns, up to the limit.\<close>

definition group_size :: "Dialect \<Rightarrow> batchCreateRow list \<Rightarrow> nat" where
  "group_size d rows =
     Suc (length (takeWhile (\<lambda>row. sameBatchColumns (br_columns (hd rows)) (br_columns row))
                   (take (group_limit d rows - 1) (tl rows))))"

function execute_groups ::
    "genv \<Rightarrow> hooks \<Rightarrow> batchSave option \<Rightarrow> batchCreateRow list \<Rightarrow> db \<Rightarrow> world \<Rightarrow> int bres" where
  "execute_groups G hooks save [] t w = BOk 0 t w"
| "execute_groups G hooks save (row # rows) t w =
     (let n = group_size (db_dialect t) (row # rows)
      in b_bind (executeBatchCreateRows G hooks (take n (row # rows)) save t w)
           (\<lambda>rowsAffected t w. b_bind (execute_groups G hooks save (drop n (row # rows)) t w)
              (\<lambda>sum_rows. BOk (wrap_int KInt64 (rowsAffected + sum_rows)))))"
  by pat_completeness auto
termination
  by (relation "measure (\<lambda>(G, hooks, save, rows, t, w). length rows)") (auto simp: group_size_def)

definition createBatch ::
    "genv \<Rightarrow> hooks \<Rightarrow> gval \<Rightarrow> nat \<Rightarrow> nat \<Rightarrow> batchSave option \<Rightarrow> db \<Rightarrow> world \<Rightarrow> int bres" where
  "createBatch G hooks value start fin save t w =
     (case nowFunc G t w of (now, w) \<Rightarrow>
        b_bind (prepare_rows G hooks value now save [start..<fin] [] t w)
          (execute_groups G hooks save))"

function batch_loop ::
    "(nat \<Rightarrow> nat \<Rightarrow> db \<Rightarrow> world \<Rightarrow> int bres) \<Rightarrow> nat \<Rightarrow> nat \<Rightarrow> nat \<Rightarrow> int \<Rightarrow> db \<Rightarrow> world \<Rightarrow> int bres" where
  "batch_loop batch start step n sum_rows t w =
     (if start < n \<and> 0 < step then
        b_bind (batch start (if start + step > n then n else start + step) t w)
          (\<lambda>rowsAffected. batch_loop batch (start + step) step n (wrap_int KInt64 (sum_rows + rowsAffected)))
      else BOk sum_rows t w)"
  by pat_completeness auto
termination
  by (relation "measure (\<lambda>(batch, start, step, n, sum_rows, t, w). n - start)") auto

declare batch_loop.simps [simp del]

text \<open>The transaction around the loop: its own when the handle is a pool.\<close>

definition finish_batches :: "genv \<Rightarrow> bool \<Rightarrow> int bres \<Rightarrow> db_out" where
  "finish_batches G ownTxn r =
     (case r of
        BOk sum_rows t w \<Rightarrow>
          (case (if ownTxn then DB_Commit G t w else (t, w)) of (t, w) \<Rightarrow> DbDone (t\<lparr>db_RowsAffected := sum_rows\<rparr>) w)
      | BErr e t w \<Rightarrow>
          (case (if ownTxn then DB_Rollback G (add_err (Some e) t) w else (add_err (Some e) t, w)) of (t, w) \<Rightarrow> DbDone t w)
      | BPanic t w \<Rightarrow>
          (case (if ownTxn then DB_Rollback G t w else (t, w)) of (t, w) \<Rightarrow> DbPanic t w))"

definition batch_error :: "genv \<Rightarrow> string \<Rightarrow> db \<Rightarrow> world \<Rightarrow> db_out" where
  "batch_error G msg s w = (case new_error msg w of (e, w) \<Rightarrow> DbDone (add_err (Some e) (DB_clone G s)) w)"

definition createInBatches ::
    "genv \<Rightarrow> hooks \<Rightarrow> chains \<Rightarrow> gval \<Rightarrow> nat \<Rightarrow> batchSave option \<Rightarrow> db \<Rightarrow> world \<Rightarrow> db_out" where
  "createInBatches G hooks C value step save s w =
     (if save \<noteq> None \<and> DB_Get s ''gorm:insert_option'' \<noteq> None
      then batch_error G ''gorm: SaveInBatches builds its own conflict clause and cannot be combined with gorm:insert_option'' s w
      else case batch_elements G value w of
             None \<Rightarrow>
               (if save \<noteq> None then batch_error G ''gorm: SaveInBatches requires a slice or array'' s w
                else db_of_outcome (DB_Create G C value s w))
           | Some vs \<Rightarrow>
               (if vs = [] then DbDone (DB_clone G s) w
                else (let ownTxn = is_sqlDb (db_conn s)
                      in case (if ownTxn then DB_Begin G s w else (DB_clone G s, w)) of (txn, w) \<Rightarrow>
                           (if db_Error txn \<noteq> None then DbDone txn w
                            else finish_batches G ownTxn
                                   (batch_loop (\<lambda>start fin. createBatch G hooks value start fin save) 0 step (length vs) 0 txn w)))))"

definition DefaultCreateBatchSize :: nat where
  "DefaultCreateBatchSize = 500"

definition CreateInBatches :: "genv \<Rightarrow> hooks \<Rightarrow> chains \<Rightarrow> gval \<Rightarrow> int list \<Rightarrow> db \<Rightarrow> world \<Rightarrow> db_out" where
  "CreateInBatches G hooks C value batchSize =
     createInBatches G hooks C value
       (case batchSize of n # ns \<Rightarrow> if n > 0 then nat n else DefaultCreateBatchSize | [] \<Rightarrow> DefaultCreateBatchSize) None"

definition SaveInBatches :: "genv \<Rightarrow> hooks \<Rightarrow> chains \<Rightarrow> gval \<Rightarrow> int \<Rightarrow> string list \<Rightarrow> db \<Rightarrow> world \<Rightarrow> db_out" where
  "SaveInBatches G hooks C value batchSize conflictColumns =
     createInBatches G hooks C value (if batchSize \<le> 0 then DefaultCreateBatchSize else nat batchSize)
       (Some (newBatchSave conflictColumns))"

end
