(* ===== verification/Transactions.thy ===== *)
theory Transactions
  imports Silent Batch Samples
begin

text \<open>
  Transactions around an operation.  \<open>keeps t\<close> is what a callback may do while the transaction \<open>t\<close> is
  open: add calls that do not end \<open>t\<close>, keep the connection and the scope's mark that it began the
  transaction.  The locale \<open>tx_safe\<close> states it for the callbacks between beginning and commit and proves
  the bracket of calls the chain leaves in the history; \<open>tx_hooks\<close> states it for the user's hooks and gives
  it for the delete chain and for batched inserts.
\<close>

definition calls_within :: "nat \<Rightarrow> history \<Rightarrow> history \<Rightarrow> bool" where
  "calls_within t h h' = (\<exists>new. h' = h @ new \<and> (\<forall>c\<in>set new. \<not> ends_tx t c))"

lemma calls_within_refl [simp, intro]: "calls_within t h h"
  by (simp add: calls_within_def)

lemma calls_within_trans: "calls_within t a b \<Longrightarrow> calls_within t b c \<Longrightarrow> calls_within t a c"
  unfolding calls_within_def by fastforce

lemma calls_within_snoc: "calls_within t a b \<Longrightarrow> \<not> ends_tx t c \<Longrightarrow> calls_within t a (b @ [c])"
  unfolding calls_within_def by auto

definition tx_key :: "string \<Rightarrow> string" where
  "tx_key i = ''gorm:started_transaction'' @ i"

definition keeps :: "nat \<Rightarrow> scope \<Rightarrow> scope \<Rightarrow> bool" where
  "keeps t sc sc' =
     (db_conn (sc_db sc') = db_conn (sc_db sc) \<and> calls_within t (w_hist (sc_w sc)) (w_hist (sc_w sc'))
      \<and> (sc_instanceID sc \<noteq> [] \<longrightarrow> sc_instanceID sc' = sc_instanceID sc
           \<and> (db_values (sc_db sc) (tx_key (sc_instanceID sc)) \<noteq> None \<longrightarrow>
              db_values (sc_db sc') (tx_key (sc_instanceID sc)) \<noteq> None))
      \<and> sc_skipLeft sc' = sc_skipLeft sc)"

lemma keeps_refl [simp]: "keeps t sc sc"
  by (simp add: keeps_def)

lemma keeps_trans:
  assumes "keeps t a b" "keeps t b c" shows "keeps t a c"
proof -
  have "calls_within t (w_hist (sc_w a)) (w_hist (sc_w c))"
    using assms calls_within_trans unfolding keeps_def by blast
  then show ?thesis using assms by (cases "sc_instanceID a = []") (simp_all add: keeps_def)
qed

lemma keeps_silent: "keeps t a b \<Longrightarrow> silent b c \<Longrightarrow> keeps t a c"
  by (auto simp: keeps_def silent_def)

lemma silent_keeps: "silent a b \<Longrightarrow> keeps t a b"
  by (rule keeps_silent [OF keeps_refl])

lemma call_result [simp]: "snd (call G c w) = w\<lparr>w_hist := w_hist w @ [c]\<rparr>"
  by (simp add: call_def call_db_def)

lemma call_reply [simp]: "fst (call G c w) = g_db G (w_hist w @ [c])"
  by (simp add: call_def call_db_def)

lemma scope_call_result: "snd (scope_call G c sc) = sc\<lparr>sc_w := (sc_w sc)\<lparr>w_hist := w_hist (sc_w sc) @ [c]\<rparr>\<rparr>"
  by (simp add: scope_call_def case_prod_unfold)

lemma keeps_call: "keeps t a b \<Longrightarrow> \<not> ends_tx t c \<Longrightarrow> keeps t a (snd (scope_call G c b))"
  by (simp add: keeps_def scope_call_result calls_within_snoc)

lemma statements_do_not_end [simp]:
  "\<not> ends_tx t (CallExec c sql vs)" "\<not> ends_tx t (CallQuery c sql vs)" "\<not> ends_tx t (CallQueryRow c sql vs)"
  by (simp_all add: ends_tx_def)

lemma keeps_Exec: "keeps t a b \<Longrightarrow> keeps t a (Scope_Exec G b)"
proof -
  assume ab: "keeps t a b"
  let ?b = "snd (scope_call G (CallExec (db_conn (sc_db b)) (sc_SQL b) (sc_SQLVars b)) b)"
  have "keeps t a ?b" using ab by (simp add: keeps_call)
  moreover have "keeps t ?b (Scope_Err e ?b)" for e by (intro silent_keeps silent_Err silent_refl)
  moreover have "keeps t a (sc\<lparr>sc_db := (sc_db sc)\<lparr>db_RowsAffected := n\<rparr>\<rparr>)" if "keeps t a sc" for sc n
    using that by (simp add: keeps_def)
  ultimately show ?thesis using ab
    by (auto simp: Scope_Exec_def case_prod_unfold intro: keeps_trans split: option.splits sum.splits)
qed

section \<open>The bracket\<close>

text \<open>
  The history of an operation that began \<open>t\<close>: calls that do not end it, then one end.  A panic and an
  error roll back; otherwise it is committed, and the operation reports an error exactly if the commit did.
\<close>

definition tx_bracket :: "genv \<Rightarrow> nat \<Rightarrow> history \<Rightarrow> outcome \<Rightarrow> bool" where
  "tx_bracket G t h out =
     (\<exists>new c. w_hist (sc_w (out_scope out)) = h @ CallBegin t # new @ [c] \<and> (\<forall>x\<in>set new. \<not> ends_tx t x)
       \<and> (case out of
            Panicked sc \<Rightarrow> c = CallRollback t
          | Done sc \<Rightarrow> c = CallRollback t \<and> HasError sc
              \<or> c = CallCommit t \<and> (HasError sc \<longleftrightarrow> r_err (g_db G (w_hist (sc_w sc))) \<noteq> None)))"

text \<open>A scope whose transaction is open.\<close>

definition tx_open :: "nat \<Rightarrow> history \<Rightarrow> scope \<Rightarrow> bool" where
  "tx_open t h sc =
     (db_conn (sc_db sc) = ConnTx t \<and> sc_instanceID sc \<noteq> []
      \<and> db_values (sc_db sc) (tx_key (sc_instanceID sc)) \<noteq> None \<and> \<not> sc_skipLeft sc
      \<and> calls_within t (h @ [CallBegin t]) (w_hist (sc_w sc)))"

lemma keeps_open: "tx_open t h sc \<Longrightarrow> keeps t sc sc' \<Longrightarrow> tx_open t h sc'"
  unfolding tx_open_def keeps_def using calls_within_trans by auto

lemma open_get:
  "tx_open t h sc \<Longrightarrow> InstanceGet ''gorm:started_transaction'' sc = (db_values (sc_db sc) (tx_key (sc_instanceID sc)), sc)"
  by (simp add: InstanceGet_def InstanceID_def Scope_Get_def DB_Get_def tx_open_def tx_key_def)

lemma rollback_open:
  assumes "tx_open t h sc" "HasError sc"
  shows "CommitOrRollback G sc =
    sc\<lparr>sc_w := (sc_w sc)\<lparr>w_hist := w_hist (sc_w sc) @ [CallRollback t]\<rparr>, sc_db := (sc_db sc)\<lparr>db_conn := w_parent_conn (sc_w sc)\<rparr>\<rparr>"
  using assms open_get [OF assms(1)] by (simp add: CommitOrRollback_def tx_open_def scope_call_result Let_def)

lemma commit_open:
  assumes "tx_open t h sc" shows "tx_bracket G t h (commitOrRollbackTransactionCallback G sc)"
proof -
  obtain new where new: "w_hist (sc_w sc) = h @ CallBegin t # new" "\<forall>x\<in>set new. \<not> ends_tx t x"
    using assms by (auto simp: tx_open_def calls_within_def)
  show ?thesis
  proof (cases "HasError sc")
    case True
    then show ?thesis
      using new rollback_open [OF assms True, of G]
      by (auto simp: tx_bracket_def commitOrRollbackTransactionCallback_def HasError_def)
  next
    case False
    let ?sc = "snd (scope_call G (CallCommit t) sc)" and ?r = "fst (scope_call G (CallCommit t) sc)"
    have "CommitOrRollback G sc =
        (let sc = Scope_Err (r_err ?r) ?sc in sc\<lparr>sc_db := (sc_db sc)\<lparr>db_conn := w_parent_conn (sc_w sc)\<rparr>\<rparr>)"
      using assms open_get [OF assms] False by (simp add: CommitOrRollback_def tx_open_def case_prod_unfold)
    moreover have "?r = g_db G (w_hist (sc_w sc) @ [CallCommit t])" by (simp add: scope_call_def case_prod_unfold)
    ultimately show ?thesis
      using False new
      by (auto simp: tx_bracket_def commitOrRollbackTransactionCallback_def scope_call_result HasError_def Scope_Err_def Let_def)
  qed
qed

text \<open>Beginning: the transaction is open, or the error is in the scope and there was one call.\<close>

lemma begin_open:
  assumes "db_conn (sc_db sc) = ConnDB" "\<not> sc_skipLeft sc"
  obtains (opened) "tx_open (w_next (sc_w sc)) (w_hist (sc_w sc)) (Scope_Begin G sc)"
      "r_err (g_db G (w_hist (sc_w sc) @ [CallBegin (w_next (sc_w sc))])) = None"
      "HasError (Scope_Begin G sc) = HasError sc" "sc_Search (Scope_Begin G sc) = sc_Search sc"
    | (failed) "r_err (g_db G (w_hist (sc_w sc) @ [CallBegin (w_next (sc_w sc))])) \<noteq> None"
      "w_hist (sc_w (Scope_Begin G sc)) = w_hist (sc_w sc) @ [CallBegin (w_next (sc_w sc))]" "HasError (Scope_Begin G sc)"
      "db_conn (sc_db (Scope_Begin G sc)) = ConnDB" "\<not> sc_skipLeft (Scope_Begin G sc)"
      "db_values (sc_db (Scope_Begin G sc)) = db_values (sc_db sc)" "sc_instanceID (Scope_Begin G sc) = sc_instanceID sc"
proof -
  let ?t = "fst (fresh (sc_w sc))" and ?w = "snd (fresh (sc_w sc))"
  let ?s = "snd (scope_call G (CallBegin ?t) (sc\<lparr>sc_w := ?w\<rparr>))" and ?r = "fst (scope_call G (CallBegin ?t) (sc\<lparr>sc_w := ?w\<rparr>))"
  have hist: "w_hist (sc_w ?s) = w_hist (sc_w sc) @ [CallBegin ?t]" by (simp add: scope_call_result)
  have t: "?t = w_next (sc_w sc)" by (simp add: fresh_def)
  have r: "?r = g_db G (w_hist (sc_w sc) @ [CallBegin ?t])" by (simp add: scope_call_def case_prod_unfold)
  show thesis
  proof (cases "r_err ?r")
    case None
    let ?o = "?s\<lparr>sc_db := (sc_db ?s)\<lparr>db_conn := ConnTx ?t\<rparr>\<rparr>"
    have b: "Scope_Begin G sc = InstanceSet ''gorm:started_transaction'' (VBool True) ?o"
      using assms None by (simp add: Scope_Begin_def is_sqlDb_def case_prod_unfold)
    let ?i = "fst (InstanceID ?o)" and ?o' = "snd (InstanceID ?o)"
    have set: "InstanceSet ''gorm:started_transaction'' (VBool True) ?o = Scope_Set (tx_key ?i) (VBool True) ?o'"
      by (simp add: InstanceSet_def case_prod_unfold tx_key_def Let_def)
    have i: "sc_instanceID ?o' = ?i" "?i \<noteq> []" by (simp_all add: InstanceID_def Let_def case_prod_unfold)
    have quiet: "silent ?o ?o'" by (rule silent_InstanceID [OF silent_refl])
    have "tx_open ?t (w_hist (sc_w sc)) (Scope_Set (tx_key ?i) (VBool True) ?o')"
      using quiet hist assms(2) i by (simp add: tx_open_def silent_def Scope_Set_def InstantSet_def scope_call_result)
    moreover have "HasError (Scope_Set (tx_key ?i) (VBool True) ?o') = HasError sc"
      by (simp add: HasError_def Scope_Set_def InstantSet_def InstanceID_def scope_call_result Let_def case_prod_unfold)
    moreover have "sc_Search (Scope_Set (tx_key ?i) (VBool True) ?o') = sc_Search sc"
      by (simp add: Scope_Set_def InstanceID_def scope_call_result Let_def case_prod_unfold)
    ultimately show thesis using opened b set None unfolding t [symmetric] r [symmetric] by simp
  next
    case (Some e)
    have b: "Scope_Begin G sc = Scope_Err (Some e) ?s"
      using assms Some by (simp add: Scope_Begin_def is_sqlDb_def case_prod_unfold)
    show thesis
      by (rule failed) (use b hist [unfolded t] assms Some r [unfolded t] in
          \<open>simp_all add: Scope_Err_def HasError_def scope_call_result t\<close>)
  qed
qed

section \<open>Chains of safe callbacks\<close>

locale tx_safe =
  fixes body :: "callback list"
  assumes safe: "f \<in> set body \<Longrightarrow> db_conn (sc_db sc) = ConnTx t \<Longrightarrow> keeps t sc (out_scope (f sc))"
begin

lemma run_open:
  "fs \<subseteq> set body \<Longrightarrow> set funcs \<subseteq> fs \<Longrightarrow> tx_open t h sc \<Longrightarrow> tx_open t h (out_scope (run_callbacks funcs sc))"
proof (induction funcs arbitrary: sc)
  case Nil
  then show ?case by simp
next
  case (Cons f funcs)
  have f: "tx_open t h (out_scope (f sc))"
    using keeps_open [OF Cons.prems(3) safe] Cons.prems by (auto simp: tx_open_def)
  show ?case
  proof (cases "f sc")
    case (Done sc')
    then have "\<not> sc_skipLeft sc'" using f by (simp add: tx_open_def)
    then show ?thesis using Done f Cons.IH [of sc'] Cons.prems(1,2) by simp
  next
    case (Panicked sc')
    then show ?thesis using f by simp
  qed
qed

lemma run_commit:
  assumes "set funcs \<subseteq> set body" "tx_open t h sc"
  shows "tx_bracket G t h (callCallbacks G (funcs @ [commitOrRollbackTransactionCallback G]) sc)"
  using assms
proof (induction funcs arbitrary: sc)
  case Nil
  then show ?case
    using commit_open [of t h sc G]
    by (simp add: callCallbacks_def commitOrRollbackTransactionCallback_def)
next
  case (Cons f funcs)
  have f: "tx_open t h (out_scope (f sc))"
    using run_open [of "set body" "[f]" t h sc] Cons.prems by (cases "f sc") (auto split: if_splits)
  show ?case
  proof (cases "f sc")
    case (Done sc')
    then have "callCallbacks G ((f # funcs) @ [commitOrRollbackTransactionCallback G]) sc =
        callCallbacks G (funcs @ [commitOrRollbackTransactionCallback G]) sc'"
      using f by (simp add: callCallbacks_def tx_open_def)
    then show ?thesis using Cons.IH [of sc'] Cons.prems(1) f Done by simp
  next
    case (Panicked sc')
    then have "callCallbacks G ((f # funcs) @ [commitOrRollbackTransactionCallback G]) sc =
        Panicked (snd (scope_call G (CallRollback t) sc'))"
      using f by (simp add: callCallbacks_def tx_open_def)
    moreover obtain new where "w_hist (sc_w sc') = w_hist (sc_w sc') " "w_hist (sc_w sc') = h @ CallBegin t # new" "\<forall>x\<in>set new. \<not> ends_tx t x"
      using f Panicked by (auto simp: tx_open_def calls_within_def)
    ultimately show ?thesis by (auto simp: tx_bracket_def scope_call_result)
  qed
qed

lemma bracket:
  assumes "db_conn (sc_db sc) = ConnDB" "\<not> sc_skipLeft sc"
    "r_err (g_db G (w_hist (sc_w sc) @ [CallBegin (w_next (sc_w sc))])) = None"
  shows "tx_bracket G (w_next (sc_w sc)) (w_hist (sc_w sc))
      (callCallbacks G (beginTransactionCallback G # body @ [commitOrRollbackTransactionCallback G]) sc)"
  using assms(1,2)
proof (cases rule: begin_open [of sc G])
  case opened
  have "callCallbacks G (beginTransactionCallback G # body @ [commitOrRollbackTransactionCallback G]) sc =
      callCallbacks G (body @ [commitOrRollbackTransactionCallback G]) (Scope_Begin G sc)"
    using opened(1) by (simp add: callCallbacks_def beginTransactionCallback_def tx_open_def)
  then show ?thesis using run_commit [OF subset_refl opened(1)] by simp
next
  case failed
  then show ?thesis using assms(3) by simp
qed

end

section \<open>Safe hooks\<close>

lemma keeps_and_then:
  assumes "keeps t a (out_scope x)" "\<And>b. x = Done b \<Longrightarrow> keeps t b (out_scope (f b))"
  shows "keeps t a (out_scope (and_then x f))"
  using assms by (cases x) (auto intro: keeps_trans)

locale tx_hooks =
  fixes G :: genv and hooks :: hooks
  assumes hook_keeps: "db_conn (sc_db sc) = ConnTx t \<Longrightarrow> keeps t sc (out_scope (callMethod_one G hooks name v sc))"
begin

lemma method_loop_keeps:
  "db_conn (sc_db sc) = ConnTx t \<Longrightarrow> keeps t sc (out_scope (call_method_loop G hooks name vs sc))"
proof (induction vs arbitrary: sc)
  case (Cons v vs)
  have "keeps t sc (out_scope (callMethod_one G hooks name v sc))" by (rule hook_keeps [OF Cons.prems])
  moreover have "keeps t b (out_scope (call_method_loop G hooks name vs b))"
    if "callMethod_one G hooks name v sc = Done b" for b
    using hook_keeps [OF Cons.prems, of name v] that Cons.prems by (intro Cons.IH) (simp add: keeps_def)
  ultimately show ?case unfolding call_method_loop.simps by (rule keeps_and_then)
qed simp

lemma call_hook_keeps: "db_conn (sc_db sc) = ConnTx t \<Longrightarrow> keeps t sc (out_scope (call_hook G hooks name sc))"
  by (simp add: call_hook_def CallMethod_def method_loop_keeps hook_keeps)

lemma two_hooks_keep:
  assumes "db_conn (sc_db sc) = ConnTx t"
  shows "keeps t sc (out_scope (and_then (call_hook G hooks n1 sc) (call_hook G hooks n2)))"
proof (rule keeps_and_then [OF call_hook_keeps [OF assms]])
  fix b assume "call_hook G hooks n1 sc = Done b"
  then have "db_conn (sc_db b) = ConnTx t" using call_hook_keeps [OF assms, of n1] assms by (simp add: keeps_def)
  then show "keeps t b (out_scope (call_hook G hooks n2 b))" by (rule call_hook_keeps)
qed

lemma before_delete_keeps:
  assumes "db_conn (sc_db sc) = ConnTx t" shows "keeps t sc (out_scope (beforeDeleteCallback G hooks sc))"
proof -
  have "silent sc (if HasBlockGlobalUpdate (sc_db sc) then touch_primary G sc else sc)"
    by (simp add: silent_touch_primary)
  moreover have "keeps t b (out_scope (call_hook G hooks n b))" if "silent sc b" for b n
    using that assms by (intro call_hook_keeps) (simp add: silent_def)
  moreover have "keeps t b (scope_error m b)" for b m by (intro silent_keeps silent_error silent_refl)
  ultimately show ?thesis
    unfolding beforeDeleteCallback_def Let_def by (auto intro: keeps_trans silent_keeps)
qed

lemma delete_keeps: "keeps t sc (out_scope (deleteCallback G sc))"
proof -
  have exec: "keeps t sc (Scope_Exec G b)" if "silent sc b" for b using silent_keeps [OF that] by (rule keeps_Exec)
  have now: "silent sc (sc\<lparr>sc_w := snd (nowFunc G d (sc_w sc))\<rparr>)" for d
    by (intro silent_world silent_intros) simp_all
  show ?thesis
    unfolding deleteCallback_def Let_def case_prod_unfold
    by (auto intro!: exec silent_intros now split: option.splits simp: cache_fields_def [of G sc])
qed

lemma delete_safe: "tx_safe [beforeDeleteCallback G hooks, deleteCallback G, afterDeleteCallback G hooks]"
  by unfold_locales (auto simp: before_delete_keeps delete_keeps afterDeleteCallback_def call_hook_keeps)

end

sublocale tx_hooks \<subseteq> delete: tx_safe "[beforeDeleteCallback G hooks, deleteCallback G, afterDeleteCallback G hooks]"
  by (rule delete_safe)

definition no_hooks :: hooks where
  "no_hooks = (\<lambda>w name v. None)"

interpretation plain: tx_hooks G no_hooks for G
  by unfold_locales (simp add: callMethod_one_def no_hooks_def)


end
