(* ===== verification/Statements.thy ===== *)
theory Statements
  imports Transactions SqlText
begin

text \<open>
  What the create, update, delete and query callbacks do to the world: each sends at most one statement, on
  the scope's own connection, and no object changes its type or its number of members.  \<open>quiet\<close> is a step
  without a call, \<open>calm\<close> one that also keeps the shape of the objects, \<open>one_call\<close> a step with at most
  one call.
\<close>

definition quiet :: "scope \<Rightarrow> scope \<Rightarrow> bool" where
  "quiet a b = (w_hist (sc_w b) = w_hist (sc_w a) \<and> db_conn (sc_db b) = db_conn (sc_db a))"

definition calm :: "scope \<Rightarrow> scope \<Rightarrow> bool" where
  "calm a b = (quiet a b \<and> shaped (sc_w a) (sc_w b))"

definition one_call :: "scope \<Rightarrow> scope \<Rightarrow> bool" where
  "one_call a b =
     (db_conn (sc_db b) = db_conn (sc_db a)
      \<and> (\<exists>cs. w_hist (sc_w b) = w_hist (sc_w a) @ cs \<and> (cs = [] \<or> (\<exists>sql vs. cs \<in> {[CallExec (db_conn (sc_db a)) sql vs],
            [CallQuery (db_conn (sc_db a)) sql vs], [CallQueryRow (db_conn (sc_db a)) sql vs]}))))"

named_theorems quiet_intros
named_theorems calm_intros

lemma quiet_refl [simp, quiet_intros]: "quiet a a"
  by (simp add: quiet_def)

lemma calm_refl [simp, calm_intros]: "calm a a"
  by (simp add: calm_def)

lemma quiet_trans: "quiet a b \<Longrightarrow> quiet b c \<Longrightarrow> quiet a c"
  by (simp add: quiet_def)

lemma calm_trans: "calm a b \<Longrightarrow> calm b c \<Longrightarrow> calm a c"
  unfolding calm_def using quiet_trans shaped_trans by blast

lemma silent_calm: "silent a b \<Longrightarrow> calm a b"
  by (simp add: silent_def calm_def quiet_def)

lemma silent_quiet: "silent a b \<Longrightarrow> quiet a b"
  using silent_calm by (simp add: calm_def)

lemma calm_quiet: "calm a b \<Longrightarrow> quiet a b"
  by (simp add: calm_def)

lemma calm_updates [simp]:
  "calm a (b\<lparr>sc_SQL := sql\<rparr>) = calm a b" "calm a (b\<lparr>sc_fields := fs\<rparr>) = calm a b" "calm a (b\<lparr>sc_skipLeft := x\<rparr>) = calm a b"
  "calm a (b\<lparr>sc_skipBindVar := x, sc_skipBindVarKnown := y\<rparr>) = calm a b"
  by (simp_all add: calm_def quiet_def)

lemma calm_Set [calm_intros]: "calm a b \<Longrightarrow> calm a (Scope_Set name v b)"
  by (simp add: calm_def quiet_def Scope_Set_def InstantSet_def)

lemma calm_step: "calm a b \<Longrightarrow> silent b c \<Longrightarrow> calm a c"
  using calm_trans silent_calm by blast

lemma calm_InstanceSet [calm_intros]: "calm a b \<Longrightarrow> calm a (InstanceSet name v b)"
proof -
  assume ab: "calm a b"
  have "calm a (snd (InstanceID c))" if "calm a c" for c
    using that silent_InstanceID [OF silent_refl] by (rule calm_step)
  then show ?thesis using ab by (auto simp: InstanceSet_def case_prod_unfold Let_def intro: calm_intros)
qed

lemma calm_silent_intros [calm_intros]:
  "calm a b \<Longrightarrow> calm a (snd (AddToVars v b))" "calm a b \<Longrightarrow> calm a (cache_fields G b)"
  "calm a b \<Longrightarrow> calm a (snd (set_field G i v b))" "calm a b \<Longrightarrow> calm a (Scope_Err e b)"
  "calm a b \<Longrightarrow> calm a (Scope_Raw sql b)" "calm a b \<Longrightarrow> calm a (snd (CombinedConditionSql G b))"
  "calm a b \<Longrightarrow> calm a (snd (InstanceGet name b))"
  by (erule calm_step, intro silent_intros)+

lemma calm_now [calm_intros]: "calm a b \<Longrightarrow> calm a (b\<lparr>sc_w := snd (nowFunc G d (sc_w b))\<rparr>)"
  by (erule calm_step) (intro silent_world silent_refl, simp_all)

lemma calm_SkipLeft [calm_intros]: "calm a b \<Longrightarrow> calm a (SkipLeft b)"
  by (simp add: SkipLeft_def)

lemma calm_rows_affected [calm_intros]: "calm a b \<Longrightarrow> calm a (set_rows_affected n b)"
  by (simp add: set_rows_affected_def calm_def quiet_def)

lemma calm_set_ref [calm_intros]: "calm a b \<Longrightarrow> shaped (sc_w b) w \<Longrightarrow> w_hist w = w_hist (sc_w b) \<Longrightarrow> calm a (b\<lparr>sc_w := w\<rparr>)"
  using shaped_trans by (auto simp: calm_def quiet_def)

text \<open>A step with at most one call, among steps without one.\<close>

lemma quiet_one: "quiet a b \<Longrightarrow> one_call b c \<Longrightarrow> one_call a c"
  by (auto simp: quiet_def one_call_def)

lemma one_quiet: "one_call a b \<Longrightarrow> quiet b c \<Longrightarrow> one_call a c"
  by (auto simp: quiet_def one_call_def)

lemma one_call_refl [simp]: "one_call a a"
  by (simp add: one_call_def)

lemma no_call: "quiet a b \<Longrightarrow> one_call a b"
  by (rule quiet_one [OF _ one_call_refl])

lemma one_call_sent [simp]:
  "one_call a (snd (scope_call G (CallExec (db_conn (sc_db a)) sql vs) a))"
  "one_call a (snd (scope_call G (CallQuery (db_conn (sc_db a)) sql vs) a))"
  "one_call a (snd (scope_call G (CallQueryRow (db_conn (sc_db a)) sql vs) a))"
  by (auto simp: one_call_def scope_call_result)

lemma one_call_Exec: "one_call a (Scope_Exec G a)"
proof -
  let ?b = "snd (scope_call G (CallExec (db_conn (sc_db a)) (sc_SQL a) (sc_SQLVars a)) a)"
  have b: "one_call a ?b" by simp
  have "one_call a (Scope_Err e ?b)" for e by (rule one_quiet [OF b silent_quiet [OF silent_Err [OF silent_refl]]])
  moreover have "one_call a (?b\<lparr>sc_db := (sc_db ?b)\<lparr>db_RowsAffected := n\<rparr>\<rparr>)" for n
    by (rule one_quiet [OF b]) (simp add: quiet_def)
  ultimately show ?thesis by (simp add: Scope_Exec_def case_prod_unfold split: option.split sum.split)
qed

text \<open>What an execution sends: nothing, or the statement of the scope with its variables.\<close>

lemma Exec_hist:
  "w_hist (sc_w (Scope_Exec G sc)) = w_hist (sc_w sc)
    @ (if HasError sc then [] else [CallExec (db_conn (sc_db sc)) (sc_SQL sc) (sc_SQLVars sc)])"
  by (simp add: Scope_Exec_def scope_call_result case_prod_unfold Scope_Err_def split: option.split sum.split)

lemma shaped_call [simp]: "shaped (sc_w a) (sc_w (snd (scope_call G c a)))"
  by (simp add: scope_call_result)

lemma shaped_Exec [simp]: "shaped (sc_w a) (sc_w (Scope_Exec G a))"
  by (simp add: Scope_Exec_def case_prod_unfold scope_call_result Scope_Err_def split: option.split sum.split)

definition calm_call :: "scope \<Rightarrow> scope \<Rightarrow> bool" where
  "calm_call a b = (one_call a b \<and> shaped (sc_w a) (sc_w b))"

lemma calm_no_call: "calm a b \<Longrightarrow> calm_call a b"
  by (simp add: calm_call_def calm_def no_call)

lemma calm_call_refl [simp]: "calm_call a a"
  by (rule calm_no_call) simp

lemma calm_Exec: "calm a b \<Longrightarrow> calm_call a (Scope_Exec G b)"
  unfolding calm_call_def calm_def using quiet_one one_call_Exec shaped_Exec shaped_trans by blast

lemma calm_then: "calm a b \<Longrightarrow> calm_call b c \<Longrightarrow> calm_call a c"
  unfolding calm_call_def calm_def using quiet_one shaped_trans by blast

lemma then_calm: "calm_call a b \<Longrightarrow> calm b c \<Longrightarrow> calm_call a c"
  unfolding calm_call_def calm_def using one_quiet shaped_trans by blast

section \<open>Updating and deleting\<close>

lemma delete_calm: "calm_call sc (out_scope (deleteCallback G sc))"
  unfolding deleteCallback_def Let_def case_prod_unfold
  by (auto intro!: calm_Exec calm_intros split: option.split)

lemma assignment_calm [calm_intros]: "calm a (snd st) \<Longrightarrow> calm a (snd (assignment column v st))"
  by (auto simp: assignment_def case_prod_unfold intro: calm_intros)

lemma fold_calm:
  "(\<And>x st. calm a (sel st) \<Longrightarrow> calm a (sel (f x st))) \<Longrightarrow> calm a (sel st) \<Longrightarrow> calm a (sel (fold f xs st))"
  by (induction xs arbitrary: st) auto

lemma field_assignment_calm: "calm a (snd st) \<Longrightarrow> calm a (snd (field_assignment G f st))"
proof -
  have f: "calm a (snd (foreign_assignment G k st))" if "calm a (snd st)" for k st
    using that by (auto simp: foreign_assignment_def Let_def intro: calm_intros split: option.split)
  assume "calm a (snd st)"
  then show ?thesis
    unfolding field_assignment_def
    by (auto intro!: fold_calm [where sel = snd] assignment_calm f split: option.split)
qed

lemma attr_assignments_calm: "calm a b \<Longrightarrow> calm a (snd (attr_assignments m b))"
  unfolding attr_assignments_def by (rule fold_calm [where sel = snd]) (auto intro: calm_intros)

lemma update_calm: "calm_call sc (out_scope (updateCallback G sc))"
proof -
  let ?st = "case InstanceGet ''gorm:update_attrs'' sc of
      (Some (VMap m), sc) \<Rightarrow> attr_assignments m sc
    | (_, sc) \<Rightarrow> (let sc = cache_fields G sc in fold (field_assignment G) (Fields G sc) ([], sc))"
  have g: "calm sc (snd (InstanceGet ''gorm:update_attrs'' sc))" by (intro calm_intros)
  then have fields: "calm sc (snd (let sc = cache_fields G b in fold (field_assignment G) (Fields G sc) ([], sc)))"
    if "b = snd (InstanceGet ''gorm:update_attrs'' sc)" for b
    unfolding Let_def that by (intro fold_calm [where sel = snd] field_assignment_calm) (auto intro: calm_intros)
  have st: "calm sc (snd ?st)"
    by (cases "InstanceGet ''gorm:update_attrs'' sc")
       (use g fields in \<open>auto intro: attr_assignments_calm split: option.split gval.split\<close>)
  then have "calm_call sc (Scope_Exec G (Scope_Raw sql (snd (CombinedConditionSql G (snd ?st)))))" for sql
    by (intro calm_Exec calm_intros)
  then show ?thesis using st calm_no_call by (simp add: updateCallback_def case_prod_unfold Let_def)
qed

section \<open>Creating\<close>

abbreviation create_scope :: "create_state \<Rightarrow> scope" where
  "create_scope st \<equiv> snd (snd (snd st))"

lemma add_create_column_calm: "calm a (create_scope st) \<Longrightarrow> calm a (create_scope (add_create_column f st))"
  by (auto simp: add_create_column_def case_prod_unfold intro: calm_intros)

lemma create_column_calm: "calm a (create_scope st) \<Longrightarrow> calm a (create_scope (create_column G f st))"
proof -
  have f: "calm a (create_scope (add_foreign_column G k st))" if "calm a (create_scope st)" for k st
    using that by (auto simp: add_foreign_column_def case_prod_unfold intro: add_create_column_calm split: option.split)
  assume "calm a (create_scope st)"
  then show ?thesis
    unfolding create_column_def case_prod_unfold Let_def
    by (auto intro!: fold_calm [where sel = create_scope] add_create_column_calm f calm_intros split: option.split)
qed

lemma create_exec_calm: "calm_call a (create_exec G p a)"
proof -
  let ?b = "snd (scope_call G (CallExec (db_conn (sc_db a)) (sc_SQL a) (sc_SQLVars a)) a)"
  have b: "calm_call a c" if "calm ?b c" for c by (rule then_calm [OF _ that]) (simp add: calm_call_def)
  then show ?thesis unfolding create_exec_def Let_def case_prod_unfold
    by (auto intro!: b calm_intros split: option.split sum.split)
qed

lemma scan_dest_world [simp]: "w_hist (snd (snd (scan_dest G t v w))) = w_hist w" "shaped u w \<Longrightarrow> shaped u (snd (snd (scan_dest G t v w)))"
  by (simp_all add: scan_dest_def Let_def case_prod_unfold split: sum.split)

lemma row_scan_world [simp]: "w_hist (snd (snd (row_scan G t r w))) = w_hist w" "shaped u w \<Longrightarrow> shaped u (snd (snd (row_scan G t r w)))"
  by (simp_all add: row_scan_def case_prod_unfold split: option.split list.split)

lemma set_ref_world [simp]: "w_hist (set_ref_value r v w) = w_hist w" "shaped u w \<Longrightarrow> shaped u (set_ref_value r v w)"
  by (simp_all add: set_ref_value_def split: fref.split)

lemma scan_identity_calm [calm_intros]: "calm a b \<Longrightarrow> calm a (snd (scan_identity G i r b))"
  unfolding scan_identity_def Let_def case_prod_unfold snd_conv
  by (rule calm_set_ref) (auto split: option.split)

lemma create_query_calm: "calm_call a (create_query G i a)"
proof -
  let ?b = "snd (scope_call G (CallQueryRow (db_conn (sc_db a)) (sc_SQL a) (sc_SQLVars a)) a)"
  have b: "calm_call a c" if "calm ?b c" for c by (rule then_calm [OF _ that]) (simp add: calm_call_def)
  have none: "calm_call a (Scope_Err e a)" for e by (intro calm_no_call calm_intros)
  show ?thesis unfolding create_query_def Let_def case_prod_unfold
    by (auto intro!: b none calm_intros split: option.split fref.split)
qed

lemma create_calm: "calm_call sc (out_scope (createCallback G sc))"
proof -
  let ?c = "cache_fields G sc"
  let ?st = "fold (create_column G) (Fields G ?c) ([], [], [], ?c)"
  have "calm sc (create_scope ?st)" by (intro fold_calm [where sel = create_scope] create_column_calm) (auto intro: calm_intros)
  then have "calm sc (Scope_Raw sql (create_scope ?st))" for sql by (rule calm_intros)
  then have "calm_call sc (create_exec G p (Scope_Raw sql (create_scope ?st)))"
    "calm_call sc (create_query G i (Scope_Raw sql (create_scope ?st)))" for sql p i
    using calm_then create_exec_calm create_query_calm by blast+
  then show ?thesis by (simp add: createCallback_def Let_def case_prod_unfold calm_no_call split: option.split)
qed

section \<open>Attributes and timestamps\<close>

lemma set_blank_field_calm [calm_intros]: "calm a b \<Longrightarrow> calm a (set_blank_field G n v b)"
  by (auto simp: set_blank_field_def Let_def intro: calm_intros split: option.split)

lemma updated_attr_calm: "calm a (snd (snd st)) \<Longrightarrow> calm a (snd (snd (updated_attr G kv st)))"
  by (auto simp: updated_attr_def Let_def case_prod_unfold intro: calm_intros split: option.split)

lemma updatedAttrs_calm [calm_intros]: "calm a b \<Longrightarrow> calm a (snd (snd (updatedAttrsWithValues G v b)))"
  unfolding updatedAttrsWithValues_def by (auto intro!: fold_calm [where sel = "snd \<circ> snd", simplified] updated_attr_calm)

lemma apply_attrs_calm [calm_intros]: "calm a b \<Longrightarrow> calm a (apply_attrs G v b)"
  unfolding apply_attrs_def by (rule updatedAttrs_calm)

lemma SetColumn_calm [calm_intros]:
  assumes "calm a b" shows "calm a (snd (SetColumn G n v b))"
proof -
  have u: "calm a (set_update_attr x y v c)" if "calm a c" for x y c
    using that by (auto simp: set_update_attr_def intro: calm_intros split: option.split gval.split)
  have e: "calm a (c\<lparr>sc_w := snd (new_error m (sc_w c))\<rparr>)" if "calm a c" for c m
    using that by (intro calm_set_ref) simp_all
  have "calm a (snd (InstanceGet ''gorm:update_attrs'' b))" using assms by (intro calm_intros)
  then show ?thesis unfolding SetColumn_def case_prod_unfold Let_def
    by (auto intro!: calm_intros u e split: sum.split option.split)
qed

lemma assign_calm: "calm sc (out_scope (assignUpdatingAttributesCallback G sc))"
proof -
  have "calm sc (snd (InstanceGet ''gorm:update_interface'' sc))" by (intro calm_intros)
  then show ?thesis unfolding assignUpdatingAttributesCallback_def case_prod_unfold
    by (auto intro!: calm_intros split: option.split)
qed

lemma create_time_calm: "calm sc (out_scope (updateTimeStampForCreateCallback G sc))"
  unfolding updateTimeStampForCreateCallback_def case_prod_unfold by (auto intro!: calm_intros)

lemma update_time_calm: "calm sc (out_scope (updateTimeStampForUpdateCallback G sc))"
  unfolding updateTimeStampForUpdateCallback_def case_prod_unfold by (auto intro!: calm_intros)

section \<open>Querying\<close>

text \<open>\<open>still\<close>: no call, and the settings and the associations to preload stay.  \<open>one_query\<close>: at most one query.\<close>

definition still :: "scope \<Rightarrow> scope \<Rightarrow> bool" where
  "still a b = (quiet a b \<and> db_values (sc_db b) = db_values (sc_db a) \<and> preload (sc_Search b) = preload (sc_Search a))"

definition one_query :: "scope \<Rightarrow> scope \<Rightarrow> bool" where
  "one_query a b =
     (db_conn (sc_db b) = db_conn (sc_db a) \<and> db_values (sc_db b) = db_values (sc_db a)
      \<and> preload (sc_Search b) = preload (sc_Search a)
      \<and> (\<exists>cs. w_hist (sc_w b) = w_hist (sc_w a) @ cs \<and> (cs = [] \<or> (\<exists>sql vs. cs \<in> {[CallQuery (db_conn (sc_db a)) sql vs],
            [CallQueryRow (db_conn (sc_db a)) sql vs]}))))"

lemma still_refl [simp]: "still a a"
  by (simp add: still_def)

lemma still_trans: "still a b \<Longrightarrow> still b c \<Longrightarrow> still a c"
  unfolding still_def using quiet_trans by metis

lemma silent_still: "silent a b \<Longrightarrow> still a b"
  by (simp add: still_def silent_quiet) (simp add: silent_def)

lemma still_query: "still a b \<Longrightarrow> one_query b c \<Longrightarrow> one_query a c"
  by (auto simp: still_def quiet_def one_query_def)

lemma query_still: "one_query a b \<Longrightarrow> still b c \<Longrightarrow> one_query a c"
  by (auto simp: still_def quiet_def one_query_def)

lemma no_query: "still a b \<Longrightarrow> one_query a b"
  by (auto simp: still_def quiet_def one_query_def)

lemma one_query_refl [simp]: "one_query a a"
  by (rule no_query) simp

lemma query_sent [simp]:
  "one_query a (snd (scope_call G (CallQuery (db_conn (sc_db a)) sql vs) a))"
  "one_query a (snd (scope_call G (CallQueryRow (db_conn (sc_db a)) sql vs) a))"
  by (auto simp: one_query_def scope_call_result)

lemma one_query_call: "one_query a b \<Longrightarrow> one_call a b"
  by (auto simp: one_query_def one_call_def)

lemma still_updates [simp]:
  "still a (b\<lparr>sc_SQL := sql\<rparr>) = still a b" "still a (set_rows_affected n b) = still a b"
  "still a (b\<lparr>sc_row_result := r\<rparr>) = still a b"
  "preload s = preload (sc_Search b) \<Longrightarrow> still a (b\<lparr>sc_Search := s\<rparr>) = still a b"
  by (simp_all add: still_def quiet_def set_rows_affected_def)

lemma search_Order_preload [simp]: "preload (search_Order v b s) = preload s"
  by (simp add: search_Order_def Let_def split: list.split)

lemma still_world: "still a b \<Longrightarrow> w_hist w = w_hist (sc_w b) \<Longrightarrow> still a (b\<lparr>sc_w := w\<rparr>)"
  by (simp add: still_def quiet_def)

lemma still_step: "still a b \<Longrightarrow> silent b c \<Longrightarrow> still a c"
  using still_trans silent_still by blast

lemma still_Err: "still a b \<Longrightarrow> still a (Scope_Err e b)"
  by (erule still_step) (intro silent_intros)

lemma still_InstanceGet: "still a b \<Longrightarrow> still a (snd (InstanceGet name b))"
  by (erule still_step) (intro silent_intros)

lemma still_hint [simp]: "still a (with_hint b) = still a b"
  by (simp add: with_hint_def split: option.split)

lemma still_prepare: "still a b \<Longrightarrow> still a (out_scope (prepareQuerySQL G b))"
  by (erule still_step) (rule silent_prepareQuerySQL [OF silent_refl])

lemma scan_row_hist [simp]: "w_hist (snd (scan_row G fs ps w)) = w_hist w"
  by (induction G fs ps w rule: scan_row.induct)
     (auto simp: scan_into_def Let_def case_prod_unfold split: option.split sum.split)

lemma still_scan: "still a b \<Longrightarrow> still a (scanWithPlan G row fs plan b)"
  unfolding scanWithPlan_def case_prod_unfold by (intro still_Err still_world) simp_all

lemma query_world [simp]:
  "w_hist (snd (new_object G t w)) = w_hist w" "w_hist (append_element a v w) = w_hist w" "w_hist (clear_slice a w) = w_hist w"
  by (auto simp: new_object_def append_element_def clear_slice_def case_prod_unfold split: option.split)

lemma still_query_row: "still a (snd st) \<Longrightarrow> still a (snd (scan_query_row G dest columns row st))"
proof -
  assume st: "still a (snd st)"
  then have new: "still a ((set_rows_affected n (snd st))\<lparr>sc_w := snd (new_object G t (sc_w (snd st)))\<rparr>)" for n t
    by (intro still_world) (simp only: still_updates, simp add: set_rows_affected_def)
  have add: "still a (b\<lparr>sc_w := append_element s v (sc_w b)\<rparr>)" if "still a b" for b s v
    using that by (intro still_world) simp_all
  have w: "sc_w (set_rows_affected n b) = sc_w b" for n b by (simp add: set_rows_affected_def)
  show ?thesis unfolding scan_query_row_def Let_def case_prod_unfold
    by (cases dest) (simp_all add: add new st w still_scan)
qed

lemma still_query_rows: "still a b \<Longrightarrow> still a (scan_query_rows G dest columns rows b)"
proof -
  have "still a (snd st) \<Longrightarrow> still a (snd (fold (scan_query_row G dest columns) rows st))" for st
    by (induction rows arbitrary: st) (simp_all add: still_query_row)
  then show "still a b \<Longrightarrow> still a (scan_query_rows G dest columns rows b)" by (simp add: scan_query_rows_def)
qed

lemma run_query_asks: "one_query a (out_scope (run_query G dest a))"
proof -
  let ?a = "with_hint (set_rows_affected 0 a)"
  let ?b = "snd (scope_call G (CallQuery (db_conn (sc_db ?a)) (sc_SQL ?a) (sc_SQLVars ?a)) ?a)"
  have ab: "one_query a ?b" by (rule still_query [OF _ query_sent(1)]) simp
  have b: "one_query a c" if "still ?b c" for c by (rule query_still [OF ab that])
  have rows: "still ?b (scan_query_rows G x cs rs ?b)" for x cs rs by (intro still_query_rows still_refl)
  show ?thesis unfolding run_query_def Let_def case_prod_unfold
    by (auto intro!: b still_Err rows split: option.split destination.split)
qed

lemma one_then: "still a (out_scope x) \<Longrightarrow> (\<And>b. one_query b (out_scope (f b))) \<Longrightarrow> one_query a (out_scope (and_then x f))"
  by (cases x) (auto intro: still_query no_query)

lemma still_order: "still a b \<Longrightarrow> still a (order_by_primary G b)"
proof -
  assume "still a b"
  then have "still a (touch_primary G b)" by (rule still_step) (intro silent_intros)
  then show ?thesis using \<open>still a b\<close> by (simp add: order_by_primary_def Let_def split: option.split)
qed

lemma query_asks: "one_query sc (out_scope (queryCallback G sc))"
proof -
  let ?a = "snd (InstanceGet ''gorm:skip_query_callback'' sc)"
  let ?b = "snd (InstanceGet ''gorm:only_preload'' ?a)"
  let ?c = "order_by_primary G ?b"
  have a: "still sc ?a" and b: "still sc ?b" by (intro still_InstanceGet still_refl)+
  then have c: "still sc ?c" by (intro still_order)
  have s: "still sc (?c\<lparr>sc_w := clear_slice x (sc_w ?c)\<rparr>)" for x using c by (intro still_world) simp_all
  have err: "still sc (scope_error m ?c)" for m using c by (rule still_step) (intro silent_intros)
  show ?thesis unfolding queryCallback_def Let_def case_prod_unfold
    using c no_query [OF a] no_query [OF b] no_query [OF c] no_query [OF err]
    by (auto intro!: one_then still_prepare s run_query_asks split: option.split destination.split)
qed

lemma row_query_asks: "one_query sc (out_scope (rowQueryCallback G sc))"
proof -
  let ?a = "snd (InstanceGet ''row_query_result'' sc)"
  have a: "still sc ?a" by (intro still_InstanceGet still_refl)
  have sent: "one_query b (c\<lparr>sc_row_result := r\<rparr>)" if "one_query (with_hint b) c" for b c r
  proof -
    have "one_query b c" by (rule still_query [OF _ that]) simp
    then show ?thesis by (rule query_still) simp
  qed
  have hint: "one_query b (with_hint b)" for b by (rule no_query) simp
  show ?thesis unfolding rowQueryCallback_def Let_def case_prod_unfold
    using a no_query [OF a] by (auto intro!: one_then still_prepare sent hint query_sent split: option.split)
qed

lemmas query_one = query_asks [THEN one_query_call]
lemmas row_query_one = row_query_asks [THEN one_query_call]

section \<open>The properties\<close>

text \<open>
  C25: Each of the callbacks that create, update, delete and query sends at most one statement, and sends it on the
  connection of its scope: inside the scope's transaction when it has one.
\<close>

theorem one_statement_each:
  "list_all (\<lambda>callback. one_call sc (out_scope (callback sc)))
     [createCallback G, updateCallback G, deleteCallback G, queryCallback G, rowQueryCallback G]"
  using create_calm update_calm delete_calm by (simp add: calm_call_def query_one row_query_one)


text \<open>
  Preparing the text of a query reaches neither the database nor the handle: no call is made, connection, settings,
  dialect, search and value stay, objects keep their shape and an error already there is not lost.
\<close>

theorem preparing_is_silent:
  "silent sc (out_scope (prepareQuerySQL G sc))"
  by (rule silent_prepareQuerySQL [OF silent_refl])

text \<open>
  The assignments of an update are written in the order of their column names: the text and the variables
  depend on the attributes as a map only, not on the order in which Go ranges over it.
\<close>

theorem update_text_deterministic:
  assumes "map_of m = map_of m'" "distinct (map fst m)" "distinct (map fst m')"
  shows "attr_assignments m sc = attr_assignments m' sc"
proof -
  have "set (map fst m) = set (map fst m')" using assms(1) by (metis dom_map_of_conv_image_fst set_map)
  then have "sort (map fst m) = sort (map fst m')"
    using assms(2,3) by (intro sorted_distinct_set_unique) simp_all
  then show ?thesis using assms(1) by (simp add: attr_assignments_def)
qed

lemma update_text_deterministic_witness:
  "attr_assignments [(''name'', VStr ''ann''), (''age'', VInt KInt 3)] (sample_scope postgres_dialect VNil)
     = attr_assignments [(''age'', VInt KInt 3), (''name'', VStr ''ann'')] (sample_scope postgres_dialect VNil)"
  by (rule update_text_deterministic) (auto simp: fun_eq_iff)

end
