(* ===== verification/CrudProps.thy ===== *)
theory CrudProps
  imports Statements
begin

text \<open>
  Properties of the operations: the bracket of a delete in its transaction, blocked global deletes, the
  statement a soft delete sends, the text of an update, and that preparing a query is silent.
\<close>

text \<open>Fields depend on the world only through its objects.\<close>

lemma struct_blank_world: "w_objs w' = w_objs w \<Longrightarrow> struct_blank n G w' t v = struct_blank n G w t v"
  by (induction n arbitrary: t v) (simp_all add: case_prod_unfold split: gval.split option.split)

lemma compute_fields_world:
  assumes "w_objs (sc_w sc') = w_objs (sc_w sc)" "sc_Value sc' = sc_Value sc"
  shows "compute_fields G sc' = compute_fields G sc"
proof -
  have t: "value_type (sc_w sc') (sc_Value sc') = value_type (sc_w sc) (sc_Value sc)"
    using assms by (simp add: value_type_def split: gval.splits)
  have k: "indirect_kind G (sc_w sc') (sc_Value sc') = indirect_kind G (sc_w sc) (sc_Value sc)"
    using assms by (simp add: indirect_kind_def split: gval.splits)
  have m: "GetStructFields G sc' = GetStructFields G sc" by (simp add: GetStructFields_def GetModelStruct_def t)
  have f: "make_field G sc' b p = make_field G sc b p" for b p
    using assms by (simp add: make_field_def value_blank_def struct_blank_world [OF assms(1)] obj_value_def Let_def split: gval.splits)
  have "make_field G sc' b = make_field G sc b" for b by (rule ext) (rule f)
  then show ?thesis by (simp add: compute_fields_def k m Let_def)
qed

lemma hasConditions_world:
  assumes "w_objs (sc_w sc') = w_objs (sc_w sc)" "sc_Value sc' = sc_Value sc" "sc_Search sc' = sc_Search sc"
    "sc_fields sc' = sc_fields sc"
  shows "hasConditions G sc' = hasConditions G sc"
proof -
  have F: "Fields G sc' = Fields G sc" using assms(4) by (simp add: Fields_def compute_fields_world [OF assms(1,2)] split: option.split)
  have "value_type (sc_w sc') (sc_Value sc') = value_type (sc_w sc) (sc_Value sc)"
    using assms by (simp add: value_type_def split: gval.splits)
  then have "GetModelStruct G sc' = GetModelStruct G sc" by (simp add: GetModelStruct_def)
  moreover have "FieldByName G sc' n = FieldByName G sc n" for n by (simp add: FieldByName_def F)
  ultimately have "PrimaryKeyZero G sc' = PrimaryKeyZero G sc"
    by (simp add: PrimaryKeyZero_def PrimaryField_def PrimaryField_index_def field_at_def [abs_def] F Let_def)
  then show ?thesis by (simp add: hasConditions_def assms(3))
qed

lemma cache_lookup [simp]:
  "FieldByName G (cache_fields G sc) n = FieldByName G sc n" "field_at G (cache_fields G sc) = field_at G sc"
  by (simp_all add: FieldByName_def field_at_def [abs_def])

lemma hasConditions_cache [simp]: "hasConditions G (cache_fields G sc) = hasConditions G sc"
proof -
  have "GetModelStruct G (cache_fields G sc) = GetModelStruct G sc" by (simp add: GetModelStruct_def)
  then have "PrimaryKeyZero G (cache_fields G sc) = PrimaryKeyZero G sc"
    by (simp add: PrimaryKeyZero_def PrimaryField_def PrimaryField_index_def Let_def)
  then show ?thesis by (simp add: hasConditions_def)
qed

lemma hasConditions_touch [simp]: "hasConditions G (touch_primary G sc) = hasConditions G sc"
  by (simp add: touch_primary_def)

section \<open>Deleting\<close>

definition delete_scope :: "genv \<Rightarrow> gval \<Rightarrow> gval list \<Rightarrow> db \<Rightarrow> world \<Rightarrow> scope" where
  "delete_scope G value conds s w = inlineCondition conds (NewScope G s value w)"

lemma delete_scope_simps [simp]:
  "sc_w (delete_scope G value conds s w) = w" "db_conn (sc_db (delete_scope G value conds s w)) = db_conn s"
  "\<not> sc_skipLeft (delete_scope G value conds s w)" "sc_fields (delete_scope G value conds s w) = None"
  "db_blockGlobalUpdate (sc_db (delete_scope G value conds s w)) = db_blockGlobalUpdate s"
  "sc_instanceID (delete_scope G value conds s w) = []" "sc_Value (delete_scope G value conds s w) = value"
  by (simp_all add: delete_scope_def inlineCondition_def NewScope_def new_scope_def DB_clone_def split: list.splits)

lemma DB_Delete_eq: "DB_Delete G C value conds s w = callCallbacks G (ch_deletes C) (delete_scope G value conds s w)"
  by (simp add: DB_Delete_def delete_scope_def)

lemma delete_chain_eq:
  "delete_chain G hooks = beginTransactionCallback G
     # [beforeDeleteCallback G hooks, deleteCallback G, afterDeleteCallback G hooks] @ [commitOrRollbackTransactionCallback G]"
  by (simp add: delete_chain_def)

text \<open>
  C1: A delete on a pool handle runs in a transaction of its own: the first call begins it, the last one ends
  it, and nothing in between does.  It is rolled back when a callback panics or leaves an error and
  committed otherwise, and then the operation fails exactly if the commit does.  The hooks are any that do not
  end the transaction themselves.
\<close>

theorem delete_in_one_transaction:
  assumes "tx_hooks G hooks" "db_conn s = ConnDB" "ch_deletes C = delete_chain G hooks"
    "r_err (g_db G (w_hist w @ [CallBegin (w_next w)])) = None"
  shows "tx_bracket G (w_next w) (w_hist w) (DB_Delete G C value conds s w)"

  unfolding DB_Delete_eq assms(3) delete_chain_eq
  using tx_safe.bracket [OF tx_hooks.delete_safe [OF assms(1)], of "delete_scope G value conds s w"] assms(2,4) by simp

lemma delete_in_one_transaction_witness:
  "tx_bracket sample_env 10 [] (DB_Delete sample_env \<lparr>ch_creates = [], ch_updates = [], ch_deletes = delete_chain sample_env no_hooks,
      ch_queries = [], ch_rowQueries = []\<rparr> (VObj 2) [] (sample_db sqlite3_dialect) sample_world)"
  using delete_in_one_transaction [OF plain.tx_hooks_axioms, of "sample_db sqlite3_dialect" _ sample_env sample_world]
  by (simp add: sample_db_def sample_world_def sample_env_def ok_reply_def)

text \<open>
  C18: With global updates blocked, a delete that has no condition and no primary key reaches no table: its
  transaction is begun and rolled back with no statement in between, and the operation reports an error.
\<close>

theorem blocked_delete_sends_nothing:
  assumes "db_conn s = ConnDB" "ch_deletes C = delete_chain G hooks" "HasBlockGlobalUpdate s"
    "\<not> hasConditions G (delete_scope G value conds s w)"
    "r_err (g_db G (w_hist w @ [CallBegin (w_next w)])) = None"
  shows "\<exists>sc. DB_Delete G C value conds s w = Done sc \<and> HasError sc
    \<and> w_hist (sc_w sc) = w_hist w @ [CallBegin (w_next w), CallRollback (w_next w)]"
proof -
  let ?s0 = "delete_scope G value conds s w"
  let ?s1 = "Scope_Begin G ?s0"
  let ?s2 = "scope_error ''missing WHERE clause while deleting'' (touch_primary G ?s1)"
  have opened: "tx_open (w_next w) (w_hist w) ?s1"
    by (rule begin_open [of ?s0 G]) (use assms(1,5) in simp_all)
  have keep: "w_hist (sc_w ?s1) = w_hist w @ [CallBegin (w_next w)]" "w_objs (sc_w ?s1) = w_objs w"
    "sc_Value ?s1 = value" "sc_Search ?s1 = sc_Search ?s0" "sc_fields ?s1 = None"
    "db_blockGlobalUpdate (sc_db ?s1) = db_blockGlobalUpdate s"
    using assms(1,5)
    by (simp_all add: Scope_Begin_def is_sqlDb_def case_prod_unfold fresh_def scope_call_def InstanceSet_def Let_def
        Scope_Set_def InstantSet_def InstanceID_def)
  have "hasConditions G ?s1 = hasConditions G ?s0"
    by (rule hasConditions_world) (simp_all add: keep)
  then have none: "\<not> hasConditions G (touch_primary G ?s1)"
    using assms(4) by simp
  have before: "beforeDeleteCallback G hooks ?s1 = Done ?s2"
    using assms(3) none keep(6) by (simp add: beforeDeleteCallback_def HasBlockGlobalUpdate_def touch_primary_def Let_def cache_fields_def)
  have quiet: "silent ?s1 ?s2" by (intro silent_intros)
  have open2: "tx_open (w_next w) (w_hist w) ?s2" using opened silent_keeps [OF quiet] by (rule keeps_open)
  have err: "HasError ?s2" by (simp add: scope_error_def case_prod_unfold Scope_Err_def HasError_def new_error_def)
  have run: "DB_Delete G C value conds s w = Done (CommitOrRollback G ?s2)"
    using opened open2 before err
    by (simp add: DB_Delete_eq assms(2) delete_chain_def callCallbacks_def beginTransactionCallback_def tx_open_def
        deleteCallback_def afterDeleteCallback_def call_hook_def commitOrRollbackTransactionCallback_def)
  have "w_hist (sc_w ?s2) = w_hist w @ [CallBegin (w_next w)]" using quiet keep(1) by (simp add: silent_def)
  then show ?thesis using run err rollback_open [OF open2 err, of G] by (simp add: HasError_def)
qed

definition zero_user_world :: world where
  "zero_user_world = sample_world\<lparr>w_objs := [2 \<mapsto> (0, [VInt KInt64 0, VStr [], VInt KInt 0, VPtr 0 None])]\<rparr>"

lemma zero_user_no_conditions:
  assumes "sc_Search sc = empty_search" "sc_Value sc = VObj 2" "sc_w sc = zero_user_world" "sc_fields sc = None"
  shows "\<not> hasConditions sample_env sc"
proof -
  have model: "GetModelStruct sample_env sc = user_model"
    using assms by (simp add: GetModelStruct_def value_type_def zero_user_world_def sample_env_def sample_types_def basic_type_def elem_type_plain Let_def)
  have kind: "indirect_kind sample_env (sc_w sc) (sc_Value sc) = KStruct"
    using assms by (simp add: indirect_kind_def zero_user_world_def sample_env_def sample_types_def basic_type_def)
  have "GetStructFields sample_env sc = [id_field, name_field, age_field, deleted_field]"
    by (simp add: GetStructFields_def user_model_def model)
  moreover have "obj_value zero_user_world 2 0 = VInt KInt64 0" by (simp add: obj_value_def zero_user_world_def)
  ultimately have "hd (Fields sample_env sc) = \<lparr>f_sf = id_field, f_IsBlank = True, f_ref = FRef 2 0\<rparr>" "Fields sample_env sc \<noteq> []"
    using assms kind by (simp_all add: Fields_def compute_fields_def make_field_def)
  then have f: "field_at sample_env sc 0 = \<lparr>f_sf = id_field, f_IsBlank = True, f_ref = FRef 2 0\<rparr>" "0 < length (Fields sample_env sc)"
    by (simp_all add: field_at_def hd_conv_nth)
  have "[0..<length (Fields sample_env sc)] = 0 # [Suc 0..<length (Fields sample_env sc)]" using f(2) by (rule upt_conv_Cons)
  then have "PrimaryKeyZero sample_env sc"
    using f(1) by (simp add: PrimaryKeyZero_def PrimaryField_def PrimaryField_index_def model user_model_def id_field_def sample_field_def)
  then show ?thesis using assms by (simp add: hasConditions_def empty_search_def)
qed

lemma blocked_delete_sends_nothing_witness:
  "\<exists>sc. DB_Delete sample_env \<lparr>ch_creates = [], ch_updates = [], ch_deletes = delete_chain sample_env no_hooks,
      ch_queries = [], ch_rowQueries = []\<rparr> (VObj 2) [] ((sample_db sqlite3_dialect)\<lparr>db_blockGlobalUpdate := True\<rparr>) zero_user_world = Done sc
    \<and> HasError sc \<and> w_hist (sc_w sc) = [CallBegin 10, CallRollback 10]"
proof -
  let ?s = "(sample_db sqlite3_dialect)\<lparr>db_blockGlobalUpdate := True\<rparr>"
  have "sc_Search (delete_scope sample_env (VObj 2) [] ?s zero_user_world) = empty_search"
    by (simp add: delete_scope_def inlineCondition_def NewScope_def new_scope_def DB_clone_def sample_db_def)
  then have "\<not> hasConditions sample_env (delete_scope sample_env (VObj 2) [] ?s zero_user_world)"
    by (intro zero_user_no_conditions) simp_all
  then show ?thesis
    using blocked_delete_sends_nothing [of ?s "\<lparr>ch_creates = [], ch_updates = [], ch_deletes = delete_chain sample_env no_hooks,
      ch_queries = [], ch_rowQueries = []\<rparr>" sample_env no_hooks "VObj 2" "[]" zero_user_world]
    by (simp add: sample_db_def zero_user_world_def sample_world_def sample_env_def ok_reply_def HasBlockGlobalUpdate_def)
qed



end
