(* ===== verification/BatchProps.thy ===== *)
theory BatchProps
  imports Transactions SqlText
begin

text \<open>
  Properties of the batched insert: the shared column lists are the plain ones, the groups respect the
  limits, the generated keys, and the transaction around all batches.
\<close>

section \<open>Sharing the column list\<close>

definition column_inv :: "string list \<Rightarrow> (string \<times> gval) list \<Rightarrow> column_state \<Rightarrow> bool" where
  "column_inv expected cells s =
     (cs_values s = map snd cells \<and> cs_index s = length cells
      \<and> (if cs_match s then cs_columns s = [] \<and> length cells \<le> length expected \<and> map fst cells = take (length cells) expected
         else cs_columns s = map fst cells))"

lemma column_inv_append:
  assumes "column_inv expected cells s" shows "column_inv expected (cells @ [cv]) (appendColumn expected cv s)"
proof (cases "cs_match s \<and> length cells < length expected \<and> expected ! length cells = fst cv")
  case True
  then show ?thesis using assms
    by (simp add: column_inv_def appendColumn_def take_Suc_conv_app_nth)
next
  case False
  then show ?thesis using assms by (auto simp: column_inv_def appendColumn_def Let_def not_less)
qed

lemma column_inv_fold:
  "column_inv expected done s \<Longrightarrow> column_inv expected (done @ cells) (fold (appendColumn expected) cells s)"
proof (induction cells arbitrary: "done" s)
  case (Cons cv cells)
  have "column_inv expected ((done @ [cv]) @ cells) (fold (appendColumn expected) cells (appendColumn expected cv s))"
    by (rule Cons.IH [OF column_inv_append [OF Cons.prems]])
  then show ?case by simp
qed simp

lemma finish_columns_inv: "column_inv expected cells s \<Longrightarrow> finish_columns expected s = map fst cells"
  by (auto simp: column_inv_def finish_columns_def split: if_splits)

text \<open>
  Sharing the previous row's column list is transparent: whatever that list is, a row's columns and values are
  those of its changeable fields, one by one and in their order.
\<close>

theorem shared_columns_are_exact:
  "br_columns (make_row G save expected sc) = map fst (concat (map (field_cells G save sc) (Fields G sc)))
    \<and> br_values (make_row G save expected sc) = map snd (concat (map (field_cells G save sc) (Fields G sc)))"
proof -
  let ?s = "\<lparr>cs_match = (expected \<noteq> []), cs_index = 0, cs_columns = [], cs_values = []\<rparr>"
  let ?cells = "concat (map (field_cells G save sc) (Fields G sc))"
  have "column_inv expected [] ?s" by (simp add: column_inv_def)
  then have inv: "column_inv expected ([] @ ?cells) (fold (appendColumn expected) ?cells ?s)" by (rule column_inv_fold)
  then have "cs_values (fold (appendColumn expected) ?cells ?s) = map snd ?cells" by (simp add: column_inv_def)
  then show ?thesis using finish_columns_inv [OF inv] by (simp add: make_row_def Let_def)
qed

section \<open>Groups\<close>

lemma sameBatchColumns_eq [simp]: "sameBatchColumns left right = (left = right)"
proof
  assume "sameBatchColumns left right"
  then show "left = right"
    by (auto simp: sameBatchColumns_def list_all_length intro: nth_equalityI)
next
  assume "left = right"
  then show "sameBatchColumns left right" by (auto simp: sameBatchColumns_def list_all_length)
qed

lemma maxCreateBatchRows_bound:
  assumes "maxBindVars d \<noteq> 0" "0 < c"
  shows "maxCreateBatchRows d c n = 1 \<or> maxCreateBatchRows d c n * c \<le> maxBindVars d"
proof -
  have "m * c \<le> maxBindVars d" if "m \<le> maxBindVars d div c" for m
    using that by (meson div_times_less_eq_dividend le_trans mult_le_mono1)
  then show ?thesis using assms by (auto simp: maxCreateBatchRows_def Let_def)
qed

lemma maxCreateBatchRows_pos: "1 \<le> maxCreateBatchRows d c n"
  by (auto simp: maxCreateBatchRows_def Let_def)

lemma group_limit_le: "group_limit d rows \<le> maxCreateBatchRows (d_GetName d) (length (br_columns (hd rows))) (length rows)"
  by (auto simp: group_limit_def Let_def split: option.splits)

lemma group_limit_pos: "1 \<le> group_limit d rows"
  using maxCreateBatchRows_pos by (auto simp: group_limit_def Let_def split: option.splits)

lemma takeWhile_take_length: "length (takeWhile P (take n xs)) \<le> n"
  using length_takeWhile_le [of P "take n xs"] by simp

lemma takeWhile_is_prefix: "take (length (takeWhile P (take n xs))) xs = takeWhile P (take n xs)"
  by (induction xs arbitrary: n) (auto simp: take_Cons split: nat.split)

lemma group_size_le: "group_size d rows \<le> group_limit d rows"
  unfolding group_size_def
  using takeWhile_take_length [of "\<lambda>row. sameBatchColumns (br_columns (hd rows)) (br_columns row)"
      "group_limit d rows - 1" "tl rows"] group_limit_pos [of d rows]
  by linarith

lemma group_columns: "rows \<noteq> [] \<Longrightarrow> r \<in> set (take (group_size d rows) rows) \<Longrightarrow> br_columns r = br_columns (hd rows)"
proof -
  assume ne: "rows \<noteq> []" and r: "r \<in> set (take (group_size d rows) rows)"
  let ?P = "\<lambda>row. sameBatchColumns (br_columns (hd rows)) (br_columns row)"
  let ?tw = "takeWhile ?P (take (group_limit d rows - 1) (tl rows))"
  obtain x xs where rows: "rows = x # xs" using ne by (cases rows) auto
  have "take (group_size d rows) rows = hd rows # ?tw"
    unfolding group_size_def rows by (simp add: takeWhile_is_prefix)
  then have "r = hd rows \<or> r \<in> set ?tw" using r by simp
  then show ?thesis using set_takeWhileD [of r ?P] by auto
qed

text \<open>
  C17: A batch is cut into groups that are never empty, whose rows all have the columns of the first one, and
  which bind at most as many variables as the database takes (32766, 65535, 65535 and 2100 for SQLite, MySQL,
  PostgreSQL and SQL Server) unless one row alone has more; and no more rows than the dialect asks for.
\<close>

theorem groups_respect_limits:
  assumes "rows \<noteq> []"
  shows "let g = take (group_size d rows) rows; columns = br_columns (hd rows) in
    g \<noteq> [] \<and> (\<forall>r\<in>set g. br_columns r = columns)
    \<and> (maxBindVars (d_GetName d) \<noteq> 0 \<longrightarrow> length g = 1 \<or> length g * length columns \<le> maxBindVars (d_GetName d))
    \<and> (\<forall>n. d_BatchCreateMaxRows d = Some n \<longrightarrow> 0 < n \<longrightarrow> int (length g) \<le> n)"
proof -
  let ?g = "take (group_size d rows) rows" and ?c = "length (br_columns (hd rows))"
  let ?m = "maxCreateBatchRows (d_GetName d) ?c (length rows)"
  have ne: "?g \<noteq> []" using assms by (simp add: group_size_def)
  have len: "length ?g \<le> group_limit d rows" using group_size_le [of d rows] by simp
  then have le: "length ?g \<le> ?m" using group_limit_le by (rule le_trans)
  have one: "length ?g = 1" if "length ?g \<le> 1" using that ne by (cases ?g) auto
  have vars: "length ?g = 1 \<or> length ?g * ?c \<le> maxBindVars (d_GetName d)" if "maxBindVars (d_GetName d) \<noteq> 0"
  proof (cases "?c = 0")
    case True
    then show ?thesis by simp
  next
    case False
    then have "?m = 1 \<or> ?m * ?c \<le> maxBindVars (d_GetName d)" using maxCreateBatchRows_bound [OF that] by simp
    then show ?thesis using le one by (metis le_trans mult_le_mono1)
  qed
  have ext: "int (length ?g) \<le> n" if "d_BatchCreateMaxRows d = Some n" "0 < n" for n
    using len that by (auto simp: group_limit_def Let_def split: if_splits)
  show ?thesis using ne group_columns [OF assms] vars ext by (simp add: Let_def)
qed

lemma groups_respect_limits_witness:
  "let rows = [\<lparr>br_scope = sample_scope dm_dialect (VObj 2), br_primaryField = Some 0, br_columns = [''name''], br_values = [VNil]\<rparr>]
   in int (length (take (group_size dm_dialect rows) rows)) \<le> 1"
  using groups_respect_limits [of "[\<lparr>br_scope = sample_scope dm_dialect (VObj 2), br_primaryField = Some 0,
      br_columns = [''name''], br_values = [VNil]\<rparr>]" dm_dialect]
  by (simp add: Let_def)

section \<open>The transaction of a batch\<close>

text \<open>A step on the shared handle keeps its connection and does not end its transaction.\<close>

definition live :: "nat \<Rightarrow> db \<Rightarrow> world \<Rightarrow> db \<Rightarrow> world \<Rightarrow> bool" where
  "live t d w d' w' = (db_conn d' = db_conn d \<and> calls_within t (w_hist w) (w_hist w'))"

fun b_live :: "nat \<Rightarrow> db \<Rightarrow> world \<Rightarrow> 'a bres \<Rightarrow> bool" where
  "b_live t d w (BOk x d' w') = live t d w d' w'"
| "b_live t d w (BErr e d' w') = live t d w d' w'"
| "b_live t d w (BPanic d' w') = live t d w d' w'"

lemma live_refl [simp]: "live t d w d w"
  by (simp add: live_def)

lemma live_trans: "live t d w d' w' \<Longrightarrow> live t d' w' d'' w'' \<Longrightarrow> live t d w d'' w''"
  unfolding live_def using calls_within_trans by auto

lemma b_live_weaken: "live t d w d' w' \<Longrightarrow> b_live t d' w' r \<Longrightarrow> b_live t d w r"
  by (cases r) (auto intro: live_trans)

lemma b_live_bind:
  assumes "b_live t d w r" "\<And>x d' w'. r = BOk x d' w' \<Longrightarrow> b_live t d' w' (f x d' w')"
  shows "b_live t d w (b_bind r f)"
  using assms by (cases r) (auto intro: b_live_weaken)

lemma live_hist: "w_hist w' = w_hist w \<Longrightarrow> live t d w d w'"
  by (simp add: live_def)

lemma new_error_of_live: "b_live t d w (new_error_of msg d w)"
  by (simp add: new_error_of_def case_prod_unfold live_hist)

lemma keeps_live: "keeps t sc sc' \<Longrightarrow> live t (sc_db sc) (sc_w sc) (sc_db sc') (sc_w sc')"
  by (simp add: keeps_def live_def)

lemma silent_live: "silent sc sc' \<Longrightarrow> live t (sc_db sc) (sc_w sc) (sc_db sc') (sc_w sc')"
  by (rule keeps_live [OF silent_keeps])

lemma silent_stamp [silent_intros]: "silent a b \<Longrightarrow> silent a (snd (stamp_field G name always now b))"
  by (auto simp: stamp_field_def Let_def intro: silent_intros split: option.splits)

lemma set_row_key_live: "b_live t d w (set_row_key G i n row d w)"
proof -
  have "silent (load d w (br_scope row)) (snd (set_field G i (VInt KInt64 n) (load d w (br_scope row))))"
    by (intro silent_intros)
  then have "live t d w (sc_db (snd (set_field G i (VInt KInt64 n) (load d w (br_scope row)))))
      (sc_w (snd (set_field G i (VInt KInt64 n) (load d w (br_scope row)))))"
    using silent_live [of "load d w (br_scope row)"] by (simp add: load_def)
  then show ?thesis by (simp add: set_row_key_def case_prod_unfold split: option.split)
qed

lemma assign_keys_live: "b_live t d w (assign_keys G first index rows d w)"
proof (induction rows arbitrary: index d w)
  case (Cons row rows)
  show ?case unfolding assign_keys.simps
    by (intro b_live_bind) (auto simp: set_row_key_live Cons.IH split: option.split)
qed simp

lemma assign_live:
  "b_live t d w (assignBatchPrimaryKeys G dialect rows n lid d w)"
  "b_live t d w (assignSingleBatchPrimaryKey G rows n lid d w)"
  by (auto simp: assignBatchPrimaryKeys_def assignSingleBatchPrimaryKey_def assign_keys_live set_row_key_live
      intro!: b_live_bind split: option.split sum.split list.split)

lemma bind_rows_silent [silent_intros]: "silent a b \<Longrightarrow> silent a (snd (bind_rows rows columns b))"
  by (induction rows arbitrary: b) (auto simp: case_prod_unfold intro: silent_intros)

lemma group_statement_silent [silent_intros]:
  "silent a b \<Longrightarrow> silent a (snd (group_statement G rows columns full m x b))"
  by (auto simp: group_statement_def case_prod_unfold intro: silent_intros split: option.split)

lemma execute_group_rule:
  fixes G :: genv and rows :: "batchCreateRow list" and d :: db and w :: world
  defines "sc \<equiv> cache_fields G (NewScope G d (sc_Value (br_scope (hd rows))) w)"
  assumes none: "P (BOk 0 d w)"
    and refused: "\<And>msg b. silent sc b \<Longrightarrow> P (new_error_of msg d (sc_w b))"
    and failed: "\<And>e c sql vs b. silent sc b \<Longrightarrow> P (BErr e d (sc_w (snd (scope_call G (CallExec c sql vs) b))))"
    and sent: "\<And>c sql vs b w' keys m n lid dialect. silent sc b \<Longrightarrow> w' = sc_w (snd (scope_call G (CallExec c sql vs) b)) \<Longrightarrow>
      keys = BOk rows d w' \<or> keys = assignSingleBatchPrimaryKey G rows n lid d w'
        \<or> keys = assignBatchPrimaryKeys G dialect rows n lid d w' \<Longrightarrow>
      P (b_bind keys (\<lambda>rows d w. b_bind (after_hooks G hooks rows d w) (\<lambda>u. BOk m)))"
  shows "P (executeBatchCreateRows G hooks rows save d w)"
proof (cases "rows = []")
  case True
  then show ?thesis using none by (simp add: executeBatchCreateRows_def)
next
  case False
  let ?cols = "br_columns (hd rows)" and ?m = "insert_modifier sc"
  note step = executeBatchCreateRows_def sc_def [symmetric] Let_def if_False sum.case prod.case
  show ?thesis
  proof (cases "save_plan G save ?cols ?m (setting_text sc ''gorm:insert_option'') sc")
    case (Inl msg)
    have "executeBatchCreateRows G hooks rows save d w = new_error_of msg d (sc_w sc)"
      using False by (simp only: step Inl)
    then show ?thesis using refused [OF silent_refl] by simp
  next
    case plan: (Inr plan)
    obtain extra full where p: "plan = (extra, full)" by (cases plan)
    obtain st b where gs: "group_statement G rows ?cols full ?m extra sc = (st, b)" by fastforce
    have b: "silent sc b"
      using group_statement_silent [OF silent_refl, of sc G rows ?cols full ?m extra] gs by simp
    show ?thesis
    proof (cases st)
      case (Inl msg)
      have "executeBatchCreateRows G hooks rows save d w = new_error_of msg d (sc_w b)"
        using False by (simp only: step plan p gs Inl)
      then show ?thesis using refused [OF b] by simp
    next
      case (Inr sql)
      let ?b = "Scope_Raw sql b"
      obtain r e where call: "scope_call G (CallExec (db_conn (sc_db ?b)) (sc_SQL ?b) (sc_SQLVars ?b)) ?b = (r, e)" by fastforce
      then have e: "e = snd (scope_call G (CallExec (db_conn (sc_db ?b)) (sc_SQL ?b) (sc_SQLVars ?b)) ?b)" by simp
      let ?keys = "if save \<noteq> None then BOk rows d (sc_w e)
          else if d_BatchCreateMaxRows (Dialect_of e) = Some 1
          then assignSingleBatchPrimaryKey G rows (affected_or_zero r) (r_last_id r) d (sc_w e)
          else assignBatchPrimaryKeys G (d_GetName (Dialect_of e)) rows (affected_or_zero r) (r_last_id r) d (sc_w e)"
      have eq: "executeBatchCreateRows G hooks rows save d w =
          (case r_err r of
             Some x \<Rightarrow> BErr x d (sc_w e)
           | None \<Rightarrow> b_bind ?keys (\<lambda>rows d w. b_bind (after_hooks G hooks rows d w) (\<lambda>u. BOk (affected_or_zero r))))"
        using False by (simp only: step plan p gs Inr call)
      have "P (b_bind ?keys (\<lambda>rows d w. b_bind (after_hooks G hooks rows d w) (\<lambda>u. BOk (affected_or_zero r))))"
      proof (rule sent [OF silent_Scope_Raw [OF b, of sql], where w' = "sc_w e"])
        show "sc_w e = sc_w (snd (scope_call G (CallExec (db_conn (sc_db ?b)) (sc_SQL ?b) (sc_SQLVars ?b)) ?b))"
          by (simp only: e)
        show "?keys = BOk rows d (sc_w e)
            \<or> ?keys = assignSingleBatchPrimaryKey G rows (affected_or_zero r) (r_last_id r) d (sc_w e)
            \<or> ?keys = assignBatchPrimaryKeys G (d_GetName (Dialect_of e)) rows (affected_or_zero r) (r_last_id r) d (sc_w e)"
          by simp
      qed
      moreover have "P (BErr x d (sc_w e))" for x unfolding e by (rule failed [OF silent_Scope_Raw [OF b]])
      ultimately show ?thesis unfolding eq by (cases "r_err r") (simp_all only: option.case)
    qed
  qed
qed

context tx_hooks
begin

lemma prepare_row_of_live:
  assumes "db_conn d = ConnTx t" shows "b_live t d w (prepare_row_of G hooks value now expected save d w)"
proof -
  let ?s = "new_scope d empty_search value w"
  let ?h = "and_then (call_hook G hooks ''BeforeSave'' ?s) (call_hook G hooks ''BeforeCreate'')"
  have "keeps t ?s (out_scope ?h)" by (rule two_hooks_keep) (simp add: new_scope_def assms)
  then have h: "live t d w (sc_db (out_scope ?h)) (sc_w (out_scope ?h))"
    using keeps_live [of t ?s] by (simp add: new_scope_def)
  have stamps: "live t (sc_db sc) (sc_w sc) (sc_db sc') (sc_w sc')" if "silent sc sc'" for sc sc'
    using that by (rule silent_live)
  show ?thesis
  proof (cases ?h)
    case (Panicked sc)
    then show ?thesis using h by (simp add: prepare_row_of_def)
  next
    case (Done sc)
    let ?s1 = "snd (stamp_field G ''CreatedAt'' False now (cache_fields G sc))"
    let ?s2 = "snd (stamp_field G ''UpdatedAt'' (save \<noteq> None) now ?s1)"
    have "silent sc ?s1" "silent sc ?s2" by (intro silent_intros)+
    then have "live t d w (sc_db ?s1) (sc_w ?s1)" "live t d w (sc_db ?s2) (sc_w ?s2)"
      using h Done live_trans stamps by fastforce+
    then show ?thesis using h Done by (simp add: prepare_row_of_def case_prod_unfold split: option.split)
  qed
qed

lemma prepare_rows_live:
  "db_conn d = ConnTx t \<Longrightarrow> b_live t d w (prepare_rows G hooks value now save is expected d w)"
proof (induction "is" arbitrary: expected d w)
  case (Cons i "is")
  have row: "b_live t d w (prepareBatchCreateRow G hooks elem now expected save d w)" for elem
    by (auto simp: prepareBatchCreateRow_def prepare_row_of_live [OF Cons.prems] new_error_of_live
        split: gval.split option.split)
  have rest: "b_live t d' w' (b_bind (prepare_rows G hooks value now save is (br_columns r) d' w') (\<lambda>rows. BOk (r # rows)))"
    if "prepareBatchCreateRow G hooks elem now expected save d w = BOk r d' w'" for elem r d' w'
  proof -
    have "db_conn d' = ConnTx t" using row [of elem] that Cons.prems by (simp add: live_def)
    then show ?thesis by (intro b_live_bind Cons.IH) simp_all
  qed
  show ?case
    by (auto simp: Cons.IH [OF Cons.prems] intro!: b_live_bind row rest split: option.split)
qed simp

lemma after_hooks_live: "db_conn d = ConnTx t \<Longrightarrow> b_live t d w (after_hooks G hooks rows d w)"
proof (induction rows arbitrary: d w)
  case (Cons row rows)
  let ?s = "load d w (br_scope row)"
  let ?h = "and_then (call_hook G hooks ''AfterCreate'' ?s) (call_hook G hooks ''AfterSave'')"
  have "keeps t ?s (out_scope ?h)" by (rule two_hooks_keep) (simp add: load_def Cons.prems)
  then have h: "live t d w (sc_db (out_scope ?h)) (sc_w (out_scope ?h))"
    using keeps_live [of t ?s] by (simp add: load_def)
  show ?case
  proof (cases ?h)
    case (Panicked sc)
    then show ?thesis using h by simp
  next
    case (Done sc)
    have "db_conn (sc_db sc) = ConnTx t" using h Done Cons.prems by (simp add: live_def)
    then have "b_live t d w (after_hooks G hooks rows (sc_db sc) (sc_w sc))"
      using h Done Cons.IH b_live_weaken by fastforce
    then show ?thesis using h Done by (simp split: option.split)
  qed
qed simp

lemma execute_group_live:
  assumes "db_conn d = ConnTx t" shows "b_live t d w (executeBatchCreateRows G hooks rows save d w)"
proof -
  let ?sc = "cache_fields G (NewScope G d (sc_Value (br_scope (hd rows))) w)"
  have silent_w: "live t d w d (sc_w b)" if "silent ?sc b" for b
    using silent_live [OF that, of t] by (simp add: live_def cache_fields_def NewScope_def new_scope_def)
  have call_w: "live t d w d (sc_w (snd (scope_call G (CallExec c sql vs) b)))" if "silent ?sc b" for b c sql vs
    using silent_w [OF that] by (simp add: live_def scope_call_result calls_within_snoc)
  have finish: "b_live t d w (b_bind r (\<lambda>rows d w. b_bind (after_hooks G hooks rows d w) (\<lambda>u. BOk m)))"
    if "b_live t d w' r" "live t d w d w'" for r m w'
  proof (rule b_live_weaken [OF that(2)], rule b_live_bind [OF that(1)])
    fix rows' d' w'' assume "r = BOk rows' d' w''"
    then have "db_conn d' = ConnTx t" using that(1) assms by (simp add: live_def)
    then show "b_live t d' w'' (b_bind (after_hooks G hooks rows' d' w'') (\<lambda>u. BOk m))"
      by (intro b_live_bind after_hooks_live) simp_all
  qed
  show ?thesis
  proof (rule execute_group_rule)
    show "b_live t d w (BOk 0 d w)" by simp
    show "b_live t d w (new_error_of msg d (sc_w b))" if "silent ?sc b" for msg b
      by (rule b_live_weaken [OF silent_w [OF that] new_error_of_live])
    show "b_live t d w (BErr e d (sc_w (snd (scope_call G (CallExec c sql vs) b))))" if "silent ?sc b" for e c sql vs b
      using call_w [OF that] by simp
    show "b_live t d w (b_bind keys (\<lambda>rows d w. b_bind (after_hooks G hooks rows d w) (\<lambda>u. BOk m)))"
      if "silent ?sc b" "w' = sc_w (snd (scope_call G (CallExec c sql vs) b))"
        "keys = BOk rows d w' \<or> keys = assignSingleBatchPrimaryKey G rows n lid d w'
          \<or> keys = assignBatchPrimaryKeys G dialect rows n lid d w'"
      for c sql vs b w' keys m n lid dialect
      by (rule finish [of w']) (use that call_w [OF that(1)] in \<open>auto simp: assign_live\<close>)
  qed
qed

lemma execute_groups_live: "db_conn d = ConnTx t \<Longrightarrow> b_live t d w (execute_groups G hooks save rows d w)"
proof (induction rows arbitrary: d w rule: length_induct)
  case (1 rows)
  show ?case
  proof (cases rows)
    case (Cons row rest)
    let ?n = "group_size (db_dialect d) (row # rest)"
    have g: "b_live t d w (executeBatchCreateRows G hooks (take ?n rows) save d w)"
      by (rule execute_group_live [OF 1(2)])
    have "b_live t d' w' (execute_groups G hooks save (drop ?n rows) d' w')"
      if "executeBatchCreateRows G hooks (take ?n rows) save d w = BOk m d' w'" for m d' w'
    proof -
      have "db_conn d' = ConnTx t" using g that 1(2) by (simp add: live_def)
      then show ?thesis using 1(1) Cons by (simp add: group_size_def)
    qed
    then show ?thesis unfolding Cons execute_groups.simps Let_def
      using g [unfolded Cons] by (intro b_live_bind) (simp_all add: Cons)
  qed simp
qed

lemma createBatch_live:
  assumes d: "db_conn d = ConnTx t" shows "b_live t d w (createBatch G hooks value start fin save d w)"
proof -
  let ?w = "snd (nowFunc G d w)" and ?now = "fst (nowFunc G d w)"
  let ?rows = "prepare_rows G hooks value ?now save [start..<fin] [] d ?w"
  have rows: "b_live t d ?w ?rows" by (rule prepare_rows_live [OF d])
  have "b_live t d' w' (execute_groups G hooks save rs d' w')" if "?rows = BOk rs d' w'" for rs d' w'
    using rows unfolding that by (intro execute_groups_live) (simp add: live_def d)
  then have "b_live t d ?w (b_bind ?rows (execute_groups G hooks save))" by (rule b_live_bind [OF rows])
  then have "b_live t d w (b_bind ?rows (execute_groups G hooks save))"
    by (rule b_live_weaken [OF live_hist [OF nowFunc_hist(1)]])
  then show ?thesis by (simp only: createBatch_def case_prod_unfold)
qed

end

lemma batch_loop_live:
  assumes batch: "\<And>start fin d w. db_conn d = ConnTx t \<Longrightarrow> b_live t d w (batch start fin d w)"
  shows "db_conn d = ConnTx t \<Longrightarrow> b_live t d w (batch_loop batch start step n sum_rows d w)"
proof (induction "n - start" arbitrary: start sum_rows d w rule: less_induct)
  case less
  let ?fin = "if start + step > n then n else start + step"
  have b: "b_live t d w (batch start ?fin d w)" by (rule batch [OF less.prems])
  have "b_live t d' w' (batch_loop batch (start + step) step n m d' w')"
    if "start < n" "0 < step" "batch start ?fin d w = BOk x d' w'" for x m d' w'
  proof (rule less.hyps)
    show "n - (start + step) < n - start" using that by simp
    show "db_conn d' = ConnTx t" using b less.prems unfolding that(3) by (simp add: live_def)
  qed
  then show ?case using b by (subst batch_loop.simps) (auto intro!: b_live_bind)
qed

text \<open>A step that goes on leaves no error on the handle.\<close>

fun b_clean :: "'a bres \<Rightarrow> bool" where
  "b_clean (BOk x d w) = (db_Error d = None)"
| "b_clean _ = True"

lemma b_clean_bind:
  "b_clean r \<Longrightarrow> (\<And>x d w. r = BOk x d w \<Longrightarrow> db_Error d = None \<Longrightarrow> b_clean (f x d w)) \<Longrightarrow> b_clean (b_bind r f)"
  by (cases r) auto

lemma set_field_db [simp]: "sc_db (snd (set_field G i v sc)) = sc_db sc"
  by (simp add: set_field_def case_prod_unfold)

lemma stamp_field_db [simp]: "sc_db (snd (stamp_field G name always now sc)) = sc_db sc"
  by (simp add: stamp_field_def split: option.split)

lemma new_error_of_clean [simp]: "b_clean (new_error_of msg d w)"
  by (simp add: new_error_of_def case_prod_unfold)

lemma prepare_row_clean: "b_clean (prepareBatchCreateRow G hooks elem now expected save d w)"
proof -
  have "b_clean (prepare_row_of G hooks value now expected save d w)" for "value"
    by (auto simp: prepare_row_of_def case_prod_unfold split: outcome.split option.split)
  then show ?thesis by (auto simp: prepareBatchCreateRow_def split: gval.split option.split)
qed

lemma prepare_rows_clean:
  "db_Error d = None \<Longrightarrow> b_clean (prepare_rows G hooks value now save is expected d w)"
  by (induction "is" arbitrary: expected d w)
    (auto intro!: b_clean_bind prepare_row_clean split: option.split)

lemma set_row_key_clean: "db_Error d = None \<Longrightarrow> b_clean (set_row_key G i n row d w)"
  by (simp add: set_row_key_def case_prod_unfold load_def split: option.split)

lemma assign_keys_clean: "db_Error d = None \<Longrightarrow> b_clean (assign_keys G first index rows d w)"
  by (induction rows arbitrary: index d w) (auto intro!: b_clean_bind set_row_key_clean split: option.split)

lemma assign_clean:
  "db_Error d = None \<Longrightarrow> b_clean (assignBatchPrimaryKeys G dialect rows n lid d w)"
  "db_Error d = None \<Longrightarrow> b_clean (assignSingleBatchPrimaryKey G rows n lid d w)"
  by (auto simp: assignBatchPrimaryKeys_def assignSingleBatchPrimaryKey_def assign_keys_clean set_row_key_clean
      intro!: b_clean_bind split: option.split sum.split list.split)

lemma after_hooks_clean: "db_Error d = None \<Longrightarrow> b_clean (after_hooks G hooks rows d w)"
  by (induction rows arbitrary: d w) (auto split: outcome.split option.split)

lemma execute_group_clean:
  assumes d: "db_Error d = None" shows "b_clean (executeBatchCreateRows G hooks rows save d w)"
proof (rule execute_group_rule [where P = b_clean])
  fix w' keys m n lid dialect
  assume "keys = BOk rows d w' \<or> keys = assignSingleBatchPrimaryKey G rows n lid d w'
      \<or> keys = assignBatchPrimaryKeys G dialect rows n lid d w'"
  then have "b_clean keys" using d by (auto simp: assign_clean)
  then show "b_clean (b_bind keys (\<lambda>rows d w. b_bind (after_hooks G hooks rows d w) (\<lambda>u. BOk m)))"
    by (intro b_clean_bind after_hooks_clean) simp_all
qed (simp_all add: d)

lemma execute_groups_clean: "db_Error d = None \<Longrightarrow> b_clean (execute_groups G hooks save rows d w)"
proof (induction rows arbitrary: d w rule: length_induct)
  case (1 rows)
  show ?case
  proof (cases rows)
    case (Cons row rest)
    have "b_clean (execute_groups G hooks save (drop (group_size (db_dialect d) (row # rest)) rows) d' w')"
      if "db_Error d' = None" for d' w'
      using 1(1) Cons that by (simp add: group_size_def)
    then show ?thesis unfolding Cons execute_groups.simps Let_def
      by (intro b_clean_bind execute_group_clean 1(2)) (simp_all add: Cons)
  qed (simp add: 1(2))
qed

lemma createBatch_clean: "db_Error d = None \<Longrightarrow> b_clean (createBatch G hooks value start fin save d w)"
  unfolding createBatch_def case_prod_unfold
  by (intro b_clean_bind prepare_rows_clean execute_groups_clean)

lemma batch_loop_clean:
  assumes batch: "\<And>start fin d w. db_Error d = None \<Longrightarrow> b_clean (batch start fin d w)"
  shows "db_Error d = None \<Longrightarrow> b_clean (batch_loop batch start step n sum_rows d w)"
proof (induction "n - start" arbitrary: start sum_rows d w rule: less_induct)
  case less
  have "b_clean (batch_loop batch (start + step) step n m d' w')" if "start < n" "0 < step" "db_Error d' = None" for m d' w'
    by (rule less.hyps) (use that in auto)
  then show ?case using less.prems by (subst batch_loop.simps) (auto intro!: b_clean_bind batch)
qed

text \<open>The end of the transaction.\<close>

definition batch_bracket :: "genv \<Rightarrow> nat \<Rightarrow> history \<Rightarrow> db_out \<Rightarrow> bool" where
  "batch_bracket G t h out =
     (\<exists>new c. (\<forall>x\<in>set new. \<not> ends_tx t x) \<and>
        (case out of
           DbPanic d w \<Rightarrow> w_hist w = h @ CallBegin t # new @ [CallRollback t]
         | DbDone d w \<Rightarrow> w_hist w = h @ CallBegin t # new @ [c]
             \<and> (c = CallRollback t \<and> db_Error d \<noteq> None
                \<or> c = CallCommit t \<and> (db_Error d \<noteq> None \<longleftrightarrow> r_err (g_db G (w_hist w)) \<noteq> None))))"

lemma rollback_done:
  assumes "db_conn d = ConnTx t"
  shows "w_hist (snd (DB_Rollback G d w)) = w_hist w @ [CallRollback t]"
    "db_Error d \<noteq> None \<Longrightarrow> db_Error (fst (DB_Rollback G d w)) \<noteq> None"
  using assms by (auto simp: DB_Rollback_def case_prod_unfold)

lemma finish_bracket:
  assumes "b_live t d w r" "b_clean r" "db_conn d = ConnTx t" "w_hist w = h @ [CallBegin t]"
  shows "batch_bracket G t h (finish_batches G True r)"
proof (cases r)
  case (BOk m d' w')
  then have c: "db_conn d' = ConnTx t" "db_Error d' = None" using assms by (simp_all add: live_def)
  obtain new where "w_hist w' = h @ CallBegin t # new" "\<forall>x\<in>set new. \<not> ends_tx t x"
    using assms BOk by (auto simp: live_def calls_within_def)
  then show ?thesis using BOk c
    by (auto simp: batch_bracket_def finish_batches_def DB_Commit_def case_prod_unfold add_err_def AddError_def Let_def split: option.split)
next
  case (BErr e d' w')
  then have c: "db_conn (add_err (Some e) d') = ConnTx t" using assms by (simp add: live_def)
  obtain new where "w_hist w' = h @ CallBegin t # new" "\<forall>x\<in>set new. \<not> ends_tx t x"
    using assms BErr by (auto simp: live_def calls_within_def)
  then show ?thesis using BErr rollback_done [OF c, of G w']
    by (auto simp: batch_bracket_def finish_batches_def case_prod_unfold)
next
  case (BPanic d' w')
  then have c: "db_conn d' = ConnTx t" using assms by (simp add: live_def)
  obtain new where "w_hist w' = h @ CallBegin t # new" "\<forall>x\<in>set new. \<not> ends_tx t x"
    using assms BPanic by (auto simp: live_def calls_within_def)
  then show ?thesis using BPanic rollback_done(1) [OF c, of G w']
    by (auto simp: batch_bracket_def finish_batches_def case_prod_unfold)
qed

lemma begin_handle:
  assumes "db_conn s = ConnDB" "db_Error s = None" "r_err (g_db G (w_hist w @ [CallBegin (w_next w)])) = None"
  shows "db_conn (fst (DB_Begin G s w)) = ConnTx (w_next w)" "db_Error (fst (DB_Begin G s w)) = None"
    "w_hist (snd (DB_Begin G s w)) = w_hist w @ [CallBegin (w_next w)]"
  using assms by (simp_all add: DB_Begin_def DB_clone_def is_sqlDb_def case_prod_unfold fresh_def)

text \<open>
  C2: Inserting or saving a slice on a pool handle is one transaction, however many batches and groups it takes: the
  first call begins it and the last one ends it.  A panic, or the error of any row, hook or statement, rolls all of
  it back; otherwise it is committed, and the handle carries an error exactly if the commit failed.
\<close>

theorem batch_in_one_transaction:
  assumes "tx_hooks G hooks" "db_conn s = ConnDB" "db_Error s = None"
    "batch_elements G value w = Some vs" "vs \<noteq> []" "save = None \<or> DB_Get s ''gorm:insert_option'' = None"
    "r_err (g_db G (w_hist w @ [CallBegin (w_next w)])) = None"
  shows "batch_bracket G (w_next w) (w_hist w) (createInBatches G hooks C value step save s w)"
proof -
  let ?d = "fst (DB_Begin G s w)" and ?w = "snd (DB_Begin G s w)"
  note started = begin_handle [OF assms(2,3,7)]
  let ?r = "batch_loop (\<lambda>start fin. createBatch G hooks value start fin save) 0 step (length vs) 0 ?d ?w"
  have "createInBatches G hooks C value step save s w = finish_batches G True ?r"
    using assms(2,4,5,6) started by (auto simp: createInBatches_def is_sqlDb_def case_prod_unfold)
  moreover have "b_live (w_next w) ?d ?w ?r"
    by (rule batch_loop_live [OF tx_hooks.createBatch_live [OF assms(1)] started(1)])
  moreover have "b_clean ?r" by (rule batch_loop_clean [OF createBatch_clean started(2)])
  ultimately show ?thesis using finish_bracket [OF _ _ started(1,3)] by simp
qed

definition sample_slice_world :: world where
  "sample_slice_world = sample_world\<lparr>w_objs := (w_objs sample_world)(3 \<mapsto> (6, [VObj 2]))\<rparr>"

lemma batch_in_one_transaction_witness:
  "batch_bracket sample_env 10 [] (createInBatches sample_env no_hooks
     \<lparr>ch_creates = [], ch_updates = [], ch_deletes = [], ch_queries = [], ch_rowQueries = []\<rparr> (VObj 3) 500 (Some [''name''])
     (sample_db sqlite3_dialect) sample_slice_world)"
  using batch_in_one_transaction [OF plain.tx_hooks_axioms, of "sample_db sqlite3_dialect" sample_env "VObj 3" sample_slice_world "[VObj 2]"
      "Some [''name'']"]
  by (simp add: sample_db_def sample_slice_world_def sample_world_def sample_env_def ok_reply_def batch_elements_def
      sample_types_def basic_type_def DB_Get_def)

end
