(* ===== verification/OnConflict.thy ===== *)
theory OnConflict
  imports Batch
begin

text \<open>
  The \<^verbatim>\<open>ON CONFLICT\<close> helpers and the second batched insert of \<^verbatim>\<open>on_conflict.go\<close>, which takes its
  columns from the first element of each batch.  The elements of the slice are structs or pointers to
  structs (\<open>VObj\<close>), nil pointers, or structs that cannot be addressed.
\<close>

record OnConflictClause =
  oc_Columns :: string
  oc_DoUpdate :: bool
  oc_UpdateColumns :: "string list"
  oc_Where :: string

definition OnConflictClause_String :: "OnConflictClause \<Rightarrow> string" where
  "OnConflictClause_String c =
     (if oc_Columns c = [] then []
      else if oc_DoUpdate c then
        ''ON CONFLICT('' @ oc_Columns c @ '') DO UPDATE SET''
        @ (if oc_UpdateColumns c \<noteq> []
           then '' '' @ str_join '','' (map (\<lambda>col. col @ ''=excluded.'' @ col) (oc_UpdateColumns c))
           else '' *'')
        @ (if oc_Where c \<noteq> [] then '' WHERE '' @ oc_Where c else [])
      else ''ON CONFLICT('' @ oc_Columns c @ '') DO NOTHING'')"

text \<open>\<^verbatim>\<open>InstantSet\<close> changes the handle itself, \<^verbatim>\<open>Set\<close> a clone.\<close>

definition SetOnConflict :: "OnConflictClause \<Rightarrow> db \<Rightarrow> db" where
  "SetOnConflict clause s = InstantSet ''gorm:insert_option'' (VStr (OnConflictClause_String clause)) s"

definition OnConflictDoNothing :: "genv \<Rightarrow> string \<Rightarrow> db \<Rightarrow> db" where
  "OnConflictDoNothing G columns s =
     DB_Set G ''gorm:insert_option'' (VStr (''ON CONFLICT('' @ columns @ '') DO NOTHING'')) s"

definition OnConflictDoUpdate :: "string \<Rightarrow> string list \<Rightarrow> db \<Rightarrow> db" where
  "OnConflictDoUpdate columns updateColumns s =
     InstantSet ''gorm:insert_option''
       (VStr (OnConflictClause_String
          \<lparr>oc_Columns = columns, oc_DoUpdate = True, oc_UpdateColumns = updateColumns, oc_Where = []\<rparr>)) s"

definition OnConflictUpdateAll :: "genv \<Rightarrow> string \<Rightarrow> db \<Rightarrow> world \<Rightarrow> db" where
  "OnConflictUpdateAll G columns s w =
     (let updateCols = map f_DBName
            (filter (\<lambda>f. sf_IsNormal (f_sf f) \<and> \<not> sf_IsIgnored (f_sf f) \<and> \<not> sf_IsPrimaryKey (f_sf f))
              (Fields G (NewScope G s (db_Value s) w)))
      in InstantSet ''gorm:insert_option''
           (VStr (OnConflictClause_String
              \<lparr>oc_Columns = columns, oc_DoUpdate = True, oc_UpdateColumns = updateCols, oc_Where = []\<rparr>)) s)"

section \<open>CreateInBatchesOnConflict\<close>

text \<open>
  The scope of the first element.  A nil pointer has its type's model and no struct value, which is
  what a nil slice of that type has.  A struct that is not addressable panics.
\<close>

definition elem_struct :: "genv \<Rightarrow> gval \<Rightarrow> world \<Rightarrow> rtype" where
  "elem_struct G value w =
     (case value of
        VObj a \<Rightarrow> (case w_objs w a of
                     Some (t, vs) \<Rightarrow> elem_type type_fuel (g_types G) (t_elem (g_types G t)) | None \<Rightarrow> 0)
      | VSlice t vs \<Rightarrow> elem_type type_fuel (g_types G) t
      | _ \<Rightarrow> 0)"

definition first_value :: "genv \<Rightarrow> gval \<Rightarrow> nat \<Rightarrow> world \<Rightarrow> gval option" where
  "first_value G value start w =
     (case batch_index G value start w of
        Some (VObj a) \<Rightarrow> Some (VObj a)
      | Some (VPtr a None) \<Rightarrow> Some (VSlice (elem_struct G value w) None)
      | _ \<Rightarrow> None)"

text \<open>The columns, and for a row the values, of the fields that take part.\<close>

definition option_cells :: "genv \<Rightarrow> scope \<Rightarrow> Field \<Rightarrow> (string \<times> gval) list" where
  "option_cells G sc f =
     (if changeableField sc f then
        (if sf_IsNormal (f_sf f) \<and> \<not> sf_IsIgnored (f_sf f)
         then (if \<not> sf_IsPrimaryKey (f_sf f) \<or> \<not> f_IsBlank f then [(Scope_Quote sc (f_DBName f), field_value (sc_w sc) f)] else [])
         else (case sf_Relationship (f_sf f) of
                 Some r \<Rightarrow> if rel_Kind r = ''belongs_to'' then concat (map (foreign_cell G sc) (rel_ForeignDBNames r)) else []
               | None \<Rightarrow> []))
      else [])"

definition all_cells :: "genv \<Rightarrow> scope \<Rightarrow> (string \<times> gval) list" where
  "all_cells G sc = concat (map (option_cells G sc) (Fields G sc))"

text \<open>With no columns every element is created on its own.\<close>

fun create_each ::
    "genv \<Rightarrow> chains \<Rightarrow> gval \<Rightarrow> string \<Rightarrow> nat list \<Rightarrow> int \<Rightarrow> db \<Rightarrow> world \<Rightarrow> int bres" where
  "create_each G C value opt [] n t w = BOk n t w"
| "create_each G C value opt (i # is) n t w =
     (case batch_index G value i w of
        Some v \<Rightarrow>
          (if (case v of VObj a \<Rightarrow> True | VPtr a u \<Rightarrow> True | _ \<Rightarrow> False) then
             (case DB_Create G C v (DB_Set G ''gorm:insert_option'' (VStr opt) t) w of
                Panicked sc \<Rightarrow> BPanic t (sc_w sc)
              | Done sc \<Rightarrow>
                 (case db_Error (sc_db sc) of
                    Some e \<Rightarrow> BErr e t (sc_w sc)
                  | None \<Rightarrow> create_each G C value opt is (wrap_int KInt64 (n + db_RowsAffected (sc_db sc))) t (sc_w sc)))
           else BPanic t w)
      | None \<Rightarrow> BPanic t w)"

text \<open>The loop over the rows: hooks and timestamps on the row's own scope, values bound in the first one.\<close>

fun option_rows ::
    "genv \<Rightarrow> hooks \<Rightarrow> gval \<Rightarrow> gval \<Rightarrow> nat list \<Rightarrow> scope \<Rightarrow> db \<Rightarrow> (string list) bres \<times> scope" where
  "option_rows G hooks value now [] sc t = (BOk [] t (sc_w sc), sc)"
| "option_rows G hooks value now (i # is) sc t =
     (case batch_index G value i (sc_w sc) of
        Some (VPtr a None) \<Rightarrow> option_rows G hooks value now is sc t
      | Some (VObj a) \<Rightarrow>
         (case and_then (call_hook G hooks ''BeforeSave'' (NewScope G t (VObj a) (sc_w sc))) (call_hook G hooks ''BeforeCreate'') of
            Panicked es \<Rightarrow> (BPanic t (sc_w es), sc)
          | Done es \<Rightarrow>
             (case db_Error (sc_db es) of
                Some e \<Rightarrow> (BErr e t (sc_w es), sc)
              | None \<Rightarrow>
                 (let es = set_blank_field G ''UpdatedAt'' now (set_blank_field G ''CreatedAt'' now es);
                      vals = map snd (all_cells G es)
                  in case add_all vals (sc\<lparr>sc_w := sc_w es\<rparr>) of (marks, sc) \<Rightarrow>
                     case option_rows G hooks value now is sc t of (rest, sc) \<Rightarrow>
                       (b_bind rest (\<lambda>rs. BOk ((''('' @ str_join '','' marks @ '')'') # rs)), sc))))
      | _ \<Rightarrow> (BPanic t (sc_w sc), sc))"

fun option_hooks :: "genv \<Rightarrow> hooks \<Rightarrow> gval \<Rightarrow> nat list \<Rightarrow> db \<Rightarrow> world \<Rightarrow> unit bres" where
  "option_hooks G hooks value [] t w = BOk () t w"
| "option_hooks G hooks value (i # is) t w =
     (case batch_index G value i w of
        Some (VPtr a None) \<Rightarrow> option_hooks G hooks value is t w
      | Some (VObj a) \<Rightarrow>
         (case and_then (call_hook G hooks ''AfterCreate'' (NewScope G t (VObj a) w)) (call_hook G hooks ''AfterSave'') of
            Panicked es \<Rightarrow> BPanic t (sc_w es)
          | Done es \<Rightarrow>
             (case db_Error (sc_db es) of
                Some e \<Rightarrow> BErr e t (sc_w es)
              | None \<Rightarrow> option_hooks G hooks value is t (sc_w es)))
      | _ \<Rightarrow> BPanic t w)"

definition createBatchWithOption ::
    "genv \<Rightarrow> hooks \<Rightarrow> chains \<Rightarrow> gval \<Rightarrow> string \<Rightarrow> nat \<Rightarrow> nat \<Rightarrow> db \<Rightarrow> world \<Rightarrow> int bres" where
  "createBatchWithOption G hooks C value opt start fin t w =
     (case first_value G value start w of
        None \<Rightarrow> BPanic t w
      | Some firstVal \<Rightarrow>
         (let sc = cache_fields G (NewScope G t firstVal w);
              quotedTable = QuotedTableName G sc;
              columns = map fst (all_cells G sc)
          in if columns = [] then create_each G C value opt [start..<fin] 0 t w
             else
               (let now = g_now G (w_clock (sc_w sc));
                    sc = sc\<lparr>sc_w := (sc_w sc)\<lparr>w_clock := Suc (w_clock (sc_w sc))\<rparr>\<rparr>
                in case option_rows G hooks value now [start..<fin] sc t of (rs, sc) \<Rightarrow>
                   b_bind rs (\<lambda>placeholders t w.
                     (let optionStr = (if opt \<noteq> [] then '' '' @ opt else []);
                          sc = Scope_Raw (''INSERT INTO '' @ quotedTable @ '' ('' @ str_join '','' columns @ '') VALUES ''
                                 @ str_join '','' placeholders @ optionStr) sc
                      in case scope_call G (CallExec (db_conn (sc_db sc)) (sc_SQL sc) (sc_SQLVars sc)) sc of (r, sc) \<Rightarrow>
                         (case r_err r of
                            Some e \<Rightarrow> BErr e t (sc_w sc)
                          | None \<Rightarrow>
                             b_bind (option_hooks G hooks value [start..<fin] t (sc_w sc))
                               (\<lambda>u. BOk (affected_or_zero r))))))))"

text \<open>Unlike \<^verbatim>\<open>createInBatches\<close> it does not look at the error of \<^verbatim>\<open>Begin\<close>.\<close>

definition CreateInBatchesOnConflict ::
    "genv \<Rightarrow> hooks \<Rightarrow> chains \<Rightarrow> gval \<Rightarrow> int \<Rightarrow> string \<Rightarrow> db \<Rightarrow> world \<Rightarrow> db_out" where
  "CreateInBatchesOnConflict G hooks C value batchSize opt s w =
     (case batch_elements G value w of
        None \<Rightarrow> db_of_outcome (DB_Create G C value (DB_Set G ''gorm:insert_option'' (VStr opt) s) w)
      | Some vs \<Rightarrow>
         (if vs = [] then DbDone (DB_clone G s) w
          else (let ownTxn = is_sqlDb (db_conn s);
                    step = (if batchSize \<le> 0 then 100 else nat batchSize)
                in case (if ownTxn then DB_Begin G s w else (DB_clone G s, w)) of (txn, w) \<Rightarrow>
                     finish_batches G ownTxn
                       (batch_loop (createBatchWithOption G hooks C value opt) 0 step (length vs) 0 txn w))))"

end
