(* ===== verification/Migration.thy ===== *)
theory Migration
  imports JoinTables
begin

text \<open>
  Creating and changing tables: the migration part of \<^verbatim>\<open>scope.go\<close> (\<^verbatim>\<open>createTable\<close> to \<^verbatim>\<open>autoIndex\<close>) and
  the operations of \<^verbatim>\<open>main.go\<close> over it.

  The setting \<^verbatim>\<open>gorm:table_options\<close> is a string.  A question to the dialect may panic; \<open>ask\<close> continues with its answer.  The \<^verbatim>\<open>AUTO_INCREMENT\<close> setting
  that \<^verbatim>\<open>DataTypeOf\<close> leaves in the cached field of a model is not kept: asking again gives the same
  text.  The model of \<^verbatim>\<open>*JoinTableHandler\<close>, for which a join table is migrated, is its three ignored
  fields.  The maps of \<^verbatim>\<open>autoIndex\<close> are listed in the order in which their names were first seen.
\<close>

definition ask :: "(history \<Rightarrow> 'a option \<times> history) \<Rightarrow> scope \<Rightarrow> ('a \<Rightarrow> callback) \<Rightarrow> outcome" where
  "ask f sc k =
     (case f (w_hist (sc_w sc)) of (answer, h) \<Rightarrow>
        (let sc = sc\<lparr>sc_w := (sc_w sc)\<lparr>w_hist := h\<rparr>\<rparr>
         in case answer of None \<Rightarrow> Panicked sc | Some x \<Rightarrow> k x sc))"

definition has_table :: "genv \<Rightarrow> string \<Rightarrow> scope \<Rightarrow> (bool \<Rightarrow> callback) \<Rightarrow> outcome" where
  "has_table G tbl sc = ask (d_HasTable (Dialect_of sc) (g_db G) (db_conn (sc_db sc)) tbl) sc"

definition has_column :: "genv \<Rightarrow> string \<Rightarrow> string \<Rightarrow> scope \<Rightarrow> (bool \<Rightarrow> callback) \<Rightarrow> outcome" where
  "has_column G tbl column sc = ask (d_HasColumn (Dialect_of sc) (g_db G) (db_conn (sc_db sc)) tbl column) sc"

definition getTableOptions :: "scope \<Rightarrow> string" where
  "getTableOptions sc = (case Scope_Get sc ''gorm:table_options'' of Some (VStr s) \<Rightarrow> '' '' @ s | _ \<Rightarrow> [])"

definition raw_exec :: "genv \<Rightarrow> string \<Rightarrow> scope \<Rightarrow> scope" where
  "raw_exec G sql sc = Scope_Exec G (Scope_Raw sql sc)"

section \<open>Indexes and keys\<close>

definition addIndex :: "genv \<Rightarrow> bool \<Rightarrow> string \<Rightarrow> string list \<Rightarrow> callback" where
  "addIndex G unique indexName column sc =
     ask (d_HasIndex (Dialect_of sc) (g_db G) (db_conn (sc_db sc)) (TableName G sc) indexName) sc (\<lambda>has sc.
       if has then Done sc
       else
         (let sqlCreate = (if unique then ''CREATE UNIQUE INDEX'' else ''CREATE INDEX'');
              tbl = QuotedTableName G sc;
              columns = map (quoteIfPossible sc) column
          in case whereSQL G sc of (wsql, sc) \<Rightarrow>
               Done (raw_exec G (sqlCreate @ '' '' @ indexName @ '' ON '' @ tbl @ ''('' @ str_join '', '' columns @ '') '' @ wsql) sc)))"

text \<open>\<^verbatim>\<open>AddIndex\<close> and \<^verbatim>\<open>AddUniqueIndex\<close>.\<close>

definition DB_AddIndex :: "genv \<Rightarrow> bool \<Rightarrow> string \<Rightarrow> string list \<Rightarrow> db \<Rightarrow> world \<Rightarrow> outcome" where
  "DB_AddIndex G unique indexName columns s w =
     addIndex G unique indexName columns (NewScope G (DB_Unscoped G s) (db_Value s) w)"

definition key_name :: "scope \<Rightarrow> string \<Rightarrow> string list \<Rightarrow> string \<Rightarrow> (string \<Rightarrow> callback) \<Rightarrow> outcome" where
  "key_name sc kind flds tbl k =
     (case d_BuildKeyName (Dialect_of sc) kind tbl flds of None \<Rightarrow> Panicked sc | Some name \<Rightarrow> k name sc)"

text \<open>The call is \<^verbatim>\<open>BuildKeyName(TableName, field, dest, "foreign")\<close>: the table name is its kind.\<close>

definition foreign_key_name :: "genv \<Rightarrow> string \<Rightarrow> string \<Rightarrow> scope \<Rightarrow> (string \<Rightarrow> callback) \<Rightarrow> outcome" where
  "foreign_key_name G fld dest sc = key_name sc (TableName G sc) [dest, ''foreign''] fld"

definition has_foreign_key :: "genv \<Rightarrow> string \<Rightarrow> scope \<Rightarrow> (bool \<Rightarrow> callback) \<Rightarrow> outcome" where
  "has_foreign_key G keyName sc =
     ask (d_HasForeignKey (Dialect_of sc) (g_db G) (db_conn (sc_db sc)) (TableName G sc) keyName) sc"

definition addForeignKey :: "genv \<Rightarrow> string \<Rightarrow> string \<Rightarrow> string \<Rightarrow> string \<Rightarrow> callback" where
  "addForeignKey G fld dest onDelete onUpdate sc =
     foreign_key_name G fld dest sc (\<lambda>keyName sc.
       has_foreign_key G keyName sc (\<lambda>has sc.
         if has then Done sc
         else Done (raw_exec G (''ALTER TABLE '' @ QuotedTableName G sc @ '' ADD CONSTRAINT '' @ quoteIfPossible sc keyName
                @ '' FOREIGN KEY ('' @ quoteIfPossible sc fld @ '') REFERENCES '' @ dest
                @ '' ON DELETE '' @ onDelete @ '' ON UPDATE '' @ onUpdate @ '';'') sc)))"

definition removeForeignKey :: "genv \<Rightarrow> string \<Rightarrow> string \<Rightarrow> callback" where
  "removeForeignKey G fld dest sc =
     foreign_key_name G fld dest sc (\<lambda>keyName sc.
       has_foreign_key G keyName sc (\<lambda>has sc.
         if \<not> has then Done sc
         else Done (raw_exec G (''ALTER TABLE '' @ QuotedTableName G sc
                @ (if d_GetName (Dialect_of sc) = ''mysql'' then '' DROP FOREIGN KEY '' else '' DROP CONSTRAINT '')
                @ quoteIfPossible sc keyName @ '';'') sc)))"

text \<open>\<^verbatim>\<open>removeIndex\<close> drops the dialect's error.\<close>

definition removeIndex :: "genv \<Rightarrow> string \<Rightarrow> scope \<Rightarrow> scope" where
  "removeIndex G indexName sc =
     (case d_RemoveIndex (Dialect_of sc) (g_db G) (db_conn (sc_db sc)) (TableName G sc) indexName (w_hist (sc_w sc)) of
        (e, h) \<Rightarrow> sc\<lparr>sc_w := (sc_w sc)\<lparr>w_hist := h\<rparr>\<rparr>)"

definition modifyColumn :: "genv \<Rightarrow> string \<Rightarrow> string \<Rightarrow> scope \<Rightarrow> scope" where
  "modifyColumn G column typ sc =
     (case d_ModifyColumn (Dialect_of sc) (g_db G) (db_conn (sc_db sc)) (QuotedTableName G sc) (Scope_Quote sc column) typ (w_hist (sc_w sc)) of
        (e, h) \<Rightarrow> sc\<lparr>sc_w := (sc_w sc)\<lparr>w_hist := h\<rparr>, sc_db := add_err e (sc_db sc)\<rparr>)"

definition dropColumn :: "genv \<Rightarrow> string \<Rightarrow> scope \<Rightarrow> scope" where
  "dropColumn G column sc =
     raw_exec G (''ALTER TABLE '' @ QuotedTableName G sc @ '' DROP COLUMN '' @ Scope_Quote sc column) sc"

definition dropTable :: "genv \<Rightarrow> scope \<Rightarrow> scope" where
  "dropTable G sc = raw_exec G (''DROP TABLE '' @ QuotedTableName G sc) sc"

section \<open>Indexes of the tags\<close>

type_synonym index_map = "(string \<times> string list) list"

definition add_column_to :: "string \<Rightarrow> string \<Rightarrow> index_map \<Rightarrow> index_map" where
  "add_column_to name column m =
     alist_set name ((case map_of m name of Some cs \<Rightarrow> cs | None \<Rightarrow> []) @ [column]) m"

text \<open>The names in a tag; an empty one, or the key itself, stands for the built name, which may panic.\<close>

fun tag_indexes :: "genv \<Rightarrow> scope \<Rightarrow> string \<Rightarrow> string \<Rightarrow> string \<Rightarrow> string list \<Rightarrow> index_map \<Rightarrow> index_map option" where
  "tag_indexes G sc kind key column [] m = Some m"
| "tag_indexes G sc kind key column (name # names) m =
     (case (if name = key \<or> name = [] then d_BuildKeyName (Dialect_of sc) kind (TableName G sc) [column] else Some name) of
        None \<Rightarrow> None
      | Some name \<Rightarrow>
         (case d_NormalizeIndexAndColumn (Dialect_of sc) name column of (name, column') \<Rightarrow>
            tag_indexes G sc kind key column names (add_column_to name column' m)))"

fun field_indexes :: "genv \<Rightarrow> scope \<Rightarrow> string \<Rightarrow> string \<Rightarrow> StructField list \<Rightarrow> index_map \<Rightarrow> index_map option" where
  "field_indexes G sc kind key [] m = Some m"
| "field_indexes G sc kind key (sf # sfs) m =
     (case (case TagSettingsGet sf key of
              Some names \<Rightarrow> tag_indexes G sc kind key (sf_DBName sf) (split_char (CHR '','') names) m
            | None \<Rightarrow> Some m) of
        None \<Rightarrow> None
      | Some m \<Rightarrow> field_indexes G sc kind key sfs m)"

fun create_indexes :: "genv \<Rightarrow> bool \<Rightarrow> index_map \<Rightarrow> callback" where
  "create_indexes G unique [] sc = Done sc"
| "create_indexes G unique ((name, columns) # m) sc =
     (case DB_AddIndex G unique name columns (DB_Model G (sc_Value sc) (DB_Table G (TableName G sc) (Scope_NewDB G sc))) (sc_w sc) of
        Panicked s \<Rightarrow> Panicked (sc\<lparr>sc_w := sc_w s\<rparr>)
      | Done s \<Rightarrow>
          create_indexes G unique m
            (sc\<lparr>sc_w := sc_w s, sc_db := (if db_Error (sc_db s) \<noteq> None then add_err (db_Error (sc_db s)) (sc_db sc) else sc_db sc)\<rparr>))"

definition autoIndex :: "genv \<Rightarrow> StructField list \<Rightarrow> callback" where
  "autoIndex G sfs sc =
     (case (field_indexes G sc ''idx'' ''INDEX'' sfs [], field_indexes G sc ''uix'' ''UNIQUE_INDEX'' sfs []) of
        (Some indexes, Some uniqueIndexes) \<Rightarrow>
          and_then (create_indexes G False indexes sc) (create_indexes G True uniqueIndexes)
      | _ \<Rightarrow> Panicked sc)"

section \<open>Tables\<close>

text \<open>
  \<^verbatim>\<open>createTable\<close>: the loop over the fields, which also creates the join tables (\<open>join\<close>), then the
  statement.  A data type that cannot be determined panics.
\<close>

definition create_table_sql :: "genv \<Rightarrow> string list \<Rightarrow> string list \<Rightarrow> bool \<Rightarrow> scope \<Rightarrow> string" where
  "create_table_sql G tags primaryKeys primaryKeyInColumnType sc =
     ''CREATE TABLE '' @ QuotedTableName G sc @ '' ('' @ str_join '','' tags @ '' ''
     @ (if primaryKeys \<noteq> [] \<and> \<not> primaryKeyInColumnType then '', PRIMARY KEY ('' @ str_join '','' primaryKeys @ '')'' else [])
     @ '')'' @ getTableOptions sc"

fun create_columns ::
    "genv \<Rightarrow> (StructField \<Rightarrow> callback) \<Rightarrow> StructField list \<Rightarrow> string list \<Rightarrow> string list \<Rightarrow> bool \<Rightarrow>
     (string list \<Rightarrow> string list \<Rightarrow> bool \<Rightarrow> callback) \<Rightarrow> callback" where
  "create_columns G join [] tags pks inType k sc = k tags pks inType sc"
| "create_columns G join (sf # sfs) tags pks inType k sc =
     (case (if sf_IsNormal sf then map_option (\<lambda>r. Some (fst r)) (d_DataTypeOf (Dialect_of sc) (g_types G) sf) else Some None) of
        None \<Rightarrow> Panicked sc
      | Some column \<Rightarrow>
         (let quoted = Scope_Quote sc (sf_DBName sf);
              tags = (case column of Some sqlTag \<Rightarrow> tags @ [quoted @ '' '' @ sqlTag] | None \<Rightarrow> tags);
              inType = (case column of Some sqlTag \<Rightarrow> inType \<or> str_contains (to_lower sqlTag) ''primary key'' | None \<Rightarrow> inType);
              pks = (if sf_IsPrimaryKey sf then pks @ [quoted] else pks)
          in and_then (join sf sc) (create_columns G join sfs tags pks inType k)))"

definition create_table :: "genv \<Rightarrow> (StructField \<Rightarrow> callback) \<Rightarrow> StructField list \<Rightarrow> callback" where
  "create_table G join sfs =
     create_columns G join sfs [] [] False
       (\<lambda>tags pks inType sc. autoIndex G sfs (raw_exec G (create_table_sql G tags pks inType sc) sc))"

text \<open>\<^verbatim>\<open>autoMigrate\<close>: the missing table, or the missing columns; never a drop.\<close>

fun migrate_columns :: "genv \<Rightarrow> (StructField \<Rightarrow> callback) \<Rightarrow> string \<Rightarrow> string \<Rightarrow> StructField list \<Rightarrow> callback" where
  "migrate_columns G join tableName quotedTableName [] sc = Done sc"
| "migrate_columns G join tableName quotedTableName (sf # sfs) sc =
     and_then
       (has_column G tableName (sf_DBName sf) sc (\<lambda>has sc.
          if \<not> has \<and> sf_IsNormal sf then
            (case d_DataTypeOf (Dialect_of sc) (g_types G) sf of
               None \<Rightarrow> Panicked sc
             | Some (sqlTag, sf') \<Rightarrow>
                 Done (raw_exec G (''ALTER TABLE '' @ quotedTableName @ '' ADD '' @ Scope_Quote sc (sf_DBName sf) @ '' '' @ sqlTag @ '';'') sc))
          else Done sc))
       (\<lambda>sc. and_then (join sf sc) (migrate_columns G join tableName quotedTableName sfs))"

definition auto_migrate :: "genv \<Rightarrow> (StructField \<Rightarrow> callback) \<Rightarrow> StructField list \<Rightarrow> callback" where
  "auto_migrate G join sfs sc =
     has_table G (TableName G sc) sc (\<lambda>has sc.
       if \<not> has then create_table G join sfs sc
       else and_then (migrate_columns G join (TableName G sc) (QuotedTableName G sc) sfs sc) (autoIndex G sfs))"

section \<open>Join tables\<close>

text \<open>The columns of one side with their quoted names; a key without a column is an index out of range.\<close>

fun join_columns :: "genv \<Rightarrow> scope \<Rightarrow> scope \<Rightarrow> string list \<Rightarrow> string list \<Rightarrow> (string \<times> string) list option" where
  "join_columns G sc fromScope [] dbs = Some []"
| "join_columns G sc fromScope (name # names) dbs =
     (case FieldByName G fromScope name of
        None \<Rightarrow> join_columns G sc fromScope names (tl dbs)
      | Some i \<Rightarrow>
         (case dbs of
            [] \<Rightarrow> None
          | db # rest \<Rightarrow>
             (let sf = TagSettingsDelete ''AUTO_INCREMENT''
                         (TagSettingsSet ''IS_JOINTABLE_FOREIGNKEY'' ''true''
                           ((StructField_clone (f_sf (field_at G fromScope i)))\<lparr>sf_IsPrimaryKey := False\<rparr>))
              in case d_DataTypeOf (Dialect_of sc) (g_types G) sf of
                   None \<Rightarrow> None
                 | Some (sqlType, sf') \<Rightarrow>
                     map_option (\<lambda>cs. (Scope_Quote sc db @ '' '' @ sqlType, Scope_Quote sc db) # cs)
                       (join_columns G sc fromScope names rest))))"

definition ignored_field :: "string \<Rightarrow> string \<Rightarrow> StructField" where
  "ignored_field name column =
     \<lparr>sf_DBName = column, sf_Name = name, sf_Names = [name], sf_IsPrimaryKey = False, sf_IsNormal = False,
      sf_IsIgnored = True, sf_IsScanner = False, sf_HasDefaultValue = False, sf_TagSettings = [''-'' \<mapsto> ''-''],
      sf_Struct = \<lparr>m_name = name, m_sql_tag = ''-'', m_gorm_tag = [], m_anonymous = False, m_exported = True, m_type = 0\<rparr>,
      sf_IsForeignKey = False, sf_Relationship = None\<rparr>"

definition join_handler_fields :: "genv \<Rightarrow> StructField list" where
  "join_handler_fields G =
     map (\<lambda>name. ignored_field name (g_toColumnName G name)) [''TableName'', ''Source'', ''Destination'']"

text \<open>\<^verbatim>\<open>scope.NewDB().Table(joinTable).AutoMigrate(joinTableHandler)\<close>, whose errors are dropped.\<close>

definition migrate_join_table :: "genv \<Rightarrow> string \<Rightarrow> callback" where
  "migrate_join_table G joinTable sc =
     (case auto_migrate G (\<lambda>sf. Done) (join_handler_fields G)
             (NewScope G (DB_Unscoped G (DB_Table G joinTable (Scope_NewDB G sc))) VNil (sc_w sc)) of
        Done s \<Rightarrow> Done (sc\<lparr>sc_w := sc_w s\<rparr>)
      | Panicked s \<Rightarrow> Panicked (sc\<lparr>sc_w := sc_w s\<rparr>))"

definition createJoinTable :: "genv \<Rightarrow> StructField \<Rightarrow> callback" where
  "createJoinTable G sf sc =
     (case sf_Relationship sf of
        None \<Rightarrow> Done sc
      | Some r \<Rightarrow>
         (case rel_JoinTableHandler r of
            None \<Rightarrow> Done sc
          | Some h \<Rightarrow>
             (let joinTable = jth_Table G h
              in and_then
                   (has_table G joinTable sc (\<lambda>has sc.
                      if has then Done sc
                      else
                        (let toScope = Scope_New G (VSlice (m_type (sf_Struct sf)) None) sc
                         in case (join_columns G sc sc (rel_ForeignFieldNames r) (rel_ForeignDBNames r),
                                  join_columns G sc toScope (rel_AssociationForeignFieldNames r) (rel_AssociationForeignDBNames r)) of
                              (Some a, Some b) \<Rightarrow>
                                (let s = DB_Exec G (''CREATE TABLE '' @ Scope_Quote sc joinTable @ '' ('' @ str_join '','' (map fst (a @ b))
                                           @ '', PRIMARY KEY ('' @ str_join '','' (map snd (a @ b)) @ ''))'' @ getTableOptions sc)
                                           [] (Scope_NewDB G sc) (sc_w sc)
                                 in Done (Scope_Err (db_Error (sc_db s)) (sc\<lparr>sc_w := sc_w s\<rparr>)))
                            | _ \<Rightarrow> Panicked sc)))
                   (migrate_join_table G joinTable))))"

section \<open>Operations of a handle\<close>

definition createTable :: "genv \<Rightarrow> callback" where
  "createTable G sc = create_table G (createJoinTable G) (GetStructFields G sc) sc"

definition autoMigrate :: "genv \<Rightarrow> callback" where
  "autoMigrate G sc = auto_migrate G (createJoinTable G) (GetStructFields G sc) sc"

text \<open>The loops run one value after the other, each on the handle the last one left.\<close>

fun each_model :: "(gval \<Rightarrow> db \<Rightarrow> world \<Rightarrow> outcome) \<Rightarrow> gval list \<Rightarrow> db \<Rightarrow> world \<Rightarrow> db_out" where
  "each_model f [] s w = DbDone s w"
| "each_model f (v # vs) s w =
     (case f v s w of
        Done sc \<Rightarrow> each_model f vs (sc_db sc) (sc_w sc)
      | Panicked sc \<Rightarrow> DbPanic (sc_db sc) (sc_w sc))"

definition DB_CreateTable :: "genv \<Rightarrow> gval list \<Rightarrow> db \<Rightarrow> world \<Rightarrow> db_out" where
  "DB_CreateTable G models s = each_model (\<lambda>v s w. createTable G (NewScope G s v w)) models (DB_Unscoped G s)"

definition DB_AutoMigrate :: "genv \<Rightarrow> gval list \<Rightarrow> db \<Rightarrow> world \<Rightarrow> db_out" where
  "DB_AutoMigrate G models s = each_model (\<lambda>v s w. autoMigrate G (NewScope G s v w)) models (DB_Unscoped G s)"

definition DB_DropTable :: "genv \<Rightarrow> gval list \<Rightarrow> db \<Rightarrow> world \<Rightarrow> db_out" where
  "DB_DropTable G vals s =
     each_model (\<lambda>v s w. Done (dropTable G (NewScope G (case v of VStr name \<Rightarrow> DB_Table G name s | _ \<Rightarrow> s) v w)))
       vals (DB_clone G s)"

text \<open>\<^verbatim>\<open>HasTable\<close> adds the error of its scope to the handle it is called on.\<close>

definition DB_HasTable :: "genv \<Rightarrow> gval \<Rightarrow> db \<Rightarrow> world \<Rightarrow> (bool option \<times> db) \<times> world" where
  "DB_HasTable G value s w =
     (let sc = NewScope G s value w;
          tableName = (case value of VStr name \<Rightarrow> name | _ \<Rightarrow> TableName G sc)
      in case d_HasTable (Dialect_of sc) (g_db G) (db_conn (sc_db sc)) tableName (w_hist w) of
           (has, h) \<Rightarrow> ((has, if has = None then s else add_err (db_Error (sc_db sc)) s), w\<lparr>w_hist := h\<rparr>))"

fun drop_existing :: "genv \<Rightarrow> gval list \<Rightarrow> db \<Rightarrow> db \<Rightarrow> world \<Rightarrow> db_out" where
  "drop_existing G [] s d w = DbDone d w"
| "drop_existing G (v # vs) s d w =
     (case DB_HasTable G v s w of
        ((None, s), w) \<Rightarrow> DbPanic d w
      | ((Some False, s), w) \<Rightarrow> drop_existing G vs s d w
      | ((Some True, s), w) \<Rightarrow>
         (case DB_DropTable G [v] s w of
            DbDone d' w \<Rightarrow> drop_existing G vs s (add_err (db_Error d') d) w
          | DbPanic d' w \<Rightarrow> DbPanic d w))"

definition DropTableIfExists :: "genv \<Rightarrow> gval list \<Rightarrow> db \<Rightarrow> world \<Rightarrow> db_out" where
  "DropTableIfExists G vals s = drop_existing G vals s (DB_clone G s)"

definition DB_ModifyColumn :: "genv \<Rightarrow> string \<Rightarrow> string \<Rightarrow> db \<Rightarrow> world \<Rightarrow> scope" where
  "DB_ModifyColumn G column typ s w = modifyColumn G column typ (NewScope G s (db_Value s) w)"

definition DB_DropColumn :: "genv \<Rightarrow> string \<Rightarrow> db \<Rightarrow> world \<Rightarrow> scope" where
  "DB_DropColumn G column s w = dropColumn G column (NewScope G s (db_Value s) w)"

definition DB_RemoveIndex :: "genv \<Rightarrow> string \<Rightarrow> db \<Rightarrow> world \<Rightarrow> scope" where
  "DB_RemoveIndex G indexName s w = removeIndex G indexName (NewScope G s (db_Value s) w)"

definition DB_AddForeignKey :: "genv \<Rightarrow> string \<Rightarrow> string \<Rightarrow> string \<Rightarrow> string \<Rightarrow> db \<Rightarrow> world \<Rightarrow> outcome" where
  "DB_AddForeignKey G fld dest onDelete onUpdate s w =
     addForeignKey G fld dest onDelete onUpdate (NewScope G s (db_Value s) w)"

definition DB_RemoveForeignKey :: "genv \<Rightarrow> string \<Rightarrow> string \<Rightarrow> db \<Rightarrow> world \<Rightarrow> outcome" where
  "DB_RemoveForeignKey G fld dest s w =
     removeForeignKey G fld dest (NewScope G (DB_clone G s) (db_Value s) w)"

end
