(* ===== verification/MigrationProps.thy ===== *)
theory MigrationProps
  imports Migration Statements
begin

text \<open>
  Migrating only adds.  The locale \<open>lookups\<close> is what the migration relies on when it asks a dialect whether
  a table, a column, an index or a key is there: the dialect sends queries and nothing else.  Every dialect of
  the registry is an instance, and from that follows what \<^verbatim>\<open>AutoMigrate\<close> promises: it never drops or changes.
\<close>

section \<open>What a dialect's questions send\<close>

definition asks :: "history \<Rightarrow> history \<Rightarrow> bool" where
  "asks h h' = (\<exists>new. h' = h @ new \<and> list_all (\<lambda>c. is_statement c \<and> \<not> is_write c) new)"

lemma asks_refl [simp]: "asks h h"
  by (simp add: asks_def)

lemma asks_trans: "asks a b \<Longrightarrow> asks b c \<Longrightarrow> asks a c"
  by (force simp: asks_def)

lemma asks_query [simp]: "asks h (h @ [CallQueryRow c q vs])" "asks h (h @ [CallQuery c q vs])"
  by (auto simp: asks_def)

lemma asks_more [simp]: "asks h h' \<Longrightarrow> asks h (h' @ [CallQueryRow c q vs])" "asks h h' \<Longrightarrow> asks h (h' @ [CallQuery c q vs])"
  by (auto intro: asks_trans)

lemma asks_call [simp]: "asks h h' \<Longrightarrow> asks h (snd (call_db env (CallQueryRow c q vs) h'))"
  "asks h h' \<Longrightarrow> asks h (snd (call_db env (CallQuery c q vs) h'))"
  by simp_all

lemma asks_count [simp]: "asks h h' \<Longrightarrow> asks h (snd (query_count env c q vs h'))"
  by (simp add: query_count_def case_prod_unfold)

locale lookups =
  fixes d :: Dialect
  assumes has_table: "asks h (snd (d_HasTable d env c t h))"
    and has_column: "asks h (snd (d_HasColumn d env c t x h))"
    and has_index: "asks h (snd (d_HasIndex d env c t x h))"

lemma asks_database [simp]:
  "(\<And>h'. asks h' (snd (f h'))) \<Longrightarrow> asks h (snd (currentDatabaseAndTable f t h))"
  by (simp add: currentDatabaseAndTable_def case_prod_unfold split: list.split)

lemma asks_dm_name [simp]: "asks h (snd (dm_tableName env c t h))"
  by (simp add: dm_tableName_def dm_CurrentDatabase_def case_prod_unfold split: list.split)

lemma asks_dm_count [simp]: "asks h h' \<Longrightarrow> asks h (snd (dm_count env c q vs h'))"
  by (simp add: dm_count_def case_prod_unfold)

lemma asks_current [simp]:
  "asks h (snd (common_CurrentDatabase env c h))" "asks h (snd (mysql_CurrentDatabase env c h))"
  "asks h (snd (mssql_CurrentDatabase env c h))"
  by (simp_all add: common_CurrentDatabase_def mysql_CurrentDatabase_def mssql_CurrentDatabase_def case_prod_unfold)

lemma asks_has_row [simp]: "asks h h' \<Longrightarrow> asks h (snd (mysql_has_row env c q vs h'))"
  by (simp add: mysql_has_row_def case_prod_unfold)

lemmas lookup_defs = common_HasTable_def common_HasColumn_def common_HasIndex_def mysql_HasTable_def mysql_HasColumn_def
  mysql_HasIndex_def postgres_HasTable_def postgres_HasColumn_def postgres_HasIndex_def sqlite3_HasTable_def
  sqlite3_HasColumn_def sqlite3_HasIndex_def mssql_HasTable_def mssql_HasColumn_def mssql_HasIndex_def
  dm_HasTable_def dm_HasColumn_def dm_HasIndex_def

lemmas dialect_defs = common_dialect_def mysql_dialect_def postgres_dialect_def sqlite3_dialect_def mssql_dialect_def dm_dialect_def

interpretation common_lookup: lookups common_dialect
  by unfold_locales (simp_all add: dialect_defs lookup_defs case_prod_unfold)

interpretation mysql_lookup: lookups "mysql_dialect sha1" for sha1
  by unfold_locales (simp_all add: dialect_defs lookup_defs case_prod_unfold split: option.split)

interpretation postgres_lookup: lookups postgres_dialect
  by unfold_locales (simp_all add: dialect_defs lookup_defs case_prod_unfold)

interpretation sqlite3_lookup: lookups sqlite3_dialect
  by unfold_locales (simp_all add: dialect_defs lookup_defs case_prod_unfold)

interpretation mssql_lookup: lookups mssql_dialect
  by unfold_locales (simp_all add: dialect_defs lookup_defs case_prod_unfold)

interpretation dm_lookup: lookups dm_dialect
  by unfold_locales (simp_all add: dialect_defs lookup_defs case_prod_unfold)

lemma known_lookups: "known_dialect sha1 d \<Longrightarrow> lookups d"
  unfolding known_dialect_def
  by (elim disjE) (simp_all add: common_lookup.lookups_axioms mysql_lookup.lookups_axioms postgres_lookup.lookups_axioms
      sqlite3_lookup.lookups_axioms mssql_lookup.lookups_axioms dm_lookup.lookups_axioms)

lemma initial_known: "known_dialect sha1 (newDialect (initial_dialects sha1) name)"
  by (simp add: newDialect_def initial_dialects_def RegisterDialect_def known_dialect_def)

section \<open>Statements that only add\<close>

definition additive_sql :: "genv \<Rightarrow> string \<Rightarrow> bool" where
  "additive_sql G sql =
     (\<exists>body sc. sql = replace_all ''$$$'' ''?'' body \<and>
        (has_prefix body ''CREATE TABLE '' \<or> has_prefix body ''CREATE INDEX '' \<or> has_prefix body ''CREATE UNIQUE INDEX ''
         \<or> has_prefix body (''ALTER TABLE '' @ QuotedTableName G sc @ '' ADD '')))"

fun additive :: "genv \<Rightarrow> dbcall \<Rightarrow> bool" where
  "additive G (CallExec c sql vs) = additive_sql G sql"
| "additive G (CallQuery c sql vs) = True"
| "additive G (CallQueryRow c sql vs) = True"
| "additive G c = False"

definition adds :: "genv \<Rightarrow> scope \<Rightarrow> scope \<Rightarrow> bool" where
  "adds G a b =
     (db_dialect (sc_db b) = db_dialect (sc_db a)
      \<and> (\<exists>new. w_hist (sc_w b) = w_hist (sc_w a) @ new \<and> list_all (additive G) new))"

lemma adds_refl [simp]: "adds G a a"
  by (simp add: adds_def)

lemma adds_trans: "adds G a b \<Longrightarrow> adds G b c \<Longrightarrow> adds G a c"
  by (force simp: adds_def)

lemma adds_silent: "adds G a b \<Longrightarrow> silent b c \<Longrightarrow> adds G a c"
  by (auto simp: adds_def silent_def)

lemma adds_hist: "adds G a b \<Longrightarrow> asks (w_hist (sc_w b)) h \<Longrightarrow> adds G a (b\<lparr>sc_w := (sc_w b)\<lparr>w_hist := h\<rparr>\<rparr>)"
proof -
  assume ab: "adds G a b" and h: "asks (w_hist (sc_w b)) h"
  have "additive G c" if "is_statement c" "\<not> is_write c" for c using that by (cases c) simp_all
  then obtain new where "h = w_hist (sc_w b) @ new" "list_all (additive G) new"
    using h by (auto simp: asks_def list_all_iff)
  then show ?thesis using ab by (auto simp: adds_def)
qed

lemma adds_exec:
  assumes "adds G a b" "has_prefix sql p"
    "p \<in> {''CREATE TABLE '', ''CREATE INDEX '', ''CREATE UNIQUE INDEX '', ''ALTER TABLE '' @ QuotedTableName G sc @ '' ADD ''}"
  shows "adds G a (raw_exec G sql b)"
proof -
  let ?b = "Scope_Raw sql b"
  have "additive_sql G (sc_SQL ?b)" using assms(2,3) unfolding additive_sql_def Scope_Raw_def by auto
  moreover have "adds G a ?b" using assms(1) by (rule adds_silent) (intro silent_intros)
  moreover have "db_dialect (sc_db (Scope_Exec G ?b)) = db_dialect (sc_db ?b)"
    by (simp add: Scope_Exec_def case_prod_unfold scope_call_result Scope_Err_def split: option.split sum.split)
  ultimately show ?thesis by (auto simp: adds_def raw_exec_def Exec_hist)
qed

lemma adds_nested:
  assumes "adds G a b" "adds G n m" "w_hist (sc_w n) = w_hist (sc_w b)" "w_hist (sc_w r) = w_hist (sc_w m)"
    "db_dialect (sc_db r) = db_dialect (sc_db b)"
  shows "adds G a r"
  using assms by (force simp: adds_def)

lemma adds_and_then:
  assumes "adds G a (out_scope x)" "\<And>b. x = Done b \<Longrightarrow> adds G a b \<Longrightarrow> adds G a (out_scope (f b))"
  shows "adds G a (out_scope (and_then x f))"
  using assms by (cases x) auto

lemma adds_ask:
  assumes "adds G a b" "\<And>h. asks h (snd (f h))" "\<And>x c. adds G a c \<Longrightarrow> adds G a (out_scope (k x c))"
  shows "adds G a (out_scope (ask f b k))"
  using assms(3) adds_hist [OF assms(1,2)] by (auto simp: ask_def case_prod_unfold Let_def split: option.split)

definition knows :: "(string \<Rightarrow> string) \<Rightarrow> scope \<Rightarrow> bool" where
  "knows sha1 a = known_dialect sha1 (db_dialect (sc_db a))"

lemma knows_lookups: "knows sha1 a \<Longrightarrow> adds G a b \<Longrightarrow> lookups (Dialect_of b)"
  by (simp add: knows_def adds_def Dialect_of_def known_lookups)

lemma adds_has_table:
  assumes "knows sha1 a" "adds G a b" "\<And>x c. adds G a c \<Longrightarrow> adds G a (out_scope (k x c))"
  shows "adds G a (out_scope (has_table G t b k))"
  unfolding has_table_def
  by (rule adds_ask [OF assms(2) lookups.has_table [OF knows_lookups [OF assms(1,2)]] assms(3)])

lemma adds_has_column:
  assumes "knows sha1 a" "adds G a b" "\<And>x c. adds G a c \<Longrightarrow> adds G a (out_scope (k x c))"
  shows "adds G a (out_scope (has_column G t n b k))"
  unfolding has_column_def
  by (rule adds_ask [OF assms(2) lookups.has_column [OF knows_lookups [OF assms(1,2)]] assms(3)])

section \<open>Indexes\<close>

lemma adds_index:
  assumes "knows sha1 a" "adds G a b" shows "adds G a (out_scope (addIndex G unique name columns b))"
proof -
  have "adds G a (raw_exec G ((if unique then ''CREATE UNIQUE INDEX'' else ''CREATE INDEX'') @ '' '' @ r) (snd (whereSQL G c)))"
    if "adds G a c" for r c
  proof (rule adds_exec)
    show "adds G a (snd (whereSQL G c))" using that by (rule adds_silent) (intro silent_intros)
    show "has_prefix ((if unique then ''CREATE UNIQUE INDEX'' else ''CREATE INDEX'') @ '' '' @ r)
        (if unique then ''CREATE UNIQUE INDEX '' else ''CREATE INDEX '')"
      by (simp add: has_prefix_def)
  qed simp
  then show ?thesis unfolding addIndex_def Let_def case_prod_unfold
    by (intro adds_ask [OF assms(2) lookups.has_index [OF knows_lookups [OF assms]]]) simp
qed

lemma knows_new: "g_dialects G = initial_dialects sha1 \<Longrightarrow> knows sha1 (NewScope G s v w)"
  by (simp add: knows_def NewScope_def new_scope_def DB_clone_def initial_known)

lemma new_scope_hist [simp]: "sc_w (NewScope G s v w) = w"
  by (simp add: NewScope_def new_scope_def)

lemma adds_create_indexes:
  assumes G: "g_dialects G = initial_dialects sha1"
  shows "adds G a b \<Longrightarrow> adds G a (out_scope (create_indexes G unique m b))"
proof (induction m arbitrary: b)
  case (Cons p m)
  obtain name columns where p: "p = (name, columns)" by (cases p)
  let ?s = "DB_Model G (sc_Value b) (DB_Table G (TableName G b) (Scope_NewDB G b))"
  let ?n = "NewScope G (DB_Unscoped G ?s) (db_Value ?s) (sc_w b)"
  let ?x = "DB_AddIndex G unique name columns ?s (sc_w b)"
  have n: "adds G ?n (out_scope ?x)"
    unfolding DB_AddIndex_def by (rule adds_index [OF knows_new [OF G] adds_refl])
  have "adds G a (b\<lparr>sc_w := sc_w (out_scope ?x)\<rparr>)"
    "adds G a (b\<lparr>sc_w := sc_w (out_scope ?x), sc_db := add_err e (sc_db b)\<rparr>)" for e
    by (rule adds_nested [OF Cons.prems n]; simp)+
  then show ?case unfolding p using Cons.IH
    by (cases ?x) simp_all
qed simp

lemma adds_autoIndex:
  assumes "g_dialects G = initial_dialects sha1" "adds G a b" shows "adds G a (out_scope (autoIndex G sfs b))"
  unfolding autoIndex_def using assms
  by (auto intro!: adds_and_then adds_create_indexes split: option.split)

section \<open>Tables\<close>

locale adding_joins =
  fixes G :: genv and sha1 :: "string \<Rightarrow> string" and join :: "StructField \<Rightarrow> callback"
  assumes registry: "g_dialects G = initial_dialects sha1"
    and join_adds: "knows sha1 a \<Longrightarrow> adds G a b \<Longrightarrow> adds G a (out_scope (join sf b))"
begin

lemma create_columns_adds:
  "knows sha1 a \<Longrightarrow> adds G a b \<Longrightarrow> (\<And>t p i c. adds G a c \<Longrightarrow> adds G a (out_scope (k t p i c))) \<Longrightarrow>
   adds G a (out_scope (create_columns G join sfs tags pks inType k b))"
proof (induction sfs arbitrary: tags pks inType b)
  case (Cons sf sfs)
  have "adds G a (out_scope (and_then (join sf b) (create_columns G join sfs t p i k)))" for t p i
    by (rule adds_and_then [OF join_adds [OF Cons.prems(1,2)]]) (rule Cons.IH [OF Cons.prems(1) _ Cons.prems(3)])
  then show ?case using Cons.prems(2) by (simp add: Let_def split: option.split)
qed simp

lemma create_table_adds: "knows sha1 a \<Longrightarrow> adds G a b \<Longrightarrow> adds G a (out_scope (create_table G join sfs b))"
  unfolding create_table_def create_table_sql_def
proof (rule create_columns_adds)
  fix t p i c assume c: "adds G a c"
  show "adds G a (out_scope (autoIndex G sfs (raw_exec G (''CREATE TABLE '' @ QuotedTableName G c @ '' ('' @ str_join '','' t @ '' ''
      @ (if p \<noteq> [] \<and> \<not> i then '', PRIMARY KEY ('' @ str_join '','' p @ '')'' else []) @ '')'' @ getTableOptions c) c)))"
    by (rule adds_autoIndex [OF registry adds_exec [OF c, where p = "''CREATE TABLE ''"]]) (simp_all add: has_prefix_def)
qed

lemma migrate_columns_adds:
  "knows sha1 a \<Longrightarrow> adds G a b \<Longrightarrow> adds G a (out_scope (migrate_columns G join t (QuotedTableName G s) sfs b))"
proof (induction sfs arbitrary: b)
  case (Cons sf sfs)
  have exec: "adds G a (raw_exec G (''ALTER TABLE '' @ QuotedTableName G s @ '' ADD '' @ r) c)" if "adds G a c" for r c
    by (rule adds_exec [OF that, where p = "''ALTER TABLE '' @ QuotedTableName G s @ '' ADD ''"]) (simp_all add: has_prefix_def)
  show ?case unfolding migrate_columns.simps
  proof (rule adds_and_then)
    show "adds G a (out_scope (has_column G t (sf_DBName sf) b (\<lambda>has sc.
        if \<not> has \<and> sf_IsNormal sf then
          (case d_DataTypeOf (Dialect_of sc) (g_types G) sf of
             None \<Rightarrow> Panicked sc
           | Some (sqlTag, sf') \<Rightarrow>
               Done (raw_exec G (''ALTER TABLE '' @ QuotedTableName G s @ '' ADD '' @ Scope_Quote sc (sf_DBName sf) @ '' '' @ sqlTag @ '';'') sc))
        else Done sc)))"
      by (rule adds_has_column [OF Cons.prems]) (auto intro: exec [simplified] split: option.split)
    show "adds G a (out_scope (and_then (join sf c) (migrate_columns G join t (QuotedTableName G s) sfs)))" if "adds G a c" for c
      by (rule adds_and_then [OF join_adds [OF Cons.prems(1) that]]) (rule Cons.IH [OF Cons.prems(1)])
  qed
qed simp

lemma auto_migrate_adds: "knows sha1 a \<Longrightarrow> adds G a b \<Longrightarrow> adds G a (out_scope (auto_migrate G join sfs b))"
  unfolding auto_migrate_def
proof (rule adds_has_table, assumption+)
  fix has c assume k: "knows sha1 a" and c: "adds G a c"
  have "adds G a (out_scope (and_then (migrate_columns G join (TableName G c) (QuotedTableName G c) sfs c) (autoIndex G sfs)))"
    by (rule adds_and_then [OF migrate_columns_adds [OF k c]]) (rule adds_autoIndex [OF registry])
  then show "adds G a (out_scope (if \<not> has then create_table G join sfs c
      else and_then (migrate_columns G join (TableName G c) (QuotedTableName G c) sfs c) (autoIndex G sfs)))"
    using create_table_adds [OF k c] by simp
qed

end

section \<open>Join tables\<close>

lemma not_number_CREATE: "\<not> is_number_string (''CREATE TABLE '' @ r)"
proof -
  have "\<not> is_re_space (CHR ''C'')" "\<not> is_digit (CHR ''C'')" by code_simp+
  then show ?thesis by (simp add: starts_upper_not_number)
qed

lemma raw_text:
  assumes "sql = ''CREATE TABLE '' @ r"
  shows "trim_suffix (trim_prefix (fst (buildCondition G (VStr sql, []) True sc)) ''('') '')'' = sql"
proof -
  have "fst (buildCondition G (VStr sql, []) True sc) = ''('' @ sql @ '')''"
    using not_number_CREATE [of r] unfolding assms
    by (simp add: buildCondition_def is_key_slice_def fill_condition_def Let_def)
  then show ?thesis by (simp add: trim_prefix_def trim_suffix_def has_prefix_def has_suffix_def)
qed

lemma adds_DB_Exec:
  assumes "sql = ''CREATE TABLE '' @ r"
  shows "adds G (NewScope G s VNil w) (DB_Exec G sql [] s w)"
proof -
  let ?n = "NewScope G s VNil w"
  have "silent ?n (snd (buildCondition G (VStr sql, []) True ?n))" by (intro silent_intros)
  then have "adds G ?n (snd (buildCondition G (VStr sql, []) True ?n))" by (rule adds_silent [OF adds_refl])
  then have "adds G ?n (raw_exec G sql (snd (buildCondition G (VStr sql, []) True ?n)))"
    by (rule adds_exec [where p = "''CREATE TABLE ''"]) (simp_all add: assms has_prefix_def)
  then show ?thesis by (simp only: DB_Exec_def case_prod_unfold raw_text [OF assms] raw_exec_def)
qed

text \<open>An environment with the dialects that the repository registers.\<close>

definition registered :: "(string \<Rightarrow> string) \<Rightarrow> genv \<Rightarrow> genv" where
  "registered sha1 G = G\<lparr>g_dialects := initial_dialects sha1\<rparr>"

lemma registered_dialects [simp]: "g_dialects (registered sha1 G) = initial_dialects sha1"
  by (simp add: registered_def)

interpretation plain_joins: adding_joins "registered sha1 G" sha1 "\<lambda>sf. Done" for sha1 G
  by unfold_locales simp_all

lemma adds_migrate_join_table:
  assumes "adds (registered sha1 G) a b"
  shows "adds (registered sha1 G) a (out_scope (migrate_join_table (registered sha1 G) t b))"
proof -
  let ?G = "registered sha1 G"
  let ?n = "NewScope ?G (DB_Unscoped ?G (DB_Table ?G t (Scope_NewDB ?G b))) VNil (sc_w b)"
  have "adds ?G ?n (out_scope (auto_migrate ?G (\<lambda>sf. Done) (join_handler_fields ?G) ?n))"
    by (rule plain_joins.auto_migrate_adds [OF knows_new adds_refl]) simp
  then show ?thesis
    by (auto simp: migrate_join_table_def intro: adds_nested [OF assms] split: outcome.split)
qed

lemma adds_createJoinTable:
  assumes "knows sha1 a" "adds (registered sha1 G) a b"
  shows "adds (registered sha1 G) a (out_scope (createJoinTable (registered sha1 G) sf b))"
proof -
  let ?G = "registered sha1 G"
  have exec: "adds ?G a (Scope_Err e (c\<lparr>sc_w := sc_w (DB_Exec ?G (''CREATE TABLE '' @ r) [] (Scope_NewDB ?G c) (sc_w c))\<rparr>))"
    if "adds ?G a c" for c r e
    by (rule adds_nested [OF that adds_DB_Exec [OF refl, of ?G "Scope_NewDB ?G c" "sc_w c" r]]) (simp_all add: Scope_Err_def)
  show ?thesis unfolding createJoinTable_def Let_def
    by (auto simp: assms(2) intro!: adds_and_then adds_has_table [OF assms] adds_migrate_join_table exec [simplified]
        split: option.split)
qed

interpretation model_joins: adding_joins "registered sha1 G" sha1 "createJoinTable (registered sha1 G)" for sha1 G
  by unfold_locales (simp_all add: adds_createJoinTable)

section \<open>Migrating only adds\<close>

text \<open>
  C3: \<^verbatim>\<open>AutoMigrate\<close> under any of the registered dialects only adds: whatever the models are, and whatever the
  database answers, what it executes creates a table, adds a column to a table or creates an index; everything else it
  sends is a query.  It never drops or changes a column, and begins no transaction.
\<close>

theorem migration_only_adds:
  "\<exists>new. w_hist (case DB_AutoMigrate (registered sha1 G) models s w of DbDone d w' \<Rightarrow> w' | DbPanic d w' \<Rightarrow> w') = w_hist w @ new
     \<and> list_all (additive (registered sha1 G)) new"
proof -
  let ?G = "registered sha1 G"
  let ?world = "\<lambda>out. case out of DbDone d w' \<Rightarrow> w' | DbPanic d w' \<Rightarrow> w'"
  have one: "adds ?G (NewScope ?G d v w) (out_scope (autoMigrate ?G (NewScope ?G d v w)))" for d v w
    unfolding autoMigrate_def by (rule model_joins.auto_migrate_adds [OF knows_new adds_refl]) simp
  have "\<exists>new. w_hist (?world (each_model (\<lambda>v s w. autoMigrate ?G (NewScope ?G s v w)) models d w)) = w_hist w @ new
      \<and> list_all (additive ?G) new" for d w
  proof (induction models arbitrary: d w)
    case (Cons v vs)
    let ?o = "autoMigrate ?G (NewScope ?G d v w)"
    obtain new where new: "w_hist (sc_w (out_scope ?o)) = w_hist w @ new" "list_all (additive ?G) new"
      using one [of d v w] by (auto simp: adds_def)
    show ?case
    proof (cases ?o)
      case (Done sc)
      obtain more where "w_hist (?world (each_model (\<lambda>v s w. autoMigrate ?G (NewScope ?G s v w)) vs (sc_db sc) (sc_w sc)))
          = w_hist (sc_w sc) @ more" "list_all (additive ?G) more"
        using Cons.IH by blast
      then show ?thesis using Done new by (auto intro: exI [of _ "new @ more"])
    next
      case (Panicked sc)
      then show ?thesis using new by auto
    qed
  qed simp
  then show ?thesis by (simp add: DB_AutoMigrate_def)
qed

end
