(* ===== verification/ConnectionGate.thy ===== *)
theory ConnectionGate
  imports Main
begin

text \<open>
  Opening physical DM connections (\<^verbatim>\<open>dialects/dameng/open.go\<close> and the dial names of
  \<^verbatim>\<open>dialects/dameng/cancel.go\<close>) as a step relation.  Any number of attempts run at once, each at a
  program counter of \<^verbatim>\<open>Connect\<close>; they share the gate (a channel of capacity one), the counter and the
  free list of dial names.  A context can be cancelled at any moment.

  The driver itself is outside: whether a step that calls it succeeds is a choice of the relation.
  A dial name is its number; the code prints the number after a fixed prefix.
\<close>

section \<open>State and steps\<close>

text \<open>
  Where an attempt is: before the first test of its context, at the \<^verbatim>\<open>select\<close>, past it, inside the
  gate without and with a dial name, about to release the name after a failure, about to leave the
  gate (failed, or with the connection it keeps the name for, or without one), and outside again.
\<close>

datatype pc =
    Idle | Waiting | Entered | Inside | Named nat | Releasing nat | LeavingFailed | LeavingOpen nat | LeavingPlain
  | Failed | Plain | Connected nat | Closed

record gate =
  gs_full :: bool
  gs_pc :: "nat \<Rightarrow> pc"
  gs_cancelled :: "nat set"
  gs_count :: nat
  gs_free :: "nat list"

definition gate_init :: gate where
  "gate_init = \<lparr>gs_full = False, gs_pc = (\<lambda>_. Idle), gs_cancelled = {}, gs_count = 0, gs_free = []\<rparr>"

definition at :: "nat \<Rightarrow> pc \<Rightarrow> gate \<Rightarrow> gate" where
  "at p c s = s\<lparr>gs_pc := (gs_pc s)(p := c)\<rparr>"

definition leave_gate :: "gate \<Rightarrow> gate" where
  "leave_gate s = s\<lparr>gs_full := False\<rparr>"

text \<open>The last retired name is used again; only when there is none is a new one made.\<close>

definition take_name :: "gate \<Rightarrow> nat \<times> gate" where
  "take_name s =
     (if gs_free s \<noteq> [] then (last (gs_free s), s\<lparr>gs_free := butlast (gs_free s)\<rparr>)
      else (Suc (gs_count s), s\<lparr>gs_count := Suc (gs_count s)\<rparr>))"

definition retire_name :: "nat \<Rightarrow> gate \<Rightarrow> gate" where
  "retire_name n s = s\<lparr>gs_free := gs_free s @ [n]\<rparr>"

inductive gate_step :: "gate \<Rightarrow> gate \<Rightarrow> bool" where
  cancel: "gate_step s (s\<lparr>gs_cancelled := insert p (gs_cancelled s)\<rparr>)"
| ask_entry: "gs_pc s p = Idle \<Longrightarrow> p \<notin> gs_cancelled s \<Longrightarrow> gate_step s (at p Waiting s)"
| refuse: "gs_pc s p = Idle \<Longrightarrow> p \<in> gs_cancelled s \<Longrightarrow> gate_step s (at p Failed s)"
| acquire: "gs_pc s p = Waiting \<Longrightarrow> \<not> gs_full s \<Longrightarrow> gate_step s (at p Entered (s\<lparr>gs_full := True\<rparr>))"
| give_up: "gs_pc s p = Waiting \<Longrightarrow> p \<in> gs_cancelled s \<Longrightarrow> gate_step s (at p Failed s)"
| enter: "gs_pc s p = Entered \<Longrightarrow> p \<notin> gs_cancelled s \<Longrightarrow> gate_step s (at p Inside s)"
| back_out: "gs_pc s p = Entered \<Longrightarrow> p \<in> gs_cancelled s \<Longrightarrow> gate_step s (at p Failed (leave_gate s))"
| probe: "gs_pc s p = Inside \<Longrightarrow> gate_step s (at p LeavingPlain s)"
| register_name: "gs_pc s p = Inside \<Longrightarrow> gate_step s (at p (Named (fst (take_name s))) (snd (take_name s)))"
| fail: "gs_pc s p = Named n \<Longrightarrow> gate_step s (at p (Releasing n) s)"
| succeed: "gs_pc s p = Named n \<Longrightarrow> gate_step s (at p (LeavingOpen n) s)"
| release: "gs_pc s p = Releasing n \<Longrightarrow> gate_step s (at p LeavingFailed (retire_name n s))"
| leave_failed: "gs_pc s p = LeavingFailed \<Longrightarrow> gate_step s (at p Failed (leave_gate s))"
| leave_plain: "gs_pc s p = LeavingPlain \<Longrightarrow> gate_step s (at p Plain (leave_gate s))"
| leave_open: "gs_pc s p = LeavingOpen n \<Longrightarrow> gate_step s (at p (Connected n) (leave_gate s))"
| close_conn: "gs_pc s p = Connected n \<Longrightarrow> gate_step s (at p Closed (retire_name n s))"
| close_again: "gs_pc s p = Closed \<Longrightarrow> gate_step s s"

inductive_cases gate_stepE: "gate_step s s'"

abbreviation gate_steps :: "gate \<Rightarrow> gate \<Rightarrow> bool" where
  "gate_steps \<equiv> gate_step\<^sup>*\<^sup>*"

definition gate_reachable :: "gate \<Rightarrow> bool" where
  "gate_reachable s = gate_steps gate_init s"

text \<open>Who is inside the gate, and which dial name an attempt holds.\<close>

fun inside :: "pc \<Rightarrow> bool" where
  "inside Entered = True" | "inside Inside = True" | "inside (Named n) = True" | "inside (Releasing n) = True"
| "inside LeavingFailed = True" | "inside (LeavingOpen n) = True" | "inside LeavingPlain = True" | "inside _ = False"

fun held_name :: "pc \<Rightarrow> nat option" where
  "held_name (Named n) = Some n" | "held_name (Releasing n) = Some n" | "held_name (LeavingOpen n) = Some n"
| "held_name (Connected n) = Some n" | "held_name _ = None"

definition used_names :: "gate \<Rightarrow> nat set" where
  "used_names s = {n. \<exists>p. held_name (gs_pc s p) = Some n}"

section \<open>The invariant\<close>

definition gate_ok :: "gate \<Rightarrow> bool" where
  "gate_ok s =
     ((\<forall>p q. inside (gs_pc s p) \<longrightarrow> inside (gs_pc s q) \<longrightarrow> p = q)
      \<and> (gs_full s \<longleftrightarrow> (\<exists>p. inside (gs_pc s p))))"

definition names_ok :: "gate \<Rightarrow> bool" where
  "names_ok s =
     ((\<forall>p q n. held_name (gs_pc s p) = Some n \<longrightarrow> held_name (gs_pc s q) = Some n \<longrightarrow> p = q)
      \<and> distinct (gs_free s) \<and> set (gs_free s) \<inter> used_names s = {}
      \<and> set (gs_free s) \<union> used_names s = {1..gs_count s})"

named_theorems gate_defs
lemmas [gate_defs] = at_def leave_gate_def retire_name_def take_name_def

lemma at_simps [simp]:
  "gs_pc (at p c s) = (gs_pc s)(p := c)" "gs_full (at p c s) = gs_full s" "gs_cancelled (at p c s) = gs_cancelled s"
  "gs_count (at p c s) = gs_count s" "gs_free (at p c s) = gs_free s"
  by (simp_all add: at_def)

lemma leave_gate_simps [simp]:
  "gs_pc (leave_gate s) = gs_pc s" "\<not> gs_full (leave_gate s)" "gs_count (leave_gate s) = gs_count s"
  "gs_free (leave_gate s) = gs_free s"
  by (simp_all add: leave_gate_def)

lemma retire_name_simps [simp]:
  "gs_pc (retire_name n s) = gs_pc s" "gs_full (retire_name n s) = gs_full s" "gs_count (retire_name n s) = gs_count s"
  "gs_free (retire_name n s) = gs_free s @ [n]"
  by (simp_all add: retire_name_def)

lemma take_name_simps [simp]:
  "gs_pc (snd (take_name s)) = gs_pc s" "gs_full (snd (take_name s)) = gs_full s"
  by (simp_all add: take_name_def)

text \<open>A step that moves one attempt and keeps who is inside keeps the exclusion.\<close>

lemma gate_ok_at: "gate_ok s \<Longrightarrow> inside c = inside (gs_pc s p) \<Longrightarrow> gate_ok (at p c s)"
proof -
  assume "gate_ok s" and c: "inside c = inside (gs_pc s p)"
  moreover have "inside (gs_pc (at p c s) q) = inside (gs_pc s q)" for q using c by simp
  ultimately show ?thesis by (simp add: gate_ok_def del: at_simps(1))
qed

lemma gate_ok_leave: "gate_ok s \<Longrightarrow> inside (gs_pc s p) \<Longrightarrow> \<not> inside c \<Longrightarrow> gate_ok (at p c (leave_gate s))"
  unfolding gate_ok_def by (auto simp del: fun_upd_apply simp: fun_upd_apply split: if_splits)

lemma gate_ok_enter: "gate_ok s \<Longrightarrow> \<not> gs_full s \<Longrightarrow> inside c \<Longrightarrow> gate_ok (at p c (s\<lparr>gs_full := True\<rparr>))"
  unfolding gate_ok_def by (auto split: if_splits)

lemma gate_ok_take: "gate_ok s \<Longrightarrow> gate_ok (snd (take_name s))"
  by (simp add: gate_ok_def)

lemma gate_ok_retire: "gate_ok s \<Longrightarrow> gate_ok (retire_name n s)"
  by (simp add: gate_ok_def)

lemma gate_ok_step: "gate_step s s' \<Longrightarrow> gate_ok s \<Longrightarrow> gate_ok s'"
proof (induction rule: gate_step.induct)
  case (cancel s p)
  then show ?case by (simp add: gate_ok_def)
next
  case (acquire s p)
  then show ?case by (simp add: gate_ok_enter)
qed (simp_all add: gate_ok_at gate_ok_leave gate_ok_take gate_ok_retire)

text \<open>What holds at the start and is kept by every step holds in every reachable state.\<close>

lemma gate_reachable_induct [consumes 1, case_names init step]:
  assumes "gate_reachable s" "P gate_init" "\<And>s s'. gate_reachable s \<Longrightarrow> P s \<Longrightarrow> gate_step s s' \<Longrightarrow> P s'"
  shows "P s"
  using assms(1) unfolding gate_reachable_def
  by (induction rule: rtranclp_induct) (use assms(2,3) in \<open>auto simp: gate_reachable_def\<close>)

lemma gate_ok_init: "gate_ok gate_init"
  by (simp add: gate_ok_def gate_init_def)

lemma gate_ok_reachable: "gate_reachable s \<Longrightarrow> gate_ok s"
  by (erule gate_reachable_induct) (simp_all add: gate_ok_init gate_ok_step)

text \<open>The names: a step that moves one attempt and keeps its name keeps everything.\<close>

lemma names_ok_at: "names_ok s \<Longrightarrow> held_name c = held_name (gs_pc s p) \<Longrightarrow> names_ok (at p c s)"
proof -
  assume "names_ok s" and c: "held_name c = held_name (gs_pc s p)"
  moreover have h: "held_name (gs_pc (at p c s) q) = held_name (gs_pc s q)" for q using c by simp
  moreover have "used_names (at p c s) = used_names s" by (simp only: used_names_def h)
  ultimately show ?thesis by (simp add: names_ok_def del: at_simps(1))
qed

lemma names_ok_gate [simp]: "names_ok (leave_gate s) = names_ok s" "names_ok (s\<lparr>gs_full := b\<rparr>) = names_ok s"
  by (simp_all add: names_ok_def used_names_def)

text \<open>How the names in use change when one attempt moves.\<close>

lemma held_elsewhere: "held_name (gs_pc (at p c s) q) = (if q = p then held_name c else held_name (gs_pc s q))"
  by simp

lemma used_names_at:
  "used_names (at p c s) = {n. held_name c = Some n \<or> (\<exists>q. q \<noteq> p \<and> held_name (gs_pc s q) = Some n)}"
  unfolding used_names_def held_elsewhere by (auto split: if_splits)

lemma used_names_take:
  assumes "held_name (gs_pc s p) = None" "held_name c = Some n"
  shows "used_names (at p c s) = insert n (used_names s)"
proof -
  have "(\<exists>q. q \<noteq> p \<and> held_name (gs_pc s q) = Some m) = (\<exists>q. held_name (gs_pc s q) = Some m)" for m
    using assms(1) by (metis option.distinct(1))
  then show ?thesis unfolding used_names_at assms(2) by (auto simp: used_names_def)
qed

lemma used_names_drop:
  assumes ok: "names_ok s" and p: "held_name (gs_pc s p) = Some n" "held_name c = None"
  shows "used_names (at p c s) = used_names s - {n}"
proof -
  have inj: "\<forall>p q n. held_name (gs_pc s p) = Some n \<longrightarrow> held_name (gs_pc s q) = Some n \<longrightarrow> p = q"
    using ok by (simp add: names_ok_def)
  have "(\<exists>q. q \<noteq> p \<and> held_name (gs_pc s q) = Some m) \<longleftrightarrow> (\<exists>q. held_name (gs_pc s q) = Some m) \<and> m \<noteq> n" for m
    using inj p(1) by (metis option.inject)
  then show ?thesis unfolding used_names_at p(2) by (auto simp: used_names_def)
qed

lemma used_names_fields [simp]:
  "used_names (retire_name n s) = used_names s" "used_names (snd (take_name s)) = used_names s"
  by (simp_all add: used_names_def)

lemma take_name_fresh:
  assumes "distinct free" "set free \<inter> U = {}" "set free \<union> U = {1..n}"
  shows "free = [] \<Longrightarrow> Suc n \<notin> U \<and> insert (Suc n) U = {1..Suc n}"
    and "free \<noteq> [] \<Longrightarrow> last free \<notin> U \<and> distinct (butlast free) \<and> set (butlast free) \<inter> insert (last free) U = {}
           \<and> set (butlast free) \<union> insert (last free) U = {1..n}"
proof -
  assume "free = []"
  then have "U = {1..n}" using assms(3) by simp
  then show "Suc n \<notin> U \<and> insert (Suc n) U = {1..Suc n}" by auto
next
  assume "free \<noteq> []"
  then obtain xs x where f: "free = xs @ [x]" by (meson rev_exhaust)
  have "set xs \<union> insert x U = {1..n}" using assms(3) f by auto
  then show "last free \<notin> U \<and> distinct (butlast free) \<and> set (butlast free) \<inter> insert (last free) U = {}
           \<and> set (butlast free) \<union> insert (last free) U = {1..n}"
    using assms(1,2) f by auto
qed

lemma names_ok_take:
  assumes ok: "names_ok s" and p: "gs_pc s p = Inside"
  shows "names_ok (at p (Named (fst (take_name s))) (snd (take_name s)))" (is "names_ok ?s'")
proof -
  let ?n = "fst (take_name s)"
  have used: "used_names ?s' = insert ?n (used_names s)"
    by (subst used_names_take [of _ _ _ ?n]) (simp_all add: p)
  have inj: "\<forall>p q n. held_name (gs_pc s p) = Some n \<longrightarrow> held_name (gs_pc s q) = Some n \<longrightarrow> p = q"
    and free: "distinct (gs_free s)" "set (gs_free s) \<inter> used_names s = {}" "set (gs_free s) \<union> used_names s = {1..gs_count s}"
    using ok by (simp_all add: names_ok_def)
  note fresh = take_name_fresh [OF free]
  have facts: "?n \<notin> used_names s \<and> distinct (gs_free ?s') \<and> set (gs_free ?s') \<inter> insert ?n (used_names s) = {}
    \<and> set (gs_free ?s') \<union> insert ?n (used_names s) = {1..gs_count ?s'}"
  proof (cases "gs_free s = []")
    case True
    then show ?thesis using fresh(1) by (simp add: take_name_def)
  next
    case False
    then show ?thesis using fresh(2) by (simp add: take_name_def)
  qed
  have one: "held_name (gs_pc s q) \<noteq> Some ?n" for q using facts by (auto simp: used_names_def)
  have "\<forall>q r m. held_name (gs_pc ?s' q) = Some m \<longrightarrow> held_name (gs_pc ?s' r) = Some m \<longrightarrow> q = r"
    unfolding held_elsewhere take_name_simps using inj one by (metis held_name.simps(1) option.inject)
  then show ?thesis unfolding names_ok_def used using facts by blast
qed

lemma names_ok_retire:
  assumes ok: "names_ok s" and p: "held_name (gs_pc s p) = Some n" "held_name c = None"
  shows "names_ok (at p c (retire_name n s))" (is "names_ok ?s'")
proof -
  have "used_names ?s' = used_names (at p c s)" unfolding used_names_def held_elsewhere retire_name_simps ..
  then have used: "used_names ?s' = used_names s - {n}" unfolding used_names_drop [OF ok p] .
  have n: "n \<in> used_names s" unfolding used_names_def using p(1) by blast
  have inj: "\<forall>p q n. held_name (gs_pc s p) = Some n \<longrightarrow> held_name (gs_pc s q) = Some n \<longrightarrow> p = q"
    and free: "distinct (gs_free s)" "set (gs_free s) \<inter> used_names s = {}" "set (gs_free s) \<union> used_names s = {1..gs_count s}"
    using ok unfolding names_ok_def by blast+
  have fields: "gs_free ?s' = gs_free s @ [n]" "gs_count ?s' = gs_count s" by simp_all
  have "distinct (gs_free s @ [n])" using free(1,2) n by auto
  moreover have "set (gs_free s @ [n]) \<inter> (used_names s - {n}) = {}" using free(2) by auto
  moreover have "set (gs_free s @ [n]) \<union> (used_names s - {n}) = {1..gs_count s}"
    unfolding free(3) [symmetric] using n by auto
  moreover have "\<forall>q r m. held_name (gs_pc ?s' q) = Some m \<longrightarrow> held_name (gs_pc ?s' r) = Some m \<longrightarrow> q = r"
    unfolding held_elsewhere p(2) retire_name_simps using inj by (metis option.distinct(1))
  ultimately show ?thesis unfolding names_ok_def used fields by blast
qed

lemma names_ok_step: "gate_step s s' \<Longrightarrow> names_ok s \<Longrightarrow> names_ok s'"
proof (induction rule: gate_step.induct)
  case (cancel s p)
  then show ?case by (simp add: names_ok_def used_names_def)
next
  case (register_name s p)
  then show ?case by (simp add: names_ok_take)
next
  case (release s p n)
  then show ?case by (simp add: names_ok_retire)
next
  case (close_conn s p n)
  then show ?case by (simp add: names_ok_retire)
qed (simp_all add: names_ok_at)

lemma names_ok_init: "names_ok gate_init"
  by (simp add: names_ok_def gate_init_def used_names_def)

lemma names_ok_reachable: "gate_reachable s \<Longrightarrow> names_ok s"
  by (erule gate_reachable_induct) (simp_all add: names_ok_init names_ok_step)

section \<open>A run of two attempts\<close>

lemma gate_reachable_init: "gate_reachable gate_init"
  by (simp add: gate_reachable_def)

lemma gate_reachable_step: "gate_reachable s \<Longrightarrow> gate_step s s' \<Longrightarrow> gate_reachable s'"
  by (simp add: gate_reachable_def)

text \<open>The first attempt has connected under the name 1, the second is inside with the name 2.\<close>

definition two_attempts :: gate where
  "two_attempts =
     \<lparr>gs_full = True, gs_pc = (\<lambda>_. Idle)(0 := Connected 1, 1 := Named 2), gs_cancelled = {}, gs_count = 2, gs_free = []\<rparr>"

lemma first_connected:
  "gate_reachable \<lparr>gs_full = False, gs_pc = (\<lambda>_. Idle)(0 := Connected 1), gs_cancelled = {}, gs_count = 1, gs_free = []\<rparr>"
proof -
  let ?s = "\<lambda>full c n. \<lparr>gs_full = full, gs_pc = (\<lambda>_. Idle)(0 := c), gs_cancelled = {}, gs_count = n, gs_free = []\<rparr>"
  have "gate_reachable (?s False Waiting 0)"
    using gate_reachable_step [OF gate_reachable_init ask_entry [of gate_init 0]] by (simp add: gate_init_def at_def)
  then have "gate_reachable (?s True Entered 0)"
    using gate_reachable_step [OF _ acquire [of "?s False Waiting 0" 0]] by (simp add: at_def)
  then have "gate_reachable (?s True Inside 0)"
    using gate_reachable_step [OF _ enter [of "?s True Entered 0" 0]] by (simp add: at_def)
  then have "gate_reachable (?s True (Named 1) 1)"
    using gate_reachable_step [OF _ register_name [of "?s True Inside 0" 0]] by (simp add: at_def take_name_def)
  then have "gate_reachable (?s True (LeavingOpen 1) 1)"
    using gate_reachable_step [OF _ succeed [of "?s True (Named 1) 1" 0]] by (simp add: at_def)
  then show ?thesis
    using gate_reachable_step [OF _ leave_open [of "?s True (LeavingOpen 1) 1" 0]] by (simp add: at_def leave_gate_def)
qed

lemma two_attempts_reachable: "gate_reachable two_attempts"
proof -
  let ?s = "\<lambda>full c n. \<lparr>gs_full = full, gs_pc = (\<lambda>_. Idle)(0 := Connected 1, 1 := c), gs_cancelled = {}, gs_count = n, gs_free = []\<rparr>"
  have "gate_reachable (?s False Waiting 1)"
    using gate_reachable_step [OF first_connected ask_entry [where p = 1]] by (simp add: at_def)
  then have "gate_reachable (?s True Entered 1)"
    using gate_reachable_step [OF _ acquire [of "?s False Waiting 1" 1]] by (simp add: at_def)
  then have "gate_reachable (?s True Inside 1)"
    using gate_reachable_step [OF _ enter [of "?s True Entered 1" 1]] by (simp add: at_def)
  then show ?thesis
    using gate_reachable_step [OF _ register_name [of "?s True Inside 1" 1]]
    by (simp add: at_def take_name_def two_attempts_def numeral_2_eq_2)
qed

section \<open>Properties\<close>

text \<open>
  C7: At any moment at most one attempt is inside the connection gate, the gate is full exactly then,
  and no two connections or attempts share a dial name: every name made so far is either retired, once, or
  held by one of them.
\<close>

theorem gate_and_names_exclusive:
  assumes "gate_reachable s"
  shows "(\<forall>p q. inside (gs_pc s p) \<longrightarrow> inside (gs_pc s q) \<longrightarrow> p = q)
    \<and> (gs_full s \<longleftrightarrow> (\<exists>p. inside (gs_pc s p)))
    \<and> (\<forall>p q n. held_name (gs_pc s p) = Some n \<longrightarrow> held_name (gs_pc s q) = Some n \<longrightarrow> p = q)
    \<and> distinct (gs_free s) \<and> set (gs_free s) \<inter> used_names s = {}
    \<and> set (gs_free s) \<union> used_names s = {1..gs_count s}"
  using gate_ok_reachable [OF assms] names_ok_reachable [OF assms] by (simp add: gate_ok_def names_ok_def)

lemma gate_and_names_exclusive_witness:
  "gs_full two_attempts \<longleftrightarrow> (\<exists>p. inside (gs_pc two_attempts p))"
  using gate_and_names_exclusive [OF two_attempts_reachable] by blast

lemma register_high_water:
  assumes "names_ok s" "gs_pc s p = Inside" "gs_count (snd (take_name s)) \<noteq> gs_count s"
  shows "card (used_names (at p (Named (fst (take_name s))) (snd (take_name s)))) = gs_count (snd (take_name s))"
    (is "card (used_names ?s') = _")
proof -
  have "gs_free s = []" using assms(3) by (cases "gs_free s = []") (simp_all add: take_name_def)
  then have free: "gs_free (snd (take_name s)) = []" by (simp add: take_name_def)
  have "set (gs_free ?s') \<union> used_names ?s' = {1..gs_count ?s'}"
    using names_ok_take [OF assms(1,2)] unfolding names_ok_def by blast
  then have "used_names ?s' = {1..gs_count (snd (take_name s))}" unfolding at_simps free by simp
  then show ?thesis by simp
qed

text \<open>
  The registry of dial names is bounded by the high-water mark of concurrently allocated connections:
  at some moment of the run as many names were held at once as have ever been made.
\<close>

theorem dial_names_bounded:
  assumes "gate_reachable s"
  shows "\<exists>s'. gate_reachable s' \<and> gate_steps s' s \<and> card (used_names s') = gs_count s"
  using assms
proof (induction rule: gate_reachable_induct)
  case init
  have "used_names gate_init = {}" by (simp add: used_names_def gate_init_def)
  then have "gate_reachable gate_init \<and> gate_steps gate_init gate_init \<and> card (used_names gate_init) = gs_count gate_init"
    by (simp add: gate_reachable_init) (simp add: gate_init_def)
  then show ?case ..
next
  case (step s s')
  then obtain m where m: "gate_reachable m" "gate_steps m s" "card (used_names m) = gs_count s" by blast
  show ?case
  proof (cases "gs_count s' = gs_count s")
    case True
    then show ?thesis using m(1,3) rtranclp.rtrancl_into_rtrancl [OF m(2) step(2)] by auto
  next
    case False
    from step(2) obtain p where p: "gs_pc s p = Inside" "s' = at p (Named (fst (take_name s))) (snd (take_name s))"
      by (rule gate_stepE) (use False in auto)
    have "card (used_names s') = gs_count s'"
      using register_high_water [OF names_ok_reachable [OF step(1)] p(1)] False p(2) by simp
    then show ?thesis using gate_reachable_step [OF step(1,2)] by blast
  qed
qed

lemma dial_names_bounded_witness:
  "\<exists>s'. gate_reachable s' \<and> gate_steps s' two_attempts \<and> card (used_names s') = 2"
  using dial_names_bounded [OF two_attempts_reachable] by (simp add: two_attempts_def)

text \<open>
  The specification: a lock with an owner, and a lease of a name to each attempt; a name is leased only while
  nobody holds it, and only by the owner of the lock.
\<close>

record lease_spec =
  ls_owner :: "nat option"
  ls_lease :: "nat \<rightharpoonup> nat"

inductive lease_step :: "lease_spec \<Rightarrow> lease_spec \<Rightarrow> bool" where
  lock: "ls_owner a = None \<Longrightarrow> lease_step a (a\<lparr>ls_owner := Some p\<rparr>)"
| unlock: "ls_owner a = Some p \<Longrightarrow> lease_step a (a\<lparr>ls_owner := None\<rparr>)"
| lease: "ls_owner a = Some p \<Longrightarrow> ls_lease a p = None \<Longrightarrow> n \<notin> ran (ls_lease a) \<Longrightarrow>
    lease_step a (a\<lparr>ls_lease := (ls_lease a)(p \<mapsto> n)\<rparr>)"
| give_back: "ls_lease a p = Some n \<Longrightarrow> lease_step a (a\<lparr>ls_lease := (ls_lease a)(p := None)\<rparr>)"

definition lease_rel :: "gate \<Rightarrow> lease_spec \<Rightarrow> bool" where
  "lease_rel s a = ((\<forall>p. ls_owner a = Some p \<longleftrightarrow> inside (gs_pc s p)) \<and> ls_lease a = (\<lambda>p. held_name (gs_pc s p)))"

lemma lease_rel_at:
  "lease_rel s a \<Longrightarrow> inside c = inside (gs_pc s p) \<Longrightarrow> held_name c = held_name (gs_pc s p) \<Longrightarrow> lease_rel (at p c s) a"
  by (auto simp: lease_rel_def fun_eq_iff)

lemma lease_rel_gate [simp]:
  "lease_rel (leave_gate s) = lease_rel s" "lease_rel (s\<lparr>gs_full := b\<rparr>) = lease_rel s"
  "lease_rel (retire_name n s) = lease_rel s" "lease_rel (snd (take_name s)) = lease_rel s"
  "lease_rel (s\<lparr>gs_cancelled := cs\<rparr>) = lease_rel s"
  by (auto simp: lease_rel_def fun_eq_iff)

lemma lease_rel_unlock:
  assumes "lease_rel s a" "inside (gs_pc s p)" "\<not> inside c" "held_name c = held_name (gs_pc s p)" "gate_ok s"
  shows "ls_owner a = Some p \<and> lease_rel (at p c s) (a\<lparr>ls_owner := None\<rparr>)"
  using assms by (auto simp: lease_rel_def gate_ok_def fun_eq_iff)

lemma lease_rel_lock:
  assumes "lease_rel s a" "\<not> gs_full s" "gate_ok s" "inside c" "held_name c = held_name (gs_pc s p)"
  shows "ls_owner a = None \<and> lease_rel (at p c s) (a\<lparr>ls_owner := Some p\<rparr>)"
proof -
  have none: "\<not> inside (gs_pc s q)" for q using assms(2,3) by (simp add: gate_ok_def)
  then have "ls_owner a = None" using assms(1) by (cases "ls_owner a") (auto simp: lease_rel_def)
  then show ?thesis using assms none by (auto simp: lease_rel_def fun_eq_iff)
qed

lemma lease_rel_name:
  assumes "lease_rel s a" "inside c = inside (gs_pc s p)"
  shows "lease_rel (at p c s) (a\<lparr>ls_lease := (ls_lease a)(p := held_name c)\<rparr>)"
  using assms by (auto simp: lease_rel_def fun_eq_iff)

text \<open>
  C23: The gate with its free list of names implements the specification: every step of the code is a step of
  the lock and leases, or leaves them as they are.
\<close>

theorem gate_refines_leases:
  assumes "gate_step s s'" "gate_reachable s" "lease_rel s a"
  shows "\<exists>a'. (lease_step a a' \<or> a' = a) \<and> lease_rel s' a'"
  using assms(1)
proof (rule gate_stepE)
  fix p assume p: "s' = at p Entered (s\<lparr>gs_full := True\<rparr>)" "gs_pc s p = Waiting" "\<not> gs_full s"
  have "ls_owner a = None \<and> lease_rel (at p Entered s) (a\<lparr>ls_owner := Some p\<rparr>)"
    by (rule lease_rel_lock) (use p assms(3) gate_ok_reachable [OF assms(2)] in simp_all)
  moreover have "at p Entered (s\<lparr>gs_full := True\<rparr>) = (at p Entered s)\<lparr>gs_full := True\<rparr>" by (simp add: at_def)
  ultimately show ?thesis using lock p(1) by (metis lease_rel_gate(2))
next
  fix p assume p: "s' = at p Failed (leave_gate s)" "gs_pc s p = Entered"
  have "ls_owner a = Some p \<and> lease_rel (at p Failed (leave_gate s)) (a\<lparr>ls_owner := None\<rparr>)"
    using lease_rel_unlock [OF assms(3), of p Failed] p gate_ok_reachable [OF assms(2)] by (simp add: at_def leave_gate_def lease_rel_def)
  then show ?thesis using unlock p(1) by blast
next
  fix p assume p: "s' = at p Failed (leave_gate s)" "gs_pc s p = LeavingFailed"
  have "ls_owner a = Some p \<and> lease_rel (at p Failed (leave_gate s)) (a\<lparr>ls_owner := None\<rparr>)"
    using lease_rel_unlock [OF assms(3), of p Failed] p gate_ok_reachable [OF assms(2)] by (simp add: at_def leave_gate_def lease_rel_def)
  then show ?thesis using unlock p(1) by blast
next
  fix p assume p: "s' = at p Plain (leave_gate s)" "gs_pc s p = LeavingPlain"
  have "ls_owner a = Some p \<and> lease_rel (at p Plain (leave_gate s)) (a\<lparr>ls_owner := None\<rparr>)"
    using lease_rel_unlock [OF assms(3), of p Plain] p gate_ok_reachable [OF assms(2)] by (simp add: at_def leave_gate_def lease_rel_def)
  then show ?thesis using unlock p(1) by blast
next
  fix p n assume p: "s' = at p (Connected n) (leave_gate s)" "gs_pc s p = LeavingOpen n"
  have "ls_owner a = Some p \<and> lease_rel (at p (Connected n) (leave_gate s)) (a\<lparr>ls_owner := None\<rparr>)"
    using lease_rel_unlock [OF assms(3), of p "Connected n"] p gate_ok_reachable [OF assms(2)] by (simp add: at_def leave_gate_def lease_rel_def)
  then show ?thesis using unlock p(1) by blast
next
  fix p assume p: "s' = at p (Named (fst (take_name s))) (snd (take_name s))" "gs_pc s p = Inside"
  let ?n = "fst (take_name s)"
  have "?n \<notin> used_names s"
    using take_name_fresh [of "gs_free s" "used_names s" "gs_count s"] names_ok_reachable [OF assms(2)]
    by (auto simp: names_ok_def take_name_def)
  then have "?n \<notin> ran (ls_lease a)" using assms(3) by (auto simp: lease_rel_def ran_def used_names_def)
  moreover have "ls_owner a = Some p" "ls_lease a p = None" using assms(3) p(2) by (auto simp: lease_rel_def)
  moreover have "lease_rel s' (a\<lparr>ls_lease := (ls_lease a)(p \<mapsto> ?n)\<rparr>)"
    using lease_rel_name [of "snd (take_name s)" a "Named ?n" p] assms(3) p by simp
  ultimately show ?thesis using lease by blast
next
  fix p n assume p: "s' = at p LeavingFailed (retire_name n s)" "gs_pc s p = Releasing n"
  have "ls_lease a p = Some n" using assms(3) p(2) by (simp add: lease_rel_def)
  moreover have "lease_rel s' (a\<lparr>ls_lease := (ls_lease a)(p := None)\<rparr>)"
    using lease_rel_name [of "retire_name n s" a LeavingFailed p] assms(3) p by simp
  ultimately show ?thesis using give_back by blast
next
  fix p n assume p: "s' = at p Closed (retire_name n s)" "gs_pc s p = Connected n"
  have "ls_lease a p = Some n" using assms(3) p(2) by (simp add: lease_rel_def)
  moreover have "lease_rel s' (a\<lparr>ls_lease := (ls_lease a)(p := None)\<rparr>)"
    using lease_rel_name [of "retire_name n s" a Closed p] assms(3) p by simp
  ultimately show ?thesis using give_back by blast
qed (use assms(3) in \<open>auto intro!: exI [of _ a] lease_rel_at\<close>)

lemma gate_refines_leases_witness:
  "\<exists>a'. (lease_step \<lparr>ls_owner = None, ls_lease = Map.empty\<rparr> a' \<or> a' = \<lparr>ls_owner = None, ls_lease = Map.empty\<rparr>)
     \<and> lease_rel (at 0 Waiting gate_init) a'"
  by (rule gate_refines_leases [of gate_init])
    (auto simp: gate_reachable_init gate_init_def lease_rel_def intro: ask_entry gate_reachable_init [unfolded gate_init_def])

text \<open>How far an attempt is from the end; every step inside the gate comes closer to it.\<close>

fun rank :: "pc \<Rightarrow> nat" where
  "rank Idle = 8" | "rank Waiting = 7" | "rank Entered = 6" | "rank Inside = 5" | "rank (Named n) = 4"
| "rank (Releasing n) = 3" | "rank LeavingFailed = 2" | "rank (LeavingOpen n) = 2" | "rank LeavingPlain = 2"
| "rank (Connected n) = 1" | "rank _ = 0"

lemma holder_step:
  assumes "inside (gs_pc s p)"
  obtains s' c where "gate_step s s'" "gs_pc s' = (gs_pc s)(p := c)" "rank c < rank (gs_pc s p)"
    "inside c \<or> \<not> gs_full s'"
proof (cases "gs_pc s p")
  case Entered
  show ?thesis
  proof (cases "p \<in> gs_cancelled s")
    case True
    show ?thesis by (rule that [OF back_out [OF Entered True], of Failed]) (simp_all add: Entered)
  next
    case False
    show ?thesis by (rule that [OF enter [OF Entered False], of Inside]) (simp_all add: Entered)
  qed
next
  case Inside
  show ?thesis by (rule that [OF probe [OF Inside], of LeavingPlain]) (simp_all add: Inside)
next
  case (Named n)
  show ?thesis by (rule that [OF fail [OF Named], of "Releasing n"]) (simp_all add: Named)
next
  case (Releasing n)
  show ?thesis by (rule that [OF release [OF Releasing], of LeavingFailed]) (simp_all add: Releasing)
next
  case LeavingFailed
  show ?thesis by (rule that [OF leave_failed [OF LeavingFailed], of Failed]) (simp_all add: LeavingFailed)
next
  case (LeavingOpen n)
  show ?thesis by (rule that [OF leave_open [OF LeavingOpen], of "Connected n"]) (simp_all add: LeavingOpen)
next
  case LeavingPlain
  show ?thesis by (rule that [OF leave_plain [OF LeavingPlain], of Plain]) (simp_all add: LeavingPlain)
qed (use assms in simp_all)

lemma holder_leaves:
  "inside (gs_pc s p) \<Longrightarrow> \<exists>s' c. gate_steps s s' \<and> \<not> gs_full s' \<and> gs_pc s' = (gs_pc s)(p := c)"
proof (induction "rank (gs_pc s p)" arbitrary: s rule: less_induct)
  case less
  obtain s1 c where s1: "gate_step s s1" "gs_pc s1 = (gs_pc s)(p := c)" "rank c < rank (gs_pc s p)" "inside c \<or> \<not> gs_full s1"
    using holder_step [OF less.prems] .
  show ?case
  proof (cases "inside c")
    case True
    then obtain s' c' where "gate_steps s1 s'" "\<not> gs_full s'" "gs_pc s' = (gs_pc s1)(p := c')"
      using less.hyps [of s1] s1(2,3) by auto
    then show ?thesis using s1(1,2) by (metis converse_rtranclp_into_rtranclp fun_upd_upd)
  next
    case False
    then show ?thesis using s1 by blast
  qed
qed

text \<open>
  C24: No attempt is locked out: from every state the program can reach, an attempt that waits at the gate
  can still enter it, because whoever is inside can always go on to leave.
\<close>

theorem waiting_can_enter:
  assumes "gate_reachable s" "gs_pc s p = Waiting"
  shows "\<exists>s'. gate_steps s s' \<and> gs_pc s' p = Entered"
proof -
  have free: "\<exists>s'. gate_steps s s' \<and> \<not> gs_full s' \<and> gs_pc s' p = Waiting"
  proof (cases "gs_full s")
    case True
    then obtain q where q: "inside (gs_pc s q)" using gate_ok_reachable [OF assms(1)] by (auto simp: gate_ok_def)
    then have "q \<noteq> p" using assms(2) by auto
    then show ?thesis using holder_leaves [OF q] assms(2) by auto
  next
    case False
    then show ?thesis using assms(2) by blast
  qed
  then obtain s' where s': "gate_steps s s'" "\<not> gs_full s'" "gs_pc s' p = Waiting" by blast
  have "gate_steps s (at p Entered (s'\<lparr>gs_full := True\<rparr>))"
    using s'(1) acquire [OF s'(3,2)] by (rule rtranclp.rtrancl_into_rtrancl)
  then show ?thesis by (intro exI [of _ "at p Entered (s'\<lparr>gs_full := True\<rparr>)"]) simp
qed

lemma waiting_can_enter_witness:
  "\<exists>s'. gate_steps (at 5 Waiting two_attempts) s' \<and> gs_pc s' 5 = Entered"
  by (rule waiting_can_enter)
    (auto simp: two_attempts_def intro!: gate_reachable_step [OF two_attempts_reachable [unfolded two_attempts_def]] ask_entry)

end
