(* ===== verification/Cancellation.thy ===== *)
theory Cancellation
  imports GoPrelude
begin

text \<open>
  The cancellation-safe connection of \<^verbatim>\<open>dialects/dameng/cancel.go\<close>: the socket state a connection shares
  with its dialer and its watchers, the rewriting of the connection URL, and one call on the connection
  (\<^verbatim>\<open>connectionCall\<close>) as a step relation of two goroutines, the caller and the watcher that
  \<^verbatim>\<open>context.AfterFunc\<close> starts.

  The driver's call returns any result, and may close its socket while it runs.  The pool of
  \<^verbatim>\<open>database/sql\<close> makes no two calls on a connection at once.
\<close>

section \<open>The socket\<close>

text \<open>The current network connection, the flag, and the network connections closed so far.\<close>

record socket =
  so_conn :: "nat option"
  so_invalid :: bool
  so_closed :: "nat set"

definition new_socket :: socket where
  "new_socket = \<lparr>so_conn = None, so_invalid = False, so_closed = {}\<rparr>"

text \<open>\<^verbatim>\<open>trackedSocket.Close\<close> marks the shared state and closes the network connection once.\<close>

definition tracked_close :: "nat \<Rightarrow> socket \<Rightarrow> socket" where
  "tracked_close n so = so\<lparr>so_invalid := True, so_closed := insert n (so_closed so)\<rparr>"

definition socket_abort :: "socket \<Rightarrow> socket" where
  "socket_abort so =
     (let so = so\<lparr>so_invalid := True\<rparr> in case so_conn so of Some n \<Rightarrow> tracked_close n so | None \<Rightarrow> so)"

datatype conn_err = BadConn | Canceled | DriverErr nat

text \<open>
  The dial function that \<^verbatim>\<open>registerSocketDial\<close> registers.  \<open>connecting\<close> is the flag of the request,
  \<open>dialed\<close> what the network answers.
\<close>

definition socket_dial :: "bool \<Rightarrow> conn_err + nat \<Rightarrow> socket \<Rightarrow> (conn_err + nat) \<times> socket" where
  "socket_dial connecting dialed so =
     (if \<not> connecting then (Inl BadConn, socket_abort so)
      else case dialed of
             Inl e \<Rightarrow> (Inl e, so)
           | Inr n \<Rightarrow>
              (let previous = so_conn so;
                   so = so\<lparr>so_conn := Some n\<rparr>;
                   invalid = so_invalid so;
                   so = (case previous of Some m \<Rightarrow> tracked_close m so | None \<Rightarrow> so)
               in if invalid then (Inl BadConn, tracked_close n so) else (Inr n, so)))"

lemma socket_abort_invalid [simp]: "so_invalid (socket_abort so)"
  by (simp add: socket_abort_def tracked_close_def Let_def split: option.splits)

lemma socket_abort_closes: "so_conn so = Some n \<Longrightarrow> n \<in> so_closed (socket_abort so)"
  by (simp add: socket_abort_def tracked_close_def)

text \<open>A socket once marked stays so, and a dial on it never yields a connection.\<close>

lemma socket_dial_invalid:
  "so_invalid so \<Longrightarrow> so_invalid (snd (socket_dial c d so)) \<and> (\<exists>e. fst (socket_dial c d so) = Inl e)"
  by (auto simp: socket_dial_def tracked_close_def Let_def split: sum.splits option.splits)

text \<open>The second dial of one connection attempt succeeds and leaves the shared state marked.\<close>

lemma second_dial_marks:
  assumes "socket_dial True (Inr m) new_socket = (Inr m, so)"
  shows "fst (socket_dial True (Inr n) so) = Inr n \<and> so_invalid (snd (socket_dial True (Inr n) so))"
  using assms by (auto simp: socket_dial_def new_socket_def tracked_close_def)

section \<open>The connection URL\<close>

text \<open>
  The query of the parsed URL is a map from keys to value lists, in the order of the range over it.
  The result is the query with the dial name, and the timeout in seconds; \<open>None\<close> when another dial
  name is set.  \<^verbatim>\<open>q.Del\<close> of the visited key does not disturb the range.
\<close>

type_synonym url_query = "(string \<times> string list) list"

definition equal_fold :: "string \<Rightarrow> string \<Rightarrow> bool" where
  "equal_fold a b = (to_lower a = to_lower b)"

definition socket_timeout :: "string list \<Rightarrow> nat \<Rightarrow> nat" where
  "socket_timeout values old =
     (case values of
        [v] \<Rightarrow> (case parse_int10 v of Some n \<Rightarrow> if n > 0 \<and> n \<le> 2147483647 then nat n else old | None \<Rightarrow> old)
      | _ \<Rightarrow> old)"

fun clean_query :: "url_query \<Rightarrow> nat \<Rightarrow> (url_query \<times> nat) option" where
  "clean_query [] timeout = Some ([], timeout)"
| "clean_query ((key, values) # q) timeout =
     (if equal_fold key ''dialName''
      then (if values = [[]] then clean_query q timeout else None)
      else map_option (\<lambda>(q, t). ((key, values) # q, t))
             (clean_query q (if equal_fold key ''socketTimeout'' then socket_timeout values timeout else timeout)))"

definition cancellationDSN :: "string \<Rightarrow> url_query \<Rightarrow> string \<Rightarrow> (url_query \<times> nat) option" where
  "cancellationDSN scheme query dialName =
     (if scheme \<noteq> ''dm'' then None
      else map_option (\<lambda>(q, t). (q @ [(''dialName'', [dialName])], t)) (clean_query query 0))"

lemma clean_query_no_dial: "clean_query q t = Some (q', t') \<Longrightarrow> (k, vs) \<in> set q' \<Longrightarrow> \<not> equal_fold k ''dialName''"
  by (induction q t arbitrary: q' t' rule: clean_query.induct) (auto split: if_splits)

lemma clean_query_timeout: "clean_query q t = Some (q', t') \<Longrightarrow> t \<le> 2147483647 \<Longrightarrow> t' \<le> 2147483647"
proof (induction q t arbitrary: q' t' rule: clean_query.induct)
  case (2 key vals q timeout)
  have "socket_timeout vals timeout \<le> 2147483647"
    using 2(4) by (auto simp: socket_timeout_def split: list.splits option.splits)
  then show ?case using 2 by (auto split: if_splits)
qed simp

section \<open>One call\<close>

text \<open>
  Where the caller is: before the test of the context, before the test of the socket, in the driver,
  at \<^verbatim>\<open>guard.end\<close>, after the watcher was stopped or waited for, aborting, and done.  The result of the
  driver is a value or an error, by its number.
\<close>

datatype cpc =
    CStart | CChecked | CCalling | CEnding "conn_err + nat" | CStopped "conn_err + nat" | CAborting
  | CDone "conn_err + nat"

datatype watcher = WNone | WArmed | WRunning | WStored | WFinished | WStopped

record call_state =
  c_pc :: cpc
  c_watch :: watcher
  c_cancelled :: bool
  c_socket :: socket

inductive call_step :: "call_state \<Rightarrow> call_state \<Rightarrow> bool" where
  cancel_context: "call_step s (s\<lparr>c_cancelled := True\<rparr>)"
| refuse_cancelled: "c_pc s = CStart \<Longrightarrow> c_cancelled s \<Longrightarrow> call_step s (s\<lparr>c_pc := CDone (Inl Canceled)\<rparr>)"
| check_context: "c_pc s = CStart \<Longrightarrow> \<not> c_cancelled s \<Longrightarrow> call_step s (s\<lparr>c_pc := CChecked\<rparr>)"
| refuse_invalid: "c_pc s = CChecked \<Longrightarrow> so_invalid (c_socket s) \<Longrightarrow> call_step s (s\<lparr>c_pc := CDone (Inl BadConn)\<rparr>)"
| arm: "c_pc s = CChecked \<Longrightarrow> \<not> so_invalid (c_socket s) \<Longrightarrow> call_step s (s\<lparr>c_pc := CCalling, c_watch := WArmed\<rparr>)"
| fire: "c_watch s = WArmed \<Longrightarrow> c_cancelled s \<Longrightarrow> call_step s (s\<lparr>c_watch := WRunning\<rparr>)"
| watcher_marks: "c_watch s = WRunning \<Longrightarrow>
    call_step s (s\<lparr>c_watch := WStored, c_socket := (c_socket s)\<lparr>so_invalid := True\<rparr>\<rparr>)"
| watcher_closes: "c_watch s = WStored \<Longrightarrow>
    call_step s (s\<lparr>c_watch := WFinished, c_socket := socket_abort (c_socket s)\<rparr>)"
| driver_closes: "c_pc s = CCalling \<Longrightarrow> so_conn (c_socket s) = Some n \<Longrightarrow>
    call_step s (s\<lparr>c_socket := tracked_close n (c_socket s)\<rparr>)"
| call_returns: "c_pc s = CCalling \<Longrightarrow> call_step s (s\<lparr>c_pc := CEnding r\<rparr>)"
| stop_watcher: "c_pc s = CEnding r \<Longrightarrow> c_watch s = WArmed \<Longrightarrow> call_step s (s\<lparr>c_pc := CStopped r, c_watch := WStopped\<rparr>)"
| wait_watcher: "c_pc s = CEnding r \<Longrightarrow> c_watch s = WFinished \<Longrightarrow> call_step s (s\<lparr>c_pc := CStopped r\<rparr>)"
| deliver: "c_pc s = CStopped r \<Longrightarrow> \<not> c_cancelled s \<Longrightarrow> call_step s (s\<lparr>c_pc := CDone r\<rparr>)"
| abort_call: "c_pc s = CStopped r \<Longrightarrow> c_cancelled s \<Longrightarrow> call_step s (s\<lparr>c_pc := CAborting\<rparr>)"
| abort_done: "c_pc s = CAborting \<Longrightarrow>
    call_step s (s\<lparr>c_pc := CDone (Inl Canceled), c_socket := socket_abort (c_socket s)\<rparr>)"

inductive_cases call_stepE: "call_step s s'"

text \<open>The states of a call on a connection whose socket is open.\<close>

inductive call_reachable :: "nat \<Rightarrow> call_state \<Rightarrow> bool" for n where
  start: "call_reachable n \<lparr>c_pc = CStart, c_watch = WNone, c_cancelled = b, c_socket = \<lparr>so_conn = Some n, so_invalid = i, so_closed = {}\<rparr>\<rparr>"
| step: "call_reachable n s \<Longrightarrow> call_step s s' \<Longrightarrow> call_reachable n s'"

text \<open>
  The invariant: the socket stays the same; the watcher runs only on a cancelled context; past
  \<^verbatim>\<open>guard.end\<close> the watcher is at rest; a delivered result has a stopped watcher; a cancelled call that
  had armed its watcher has closed the socket.
\<close>

definition call_ok :: "nat \<Rightarrow> call_state \<Rightarrow> bool" where
  "call_ok n s =
     (so_conn (c_socket s) = Some n
      \<and> (c_watch s \<in> {WRunning, WStored, WFinished} \<longrightarrow> c_cancelled s)
      \<and> (case c_pc s of
           CStart \<Rightarrow> c_watch s = WNone
         | CChecked \<Rightarrow> c_watch s = WNone
         | CCalling \<Rightarrow> c_watch s \<in> {WArmed, WRunning, WStored, WFinished}
         | CEnding r \<Rightarrow> c_watch s \<in> {WArmed, WRunning, WStored, WFinished}
         | CStopped r \<Rightarrow> c_watch s \<in> {WStopped, WFinished}
         | CAborting \<Rightarrow> c_watch s \<in> {WStopped, WFinished} \<and> c_cancelled s
         | CDone r \<Rightarrow> c_watch s = WNone \<and> r \<in> {Inl Canceled, Inl BadConn} \<or> c_watch s = WStopped
             \<or> c_watch s = WFinished \<and> r = Inl Canceled \<and> so_invalid (c_socket s) \<and> n \<in> so_closed (c_socket s)))"

lemma tracked_close_simps [simp]:
  "so_conn (tracked_close n so) = so_conn so" "so_invalid (tracked_close n so)"
  "so_closed (tracked_close n so) = insert n (so_closed so)"
  by (simp_all add: tracked_close_def)

lemma socket_abort_conn [simp]: "so_conn (socket_abort so) = so_conn so"
  by (simp add: socket_abort_def Let_def split: option.splits)

lemma call_ok_step: "call_step s s' \<Longrightarrow> call_ok n s \<Longrightarrow> call_ok n s'"
  by (induction rule: call_step.induct)
    (auto simp: call_ok_def socket_abort_closes split: cpc.splits)

lemma call_ok_reachable: "call_reachable n s \<Longrightarrow> call_ok n s"
proof (induction rule: call_reachable.induct)
  case (start b i)
  then show ?case by (simp add: call_ok_def)
next
  case (step s s')
  then show ?case by (blast intro: call_ok_step)
qed

lemma watcher_at_rest:
  assumes "c_pc s = CDone r" "c_watch s \<in> {WStopped, WFinished}" "call_step s s'"
  shows "c_socket s' = c_socket s \<and> c_pc s' = CDone r \<and> c_watch s' = c_watch s"
  using assms(3) by (rule call_stepE) (use assms(1,2) in auto)

text \<open>
  C14: When a call on a connection is over, its watcher is at rest and no later cancellation of the context touches
  the socket the pool gets back; a value is delivered only if the watcher was stopped before it ran, and if it
  did run, the call reports the cancellation and the socket is marked and closed.
\<close>

theorem finished_call_is_safe:
  assumes "call_reachable n s" "c_pc s = CDone r" "c_watch s \<noteq> WNone"
  shows "(\<forall>s'. call_step s s' \<longrightarrow> c_socket s' = c_socket s \<and> c_pc s' = CDone r)
    \<and> (\<forall>v. r = Inr v \<longrightarrow> c_watch s = WStopped)
    \<and> (c_watch s \<noteq> WStopped \<longrightarrow> r = Inl Canceled \<and> so_invalid (c_socket s) \<and> n \<in> so_closed (c_socket s))"
proof -
  have w: "c_watch s = WStopped \<or> c_watch s = WFinished \<and> r = Inl Canceled \<and> so_invalid (c_socket s) \<and> n \<in> so_closed (c_socket s)"
    using call_ok_reachable [OF assms(1)] assms(2,3) by (auto simp: call_ok_def)
  have rest: "c_socket s' = c_socket s \<and> c_pc s' = CDone r" if "call_step s s'" for s'
    using watcher_at_rest [OF assms(2) _ that] w by fastforce
  show ?thesis
  proof (intro conjI)
    show "\<forall>s'. call_step s s' \<longrightarrow> c_socket s' = c_socket s \<and> c_pc s' = CDone r" using rest by blast
    show "\<forall>v. r = Inr v \<longrightarrow> c_watch s = WStopped" using w by blast
    show "c_watch s \<noteq> WStopped \<longrightarrow> r = Inl Canceled \<and> so_invalid (c_socket s) \<and> n \<in> so_closed (c_socket s)"
      using w by blast
  qed
qed

text \<open>A call that returns before its context is cancelled.\<close>

definition sample_call :: "cpc \<Rightarrow> watcher \<Rightarrow> call_state" where
  "sample_call pc w = \<lparr>c_pc = pc, c_watch = w, c_cancelled = False, c_socket = \<lparr>so_conn = Some 3, so_invalid = False, so_closed = {}\<rparr>\<rparr>"

lemma sample_call_reachable: "call_reachable 3 (sample_call (CDone (Inr 7)) WStopped)"
proof -
  have "call_reachable 3 (sample_call CStart WNone)" unfolding sample_call_def by (rule call_reachable.start)
  then have "call_reachable 3 (sample_call CChecked WNone)"
    using call_reachable.step check_context [of "sample_call CStart WNone"] by (simp add: sample_call_def)
  then have "call_reachable 3 (sample_call CCalling WArmed)"
    using call_reachable.step arm [of "sample_call CChecked WNone"] by (simp add: sample_call_def)
  then have "call_reachable 3 (sample_call (CEnding (Inr 7)) WArmed)"
    using call_reachable.step call_returns [of "sample_call CCalling WArmed" "Inr 7"] by (simp add: sample_call_def)
  then have "call_reachable 3 (sample_call (CStopped (Inr 7)) WStopped)"
    using call_reachable.step stop_watcher [of "sample_call (CEnding (Inr 7)) WArmed" "Inr 7"] by (simp add: sample_call_def)
  then show ?thesis
    using call_reachable.step deliver [of "sample_call (CStopped (Inr 7)) WStopped" "Inr 7"] by (simp add: sample_call_def)
qed

lemma finished_call_is_safe_witness:
  "let s = sample_call (CDone (Inr 7)) WStopped; s' = s\<lparr>c_cancelled := True\<rparr>
   in call_step s s' \<and> c_socket s' = c_socket s \<and> c_watch s = WStopped"
proof -
  let ?s = "sample_call (CDone (Inr 7)) WStopped"
  have "call_step ?s (?s\<lparr>c_cancelled := True\<rparr>)" by (rule cancel_context)
  moreover have "c_pc ?s = CDone (Inr 7)" "c_watch ?s \<noteq> WNone" by (simp_all add: sample_call_def)
  note finished_call_is_safe [OF sample_call_reachable this]
  ultimately show ?thesis by (simp add: Let_def)
qed

end
