(* ===== verification/ModelBuilder.thy ===== *)
theory ModelBuilder
  imports ScopeOps
begin

text \<open>
  \<^verbatim>\<open>getModelStruct\<close> of \<^verbatim>\<open>model_struct.go\<close>: how a model is derived from a struct type and its tags, with its
  relationships.

  A \<^verbatim>\<open>*StructField\<close> is an address: an index into the list of all fields that were ever made
  (\<open>mb_fields\<close>), because fields of one model are read and marked while another one is built.  A model in
  the cache lists addresses.  The functions deferred in the loop over the members are data (\<open>deferred\<close>),
  run in the reverse order after the model is in the cache, as Go runs them.

  A scope is described by what the builder reads of it: the struct type behind its value, its
  table name, and whether it is the scope the caller holds (an error added to any other scope stays in a
  handle that is dropped).  \<open>getModelStruct\<close> has fuel for the nesting of calls: \<open>OutOfFuel\<close> is
  a recursion that did not end within it.  \<open>Crashed\<close> is an index out of range.
\<close>

section \<open>State\<close>

record pmodel =
  pm_primary :: "nat list"
  pm_fields :: "nat list"
  pm_type :: "rtype option"

definition no_pmodel :: pmodel where
  "no_pmodel = \<lparr>pm_primary = [], pm_fields = [], pm_type = None\<rparr>"

text \<open>The key of the cache is \<^verbatim>\<open>hashKey\<close>: the table setting and the type.\<close>

record mstate =
  mb_fields :: "StructField list"
  mb_cache :: "bool \<times> rtype \<Rightarrow> pmodel option"
  mb_errors :: "(bool \<times> string) list"

definition empty_mstate :: mstate where
  "empty_mstate = \<lparr>mb_fields = [], mb_cache = (\<lambda>_. None), mb_errors = []\<rparr>"

record bscope =
  bs_type :: rtype
  bs_table :: string
  bs_root :: bool

datatype 'a built = Built 'a mstate | Crashed | OutOfFuel

fun then_built :: "'a built \<Rightarrow> ('a \<Rightarrow> mstate \<Rightarrow> 'b built) \<Rightarrow> 'b built" where
  "then_built (Built x st) k = k x st"
| "then_built Crashed k = Crashed"
| "then_built OutOfFuel k = OutOfFuel"

definition sf_at :: "mstate \<Rightarrow> nat \<Rightarrow> StructField" where
  "sf_at st a = mb_fields st ! a"

definition set_sf :: "nat \<Rightarrow> (StructField \<Rightarrow> StructField) \<Rightarrow> mstate \<Rightarrow> mstate" where
  "set_sf a f st = st\<lparr>mb_fields := (mb_fields st)[a := f (mb_fields st ! a)]\<rparr>"

definition new_sf :: "StructField \<Rightarrow> mstate \<Rightarrow> nat \<times> mstate" where
  "new_sf sf st = (length (mb_fields st), st\<lparr>mb_fields := mb_fields st @ [sf]\<rparr>)"

definition mark_foreign :: "StructField \<Rightarrow> StructField" where
  "mark_foreign sf = sf\<lparr>sf_IsForeignKey := True\<rparr>"

definition builder_error :: "bscope \<Rightarrow> string \<Rightarrow> mstate \<Rightarrow> mstate" where
  "builder_error sc msg st = st\<lparr>mb_errors := mb_errors st @ [(bs_root sc, msg)]\<rparr>"

section \<open>Lookups over addresses\<close>

text \<open>\<^verbatim>\<open>getForeignField\<close>, returning the pointer.\<close>

definition foreign_at :: "genv \<Rightarrow> mstate \<Rightarrow> string \<Rightarrow> nat list \<Rightarrow> nat option" where
  "foreign_at G st column as =
     List.find (\<lambda>a. sf_Name (sf_at st a) = column \<or> sf_DBName (sf_at st a) = column
                  \<or> sf_DBName (sf_at st a) = g_toColumnName G column) as"

text \<open>\<^verbatim>\<open>FieldByName\<close> on the fields of a scope with this model.\<close>

fun named_at :: "mstate \<Rightarrow> string \<Rightarrow> string \<Rightarrow> nat list \<Rightarrow> nat option \<Rightarrow> nat option" where
  "named_at st name dbName [] mostMatched = mostMatched"
| "named_at st name dbName (a # as) mostMatched =
     (if sf_Name (sf_at st a) = name \<or> sf_DBName (sf_at st a) = name then Some a
      else named_at st name dbName as (if sf_DBName (sf_at st a) = dbName then Some a else mostMatched))"

definition field_named :: "genv \<Rightarrow> mstate \<Rightarrow> string \<Rightarrow> nat list \<Rightarrow> nat option" where
  "field_named G st name as = named_at st name (g_toColumnName G name) as None"

definition primary_at :: "mstate \<Rightarrow> nat list \<Rightarrow> nat list" where
  "primary_at st as = filter (\<lambda>a. sf_IsPrimaryKey (sf_at st a)) as"

text \<open>\<^verbatim>\<open>PrimaryKey\<close> of a scope; no field marked as primary among the fields is an index out of range.\<close>

definition primary_key_of :: "genv \<Rightarrow> mstate \<Rightarrow> pmodel \<Rightarrow> string option" where
  "primary_key_of G st pm =
     (if length (pm_primary pm) > 0 then
        (case (if length (pm_primary pm) > 1 then field_named G st ''id'' (pm_fields pm) else None) of
           Some a \<Rightarrow> Some (sf_DBName (sf_at st a))
         | None \<Rightarrow> (case primary_at st (pm_fields pm) of
                      a # _ \<Rightarrow> Some (sf_DBName (sf_at st a))
                    | [] \<Rightarrow> None))
      else Some [])"

section \<open>The members\<close>

datatype fclass = CScanner | CTime | CEmbedded | CSlice | CStruct | CPlain

text \<open>The tests of lines 221 to 273, in order, on the type behind pointers.\<close>

definition member_class :: "types \<Rightarrow> member \<Rightarrow> fclass" where
  "member_class RT m =
     (let t = deref_type type_fuel RT (m_type m)
      in if t_scanner (RT t) then CScanner
         else if is_time_type (RT t) then CTime
         else if parseTagSetting (m_sql_tag m) (m_gorm_tag m) ''EMBEDDED'' \<noteq> None \<or> m_anonymous m then CEmbedded
         else case t_kind (RT t) of KSlice \<Rightarrow> CSlice | KStruct \<Rightarrow> CStruct | _ \<Rightarrow> CPlain)"

text \<open>A scanner that is a struct lends the tags of its members, where the field has none.\<close>

definition scanner_tags :: "types \<Rightarrow> rtype \<Rightarrow> tagsettings \<Rightarrow> tagsettings" where
  "scanner_tags RT t tags =
     (if t_kind (RT t) = KStruct
      then fold (\<lambda>m tags. parseTagSetting (m_sql_tag m) (m_gorm_tag m) ++ tags) (t_members (RT t)) tags
      else tags)"

definition is_ignored :: "member \<Rightarrow> bool" where
  "is_ignored m = (parseTagSetting (m_sql_tag m) (m_gorm_tag m) ''-'' \<noteq> None)"

definition is_primary :: "member \<Rightarrow> bool" where
  "is_primary m = (\<not> is_ignored m \<and> parseTagSetting (m_sql_tag m) (m_gorm_tag m) ''PRIMARY_KEY'' \<noteq> None)"

definition base_field :: "member \<Rightarrow> StructField" where
  "base_field m =
     (let tags = parseTagSetting (m_sql_tag m) (m_gorm_tag m)
      in \<lparr>sf_DBName = [], sf_Name = m_name m, sf_Names = [m_name m], sf_IsPrimaryKey = is_primary m,
          sf_IsNormal = False, sf_IsIgnored = is_ignored m, sf_IsScanner = False,
          sf_HasDefaultValue = (\<not> is_ignored m \<and> \<not> is_primary m \<and> (tags ''DEFAULT'' \<noteq> None \<or> tags ''AUTO_INCREMENT'' \<noteq> None)),
          sf_TagSettings = tags, sf_Struct = m, sf_IsForeignKey = False, sf_Relationship = None\<rparr>)"

text \<open>What the class adds to a field that is not ignored, short of its relationship.\<close>

definition class_field :: "types \<Rightarrow> member \<Rightarrow> StructField \<Rightarrow> StructField" where
  "class_field RT m sf =
     (if is_ignored m then sf
      else case member_class RT m of
             CScanner \<Rightarrow> sf\<lparr>sf_IsScanner := True, sf_IsNormal := True,
                            sf_TagSettings := scanner_tags RT (deref_type type_fuel RT (m_type m)) (sf_TagSettings sf)\<rparr>
           | CTime \<Rightarrow> sf\<lparr>sf_IsNormal := True\<rparr>
           | CPlain \<Rightarrow> sf\<lparr>sf_IsNormal := True\<rparr>
           | _ \<Rightarrow> sf)"

definition column_field :: "genv \<Rightarrow> member \<Rightarrow> StructField \<Rightarrow> StructField" where
  "column_field G m sf =
     sf\<lparr>sf_DBName := (case TagSettingsGet sf ''COLUMN'' of Some v \<Rightarrow> v | None \<Rightarrow> g_toColumnName G (m_name m))\<rparr>"

definition member_field :: "genv \<Rightarrow> member \<Rightarrow> StructField" where
  "member_field G m = column_field G m (class_field (g_types G) m (base_field m))"

text \<open>The copy of a field of an embedded struct (lines 245 to 265).\<close>

definition embedded_copy :: "member \<Rightarrow> StructField \<Rightarrow> StructField" where
  "embedded_copy m sub =
     (let sub = StructField_clone sub;
          sub = sub\<lparr>sf_Names := m_name m # sf_Names sub\<rparr>;
          sub = (case parseTagSetting (m_sql_tag m) (m_gorm_tag m) ''EMBEDDED_PREFIX'' of
                   Some pre \<Rightarrow> sub\<lparr>sf_DBName := pre @ sf_DBName sub\<rparr> | None \<Rightarrow> sub)
      in if sf_IsPrimaryKey sub \<and> TagSettingsGet sub ''PRIMARY_KEY'' = None
         then sub\<lparr>sf_IsPrimaryKey := False\<rparr> else sub)"

definition embedded_field :: "rtype \<Rightarrow> member \<Rightarrow> StructField \<Rightarrow> StructField option" where
  "embedded_field owner m sub =
     (let sub = embedded_copy m sub
      in case sf_Relationship sub of
           None \<Rightarrow> Some sub
         | Some r \<Rightarrow>
            (case rel_JoinTableHandler r of
               None \<Rightarrow> Some sub
             | Some h \<Rightarrow>
                map_option (\<lambda>h'. sub\<lparr>sf_Relationship := Some (r\<lparr>rel_JoinTableHandler := Some h'\<rparr>)\<rparr>)
                  (JoinTableHandler_Setup r (jth_TableName h) owner (jts_ModelType (jth_Destination h)))))"

section \<open>Keys of a relationship\<close>

definition tag_value :: "StructField \<Rightarrow> string \<Rightarrow> string" where
  "tag_value sf key = (case TagSettingsGet sf key of Some v \<Rightarrow> v | None \<Rightarrow> [])"

definition tag_keys :: "StructField \<Rightarrow> string \<Rightarrow> string list" where
  "tag_keys sf key = (if tag_value sf key \<noteq> [] then split_char (CHR '','') (tag_value sf key) else [])"

definition association_tag_keys :: "StructField \<Rightarrow> string list" where
  "association_tag_keys sf =
     (if tag_value sf ''ASSOCIATION_FOREIGNKEY'' \<noteq> [] then tag_keys sf ''ASSOCIATION_FOREIGNKEY''
      else tag_keys sf ''ASSOCIATIONFOREIGNKEY'')"

text \<open>
  The keys of a has-one, has-many or belongs-to relationship.  \<open>kind_prefix\<close> is the name that foreign
  keys begin with, \<open>owners\<close> the fields the association keys name, \<open>primaries\<close> the names of their primary
  fields.  \<open>OwnerKey\<close> asks for the primary key of a scope (lines 420, 528 and 591).
\<close>

datatype key_choice = Keys "string list" "string list" | OwnerKey "string list" | BadKeys

definition found_names :: "genv \<Rightarrow> mstate \<Rightarrow> nat list \<Rightarrow> string list \<Rightarrow> string list" where
  "found_names G st owners keys =
     map (\<lambda>a. sf_Name (sf_at st a)) (List.map_filter (\<lambda>k. foreign_at G st k owners) keys)"

definition cut_names :: "genv \<Rightarrow> mstate \<Rightarrow> nat list \<Rightarrow> string \<Rightarrow> string list \<Rightarrow> string list" where
  "cut_names G st owners kind_prefix keys =
     filter (\<lambda>k. foreign_at G st k owners \<noteq> None)
       (map (\<lambda>k. trim_prefix k kind_prefix) (filter (\<lambda>k. has_prefix k kind_prefix) keys))"

definition choose_keys ::
    "genv \<Rightarrow> mstate \<Rightarrow> nat list \<Rightarrow> string \<Rightarrow> string list \<Rightarrow> string list \<Rightarrow> string list \<Rightarrow> key_choice" where
  "choose_keys G st owners kind_prefix primaries foreignKeys associationForeignKeys =
     (if foreignKeys = [] then
        (if associationForeignKeys = [] then Keys (map ((@) kind_prefix) primaries) primaries
         else (let names = found_names G st owners associationForeignKeys
               in Keys (map ((@) kind_prefix) names) (associationForeignKeys @ names)))
      else if associationForeignKeys = [] then
        (let names = cut_names G st owners kind_prefix foreignKeys
         in if names = [] \<and> length foreignKeys = 1 then OwnerKey foreignKeys else Keys foreignKeys names)
      else if length foreignKeys \<noteq> length associationForeignKeys then BadKeys
      else Keys foreignKeys associationForeignKeys)"

definition add_pair :: "StructField \<Rightarrow> StructField \<Rightarrow> Relationship \<Rightarrow> Relationship" where
  "add_pair foreignField associationField r =
     r\<lparr>rel_AssociationForeignFieldNames := rel_AssociationForeignFieldNames r @ [sf_Name associationField],
       rel_AssociationForeignDBNames := rel_AssociationForeignDBNames r @ [sf_DBName associationField],
       rel_ForeignFieldNames := rel_ForeignFieldNames r @ [sf_Name foreignField],
       rel_ForeignDBNames := rel_ForeignDBNames r @ [sf_DBName foreignField]\<rparr>"

text \<open>
  The loop over the foreign keys: \<open>associationForeignKeys[idx]\<close> is only read when the foreign field
  exists; reading it past the end panics.
\<close>

fun pair_keys ::
    "genv \<Rightarrow> nat list \<Rightarrow> nat list \<Rightarrow> string list \<Rightarrow> string list \<Rightarrow> Relationship \<Rightarrow> mstate \<Rightarrow> Relationship built" where
  "pair_keys G foreigns owners [] assocs r st = Built r st"
| "pair_keys G foreigns owners (key # keys) assocs r st =
     (case foreign_at G st key foreigns of
        None \<Rightarrow> pair_keys G foreigns owners keys (tl assocs) r st
      | Some f \<Rightarrow>
         (case assocs of
            [] \<Rightarrow> Crashed
          | assoc # assocs \<Rightarrow>
             (case foreign_at G st assoc owners of
                None \<Rightarrow> pair_keys G foreigns owners keys assocs r st
              | Some a \<Rightarrow>
                 pair_keys G foreigns owners keys assocs (add_pair (sf_at st f) (sf_at st a) r)
                   (set_sf f mark_foreign st))))"

text \<open>A polymorphic tag: the relationship, and the name that foreign keys begin with.\<close>

definition polymorphic_rel ::
    "genv \<Rightarrow> bscope \<Rightarrow> StructField \<Rightarrow> nat list \<Rightarrow> string \<Rightarrow> Relationship \<Rightarrow> mstate \<Rightarrow> string \<times> Relationship \<times> mstate" where
  "polymorphic_rel G sc sf toFields associationType r st =
     (let polymorphic = tag_value sf ''POLYMORPHIC''
      in if polymorphic = [] then (associationType, r, st)
         else case foreign_at G st (polymorphic @ ''Type'') toFields of
                None \<Rightarrow> (associationType, r, st)
              | Some p \<Rightarrow>
                 (polymorphic,
                  r\<lparr>rel_PolymorphicType := sf_Name (sf_at st p), rel_PolymorphicDBName := sf_DBName (sf_at st p),
                    rel_PolymorphicValue := (case TagSettingsGet sf ''POLYMORPHIC_VALUE'' of
                                               Some v \<Rightarrow> v | None \<Rightarrow> bs_table sc)\<rparr>,
                  set_sf p mark_foreign st))"

section \<open>Many to many\<close>

definition nth_or :: "string list \<Rightarrow> nat \<Rightarrow> string \<Rightarrow> string" where
  "nth_or xs i d = (if i < length xs then xs ! i else d)"

fun source_keys :: "genv \<Rightarrow> mstate \<Rightarrow> string \<Rightarrow> nat list \<Rightarrow> string list \<Rightarrow> nat \<Rightarrow> string list \<Rightarrow> Relationship \<Rightarrow> Relationship" where
  "source_keys G st typeName sfs joinNames idx [] r = r"
| "source_keys G st typeName sfs joinNames idx (key # keys) r =
     source_keys G st typeName sfs joinNames (Suc idx) keys
       (case foreign_at G st key sfs of
          None \<Rightarrow> r
        | Some f \<Rightarrow>
           (let db = sf_DBName (sf_at st f)
            in r\<lparr>rel_ForeignFieldNames := rel_ForeignFieldNames r @ [db],
                 rel_ForeignDBNames := rel_ForeignDBNames r
                   @ [nth_or joinNames idx (g_toColumnName G typeName @ ''_'' @ db)]\<rparr>))"

fun destination_keys :: "genv \<Rightarrow> mstate \<Rightarrow> string \<Rightarrow> nat list \<Rightarrow> string list \<Rightarrow> nat \<Rightarrow> string list \<Rightarrow> Relationship \<Rightarrow> Relationship" where
  "destination_keys G st typeName sfs joinNames idx [] r = r"
| "destination_keys G st typeName sfs joinNames idx (key # keys) r =
     destination_keys G st typeName sfs joinNames (Suc idx) keys
       (case field_named G st key sfs of
          None \<Rightarrow> r
        | Some f \<Rightarrow>
           (let db = sf_DBName (sf_at st f)
            in r\<lparr>rel_AssociationForeignFieldNames := rel_AssociationForeignFieldNames r @ [db],
                 rel_AssociationForeignDBNames := rel_AssociationForeignDBNames r
                   @ [nth_or joinNames idx (g_toColumnName G typeName @ ''_'' @ db)]\<rparr>))"

definition many_to_many_keys :: "genv \<Rightarrow> bscope \<Rightarrow> StructField \<Rightarrow> pmodel \<Rightarrow> rtype \<Rightarrow> pmodel \<Rightarrow> mstate \<Rightarrow> Relationship" where
  "many_to_many_keys G sc sf own elemType to st =
     (let keys = tag_keys sf ''FOREIGNKEY'';
          keys = (if keys = [] then map (\<lambda>a. sf_DBName (sf_at st a)) (pm_primary own) else keys);
          r = source_keys G st (t_name (g_types G (bs_type sc))) (pm_fields own)
                (tag_keys sf ''JOINTABLE_FOREIGNKEY'') 0 keys (empty_Relationship\<lparr>rel_Kind := ''many_to_many''\<rparr>);
          keys = association_tag_keys sf;
          keys = (if keys = [] then map (\<lambda>a. sf_DBName (sf_at st a)) (primary_at st (pm_fields to)) else keys)
      in destination_keys G st (t_name (g_types G elemType)) (pm_fields to)
           (tag_keys sf ''ASSOCIATION_JOINTABLE_FOREIGNKEY'') 0 keys r)"

definition many_to_many_rel :: "genv \<Rightarrow> bscope \<Rightarrow> StructField \<Rightarrow> pmodel \<Rightarrow> rtype \<Rightarrow> pmodel \<Rightarrow> mstate \<Rightarrow> Relationship option" where
  "many_to_many_rel G sc sf own elemType to st =
     (let r = many_to_many_keys G sc sf own elemType to st
      in map_option (\<lambda>h. r\<lparr>rel_JoinTableHandler := Some h\<rparr>)
           (JoinTableHandler_Setup r (tag_value sf ''MANY2MANY'') (bs_type sc) elemType))"

section \<open>The deferred functions\<close>

type_synonym builder = "bscope \<Rightarrow> bscope \<Rightarrow> nat list \<Rightarrow> mstate \<Rightarrow> pmodel built"

text \<open>
  A new scope for a value of a type: its table name is that of the type (its own \<^verbatim>\<open>TableName\<close>, or
  the default one).
\<close>

definition type_scope :: "genv \<Rightarrow> world \<Rightarrow> rtype \<Rightarrow> bscope" where
  "type_scope G w t =
     (let e = elem_type type_fuel (g_types G) t
      in \<lparr>bs_type = e,
          bs_table = (case g_type_tabler G t of
                        Some name \<Rightarrow> name
                      | None \<Rightarrow> ModelStruct_TableName G w (empty_ModelStruct\<lparr>ms_ModelType := Some e\<rparr>)),
          bs_root = False\<rparr>)"

definition built_keys ::
    "genv \<Rightarrow> builder \<Rightarrow> bscope \<Rightarrow> key_choice \<Rightarrow> (string list \<Rightarrow> string list \<Rightarrow> mstate \<Rightarrow> unit built)
     \<Rightarrow> (mstate \<Rightarrow> unit built) \<Rightarrow> mstate \<Rightarrow> unit built" where
  "built_keys G rec owner choice use bad st =
     (case choice of
        Keys ks as \<Rightarrow> use ks as st
      | OwnerKey ks \<Rightarrow>
         then_built (rec owner owner [] st)
           (\<lambda>pm st. case primary_key_of G st pm of None \<Rightarrow> Crashed | Some key \<Rightarrow> use ks [key] st)
      | BadKeys \<Rightarrow> bad st)"

definition set_rel :: "nat \<Rightarrow> Relationship \<Rightarrow> mstate \<Rightarrow> mstate" where
  "set_rel a r st = set_sf a (\<lambda>sf. sf\<lparr>sf_Relationship := Some r\<rparr>) st"

definition length_error :: string where
  "length_error = ''invalid foreign keys, should have same length''"

text \<open>
  \<open>own\<close> is the model that is being built, \<open>allFields\<close> its fields and those of the structs around it,
  \<open>to\<close> the model of the associated type.  The tags are read from the field \<open>sf\<close> at address \<open>a\<close>.
\<close>

definition run_many_to_many ::
    "genv \<Rightarrow> bscope \<Rightarrow> bscope \<Rightarrow> pmodel \<Rightarrow> pmodel \<Rightarrow> StructField \<Rightarrow> nat \<Rightarrow> mstate \<Rightarrow> unit built" where
  "run_many_to_many G sc toScope own to sf a st =
     (case many_to_many_rel G sc sf own (bs_type toScope) to st of
        None \<Rightarrow> Crashed | Some r \<Rightarrow> Built () (set_rel a r st))"

definition run_has ::
    "genv \<Rightarrow> builder \<Rightarrow> bscope \<Rightarrow> bscope \<Rightarrow> pmodel \<Rightarrow> pmodel \<Rightarrow> nat list \<Rightarrow> StructField \<Rightarrow> Relationship
     \<Rightarrow> (Relationship \<Rightarrow> mstate \<Rightarrow> unit built) \<Rightarrow> mstate \<Rightarrow> unit built" where
  "run_has G rec root sc own to allFields sf r0 finish st =
     (case polymorphic_rel G sc sf (pm_fields to) (t_name (g_types G (bs_type sc))) r0 st of
        (associationType, r, st) \<Rightarrow>
          built_keys G rec root
            (choose_keys G st allFields associationType (map (\<lambda>a. sf_Name (sf_at st a)) (pm_primary own))
              (tag_keys sf ''FOREIGNKEY'') (association_tag_keys sf))
            (\<lambda>ks as st. then_built (pair_keys G (pm_fields to) allFields ks as r st) finish)
            (\<lambda>st. Built () (builder_error sc length_error st)) st)"

definition run_has_many ::
    "genv \<Rightarrow> builder \<Rightarrow> bscope \<Rightarrow> bscope \<Rightarrow> pmodel \<Rightarrow> pmodel \<Rightarrow> nat list \<Rightarrow> StructField \<Rightarrow> nat \<Rightarrow> mstate \<Rightarrow> unit built" where
  "run_has_many G rec root sc own to allFields sf a =
     run_has G rec root sc own to allFields sf (empty_Relationship\<lparr>rel_Kind := ''has_many''\<rparr>)
       (\<lambda>r st. Built () (if rel_ForeignFieldNames r \<noteq> [] then set_rel a r st else st))"

definition run_slice ::
    "genv \<Rightarrow> world \<Rightarrow> builder \<Rightarrow> bscope \<Rightarrow> bscope \<Rightarrow> pmodel \<Rightarrow> nat list \<Rightarrow> nat \<Rightarrow> mstate \<Rightarrow> unit built" where
  "run_slice G w rec root sc own allFields a st =
     (let sf = sf_at st a;
          toScope = type_scope G w (m_type (sf_Struct sf))
      in if t_kind (g_types G (bs_type toScope)) \<noteq> KStruct
         then Built () (set_sf a (\<lambda>sf. sf\<lparr>sf_IsNormal := True\<rparr>) st)
         else then_built (rec toScope toScope [] st)
                (\<lambda>to. if tag_value sf ''MANY2MANY'' \<noteq> [] then run_many_to_many G sc toScope own to sf a
                       else run_has_many G rec root sc own to allFields sf a))"

definition run_belongs_to ::
    "genv \<Rightarrow> builder \<Rightarrow> bscope \<Rightarrow> bscope \<Rightarrow> pmodel \<Rightarrow> pmodel \<Rightarrow> StructField \<Rightarrow> nat \<Rightarrow> Relationship \<Rightarrow> mstate \<Rightarrow> unit built" where
  "run_belongs_to G rec sc toScope own to sf a r st =
     built_keys G rec toScope
       (choose_keys G st (pm_fields to) (sf_Name sf) (map (\<lambda>a. sf_Name (sf_at st a)) (primary_at st (pm_fields to)))
         (tag_keys sf ''FOREIGNKEY'') (association_tag_keys sf))
       (\<lambda>ks as st. then_built (pair_keys G (pm_fields own) (pm_fields to) ks as r st)
          (\<lambda>r st. Built () (if rel_ForeignFieldNames r \<noteq> []
                             then set_rel a (r\<lparr>rel_Kind := ''belongs_to''\<rparr>) st else st)))
       (\<lambda>st. Built () (builder_error sc length_error st)) st"

definition run_struct ::
    "genv \<Rightarrow> world \<Rightarrow> builder \<Rightarrow> bscope \<Rightarrow> bscope \<Rightarrow> pmodel \<Rightarrow> nat list \<Rightarrow> nat \<Rightarrow> mstate \<Rightarrow> unit built" where
  "run_struct G w rec root sc own allFields a st =
     (let sf = sf_at st a;
          toScope = type_scope G w (m_type (sf_Struct sf))
      in then_built (rec toScope toScope [] st)
           (\<lambda>to. run_has G rec root sc own to allFields sf empty_Relationship
              (\<lambda>r st. if rel_ForeignFieldNames r \<noteq> []
                       then Built () (set_rel a (r\<lparr>rel_Kind := ''has_one''\<rparr>) st)
                       else run_belongs_to G rec sc toScope own to sf a r st)))"

type_synonym deferred = "nat \<times> fclass"

fun run_deferred ::
    "genv \<Rightarrow> world \<Rightarrow> builder \<Rightarrow> bscope \<Rightarrow> bscope \<Rightarrow> pmodel \<Rightarrow> nat list \<Rightarrow> deferred list \<Rightarrow> mstate \<Rightarrow> unit built" where
  "run_deferred G w rec root sc own allFields [] st = Built () st"
| "run_deferred G w rec root sc own allFields ((a, c) # ds) st =
     then_built ((if c = CSlice then run_slice else run_struct) G w rec root sc own allFields a st)
       (\<lambda>_. run_deferred G w rec root sc own allFields ds)"

section \<open>getModelStruct\<close>

text \<open>What the loop over the members has collected; the deferred functions with the last one first.\<close>

record members_state =
  ls_primary :: "nat list"
  ls_fields :: "nat list"
  ls_all :: "nat list"
  ls_deferred :: "deferred list"

fun embed_fields :: "rtype \<Rightarrow> member \<Rightarrow> nat list \<Rightarrow> members_state \<Rightarrow> mstate \<Rightarrow> members_state built" where
  "embed_fields owner m [] ls st = Built ls st"
| "embed_fields owner m (b # bs) ls st =
     (case embedded_field owner m (sf_at st b) of
        None \<Rightarrow> Crashed
      | Some sub \<Rightarrow>
         (case new_sf sub st of
            (a, st) \<Rightarrow>
              embed_fields owner m bs
                (ls\<lparr>ls_primary := ls_primary ls @ (if sf_IsPrimaryKey sub then [a] else []),
                    ls_fields := ls_fields ls @ [a], ls_all := ls_all ls @ [a]\<rparr>) st))"

definition add_member ::
    "genv \<Rightarrow> world \<Rightarrow> builder \<Rightarrow> bscope \<Rightarrow> bscope \<Rightarrow> member \<Rightarrow> members_state \<Rightarrow> mstate \<Rightarrow> members_state built" where
  "add_member G w rec root sc m ls st =
     (if \<not> m_exported m then Built ls st
      else if \<not> is_ignored m \<and> member_class (g_types G) m = CEmbedded then
        (case new_sf (base_field m) st of
           (a, st) \<Rightarrow>
             (let ls = ls\<lparr>ls_primary := ls_primary ls @ (if is_primary m then [a] else [])\<rparr>
              in then_built (rec root (type_scope G w (deref_type type_fuel (g_types G) (m_type m))) (ls_all ls) st)
                   (\<lambda>pm. embed_fields (bs_type sc) m (pm_fields pm) ls)))
      else
        (case new_sf (member_field G m) st of
           (a, st) \<Rightarrow>
             Built (ls\<lparr>ls_primary := ls_primary ls @ (if is_primary m then [a] else []),
                       ls_fields := ls_fields ls @ [a], ls_all := ls_all ls @ [a],
                       ls_deferred := (if \<not> is_ignored m \<and> member_class (g_types G) m \<in> {CSlice, CStruct}
                                       then [(a, member_class (g_types G) m)] else []) @ ls_deferred ls\<rparr>) st))"

fun add_members ::
    "genv \<Rightarrow> world \<Rightarrow> builder \<Rightarrow> bscope \<Rightarrow> bscope \<Rightarrow> member list \<Rightarrow> members_state \<Rightarrow> mstate \<Rightarrow> members_state built" where
  "add_members G w rec root sc [] ls st = Built ls st"
| "add_members G w rec root sc (m # ms) ls st =
     then_built (add_member G w rec root sc m ls st) (add_members G w rec root sc ms)"

text \<open>Without a primary field, the field \<^verbatim>\<open>id\<close> becomes one.\<close>

definition default_primary :: "genv \<Rightarrow> members_state \<Rightarrow> mstate \<Rightarrow> members_state \<times> mstate" where
  "default_primary G ls st =
     (if ls_primary ls = [] then
        (case foreign_at G st ''id'' (ls_fields ls) of
           Some a \<Rightarrow> (ls\<lparr>ls_primary := [a]\<rparr>, set_sf a (\<lambda>sf. sf\<lparr>sf_IsPrimaryKey := True\<rparr>) st)
         | None \<Rightarrow> (ls, st))
      else (ls, st))"

definition store_model :: "bool \<times> rtype \<Rightarrow> pmodel \<Rightarrow> mstate \<Rightarrow> mstate" where
  "store_model key pm st = st\<lparr>mb_cache := (mb_cache st)(key \<mapsto> pm)\<rparr>"

definition build_model ::
    "genv \<Rightarrow> world \<Rightarrow> builder \<Rightarrow> bscope \<Rightarrow> bscope \<Rightarrow> nat list \<Rightarrow> mstate \<Rightarrow> pmodel built" where
  "build_model G w rec root sc allFields st =
     then_built
       (add_members G w rec root sc (t_members (g_types G (bs_type sc)))
         \<lparr>ls_primary = [], ls_fields = [], ls_all = allFields, ls_deferred = []\<rparr> st)
       (\<lambda>ls st. case default_primary G ls st of
          (ls, st) \<Rightarrow>
            (let pm = \<lparr>pm_primary = ls_primary ls, pm_fields = ls_fields ls, pm_type = Some (bs_type sc)\<rparr>
             in then_built
                  (run_deferred G w rec root sc pm (ls_all ls) (ls_deferred ls)
                    (store_model (w_singularTable w, bs_type sc) pm st))
                  (\<lambda>_. Built pm)))"

fun getModelStruct :: "nat \<Rightarrow> genv \<Rightarrow> world \<Rightarrow> builder" where
  "getModelStruct 0 G w root sc allFields st = OutOfFuel"
| "getModelStruct (Suc n) G w root sc allFields st =
     (if t_kind (g_types G (bs_type sc)) \<noteq> KStruct then Built no_pmodel st
      else case mb_cache st (w_singularTable w, bs_type sc) of
             Some pm \<Rightarrow> Built pm st
           | None \<Rightarrow> build_model G w (getModelStruct n G w) root sc allFields st)"

text \<open>The model of a type that the caller asks for, and the value of a model in a state.\<close>

definition model_of_type :: "nat \<Rightarrow> genv \<Rightarrow> world \<Rightarrow> rtype \<Rightarrow> mstate \<Rightarrow> pmodel built" where
  "model_of_type n G w t st =
     (let sc = (type_scope G w t)\<lparr>bs_root := True\<rparr> in getModelStruct n G w sc sc [] st)"

definition read_model :: "mstate \<Rightarrow> pmodel \<Rightarrow> ModelStruct" where
  "read_model st pm =
     \<lparr>ms_PrimaryFields = map (sf_at st) (pm_primary pm), ms_StructFields = map (sf_at st) (pm_fields pm),
      ms_ModelType = pm_type pm\<rparr>"

end
