(* ===== verification/ModelInvariant.thy ===== *)
theory ModelInvariant
  imports ModelBuilder
begin

text \<open>
  What every model that \<open>getModelStruct\<close> builds satisfies: its relationships list keys in matching
  pairs, its columns are those of the type, its primary fields are marked.

  The recursive calls are the provider of an interface: the locale \<open>builder_contract\<close> states what a call
  promises, its lemmas show that one more level keeps the promise, and the interpretation for every
  amount of fuel ties the knot.
\<close>

section \<open>Results\<close>

text \<open>A result is a model with the property \<open>P\<close>, or a crash if \<open>c\<close> allows it, or out of fuel if \<open>f\<close> does.\<close>

fun built_ok :: "bool \<Rightarrow> bool \<Rightarrow> ('a \<Rightarrow> mstate \<Rightarrow> bool) \<Rightarrow> 'a built \<Rightarrow> bool" where
  "built_ok c f P (Built x st) = P x st"
| "built_ok c f P Crashed = c"
| "built_ok c f P OutOfFuel = f"

lemma built_ok_then:
  "built_ok c f Q r \<Longrightarrow> (\<And>x st. Q x st \<Longrightarrow> built_ok c f P (k x st)) \<Longrightarrow> built_ok c f P (then_built r k)"
  by (cases r) simp_all

lemma built_ok_mono:
  "built_ok c f P r \<Longrightarrow> (c \<Longrightarrow> c') \<Longrightarrow> (f \<Longrightarrow> f') \<Longrightarrow> (\<And>x st. P x st \<Longrightarrow> P' x st) \<Longrightarrow> built_ok c' f' P' r"
  by (cases r) simp_all

section \<open>Well-formed relationships\<close>

definition handler_matches :: "Relationship \<Rightarrow> JoinTableHandler \<Rightarrow> bool" where
  "handler_matches r h =
     (map jtk_AssociationDBName (jts_ForeignKeys (jth_Source h)) = rel_ForeignFieldNames r
      \<and> map jtk_DBName (jts_ForeignKeys (jth_Source h)) = rel_ForeignDBNames r
      \<and> map jtk_AssociationDBName (jts_ForeignKeys (jth_Destination h)) = rel_AssociationForeignFieldNames r
      \<and> map jtk_DBName (jts_ForeignKeys (jth_Destination h)) = rel_AssociationForeignDBNames r)"

definition keys_paired :: "Relationship \<Rightarrow> bool" where
  "keys_paired r =
     (length (rel_ForeignDBNames r) = length (rel_ForeignFieldNames r)
      \<and> length (rel_AssociationForeignDBNames r) = length (rel_AssociationForeignFieldNames r)
      \<and> (if rel_Kind r = ''many_to_many''
         then (case rel_JoinTableHandler r of None \<Rightarrow> False | Some h \<Rightarrow> handler_matches r h)
         else rel_Kind r \<in> {''has_one'', ''has_many'', ''belongs_to''} \<and> rel_JoinTableHandler r = None
              \<and> rel_ForeignFieldNames r \<noteq> []
              \<and> length (rel_AssociationForeignFieldNames r) = length (rel_ForeignFieldNames r)))"

definition field_ok :: "StructField \<Rightarrow> bool" where
  "field_ok sf = (case sf_Relationship sf of None \<Rightarrow> True | Some r \<Rightarrow> keys_paired r)"

lemma Setup_matches:
  "JoinTableHandler_Setup r t a b = Some h \<Longrightarrow>
   length (rel_ForeignDBNames r) = length (rel_ForeignFieldNames r) \<Longrightarrow>
   length (rel_AssociationForeignDBNames r) = length (rel_AssociationForeignFieldNames r) \<Longrightarrow>
   handler_matches r h \<and> handler_matches (r\<lparr>rel_JoinTableHandler := Some h\<rparr>) h"
  by (auto simp: JoinTableHandler_Setup_def handler_matches_def dest!: join_keys_spec split: option.splits)

lemma Setup_total:
  assumes "length (rel_ForeignDBNames r) = length (rel_ForeignFieldNames r)"
    and "length (rel_AssociationForeignDBNames r) = length (rel_AssociationForeignFieldNames r)"
  shows "JoinTableHandler_Setup r t a b \<noteq> None"
proof -
  obtain sk dk where "join_keys (rel_ForeignFieldNames r) (rel_ForeignDBNames r) = Some sk"
    and "join_keys (rel_AssociationForeignFieldNames r) (rel_AssociationForeignDBNames r) = Some dk"
    using assms join_keys_Some by (metis order_refl)
  then show ?thesis by (simp add: JoinTableHandler_Setup_def)
qed

section \<open>States that grow\<close>

text \<open>What is never changed once a field is made; a primary mark is never removed.\<close>

definition same_core :: "StructField \<Rightarrow> StructField \<Rightarrow> bool" where
  "same_core x y =
     (sf_DBName x = sf_DBName y \<and> sf_Name x = sf_Name y \<and> sf_Names x = sf_Names y
      \<and> sf_TagSettings x = sf_TagSettings y \<and> sf_Struct x = sf_Struct y
      \<and> (sf_IsPrimaryKey x \<longrightarrow> sf_IsPrimaryKey y))"

definition fields_grow :: "mstate \<Rightarrow> mstate \<Rightarrow> bool" where
  "fields_grow st st' =
     (length (mb_fields st) \<le> length (mb_fields st')
      \<and> (\<forall>a<length (mb_fields st). same_core (sf_at st a) (sf_at st' a)))"

definition st_grows :: "mstate \<Rightarrow> mstate \<Rightarrow> bool" where
  "st_grows st st' = (fields_grow st st' \<and> mb_cache st \<subseteq>\<^sub>m mb_cache st')"

lemma same_core_refl [simp]: "same_core x x"
  by (simp add: same_core_def)

lemma same_core_trans: "same_core x y \<Longrightarrow> same_core y z \<Longrightarrow> same_core x z"
  by (simp add: same_core_def)

lemma st_grows_refl [simp]: "st_grows st st"
  by (simp add: st_grows_def fields_grow_def)

lemma fields_grow_trans: "fields_grow s t \<Longrightarrow> fields_grow t u \<Longrightarrow> fields_grow s u"
  unfolding fields_grow_def by (meson order_trans same_core_trans less_le_trans)

lemma st_grows_trans: "st_grows s t \<Longrightarrow> st_grows t u \<Longrightarrow> st_grows s u"
  unfolding st_grows_def by (blast intro: fields_grow_trans map_le_trans)

lemma st_grows_fields: "st_grows st st' \<Longrightarrow> fields_grow st st'"
  by (simp add: st_grows_def)

lemma fields_grow_core: "fields_grow st st' \<Longrightarrow> a < length (mb_fields st) \<Longrightarrow> same_core (sf_at st a) (sf_at st' a)"
  by (simp add: fields_grow_def)

lemma fields_grow_length: "fields_grow st st' \<Longrightarrow> length (mb_fields st) \<le> length (mb_fields st')"
  by (simp add: fields_grow_def)

lemmas st_grows_core = fields_grow_core [OF st_grows_fields]
lemmas st_grows_length = fields_grow_length [OF st_grows_fields]

lemma st_grows_cache: "st_grows st st' \<Longrightarrow> mb_cache st k = Some pm \<Longrightarrow> mb_cache st' k = Some pm"
  unfolding st_grows_def map_le_def by (metis domI)

lemma st_grows_uncached: "st_grows st st' \<Longrightarrow> mb_cache st' k = None \<Longrightarrow> mb_cache st k = None"
  by (cases "mb_cache st k") (auto dest: st_grows_cache)

lemma st_grows_set_sf: "(\<And>sf. same_core sf (f sf)) \<Longrightarrow> st_grows st (set_sf a f st)"
  by (cases "a < length (mb_fields st)") (auto simp: st_grows_def fields_grow_def set_sf_def sf_at_def nth_list_update)

lemma st_grows_new_sf: "new_sf sf st = (a, st') \<Longrightarrow> st_grows st st' \<and> a = length (mb_fields st) \<and> a < length (mb_fields st') \<and> sf_at st' a = sf"
  by (auto simp: st_grows_def fields_grow_def new_sf_def sf_at_def nth_append)

lemma fields_grow_store: "fields_grow st (store_model k pm st)"
  by (simp add: fields_grow_def store_model_def sf_at_def)

lemma sf_at_store [simp]: "sf_at (store_model k pm st) a = sf_at st a"
  by (simp add: sf_at_def store_model_def)

lemma set_sf_simps [simp]:
  "length (mb_fields (set_sf a f st)) = length (mb_fields st)" "mb_cache (set_sf a f st) = mb_cache st"
  by (simp_all add: set_sf_def)

lemma same_core_marks [simp]:
  "same_core sf (mark_foreign sf)" "same_core sf (sf\<lparr>sf_Relationship := x\<rparr>)" "same_core sf (sf\<lparr>sf_IsNormal := True\<rparr>)"
  "same_core sf (sf\<lparr>sf_IsPrimaryKey := True\<rparr>)"
  by (simp_all add: same_core_def mark_foreign_def)

section \<open>The columns of a type\<close>

definition embedded_member :: "genv \<Rightarrow> member \<Rightarrow> bool" where
  "embedded_member G m = (\<not> is_ignored m \<and> member_class (g_types G) m = CEmbedded)"

definition embed_target :: "genv \<Rightarrow> member \<Rightarrow> rtype" where
  "embed_target G m = elem_type type_fuel (g_types G) (deref_type type_fuel (g_types G) (m_type m))"

definition assoc_target :: "genv \<Rightarrow> member \<Rightarrow> rtype" where
  "assoc_target G m = elem_type type_fuel (g_types G) (m_type m)"

definition embed_prefix :: "member \<Rightarrow> string" where
  "embed_prefix m =
     (case parseTagSetting (m_sql_tag m) (m_gorm_tag m) ''EMBEDDED_PREFIX'' of Some p \<Rightarrow> p | None \<Rightarrow> [])"

definition nest :: "member \<Rightarrow> string list \<times> string \<Rightarrow> string list \<times> string" where
  "nest m p = (m_name m # fst p, embed_prefix m @ snd p)"

text \<open>The paths and columns of a struct type, embedded structs flattened: no state, no order.\<close>

fun columns_of :: "nat \<Rightarrow> genv \<Rightarrow> rtype \<Rightarrow> (string list \<times> string) list" where
  "columns_of 0 G t = []"
| "columns_of (Suc n) G t =
     (if t_kind (g_types G t) \<noteq> KStruct then []
      else concat (map (\<lambda>m.
             if \<not> m_exported m then []
             else if embedded_member G m
             then map (nest m) (columns_of n G (embed_target G m))
             else [([m_name m], sf_DBName (member_field G m))]) (t_members (g_types G t))))"

definition path_column :: "StructField \<Rightarrow> string list \<times> string" where
  "path_column sf = (sf_Names sf, sf_DBName sf)"

lemma path_column_core: "same_core x y \<Longrightarrow> path_column x = path_column y"
  by (simp add: path_column_def same_core_def)

text \<open>Structs are embedded without cycles: a rank decreases along embedding.\<close>

definition ranked :: "genv \<Rightarrow> (rtype \<Rightarrow> nat) \<Rightarrow> bool" where
  "ranked G rk =
     (\<forall>t. \<forall>m\<in>set (t_members (g_types G t)). embedded_member G m \<longrightarrow> rk (embed_target G m) < rk t)"

lemma columns_of_enough:
  assumes "ranked G rk" and "rk t < n" and "rk t < n'"
  shows "columns_of n G t = columns_of n' G t"
  using assms(2,3)
proof (induction n arbitrary: t n')
  case 0
  then show ?case by simp
next
  case (Suc n)
  obtain k where n': "n' = Suc k" using Suc.prems(2) by (cases n') simp_all
  have "columns_of n G (embed_target G m) = columns_of k G (embed_target G m)"
    if "m \<in> set (t_members (g_types G t))" "embedded_member G m" for m
  proof (rule Suc.IH)
    have "rk (embed_target G m) < rk t" using assms(1) that by (simp add: ranked_def)
    then show "rk (embed_target G m) < n" "rk (embed_target G m) < k" using Suc.prems n' by simp_all
  qed
  then show ?case
    unfolding n' columns_of.simps by (intro if_cong refl arg_cong [of _ _ concat] map_cong) auto
qed

section \<open>Good states\<close>

definition plain_embeds :: "genv \<Rightarrow> bool" where
  "plain_embeds G =
     (\<forall>t. \<forall>m\<in>set (t_members (g_types G t)). m_exported m \<longrightarrow> embedded_member G m \<longrightarrow> \<not> is_primary m)"

definition model_ok :: "genv \<Rightarrow> (rtype \<Rightarrow> nat) \<Rightarrow> mstate \<Rightarrow> rtype \<Rightarrow> pmodel \<Rightarrow> bool" where
  "model_ok G rk st t pm =
     (pm_type pm = Some t
      \<and> set (pm_fields pm) \<subseteq> {..<length (mb_fields st)} \<and> set (pm_primary pm) \<subseteq> {..<length (mb_fields st)}
      \<and> (\<forall>a\<in>set (pm_primary pm). sf_IsPrimaryKey (sf_at st a))
      \<and> (plain_embeds G \<longrightarrow> set (pm_primary pm) \<subseteq> set (pm_fields pm))
      \<and> (ranked G rk \<longrightarrow> map (\<lambda>a. path_column (sf_at st a)) (pm_fields pm) = columns_of (Suc (rk t)) G t))"

definition good :: "genv \<Rightarrow> (rtype \<Rightarrow> nat) \<Rightarrow> mstate \<Rightarrow> bool" where
  "good G rk st =
     ((\<forall>sf\<in>set (mb_fields st). field_ok sf)
      \<and> (\<forall>s t pm. mb_cache st (s, t) = Some pm \<longrightarrow> model_ok G rk st t pm))"

lemma good_empty [simp]: "good G rk empty_mstate"
  by (simp add: good_def empty_mstate_def)

lemma model_ok_fields: "model_ok G rk st t pm \<Longrightarrow> fields_grow st st' \<Longrightarrow> model_ok G rk st' t pm"
proof -
  assume ok: "model_ok G rk st t pm" and ext: "fields_grow st st'"
  have core: "same_core (sf_at st a) (sf_at st' a)" if "a \<in> set (pm_fields pm) \<union> set (pm_primary pm)" for a
    using ok ext that by (auto simp: model_ok_def intro!: fields_grow_core)
  have "map (\<lambda>a. path_column (sf_at st' a)) (pm_fields pm) = map (\<lambda>a. path_column (sf_at st a)) (pm_fields pm)"
    using core by (auto intro: path_column_core [symmetric])
  moreover have "\<forall>a\<in>set (pm_primary pm). sf_IsPrimaryKey (sf_at st' a)"
    using ok core by (auto simp: model_ok_def same_core_def)
  moreover have "length (mb_fields st) \<le> length (mb_fields st')" using ext by (rule fields_grow_length)
  ultimately show ?thesis using ok unfolding model_ok_def by fastforce
qed

lemmas model_ok_grows = model_ok_fields [OF _ st_grows_fields]

lemma good_cached: "good G rk st \<Longrightarrow> mb_cache st (s, t) = Some pm \<Longrightarrow> model_ok G rk st t pm"
  by (auto simp: good_def)

lemma good_set_sf:
  assumes "good G rk st" and "\<And>sf. same_core sf (f sf)" and "\<And>sf. field_ok sf \<Longrightarrow> field_ok (f sf)"
  shows "good G rk (set_sf a f st) \<and> st_grows st (set_sf a f st)"
proof -
  have ext: "st_grows st (set_sf a f st)" using assms(2) by (rule st_grows_set_sf)
  have "\<forall>sf\<in>set (mb_fields (set_sf a f st)). field_ok sf"
  proof (cases "a < length (mb_fields st)")
    case True
    then have "field_ok (f (mb_fields st ! a))" using assms(1,3) by (simp add: good_def)
    then show ?thesis
      using assms(1) set_update_subset_insert [of "mb_fields st" a "f (mb_fields st ! a)"]
      by (auto simp: good_def set_sf_def)
  next
    case False
    then have "mb_fields (set_sf a f st) = mb_fields st" by (simp add: set_sf_def list_update_beyond not_less)
    then show ?thesis using assms(1) by (simp add: good_def)
  qed
  moreover have "model_ok G rk (set_sf a f st) t pm" if "mb_cache st (s, t) = Some pm" for s t pm
    using good_cached [OF assms(1) that] ext by (rule model_ok_grows)
  ultimately show ?thesis using ext by (simp add: good_def)
qed

lemma good_new_sf:
  assumes "good G rk st" and "field_ok sf" and "new_sf sf st = (a, st')"
  shows "good G rk st'"
proof -
  have "st_grows st st'" using st_grows_new_sf [OF assms(3)] by simp
  moreover have st': "st' = st\<lparr>mb_fields := mb_fields st @ [sf]\<rparr>" using assms(3) by (simp add: new_sf_def)
  ultimately have ext: "st_grows st (st\<lparr>mb_fields := mb_fields st @ [sf]\<rparr>)" by simp
  have "model_ok G rk (st\<lparr>mb_fields := mb_fields st @ [sf]\<rparr>) t pm" if "mb_cache st (s, t) = Some pm" for s t pm
    using good_cached [OF assms(1) that] ext by (rule model_ok_grows)
  then show ?thesis using assms(1,2) st' by (auto simp: good_def)
qed

lemma good_store:
  assumes "good G rk st" and "model_ok G rk st t pm"
  shows "good G rk (store_model (s, t) pm st)"
proof -
  have fields: "mb_fields (store_model (s, t) pm st) = mb_fields st" by (simp add: store_model_def)
  have "model_ok G rk (store_model (s, t) pm st) t' pm'"
    if "mb_cache (store_model (s, t) pm st) (s', t') = Some pm'" for s' t' pm'
  proof -
    have "model_ok G rk st t' pm'"
      using that assms by (auto simp: store_model_def good_def split: if_splits)
    then show ?thesis by (rule model_ok_fields [OF _ fields_grow_store])
  qed
  then show ?thesis using assms(1) fields by (simp add: good_def)
qed

lemma good_error [simp]:
  "good G rk (builder_error sc msg st) = good G rk st" "st_grows st (builder_error sc msg st)"
  by (simp_all add: good_def builder_error_def model_ok_def sf_at_def [abs_def] st_grows_def fields_grow_def)

definition kept :: "genv \<Rightarrow> (rtype \<Rightarrow> nat) \<Rightarrow> mstate \<Rightarrow> 'a \<Rightarrow> mstate \<Rightarrow> bool" where
  "kept G rk st x st' = (good G rk st' \<and> st_grows st st')"

lemma kept_trans: "kept G rk st x st' \<Longrightarrow> kept G rk st' y st'' \<Longrightarrow> kept G rk st y st''"
  by (auto simp: kept_def intro: st_grows_trans)

lemma kept_refl: "good G rk st \<Longrightarrow> kept G rk st x st"
  by (simp add: kept_def)

lemma kept_set_sf:
  "good G rk st \<Longrightarrow> (\<And>sf. same_core sf (f sf)) \<Longrightarrow> (\<And>sf. field_ok sf \<Longrightarrow> field_ok (f sf)) \<Longrightarrow> kept G rk st x (set_sf a f st)"
  using good_set_sf by (auto simp: kept_def)

lemma kept_mark: "good G rk st \<Longrightarrow> kept G rk st x (set_sf a mark_foreign st)"
  by (rule kept_set_sf) (simp_all, simp add: field_ok_def mark_foreign_def)

lemma kept_set_rel: "good G rk st \<Longrightarrow> keys_paired r \<Longrightarrow> kept G rk st x (set_rel a r st)"
  unfolding set_rel_def by (rule kept_set_sf) (simp_all add: field_ok_def)

lemma kept_normal: "good G rk st \<Longrightarrow> kept G rk st x (set_sf a (\<lambda>sf. sf\<lparr>sf_IsNormal := True\<rparr>) st)"
  by (rule kept_set_sf) (simp_all add: field_ok_def)

section \<open>The pieces of a relationship\<close>

definition pairs_so_far :: "Relationship \<Rightarrow> bool" where
  "pairs_so_far r =
     (rel_JoinTableHandler r = None
      \<and> length (rel_ForeignDBNames r) = length (rel_ForeignFieldNames r)
      \<and> length (rel_AssociationForeignFieldNames r) = length (rel_ForeignFieldNames r)
      \<and> length (rel_AssociationForeignDBNames r) = length (rel_ForeignFieldNames r))"

lemma pairs_so_far_empty [simp]: "pairs_so_far empty_Relationship" "pairs_so_far (empty_Relationship\<lparr>rel_Kind := k\<rparr>)"
  by (simp_all add: pairs_so_far_def empty_Relationship_def)

lemma pairs_so_far_add [simp]: "pairs_so_far (add_pair x y r) = pairs_so_far r" "rel_Kind (add_pair x y r) = rel_Kind r"
  by (simp_all add: pairs_so_far_def add_pair_def)

lemma keys_paired_pairs:
  "pairs_so_far r \<Longrightarrow> rel_ForeignFieldNames r \<noteq> [] \<Longrightarrow> rel_Kind r \<in> {''has_one'', ''has_many'', ''belongs_to''} \<Longrightarrow> keys_paired r"
  by (auto simp: pairs_so_far_def keys_paired_def)

lemma keys_paired_kind:
  "pairs_so_far r \<Longrightarrow> rel_ForeignFieldNames r \<noteq> [] \<Longrightarrow> k \<in> {''has_one'', ''has_many'', ''belongs_to''} \<Longrightarrow>
   keys_paired (r\<lparr>rel_Kind := k\<rparr>)"
  by (rule keys_paired_pairs) (simp_all add: pairs_so_far_def)

lemma pair_keys_ok:
  "good G rk st \<Longrightarrow> pairs_so_far r \<Longrightarrow> c \<or> length keys \<le> length assocs \<Longrightarrow>
   built_ok c f (\<lambda>r' st'. kept G rk st r' st' \<and> pairs_so_far r' \<and> rel_Kind r' = rel_Kind r)
     (pair_keys G foreigns owners keys assocs r st)"
proof (induction G foreigns owners keys assocs r st rule: pair_keys.induct)
  case (1 G foreigns owners assocs r st)
  then show ?case by (simp add: kept_refl)
next
  case (2 G foreigns owners key keys assocs r st)
  show ?case
  proof (cases "foreign_at G st key foreigns")
    case None
    have "c \<or> length keys \<le> length (tl assocs)" using 2(6) by (cases assocs) auto
    with 2(1) [OF None 2(4,5)] None show ?thesis by simp
  next
    case (Some a)
    note at_key = this
    show ?thesis
    proof (cases assocs)
      case Nil
      with Some 2(6) show ?thesis by simp
    next
      case (Cons assoc rest)
      have len: "c \<or> length keys \<le> length rest" using 2(6) Cons by simp
      show ?thesis
      proof (cases "foreign_at G st assoc owners")
        case None
        with 2(2) [OF at_key Cons None 2(4,5) len] at_key Cons show ?thesis by simp
      next
        case (Some b)
        have mark: "kept G rk st x (set_sf a mark_foreign st)" for x :: Relationship using 2(4) by (rule kept_mark)
        have "good G rk (set_sf a mark_foreign st)" using mark by (simp add: kept_def)
        from 2(3) [OF at_key Cons Some this _ len] at_key Cons Some 2(5) show ?thesis
          by (auto elim!: built_ok_mono intro: kept_trans [OF mark])
      qed
    qed
  qed
qed

lemma kept_finish:
  assumes "kept G rk st x st'" and "rel_ForeignFieldNames r \<noteq> [] \<Longrightarrow> keys_paired r'"
  shows "kept G rk st y (if rel_ForeignFieldNames r \<noteq> [] then set_rel a r' st' else st')"
proof (cases "rel_ForeignFieldNames r = []")
  case True
  then show ?thesis using assms(1) by (simp add: kept_def)
next
  case False
  have "good G rk st'" using assms(1) by (simp add: kept_def)
  then have "kept G rk st' y (set_rel a r' st')" using False assms(2) by (intro kept_set_rel) simp_all
  with assms(1) have "kept G rk st y (set_rel a r' st')" by (rule kept_trans)
  then show ?thesis using False by simp
qed

lemma choose_keys_lengths:
  assumes "choose_keys G st owners p primaries fks afks = Keys ks as" and "length fks \<le> 1 \<or> afks \<noteq> []"
  shows "length ks \<le> length as"
proof (cases "fks = []")
  case True
  then show ?thesis using assms(1) by (auto simp: choose_keys_def Let_def split: if_splits)
next
  case False
  show ?thesis
  proof (cases "afks = []")
    case True
    then have "length fks = 1" using assms(2) False by (cases fks) auto
    then show ?thesis using assms(1) True False by (cases as) (auto simp: choose_keys_def Let_def split: if_splits)
  next
    case afks: False
    then show ?thesis using assms(1) False by (simp add: choose_keys_def split: if_splits)
  qed
qed

lemma choose_keys_owner: "choose_keys G st owners p primaries fks afks = OwnerKey ks \<Longrightarrow> length ks = 1"
  by (auto simp: choose_keys_def Let_def split: if_splits)

lemma polymorphic_ok:
  assumes "good G rk st" and "pairs_so_far r" and "polymorphic_rel G sc sf fs name r st = (name', r', st')"
  shows "kept G rk st x st' \<and> pairs_so_far r' \<and> rel_Kind r' = rel_Kind r"
proof (cases "tag_value sf ''POLYMORPHIC'' = [] \<or> foreign_at G st (tag_value sf ''POLYMORPHIC'' @ ''Type'') fs = None")
  case True
  then have "st' = st \<and> r' = r" using assms(3) by (auto simp: polymorphic_rel_def Let_def split: if_splits option.splits)
  then show ?thesis using assms(1,2) by (simp add: kept_refl)
next
  case False
  then obtain p where "st' = set_sf p mark_foreign st" "pairs_so_far r' = pairs_so_far r" "rel_Kind r' = rel_Kind r"
    using assms(3) by (auto simp: polymorphic_rel_def Let_def pairs_so_far_def)
  then show ?thesis using assms(1,2) by (simp add: kept_mark)
qed

definition both_paired :: "Relationship \<Rightarrow> bool" where
  "both_paired r =
     (length (rel_ForeignDBNames r) = length (rel_ForeignFieldNames r)
      \<and> length (rel_AssociationForeignDBNames r) = length (rel_AssociationForeignFieldNames r))"

lemma source_keys_paired:
  "both_paired r \<Longrightarrow> both_paired (source_keys G st n fs js i keys r) \<and> rel_Kind (source_keys G st n fs js i keys r) = rel_Kind r"
  by (induction G st n fs js i keys r rule: source_keys.induct) (auto simp: both_paired_def Let_def split: option.splits)

lemma destination_keys_paired:
  "both_paired r \<Longrightarrow> both_paired (destination_keys G st n fs js i keys r) \<and> rel_Kind (destination_keys G st n fs js i keys r) = rel_Kind r"
  by (induction G st n fs js i keys r rule: destination_keys.induct) (auto simp: both_paired_def Let_def split: option.splits)

lemma many_to_many_keys_paired:
  "both_paired (many_to_many_keys G sc sf own t to st) \<and> rel_Kind (many_to_many_keys G sc sf own t to st) = ''many_to_many''"
proof -
  have "both_paired (empty_Relationship\<lparr>rel_Kind := ''many_to_many''\<rparr>)" by (simp add: both_paired_def empty_Relationship_def)
  then show ?thesis by (simp add: many_to_many_keys_def Let_def source_keys_paired destination_keys_paired)
qed

lemma many_to_many_paired: "\<exists>r. many_to_many_rel G sc sf own t to st = Some r \<and> keys_paired r"
proof -
  define r where "r = many_to_many_keys G sc sf own t to st"
  have r: "both_paired r" "rel_Kind r = ''many_to_many''" using many_to_many_keys_paired by (simp_all add: r_def)
  then obtain h where "JoinTableHandler_Setup r (tag_value sf ''MANY2MANY'') (bs_type sc) t = Some h"
    using Setup_total unfolding both_paired_def by blast
  then show ?thesis using r by (auto simp: many_to_many_rel_def Let_def r_def [symmetric] keys_paired_def both_paired_def dest: Setup_matches)
qed

section \<open>The contract of a recursive call\<close>

text \<open>
  The tags of a member that cannot crash the builder: a foreign key tag with several keys comes with
  association keys, and an embedded struct is not tagged as a primary key.
\<close>

definition well_tagged :: "genv \<Rightarrow> member \<Rightarrow> bool" where
  "well_tagged G m =
     (if embedded_member G m then \<not> is_primary m
      else length (tag_keys (base_field m) ''FOREIGNKEY'') \<le> 1 \<or> association_tag_keys (base_field m) \<noteq> [])"

definition tagged :: "genv \<Rightarrow> bool" where
  "tagged G = (\<forall>t. \<forall>m\<in>set (t_members (g_types G t)). m_exported m \<longrightarrow> well_tagged G m)"

text \<open>Types that refer to each other only, with a bounded depth of embedding.\<close>

definition closed_types :: "genv \<Rightarrow> rtype set \<Rightarrow> (rtype \<Rightarrow> nat) \<Rightarrow> nat \<Rightarrow> bool" where
  "closed_types G U rk R =
     (finite U \<and> ranked G rk
      \<and> (\<forall>t\<in>U. rk t \<le> R \<and> (\<forall>m\<in>set (t_members (g_types G t)). embed_target G m \<in> U \<and> assoc_target G m \<in> U)))"

definition unbuilt :: "rtype set \<Rightarrow> world \<Rightarrow> mstate \<Rightarrow> nat" where
  "unbuilt U w st = card {t\<in>U. mb_cache st (w_singularTable w, t) = None}"

lemma unbuilt_grows: "finite U \<Longrightarrow> st_grows st st' \<Longrightarrow> unbuilt U w st' \<le> unbuilt U w st"
  unfolding unbuilt_def by (rule card_mono) (auto dest: st_grows_uncached)

lemma unbuilt_less:
  assumes "finite U" and "st_grows st st'" and "t \<in> U" and "mb_cache st (w_singularTable w, t) = None"
    and "mb_cache st' (w_singularTable w, t) \<noteq> None"
  shows "unbuilt U w st' < unbuilt U w st"
  unfolding unbuilt_def
proof (rule psubset_card_mono)
  show "finite {t \<in> U. mb_cache st (w_singularTable w, t) = None}" using assms(1) by simp
  have "t \<in> {t \<in> U. mb_cache st (w_singularTable w, t) = None} - {t \<in> U. mb_cache st' (w_singularTable w, t) = None}"
    using assms by simp
  moreover have "{t \<in> U. mb_cache st' (w_singularTable w, t) = None} \<subseteq> {t \<in> U. mb_cache st (w_singularTable w, t) = None}"
    using assms(2) by (auto dest: st_grows_uncached)
  ultimately show "{t \<in> U. mb_cache st' (w_singularTable w, t) = None} \<subset> {t \<in> U. mb_cache st (w_singularTable w, t) = None}"
    by blast
qed

definition enough_fuel :: "genv \<Rightarrow> world \<Rightarrow> rtype set \<Rightarrow> (rtype \<Rightarrow> nat) \<Rightarrow> nat \<Rightarrow> nat \<Rightarrow> bscope \<Rightarrow> bscope \<Rightarrow> mstate \<Rightarrow> bool" where
  "enough_fuel G w U rk R n root sc st =
     (closed_types G U rk R \<and> bs_type root \<in> U \<and> bs_type sc \<in> U \<and> unbuilt U w st * Suc R + rk (bs_type sc) < n)"

definition result_ok :: "genv \<Rightarrow> world \<Rightarrow> (rtype \<Rightarrow> nat) \<Rightarrow> mstate \<Rightarrow> bscope \<Rightarrow> pmodel \<Rightarrow> mstate \<Rightarrow> bool" where
  "result_ok G w rk st sc pm st' =
     (kept G rk st pm st'
      \<and> (if t_kind (g_types G (bs_type sc)) \<noteq> KStruct then pm = no_pmodel
         else model_ok G rk st' (bs_type sc) pm \<and> mb_cache st' (w_singularTable w, bs_type sc) = Some pm))"

text \<open>A result has a primary key whenever it has primary fields.\<close>

lemma primary_key_exists:
  assumes "result_ok G w rk st sc pm st'" and "plain_embeds G"
  shows "primary_key_of G st' pm \<noteq> None"
proof (cases "pm_primary pm")
  case Nil
  then show ?thesis by (simp add: primary_key_of_def)
next
  case (Cons a ps)
  then have "model_ok G rk st' (bs_type sc) pm"
    using assms(1) by (auto simp: result_ok_def no_pmodel_def split: if_splits)
  then have "a \<in> set (primary_at st' (pm_fields pm))"
    using Cons assms(2) by (simp add: model_ok_def primary_at_def)
  then obtain b bs where "primary_at st' (pm_fields pm) = b # bs" by (cases "primary_at st' (pm_fields pm)") simp_all
  then show ?thesis by (simp add: primary_key_of_def split: option.splits)
qed

lemma tagged_plain: "tagged G \<Longrightarrow> plain_embeds G"
  unfolding tagged_def plain_embeds_def well_tagged_def by metis

text \<open>A deferred function works on a member of the type with its own tags.\<close>

definition deferred_ok :: "genv \<Rightarrow> rtype \<Rightarrow> mstate \<Rightarrow> deferred \<Rightarrow> bool" where
  "deferred_ok G t st d =
     (fst d < length (mb_fields st)
      \<and> sf_Struct (sf_at st (fst d)) \<in> set (t_members (g_types G t)) \<and> m_exported (sf_Struct (sf_at st (fst d)))
      \<and> \<not> embedded_member G (sf_Struct (sf_at st (fst d)))
      \<and> sf_TagSettings (sf_at st (fst d)) = sf_TagSettings (base_field (sf_Struct (sf_at st (fst d)))))"

lemma deferred_ok_fields: "deferred_ok G t st d \<Longrightarrow> fields_grow st st' \<Longrightarrow> deferred_ok G t st' d"
proof -
  assume ok: "deferred_ok G t st d" and ext: "fields_grow st st'"
  then have "same_core (sf_at st (fst d)) (sf_at st' (fst d))" by (intro fields_grow_core) (simp_all add: deferred_ok_def)
  moreover have "length (mb_fields st) \<le> length (mb_fields st')" using ext by (rule fields_grow_length)
  ultimately show ?thesis using ok by (auto simp: deferred_ok_def same_core_def)
qed

lemmas deferred_ok_grows = deferred_ok_fields [OF _ st_grows_fields]

lemma deferred_keys:
  assumes "deferred_ok G t st (a, c)" and "tagged G"
  shows "length (tag_keys (sf_at st a) ''FOREIGNKEY'') \<le> 1 \<or> association_tag_keys (sf_at st a) \<noteq> []"
proof -
  define m where "m = sf_Struct (sf_at st a)"
  have m: "well_tagged G m" "\<not> embedded_member G m" "sf_TagSettings (sf_at st a) = sf_TagSettings (base_field m)"
    using assms by (auto simp: deferred_ok_def tagged_def m_def)
  then have "tag_keys (sf_at st a) = tag_keys (base_field m)"
    by (intro ext) (simp add: tag_keys_def tag_value_def TagSettingsGet_def)
  moreover have "association_tag_keys (sf_at st a) = association_tag_keys (base_field m)"
    using m(3) by (simp add: association_tag_keys_def tag_keys_def tag_value_def TagSettingsGet_def)
  ultimately show ?thesis using m by (simp add: well_tagged_def)
qed

text \<open>Room for the calls of the deferred functions, whose own model is in the cache.\<close>

definition room :: "genv \<Rightarrow> world \<Rightarrow> rtype set \<Rightarrow> (rtype \<Rightarrow> nat) \<Rightarrow> nat \<Rightarrow> nat \<Rightarrow> bool \<Rightarrow> bscope \<Rightarrow> bscope \<Rightarrow> mstate \<Rightarrow> bool" where
  "room G w U rk R n f root sc st =
     (f \<or> closed_types G U rk R \<and> bs_type root \<in> U \<and> bs_type sc \<in> U \<and> Suc (unbuilt U w st) * Suc R \<le> n)"

lemma room_grows: "room G w U rk R n f root sc st \<Longrightarrow> st_grows st st' \<Longrightarrow> room G w U rk R n f root sc st'"
proof -
  assume room: "room G w U rk R n f root sc st" and ext: "st_grows st st'"
  show ?thesis
  proof (cases f)
    case False
    then have "closed_types G U rk R" and le: "Suc (unbuilt U w st) * Suc R \<le> n" using room by (auto simp: room_def)
    then have "unbuilt U w st' \<le> unbuilt U w st" using ext by (simp add: closed_types_def unbuilt_grows)
    then have "Suc (unbuilt U w st') * Suc R \<le> n" using le by (meson Suc_le_mono mult_le_mono1 order_trans)
    then show ?thesis using room False unfolding room_def by blast
  qed (simp add: room_def)
qed

lemma type_scope_type [simp]: "bs_type (type_scope G w t) = elem_type type_fuel (g_types G) t"
  by (simp add: type_scope_def Let_def)

section \<open>The loop over the members\<close>

definition member_columns :: "nat \<Rightarrow> genv \<Rightarrow> member \<Rightarrow> (string list \<times> string) list" where
  "member_columns n G m =
     (if \<not> m_exported m then []
      else if embedded_member G m
      then map (nest m) (columns_of n G (embed_target G m))
      else [([m_name m], sf_DBName (member_field G m))])"

lemma columns_of_members:
  "columns_of (Suc n) G t =
     (if t_kind (g_types G t) \<noteq> KStruct then [] else concat (map (member_columns n G) (t_members (g_types G t))))"
  by (simp add: member_columns_def [abs_def] cong: map_cong)

text \<open>What the loop has collected: \<open>columns\<close> are the columns so far.\<close>

definition members_ok ::
    "genv \<Rightarrow> (rtype \<Rightarrow> nat) \<Rightarrow> rtype \<Rightarrow> (string list \<times> string) list \<Rightarrow> members_state \<Rightarrow> mstate \<Rightarrow> bool" where
  "members_ok G rk t columns ls st =
     (set (ls_fields ls) \<subseteq> {..<length (mb_fields st)} \<and> set (ls_primary ls) \<subseteq> {..<length (mb_fields st)}
      \<and> (\<forall>a\<in>set (ls_primary ls). sf_IsPrimaryKey (sf_at st a))
      \<and> (plain_embeds G \<longrightarrow> set (ls_primary ls) \<subseteq> set (ls_fields ls))
      \<and> (\<forall>d\<in>set (ls_deferred ls). deferred_ok G t st d)
      \<and> (ranked G rk \<longrightarrow> map (\<lambda>a. path_column (sf_at st a)) (ls_fields ls) = columns))"

lemma map_path_grows:
  assumes "st_grows st st'" and "set as \<subseteq> {..<length (mb_fields st)}"
  shows "map (\<lambda>a. path_column (sf_at st' a)) as = map (\<lambda>a. path_column (sf_at st a)) as"
proof (rule map_cong [OF refl])
  fix a
  assume "a \<in> set as"
  then have "same_core (sf_at st a) (sf_at st' a)" using assms by (intro st_grows_core) auto
  then show "path_column (sf_at st' a) = path_column (sf_at st a)" by (simp add: path_column_core)
qed

lemma members_ok_grows: "members_ok G rk t cs ls st \<Longrightarrow> st_grows st st' \<Longrightarrow> members_ok G rk t cs ls st'"
proof -
  assume ok: "members_ok G rk t cs ls st" and ext: "st_grows st st'"
  have "map (\<lambda>a. path_column (sf_at st' a)) (ls_fields ls) = map (\<lambda>a. path_column (sf_at st a)) (ls_fields ls)"
    using ok by (intro map_path_grows [OF ext]) (simp add: members_ok_def)
  moreover have "\<forall>a\<in>set (ls_primary ls). sf_IsPrimaryKey (sf_at st' a)"
    using ok st_grows_core [OF ext] by (auto simp: members_ok_def same_core_def)
  moreover have "\<forall>d\<in>set (ls_deferred ls). deferred_ok G t st' d"
    using ok ext by (auto simp: members_ok_def intro: deferred_ok_grows)
  moreover have "length (mb_fields st) \<le> length (mb_fields st')" using ext by (rule st_grows_length)
  ultimately show ?thesis using ok unfolding members_ok_def by fastforce
qed

lemma embedded_field_Some:
  assumes "field_ok sub"
  obtains sf where "embedded_field owner m sub = Some sf" "field_ok sf"
    "path_column sf = (m_name m # sf_Names sub, embed_prefix m @ sf_DBName sub)"
proof -
  define sf0 where "sf0 = embedded_copy m sub"
  have sf0: "sf_Relationship sf0 = sf_Relationship sub" "path_column sf0 = (m_name m # sf_Names sub, embed_prefix m @ sf_DBName sub)"
    by (simp_all add: sf0_def embedded_copy_def path_column_def embed_prefix_def Let_def split: option.split)
  have eq: "embedded_field owner m sub =
      (case sf_Relationship sub of None \<Rightarrow> Some sf0
       | Some r \<Rightarrow> (case rel_JoinTableHandler r of None \<Rightarrow> Some sf0
           | Some h \<Rightarrow> map_option (\<lambda>h'. sf0\<lparr>sf_Relationship := Some (r\<lparr>rel_JoinTableHandler := Some h'\<rparr>)\<rparr>)
                (JoinTableHandler_Setup r (jth_TableName h) owner (jts_ModelType (jth_Destination h)))))"
    unfolding embedded_field_def Let_def sf0_def [symmetric] sf0(1) ..
  show ?thesis
  proof (cases "sf_Relationship sub")
    case None
    then show ?thesis using that [of sf0] eq sf0 by (simp add: field_ok_def)
  next
    case (Some r)
    then have r: "keys_paired r" using assms by (simp add: field_ok_def)
    show ?thesis
    proof (cases "rel_JoinTableHandler r")
      case None
      then show ?thesis using that [of sf0] eq sf0 Some r by (simp add: field_ok_def)
    next
      case (Some h)
      have kind: "rel_Kind r = ''many_to_many''" using r Some by (auto simp: keys_paired_def split: if_splits)
      have len: "length (rel_ForeignDBNames r) = length (rel_ForeignFieldNames r)"
        "length (rel_AssociationForeignDBNames r) = length (rel_AssociationForeignFieldNames r)"
        using r by (simp_all add: keys_paired_def)
      then obtain h' where h': "JoinTableHandler_Setup r (jth_TableName h) owner (jts_ModelType (jth_Destination h)) = Some h'"
        using Setup_total by blast
      then have "keys_paired (r\<lparr>rel_JoinTableHandler := Some h'\<rparr>)"
        using Setup_matches [OF h' len] kind len by (simp add: keys_paired_def)
      then show ?thesis
        using that [of "sf0\<lparr>sf_Relationship := Some (r\<lparr>rel_JoinTableHandler := Some h'\<rparr>)\<rparr>"] eq sf0 h' Some \<open>sf_Relationship sub = Some r\<close>
        by (simp add: field_ok_def path_column_def)
    qed
  qed
qed

lemma embed_fields_ok:
  assumes "good G rk st" and "set bs \<subseteq> {..<length (mb_fields st)}" and "members_ok G rk t cs ls st"
  shows "\<exists>ls' st'. embed_fields owner m bs ls st = Built ls' st' \<and> kept G rk st () st'
      \<and> members_ok G rk t (cs @ map (nest m) (map (\<lambda>a. path_column (sf_at st a)) bs)) ls' st'"
  using assms
proof (induction bs arbitrary: st ls cs)
  case Nil
  then show ?case by (simp add: kept_refl)
next
  case (Cons b bs)
  have "field_ok (sf_at st b)" using Cons.prems(1,2) by (simp add: good_def sf_at_def)
  then obtain sf where sf: "embedded_field owner m (sf_at st b) = Some sf" "field_ok sf"
    "path_column sf = (m_name m # sf_Names (sf_at st b), embed_prefix m @ sf_DBName (sf_at st b))"
    by (rule embedded_field_Some)
  obtain a st1 where new: "new_sf sf st = (a, st1)" by (cases "new_sf sf st")
  have g1: "good G rk st1" using Cons.prems(1) sf(2) new by (rule good_new_sf)
  have ext: "st_grows st st1" and a: "a < length (mb_fields st1)" "sf_at st1 a = sf" using st_grows_new_sf [OF new] by blast+
  define ls1 where "ls1 = ls\<lparr>ls_primary := ls_primary ls @ (if sf_IsPrimaryKey sf then [a] else []),
                    ls_fields := ls_fields ls @ [a], ls_all := ls_all ls @ [a]\<rparr>"
  have ok1: "members_ok G rk t (cs @ [path_column sf]) ls1 st1"
    using members_ok_grows [OF Cons.prems(3) ext] a by (auto simp: members_ok_def ls1_def)
  have range: "set bs \<subseteq> {..<length (mb_fields st1)}" using Cons.prems(2) st_grows_length [OF ext] by auto
  have paths: "map (\<lambda>a. path_column (sf_at st1 a)) bs = map (\<lambda>a. path_column (sf_at st a)) bs"
    using Cons.prems(2) by (intro map_path_grows [OF ext]) simp
  obtain ls' st' where res: "embed_fields owner m bs ls1 st1 = Built ls' st'" "kept G rk st1 () st'"
    "members_ok G rk t ((cs @ [path_column sf]) @ map (nest m) (map (\<lambda>a. path_column (sf_at st1 a)) bs)) ls' st'"
    using Cons.IH [OF g1 range ok1] by blast
  have "kept G rk st () st1" using g1 ext by (simp add: kept_def)
  then have "kept G rk st () st'" using res(2) by (rule kept_trans)
  moreover have "path_column sf = nest m (path_column (sf_at st b))"
    using sf(3) by (simp add: nest_def path_column_def)
  ultimately show ?case using res(1,3) sf(1) new paths by (simp add: ls1_def del: map_map)
qed

lemma field_ok_new [simp]: "field_ok (base_field m)" "field_ok (member_field G m)"
  by (simp_all add: field_ok_def base_field_def member_field_def column_field_def class_field_def Let_def split: fclass.split)

lemma member_field_primary [simp]: "sf_IsPrimaryKey (member_field G m) = is_primary m" "sf_IsPrimaryKey (base_field m) = is_primary m"
  by (simp_all add: base_field_def member_field_def column_field_def class_field_def Let_def split: fclass.split)

lemma member_field_struct [simp]: "sf_Struct (member_field G m) = m" "sf_Names (member_field G m) = [m_name m]"
  by (simp_all add: base_field_def member_field_def column_field_def class_field_def Let_def split: fclass.split)

lemma member_field_tags:
  "member_class (g_types G) m \<in> {CSlice, CStruct} \<Longrightarrow> sf_TagSettings (member_field G m) = sf_TagSettings (base_field m)"
  by (auto simp: member_field_def column_field_def class_field_def split: fclass.split)

section \<open>One more level\<close>

locale builder_contract =
  fixes G :: genv and w :: world and U :: "rtype set" and rk :: "rtype \<Rightarrow> nat" and R n :: nat and rec :: builder
  assumes rec_ok:
    "good G rk st \<Longrightarrow>
     built_ok (\<not> tagged G) (\<not> enough_fuel G w U rk R n root sc st) (result_ok G w rk st sc) (rec root sc allFields st)"
begin

lemma rec_room:
  assumes "good G rk st" and "room G w U rk R n f root sc st"
    and "bs_type u = bs_type root \<or> (\<exists>m\<in>set (t_members (g_types G (bs_type sc))). bs_type u = assoc_target G m)"
  shows "built_ok (\<not> tagged G) f (result_ok G w rk st u) (rec u u [] st)"
proof (rule built_ok_mono [OF rec_ok [OF assms(1), of u u "[]"]])
  assume not: "\<not> enough_fuel G w U rk R n u u st"
  show f
  proof (rule ccontr)
    assume "\<not> f"
    then have set: "closed_types G U rk R" "bs_type root \<in> U" "bs_type sc \<in> U" and le: "Suc (unbuilt U w st) * Suc R \<le> n"
      using assms(2) by (auto simp: room_def)
    have u: "bs_type u \<in> U" using assms(3) set by (auto simp: closed_types_def)
    then have "rk (bs_type u) \<le> R" using set(1) by (simp add: closed_types_def)
    then have "unbuilt U w st * Suc R + rk (bs_type u) < n" using le by simp
    then show False using not set(1) u by (simp add: enough_fuel_def)
  qed
qed

lemma built_keys_ok:
  assumes "good G rk st" and "room G w U rk R n f root sc st"
    and "bs_type owner = bs_type root \<or> (\<exists>m\<in>set (t_members (g_types G (bs_type sc))). bs_type owner = assoc_target G m)"
    and "\<And>ks as. choice = Keys ks as \<Longrightarrow> tagged G \<Longrightarrow> length ks \<le> length as"
    and "\<And>ks. choice = OwnerKey ks \<Longrightarrow> length ks = 1"
    and used: "\<And>ks as st'. kept G rk st () st' \<Longrightarrow> \<not> tagged G \<or> length ks \<le> length as \<Longrightarrow>
           built_ok (\<not> tagged G) f (kept G rk st') (use ks as st')"
    and bad: "built_ok (\<not> tagged G) f (kept G rk st) (bad st)"
  shows "built_ok (\<not> tagged G) f (kept G rk st) (built_keys G rec owner choice use bad st)"
proof (cases choice)
  case (Keys ks as)
  then show ?thesis using used [OF kept_refl [OF assms(1)], of ks as] assms(4) by (auto simp: built_keys_def)
next
  case BadKeys
  then show ?thesis using bad by (simp add: built_keys_def)
next
  case (OwnerKey ks)
  have len: "length ks = 1" using assms(5) OwnerKey by simp
  have after: "built_ok (\<not> tagged G) f (kept G rk st)
      (case primary_key_of G st' pm of None \<Rightarrow> Crashed | Some key \<Rightarrow> use ks [key] st')"
    if res: "result_ok G w rk st owner pm st'" for pm st'
  proof (cases "primary_key_of G st' pm")
    case None
    then have "\<not> tagged G" using primary_key_exists [OF res] tagged_plain by blast
    then show ?thesis using None by simp
  next
    case (Some key)
    have k: "kept G rk st () st'" using res by (simp add: result_ok_def kept_def)
    have "built_ok (\<not> tagged G) f (kept G rk st') (use ks [key] st')" using used [OF k] len by simp
    then show ?thesis using Some k by (auto elim!: built_ok_mono intro: kept_trans)
  qed
  show ?thesis
    unfolding OwnerKey built_keys_def key_choice.case
    by (rule built_ok_then [OF rec_room [OF assms(1-3)]]) (rule after)
qed

lemma run_belongs_to_ok:
  assumes "good G rk st" and "room G w U rk R n f root sc st"
    and keys: "tagged G \<Longrightarrow> length (tag_keys sf ''FOREIGNKEY'') \<le> 1 \<or> association_tag_keys sf \<noteq> []"
    and owner: "\<exists>m\<in>set (t_members (g_types G (bs_type sc))). bs_type toScope = assoc_target G m" and "pairs_so_far r"
  shows "built_ok (\<not> tagged G) f (kept G rk st) (run_belongs_to G rec sc toScope own to sf a r st)"
  unfolding run_belongs_to_def
proof (rule built_keys_ok [OF assms(1,2) disjI2 [OF owner]])
  show "built_ok (\<not> tagged G) f (kept G rk st) (Built () (builder_error sc length_error st))"
    using assms(1) by (simp add: kept_def)
next
  fix ks as :: "string list" and st'
  assume k: "kept G rk st () st'" and len: "\<not> tagged G \<or> length ks \<le> length as"
  have g: "good G rk st'" using k by (simp add: kept_def)
  show "built_ok (\<not> tagged G) f (kept G rk st')
          (then_built (pair_keys G (pm_fields own) (pm_fields to) ks as r st')
            (\<lambda>r st. Built () (if rel_ForeignFieldNames r \<noteq> [] then set_rel a (r\<lparr>rel_Kind := ''belongs_to''\<rparr>) st else st)))"
    by (rule built_ok_then [OF pair_keys_ok [OF g assms(5) len]])
      (auto simp only: built_ok.simps intro!: kept_finish keys_paired_kind)
qed (rule choose_keys_lengths, assumption, erule keys, rule choose_keys_owner)

lemma run_has_ok:
  assumes "good G rk st" and "room G w U rk R n f root sc st" and "pairs_so_far r0"
    and keys: "tagged G \<Longrightarrow> length (tag_keys sf ''FOREIGNKEY'') \<le> 1 \<or> association_tag_keys sf \<noteq> []"
    and finish: "\<And>r st'. kept G rk st () st' \<Longrightarrow> pairs_so_far r \<Longrightarrow> rel_Kind r = rel_Kind r0 \<Longrightarrow>
           built_ok (\<not> tagged G) f (kept G rk st') (finish r st')"
  shows "built_ok (\<not> tagged G) f (kept G rk st) (run_has G rec root sc own to allFields sf r0 finish st)"
proof -
  obtain p r st1 where poly: "polymorphic_rel G sc sf (pm_fields to) (t_name (g_types G (bs_type sc))) r0 st = (p, r, st1)"
    by (metis prod_cases3)
  have k1: "kept G rk st () st1" and r: "pairs_so_far r" "rel_Kind r = rel_Kind r0"
    using polymorphic_ok [OF assms(1,3) poly, of "()"] by simp_all
  then have g1: "good G rk st1" and room: "room G w U rk R n f root sc st1"
    using assms(2) by (auto simp: kept_def intro: room_grows)
  have "built_ok (\<not> tagged G) f (kept G rk st1)
      (built_keys G rec root
         (choose_keys G st1 allFields p (map (\<lambda>a. sf_Name (sf_at st1 a)) (pm_primary own))
           (tag_keys sf ''FOREIGNKEY'') (association_tag_keys sf))
         (\<lambda>ks as st. then_built (pair_keys G (pm_fields to) allFields ks as r st) finish)
         (\<lambda>st. Built () (builder_error sc length_error st)) st1)"
  proof (rule built_keys_ok [OF g1 room])
    show "built_ok (\<not> tagged G) f (kept G rk st1) (Built () (builder_error sc length_error st1))"
      using g1 by (simp add: kept_def)
  next
    fix ks as :: "string list" and st2
    assume k2: "kept G rk st1 () st2" and len: "\<not> tagged G \<or> length ks \<le> length as"
    have g2: "good G rk st2" using k2 by (simp add: kept_def)
    show "built_ok (\<not> tagged G) f (kept G rk st2) (then_built (pair_keys G (pm_fields to) allFields ks as r st2) finish)"
    proof (rule built_ok_then [OF pair_keys_ok [OF g2 r(1) len]])
      fix r' st3
      assume pairs: "kept G rk st2 r' st3 \<and> pairs_so_far r' \<and> rel_Kind r' = rel_Kind r"
      then have k3: "kept G rk st2 () st3" by (simp add: kept_def)
      have "kept G rk st () st3" using k1 k2 k3 by (blast intro: kept_trans)
      then have "built_ok (\<not> tagged G) f (kept G rk st3) (finish r' st3)" using pairs r(2) by (intro finish) simp_all
      then show "built_ok (\<not> tagged G) f (kept G rk st2) (finish r' st3)"
        by (rule built_ok_mono) (auto intro: kept_trans [OF k3])
    qed
  qed (simp, rule choose_keys_lengths, assumption, erule keys, rule choose_keys_owner)
  then show ?thesis by (auto simp: run_has_def poly elim!: built_ok_mono intro: kept_trans [OF k1])
qed

lemma called_for:
  assumes "good G rk st" and "room G w U rk R n f root sc st"
    and owner: "\<exists>m\<in>set (t_members (g_types G (bs_type sc))). bs_type toScope = assoc_target G m"
    and "\<And>to st'. kept G rk st () st' \<Longrightarrow> good G rk st' \<Longrightarrow> room G w U rk R n f root sc st' \<Longrightarrow>
           built_ok (\<not> tagged G) f (kept G rk st') (k to st')"
  shows "built_ok (\<not> tagged G) f (kept G rk st) (then_built (rec toScope toScope [] st) k)"
proof (rule built_ok_then [OF rec_room [OF assms(1,2) disjI2 [OF owner]]])
  fix to st'
  assume "result_ok G w rk st toScope to st'"
  then have k1: "kept G rk st () st'" by (simp add: result_ok_def kept_def)
  then have "good G rk st'" "room G w U rk R n f root sc st'" using assms(2) by (auto simp: kept_def intro: room_grows)
  with k1 have "built_ok (\<not> tagged G) f (kept G rk st') (k to st')" by (rule assms(4))
  then show "built_ok (\<not> tagged G) f (kept G rk st) (k to st')"
    by (rule built_ok_mono) (auto intro: kept_trans [OF k1])
qed

lemma deferred_owner:
  "deferred_ok G (bs_type sc) st (a, c) \<Longrightarrow>
   \<exists>m\<in>set (t_members (g_types G (bs_type sc))). bs_type (type_scope G w (m_type (sf_Struct (sf_at st a)))) = assoc_target G m"
  by (auto simp: deferred_ok_def assoc_target_def)

lemma run_has_many_ok:
  assumes "good G rk st" and "room G w U rk R n f root sc st"
    and "tagged G \<Longrightarrow> length (tag_keys sf ''FOREIGNKEY'') \<le> 1 \<or> association_tag_keys sf \<noteq> []"
  shows "built_ok (\<not> tagged G) f (kept G rk st) (run_has_many G rec root sc own to allFields sf a st)"
  unfolding run_has_many_def
proof (rule run_has_ok [OF assms(1,2) pairs_so_far_empty(2) assms(3)])
  fix r st1
  assume k: "kept G rk st () st1" and r: "pairs_so_far r" "rel_Kind r = rel_Kind (empty_Relationship\<lparr>rel_Kind := ''has_many''\<rparr>)"
  then have "good G rk st1" by (simp add: kept_def)
  then show "built_ok (\<not> tagged G) f (kept G rk st1)
      (Built () (if rel_ForeignFieldNames r \<noteq> [] then set_rel a r st1 else st1))"
    unfolding built_ok.simps by (rule kept_finish [OF kept_refl]) (use r in \<open>simp add: keys_paired_pairs\<close>)
qed

lemma run_slice_ok:
  assumes "good G rk st" and "room G w U rk R n f root sc st" and "deferred_ok G (bs_type sc) st (a, c)"
  shows "built_ok (\<not> tagged G) f (kept G rk st) (run_slice G w rec root sc own allFields a st)"
proof (cases "t_kind (g_types G (bs_type (type_scope G w (m_type (sf_Struct (sf_at st a)))))) = KStruct")
  case False
  then show ?thesis using kept_normal [OF assms(1)] by (simp add: run_slice_def)
next
  case True
  have "built_ok (\<not> tagged G) f (kept G rk st) (then_built (rec toScope toScope [] st)
          (\<lambda>to. if tag_value (sf_at st a) ''MANY2MANY'' \<noteq> [] then run_many_to_many G sc toScope own to (sf_at st a) a
                 else run_has_many G rec root sc own to allFields (sf_at st a) a))"
    if "toScope = type_scope G w (m_type (sf_Struct (sf_at st a)))" for toScope
    unfolding that
  proof (rule called_for [OF assms(1,2) deferred_owner [OF assms(3)]])
    fix to st'
    assume g: "good G rk st'" and room: "room G w U rk R n f root sc st'"
    define toScope where "toScope = type_scope G w (m_type (sf_Struct (sf_at st a)))"
    have "built_ok (\<not> tagged G) f (kept G rk st') (run_many_to_many G sc toScope own to (sf_at st a) a st')"
      using many_to_many_paired [of G sc "sf_at st a" own "bs_type toScope" to st'] kept_set_rel [OF g]
      by (auto simp: run_many_to_many_def)
    moreover have "built_ok (\<not> tagged G) f (kept G rk st') (run_has_many G rec root sc own to allFields (sf_at st a) a st')"
      using g room deferred_keys [OF assms(3)] by (rule run_has_many_ok)
    ultimately show "built_ok (\<not> tagged G) f (kept G rk st')
        ((if tag_value (sf_at st a) ''MANY2MANY'' \<noteq> [] then run_many_to_many G sc toScope own to (sf_at st a) a
          else run_has_many G rec root sc own to allFields (sf_at st a) a) st')"
      by simp
  qed
  then show ?thesis using True by (simp add: run_slice_def Let_def del: type_scope_type)
qed

lemma run_struct_ok:
  assumes "good G rk st" and "room G w U rk R n f root sc st" and "deferred_ok G (bs_type sc) st (a, c)"
  shows "built_ok (\<not> tagged G) f (kept G rk st) (run_struct G w rec root sc own allFields a st)"
  unfolding run_struct_def Let_def
proof (rule called_for [OF assms(1,2) deferred_owner [OF assms(3)]])
  fix to st'
  assume g: "good G rk st'" and room: "room G w U rk R n f root sc st'"
  show "built_ok (\<not> tagged G) f (kept G rk st')
     (run_has G rec root sc own to allFields (sf_at st a) empty_Relationship
       (\<lambda>r st'. if rel_ForeignFieldNames r \<noteq> [] then Built () (set_rel a (r\<lparr>rel_Kind := ''has_one''\<rparr>) st')
                 else run_belongs_to G rec sc (type_scope G w (m_type (sf_Struct (sf_at st a)))) own to (sf_at st a) a r st') st')"
  proof (rule run_has_ok [OF g room pairs_so_far_empty(1) deferred_keys [OF assms(3)]])
    fix r st1
    assume k: "kept G rk st' () st1" and r: "pairs_so_far r"
    have g1: "good G rk st1" using k by (simp add: kept_def)
    have room1: "room G w U rk R n f root sc st1" using room k by (auto simp: kept_def intro: room_grows)
    show "built_ok (\<not> tagged G) f (kept G rk st1)
       (if rel_ForeignFieldNames r \<noteq> [] then Built () (set_rel a (r\<lparr>rel_Kind := ''has_one''\<rparr>) st1)
        else run_belongs_to G rec sc (type_scope G w (m_type (sf_Struct (sf_at st a)))) own to (sf_at st a) a r st1)"
      using run_belongs_to_ok [OF g1 room1 deferred_keys [OF assms(3)] deferred_owner [OF assms(3)] r]
        kept_set_rel [where x = "()", OF g1 keys_paired_kind [OF r, of "''has_one''"]] by simp
  qed
qed

lemma run_deferred_ok:
  "good G rk st \<Longrightarrow> room G w U rk R n f root sc st \<Longrightarrow> \<forall>d\<in>set ds. deferred_ok G (bs_type sc) st d \<Longrightarrow>
   built_ok (\<not> tagged G) f (kept G rk st) (run_deferred G w rec root sc own allFields ds st)"
proof (induction ds arbitrary: st)
  case Nil
  then show ?case by (simp add: kept_refl)
next
  case (Cons d ds)
  obtain a c where d: "d = (a, c)" by (cases d)
  have "built_ok (\<not> tagged G) f (kept G rk st)
      ((if c = CSlice then run_slice else run_struct) G w rec root sc own allFields a st)"
    using run_slice_ok [OF Cons.prems(1,2), of a c] run_struct_ok [OF Cons.prems(1,2), of a c] Cons.prems(3) d by simp
  then show ?case
    unfolding d run_deferred.simps
  proof (rule built_ok_then)
    fix x st'
    assume k: "kept G rk st x st'"
    then have "built_ok (\<not> tagged G) f (kept G rk st') (run_deferred G w rec root sc own allFields ds st')"
      using Cons.prems by (intro Cons.IH) (auto simp: kept_def intro: room_grows deferred_ok_grows)
    then show "built_ok (\<not> tagged G) f (kept G rk st) (run_deferred G w rec root sc own allFields ds st')"
      by (rule built_ok_mono) (auto intro: kept_trans [OF k])
  qed
qed

lemma embedded_call:
  assumes "good G rk st" and "st_grows st0 st" and "m \<in> set (t_members (g_types G (bs_type sc)))" and "embedded_member G m"
    and fuel: "f \<or> enough_fuel G w U rk R (Suc n) root sc st0"
    and that: "bs_type e = embed_target G m"
  shows "built_ok (\<not> tagged G) f (result_ok G w rk st e) (rec root e all st)"
proof (rule built_ok_mono [OF rec_ok [OF assms(1), of root e all]])
  assume not: "\<not> enough_fuel G w U rk R n root e st"
  show f
  proof (rule ccontr)
    assume "\<not> f"
    then have set: "closed_types G U rk R" "bs_type root \<in> U" "bs_type sc \<in> U"
      and le: "unbuilt U w st0 * Suc R + rk (bs_type sc) < Suc n"
      using fuel by (auto simp: enough_fuel_def)
    have "rk (bs_type e) < rk (bs_type sc)" "bs_type e \<in> U"
      using set assms(3,4) that by (auto simp: closed_types_def ranked_def)
    moreover have "unbuilt U w st * Suc R \<le> unbuilt U w st0 * Suc R"
      using set(1) assms(2) by (intro mult_le_mono1 unbuilt_grows) (simp_all add: closed_types_def)
    ultimately have "unbuilt U w st * Suc R + rk (bs_type e) < n" using le by linarith
    then show False using not set \<open>bs_type e \<in> U\<close> by (simp add: enough_fuel_def)
  qed
qed

lemma add_member_ok:
  assumes "good G rk st" and "st_grows st0 st" and m: "m \<in> set (t_members (g_types G (bs_type sc)))"
    and fuel: "f \<or> enough_fuel G w U rk R (Suc n) root sc st0"
    and "members_ok G rk (bs_type sc) cs ls st"
  shows "built_ok (\<not> tagged G) f
      (\<lambda>ls' st'. kept G rk st () st' \<and> members_ok G rk (bs_type sc) (cs @ member_columns (rk (bs_type sc)) G m) ls' st')
      (add_member G w rec root sc m ls st)"
proof -
  consider "\<not> m_exported m" | "m_exported m" "embedded_member G m" | "m_exported m" "\<not> embedded_member G m" by blast
  then show ?thesis
  proof cases
    case 1
    then show ?thesis using assms(1,5) by (simp add: add_member_def kept_refl member_columns_def)
  next
    case 2
    obtain a st1 where new: "new_sf (base_field m) st = (a, st1)" by (cases "new_sf (base_field m) st")
    have ext: "st_grows st st1" and a: "a < length (mb_fields st1)" "sf_at st1 a = base_field m"
      using st_grows_new_sf [OF new] by blast+
    have g1: "good G rk st1" using assms(1) field_ok_new(1) new by (rule good_new_sf)
    define ls1 where "ls1 = ls\<lparr>ls_primary := ls_primary ls @ (if is_primary m then [a] else [])\<rparr>"
    have "is_primary m \<Longrightarrow> \<not> plain_embeds G" using 2 m by (auto simp: plain_embeds_def)
    then have ok1: "members_ok G rk (bs_type sc) cs ls1 st1"
      using members_ok_grows [OF assms(5) ext] a by (auto simp: members_ok_def ls1_def)
    define e where "e = type_scope G w (deref_type type_fuel (g_types G) (m_type m))"
    have e: "bs_type e = embed_target G m" by (simp add: e_def embed_target_def)
    have call: "built_ok (\<not> tagged G) f (result_ok G w rk st1 e) (rec root e (ls_all ls1) st1)"
      using g1 st_grows_trans [OF assms(2) ext] m 2(2) fuel e by (rule embedded_call)
    have "built_ok (\<not> tagged G) f
        (\<lambda>ls' st'. kept G rk st () st' \<and> members_ok G rk (bs_type sc) (cs @ member_columns (rk (bs_type sc)) G m) ls' st')
        (then_built (rec root e (ls_all ls1) st1) (\<lambda>pm. embed_fields (bs_type sc) m (pm_fields pm) ls1))"
    proof (rule built_ok_then [OF call])
      fix pm st2
      assume res: "result_ok G w rk st1 e pm st2"
      then have g2: "good G rk st2" and ext2: "st_grows st1 st2" by (simp_all add: result_ok_def kept_def)
      have range: "set (pm_fields pm) \<subseteq> {..<length (mb_fields st2)}"
        using res by (auto simp: result_ok_def model_ok_def no_pmodel_def split: if_splits)
      have cols: "ranked G rk \<Longrightarrow> map (\<lambda>a. path_column (sf_at st2 a)) (pm_fields pm) = columns_of (rk (bs_type sc)) G (embed_target G m)"
      proof -
        assume ranked: "ranked G rk"
        then have "rk (embed_target G m) < rk (bs_type sc)" using m 2(2) by (simp add: ranked_def)
        then have "columns_of (rk (bs_type sc)) G (embed_target G m) = columns_of (Suc (rk (embed_target G m))) G (embed_target G m)"
          by (intro columns_of_enough [OF ranked]) simp_all
        then show ?thesis using res ranked e by (auto simp: result_ok_def model_ok_def no_pmodel_def split: if_splits)
      qed
      obtain ls' st' where emb: "embed_fields (bs_type sc) m (pm_fields pm) ls1 st2 = Built ls' st'" "kept G rk st2 () st'"
        "members_ok G rk (bs_type sc) (cs @ map (nest m) (map (\<lambda>a. path_column (sf_at st2 a)) (pm_fields pm))) ls' st'"
        using embed_fields_ok [OF g2 range members_ok_grows [OF ok1 ext2]] by blast
      have "kept G rk st () st'"
        using emb(2) st_grows_trans [OF ext ext2] by (auto simp: kept_def intro: st_grows_trans)
      moreover have "members_ok G rk (bs_type sc) (cs @ member_columns (rk (bs_type sc)) G m) ls' st'"
        using emb(3) cols 2 by (simp add: members_ok_def member_columns_def del: map_map)
      ultimately show "built_ok (\<not> tagged G) f
        (\<lambda>ls' st'. kept G rk st () st' \<and> members_ok G rk (bs_type sc) (cs @ member_columns (rk (bs_type sc)) G m) ls' st')
        (embed_fields (bs_type sc) m (pm_fields pm) ls1 st2)" using emb(1) by simp
    qed
    then show ?thesis using 2 new by (simp add: add_member_def embedded_member_def ls1_def e_def)
  next
    case 3
    obtain a st1 where new: "new_sf (member_field G m) st = (a, st1)" by (cases "new_sf (member_field G m) st")
    have ext: "st_grows st st1" and a: "a < length (mb_fields st1)" "sf_at st1 a = member_field G m"
      using st_grows_new_sf [OF new] by blast+
    have g1: "good G rk st1" using assms(1) field_ok_new(2) new by (rule good_new_sf)
    have "path_column (sf_at st1 a) = ([m_name m], sf_DBName (member_field G m))" using a by (simp add: path_column_def)
    then show ?thesis
      using 3 new members_ok_grows [OF assms(5) ext] a g1 ext m
      by (auto simp: add_member_def embedded_member_def members_ok_def member_columns_def kept_def deferred_ok_def
          member_field_tags)
  qed
qed

lemma add_members_ok:
  "good G rk st \<Longrightarrow> st_grows st0 st \<Longrightarrow> set ms \<subseteq> set (t_members (g_types G (bs_type sc))) \<Longrightarrow>
   f \<or> enough_fuel G w U rk R (Suc n) root sc st0 \<Longrightarrow> members_ok G rk (bs_type sc) cs ls st \<Longrightarrow>
   built_ok (\<not> tagged G) f
      (\<lambda>ls' st'. kept G rk st () st'
         \<and> members_ok G rk (bs_type sc) (cs @ concat (map (member_columns (rk (bs_type sc)) G) ms)) ls' st')
      (add_members G w rec root sc ms ls st)"
proof (induction ms arbitrary: st ls cs)
  case Nil
  then show ?case by (simp add: kept_refl)
next
  case (Cons m ms)
  have m: "m \<in> set (t_members (g_types G (bs_type sc)))" using Cons.prems(3) by simp
  show ?case
    unfolding add_members.simps
  proof (rule built_ok_then [OF add_member_ok [OF Cons.prems(1,2) m Cons.prems(4,5)]])
    fix ls1 st1
    assume ok: "kept G rk st () st1 \<and> members_ok G rk (bs_type sc) (cs @ member_columns (rk (bs_type sc)) G m) ls1 st1"
    then have "good G rk st1" "st_grows st0 st1" using Cons.prems(2) by (auto simp: kept_def intro: st_grows_trans)
    then have "built_ok (\<not> tagged G) f
      (\<lambda>ls' st'. kept G rk st1 () st'
         \<and> members_ok G rk (bs_type sc) ((cs @ member_columns (rk (bs_type sc)) G m) @ concat (map (member_columns (rk (bs_type sc)) G) ms)) ls' st')
      (add_members G w rec root sc ms ls1 st1)"
      using Cons.prems(3,4) ok by (intro Cons.IH) simp_all
    then show "built_ok (\<not> tagged G) f
      (\<lambda>ls' st'. kept G rk st () st'
         \<and> members_ok G rk (bs_type sc) (cs @ concat (map (member_columns (rk (bs_type sc)) G) (m # ms))) ls' st')
      (add_members G w rec root sc ms ls1 st1)"
      using ok by (auto elim!: built_ok_mono intro: kept_trans)
  qed
qed

lemma default_primary_ok:
  assumes "good G rk st" and "members_ok G rk t cs ls st" and "default_primary G ls st = (ls', st')"
  shows "kept G rk st () st' \<and> members_ok G rk t cs ls' st'"
proof (cases "ls_primary ls = [] \<and> foreign_at G st ''id'' (ls_fields ls) \<noteq> None")
  case False
  then have "ls' = ls \<and> st' = st" using assms(3) by (auto simp: default_primary_def split: if_splits option.splits)
  then show ?thesis using assms(1,2) by (simp add: kept_refl)
next
  case True
  then obtain a where a: "foreign_at G st ''id'' (ls_fields ls) = Some a" by blast
  then have st': "st' = set_sf a (\<lambda>sf. sf\<lparr>sf_IsPrimaryKey := True\<rparr>) st" and ls': "ls' = ls\<lparr>ls_primary := [a]\<rparr>"
    using True assms(3) by (simp_all add: default_primary_def)
  have "a \<in> set (ls_fields ls)" using a unfolding foreign_at_def by (blast dest: find_Some_in)
  then have in_range: "a \<in> set (ls_fields ls)" "a < length (mb_fields st)" using assms(2) by (auto simp: members_ok_def)
  have k: "kept G rk st () st'" unfolding st' by (rule kept_set_sf [OF assms(1)]) (simp_all add: field_ok_def)
  then have "members_ok G rk t cs ls st'" using assms(2) by (auto simp: kept_def intro: members_ok_grows)
  moreover have "sf_IsPrimaryKey (sf_at st' a)" using in_range(2) by (simp add: st' sf_at_def set_sf_def)
  ultimately show ?thesis using k in_range by (auto simp: members_ok_def ls' st')
qed

lemma build_model_ok:
  assumes "good G rk st" and struct: "t_kind (g_types G (bs_type sc)) = KStruct"
    and uncached: "mb_cache st (w_singularTable w, bs_type sc) = None"
    and fuel: "f \<or> enough_fuel G w U rk R (Suc n) root sc st"
  shows "built_ok (\<not> tagged G) f (result_ok G w rk st sc) (build_model G w rec root sc all st)"
  unfolding build_model_def
proof (rule built_ok_then)
  let ?t = "bs_type sc"
  have "members_ok G rk ?t [] \<lparr>ls_primary = [], ls_fields = [], ls_all = all, ls_deferred = []\<rparr> st"
    by (simp add: members_ok_def)
  with assms(1) show "built_ok (\<not> tagged G) f
      (\<lambda>ls' st'. kept G rk st () st'
         \<and> members_ok G rk ?t ([] @ concat (map (member_columns (rk ?t) G) (t_members (g_types G ?t)))) ls' st')
      (add_members G w rec root sc (t_members (g_types G ?t)) \<lparr>ls_primary = [], ls_fields = [], ls_all = all, ls_deferred = []\<rparr> st)"
    using fuel by (intro add_members_ok) simp_all
next
  let ?t = "bs_type sc"
  fix ls1 st1
  assume loop: "kept G rk st () st1
     \<and> members_ok G rk ?t ([] @ concat (map (member_columns (rk ?t) G) (t_members (g_types G ?t)))) ls1 st1"
  obtain ls st2 where default: "default_primary G ls1 st1 = (ls, st2)" by (cases "default_primary G ls1 st1")
  have "good G rk st1" using loop by (simp add: kept_def)
  from default_primary_ok [OF this conjunct2 [OF loop] default]
  have k2: "kept G rk st1 () st2" and ok: "members_ok G rk ?t ([] @ concat (map (member_columns (rk ?t) G) (t_members (g_types G ?t)))) ls st2"
    by blast+
  have g2: "good G rk st2" and ext2: "st_grows st st2" using loop k2 by (auto simp: kept_def intro: st_grows_trans)
  define pm where "pm = \<lparr>pm_primary = ls_primary ls, pm_fields = ls_fields ls, pm_type = Some ?t\<rparr>"
  define st3 where "st3 = store_model (w_singularTable w, ?t) pm st2"
  have "model_ok G rk st2 ?t pm"
    using ok struct by (simp add: members_ok_def model_ok_def pm_def columns_of_members del: columns_of.simps)
  then have g3: "good G rk st3" and pm3: "model_ok G rk st3 ?t pm"
    using good_store [OF g2] model_ok_fields [OF _ fields_grow_store] by (simp_all add: st3_def)
  have cached: "mb_cache st3 (w_singularTable w, ?t) = Some pm" by (simp add: st3_def store_model_def)
  have "mb_cache st \<subseteq>\<^sub>m mb_cache st3"
    using ext2 uncached by (auto simp: st3_def store_model_def map_le_def st_grows_def dom_def)
  then have ext3: "st_grows st st3"
    using fields_grow_trans [OF st_grows_fields [OF ext2] fields_grow_store] by (simp add: st_grows_def st3_def)
  have room: "room G w U rk R n f root sc st3"
  proof (cases f)
    case False
    then have set: "closed_types G U rk R" "bs_type root \<in> U" "?t \<in> U"
      and less: "unbuilt U w st * Suc R + rk ?t < Suc n" using fuel by (auto simp: enough_fuel_def)
    then have "unbuilt U w st3 < unbuilt U w st"
      by (intro unbuilt_less [OF _ ext3 _ uncached]) (auto simp: closed_types_def cached)
    then have "Suc (unbuilt U w st3) * Suc R \<le> unbuilt U w st * Suc R" by (intro mult_le_mono1) simp
    then have "Suc (unbuilt U w st3) * Suc R \<le> n" using less by linarith
    then show ?thesis using set by (simp add: room_def)
  qed (simp add: room_def)
  have deferred: "\<forall>d\<in>set (ls_deferred ls). deferred_ok G ?t st3 d"
    using ok fields_grow_store [of st2] by (auto simp: members_ok_def st3_def intro: deferred_ok_fields)
  have "built_ok (\<not> tagged G) f (result_ok G w rk st sc)
      (then_built (run_deferred G w rec root sc pm (ls_all ls) (ls_deferred ls) st3) (\<lambda>_. Built pm))"
  proof (rule built_ok_then [OF run_deferred_ok [OF g3 room deferred]])
    fix x st4
    assume k: "kept G rk st3 x st4"
    then have "kept G rk st pm st4" using ext3 by (auto simp: kept_def intro: st_grows_trans)
    moreover have "model_ok G rk st4 ?t pm" using pm3 k by (auto simp: kept_def intro: model_ok_grows)
    moreover have "mb_cache st4 (w_singularTable w, ?t) = Some pm" using cached k by (auto simp: kept_def dest: st_grows_cache)
    ultimately show "built_ok (\<not> tagged G) f (result_ok G w rk st sc) (Built pm st4)"
      using struct by (simp add: result_ok_def)
  qed
  then show "built_ok (\<not> tagged G) f (result_ok G w rk st sc)
     (case default_primary G ls1 st1 of
          (ls, st) \<Rightarrow>
            (let pm = \<lparr>pm_primary = ls_primary ls, pm_fields = ls_fields ls, pm_type = Some ?t\<rparr>
             in then_built
                  (run_deferred G w rec root sc pm (ls_all ls) (ls_deferred ls)
                    (store_model (w_singularTable w, ?t) pm st))
                  (\<lambda>_. Built pm)))"
    by (simp add: default pm_def st3_def Let_def)
qed

text \<open>The same call with one more level of nesting keeps the contract.\<close>

lemma next_level:
  assumes "good G rk st"
  shows "built_ok (\<not> tagged G) (\<not> enough_fuel G w U rk R (Suc n) root sc st) (result_ok G w rk st sc)
     (if t_kind (g_types G (bs_type sc)) \<noteq> KStruct then Built no_pmodel st
      else case mb_cache st (w_singularTable w, bs_type sc) of
             Some pm \<Rightarrow> Built pm st
           | None \<Rightarrow> build_model G w rec root sc all st)"
proof (cases "t_kind (g_types G (bs_type sc)) = KStruct")
  case False
  then show ?thesis using assms by (simp add: result_ok_def kept_refl)
next
  case True
  show ?thesis
  proof (cases "mb_cache st (w_singularTable w, bs_type sc)")
    case None
    with True show ?thesis using build_model_ok [OF assms True None] by simp
  next
    case (Some pm)
    with True show ?thesis using good_cached [OF assms Some] assms by (simp add: result_ok_def kept_refl)
  qed
qed

end

section \<open>getModelStruct keeps the contract\<close>

lemma getModelStruct_contract: "builder_contract G w U rk R n (getModelStruct n G w)"
proof (induction n)
  case 0
  show ?case by unfold_locales (simp add: enough_fuel_def)
next
  case (Suc n)
  show ?case
    by unfold_locales (simp only: getModelStruct.simps builder_contract.next_level [OF Suc.IH])
qed

interpretation gm: builder_contract G w U rk R n "getModelStruct n G w" for G w U rk R n
  by (rule getModelStruct_contract)

end
