(* ===== verification/ModelProps.thy ===== *)
theory ModelProps
  imports ModelInvariant SaveAssociations Samples
begin

text \<open>
  The properties of derived models: they are built, their columns are those of the type, and their
  relationships can be used without a panic.  Two small sets of types show where tags crash the
  builder and where the order of first use decides about a relationship.
\<close>

section \<open>Sample types\<close>

definition tagged_member :: "string \<Rightarrow> string \<Rightarrow> rtype \<Rightarrow> member" where
  "tagged_member name tag t = (sample_member name t)\<lparr>m_gorm_tag := tag\<rparr>"

definition embedded_sample :: "string \<Rightarrow> rtype \<Rightarrow> member" where
  "embedded_sample name t = (sample_member name t)\<lparr>m_anonymous := True\<rparr>"

text \<open>
  10 a user with emails, a company, languages and an embedded struct; 11 emails, 12 an email; 13 a company;
  14 languages, 15 a language; 16 the embedded struct.
\<close>

definition struct_type :: "string \<Rightarrow> member list \<Rightarrow> tinfo" where
  "struct_type name ms = (basic_type KStruct)\<lparr>t_path := ''app'', t_name := name, t_members := ms\<rparr>"

definition slice_type :: "rtype \<Rightarrow> tinfo" where
  "slice_type t = (basic_type KSlice)\<lparr>t_elem := t\<rparr>"

definition shop_types :: types where
  "shop_types t =
     (if t = 10 then struct_type ''User''
           [sample_member ''ID'' 1, sample_member ''Emails'' 11, sample_member ''CompanyID'' 1, sample_member ''Company'' 13,
            tagged_member ''Languages'' ''many2many:user_languages'' 14, embedded_sample ''Base'' 16]
      else if t = 11 then slice_type 12
      else if t = 12 then struct_type ''Email'' [sample_member ''ID'' 1, sample_member ''UserID'' 1]
      else if t = 13 then struct_type ''Company'' [sample_member ''ID'' 1]
      else if t = 14 then slice_type 15
      else if t = 15 then struct_type ''Language'' [sample_member ''ID'' 1, sample_member ''Users'' 17]
      else if t = 16 then struct_type ''Base'' [sample_member ''Note'' 2]
      else if t = 17 then slice_type 10
      else sample_types t)"

definition shop_env :: genv where
  "shop_env = sample_env\<lparr>g_types := shop_types\<rparr>"

text \<open>20 a user with a contact embedded, 21 the contact, 22 its phones, 23 a phone.\<close>

definition contact_types :: types where
  "contact_types t =
     (if t = 20 then struct_type ''User'' [sample_member ''ID'' 1, embedded_sample ''Contact'' 21]
      else if t = 21 then struct_type ''Contact'' [tagged_member ''Phones'' ''foreignkey:ContactID'' 22]
      else if t = 22 then slice_type 23
      else if t = 23 then struct_type ''Phone'' [sample_member ''ContactID'' 1]
      else sample_types t)"

text \<open>30 an order with lines whose two foreign keys have no association keys, 31 the lines, 32 a line.\<close>

definition order_types :: types where
  "order_types t =
     (if t = 30 then struct_type ''Order'' [sample_member ''ID'' 1, tagged_member ''Lines'' ''foreignkey:Number,Shop'' 31]
      else if t = 31 then slice_type 32
      else if t = 32 then struct_type ''Line'' [sample_member ''Number'' 1, sample_member ''Shop'' 1]
      else sample_types t)"

definition relationship_of :: "pmodel built \<Rightarrow> string \<Rightarrow> Relationship option" where
  "relationship_of b name =
     (case b of
        Built pm st \<Rightarrow> (case List.find (\<lambda>sf. sf_Name sf = name) (ms_StructFields (read_model st pm)) of
                          Some sf \<Rightarrow> sf_Relationship sf | None \<Rightarrow> None)
      | _ \<Rightarrow> None)"

definition with_types :: "types \<Rightarrow> genv" where
  "with_types RT = sample_env\<lparr>g_types := RT, g_toColumnName := to_lower, g_toTableName := to_lower\<rparr>"

definition crashes :: "'a built \<Rightarrow> bool" where
  "crashes b = (case b of Crashed \<Rightarrow> True | _ \<Rightarrow> False)"


lemma shop_members:
  "t_members (shop_types t) =
     (if t = 10 then [sample_member ''ID'' 1, sample_member ''Emails'' 11, sample_member ''CompanyID'' 1, sample_member ''Company'' 13,
            tagged_member ''Languages'' ''many2many:user_languages'' 14, embedded_sample ''Base'' 16]
      else if t = 12 then [sample_member ''ID'' 1, sample_member ''UserID'' 1]
      else if t = 13 then [sample_member ''ID'' 1]
      else if t = 15 then [sample_member ''ID'' 1, sample_member ''Users'' 17]
      else if t = 16 then [sample_member ''Note'' 2] else [])"
  by (simp add: shop_types_def sample_types_def basic_type_def struct_type_def slice_type_def)

definition shop_rank :: "rtype \<Rightarrow> nat" where
  "shop_rank t = (if t = 10 then 1 else 0)"

lemma shop_embedded:
  "m \<in> set (t_members (shop_types t)) \<Longrightarrow> embedded_member shop_env m \<Longrightarrow> t = 10 \<and> m = embedded_sample ''Base'' 16"
proof -
  have plain: "\<not> embedded_member shop_env (sample_member ''ID'' 1)" "\<not> embedded_member shop_env (sample_member ''Emails'' 11)"
    "\<not> embedded_member shop_env (sample_member ''CompanyID'' 1)" "\<not> embedded_member shop_env (sample_member ''Company'' 13)"
    "\<not> embedded_member shop_env (tagged_member ''Languages'' ''many2many:user_languages'' 14)"
    "\<not> embedded_member shop_env (sample_member ''UserID'' 1)" "\<not> embedded_member shop_env (sample_member ''Users'' 17)"
    "\<not> embedded_member shop_env (sample_member ''Note'' 2)"
    by code_simp+
  assume "m \<in> set (t_members (shop_types t))" "embedded_member shop_env m"
  then show ?thesis using plain by (auto simp: shop_members split: if_splits)
qed

lemma shop_ranked: "ranked shop_env shop_rank"
  unfolding ranked_def
proof (intro allI ballI impI)
  fix t m
  assume "m \<in> set (t_members (g_types shop_env t))" "embedded_member shop_env m"
  then have "t = 10" "m = embedded_sample ''Base'' 16" using shop_embedded by (simp_all add: shop_env_def)
  moreover have "embed_target shop_env (embedded_sample ''Base'' 16) = 16" by code_simp
  ultimately show "shop_rank (embed_target shop_env m) < shop_rank t" by (simp add: shop_rank_def)
qed

lemma shop_closed: "closed_types shop_env {1, 2, 10, 12, 13, 15, 16} shop_rank 1"
proof -
  have "\<forall>t\<in>set [1, 2, 10, 12, 13, 15, 16]. shop_rank t \<le> 1 \<and> (\<forall>m\<in>set (t_members (g_types shop_env t)).
      embed_target shop_env m \<in> set [1, 2, 10, 12, 13, 15, 16] \<and> assoc_target shop_env m \<in> set [1, 2, 10, 12, 13, 15, 16])"
    by code_simp
  then show ?thesis unfolding closed_types_def using shop_ranked by simp
qed

lemma shop_tagged: "tagged shop_env"
proof -
  have "\<forall>t\<in>set [10, 12, 13, 15, 16]. \<forall>m\<in>set (t_members (g_types shop_env t)). well_tagged shop_env m" by code_simp
  moreover have "t \<in> set [10, 12, 13, 15, 16]" if "m \<in> set (t_members (g_types shop_env t))" for t m
    using that by (auto simp: shop_env_def shop_members split: if_splits)
  ultimately show ?thesis unfolding tagged_def by blast
qed

lemma give_foreign_keys_total: "length ks \<le> length as \<Longrightarrow> give_foreign_keys E ks as p \<noteq> None"
  by (induction E ks as p rule: give_foreign_keys.induct) simp_all

lemma take_foreign_keys_total: "length ks \<le> length as \<Longrightarrow> \<exists>sc'. take_foreign_keys E v ks as sc = Done sc'"
  by (induction E v ks as sc rule: take_foreign_keys.induct) (simp_all add: Let_def)

section \<open>Asking for the model of a type\<close>

lemma model_of_type_ok:
  assumes "good G rk st"
  shows "built_ok (\<not> tagged G)
      (\<not> (closed_types G U rk R \<and> elem_type type_fuel (g_types G) t \<in> U \<and> Suc (card U) * Suc R \<le> n))
      (result_ok G w rk st ((type_scope G w t)\<lparr>bs_root := True\<rparr>)) (model_of_type n G w t st)"
  unfolding model_of_type_def Let_def
proof (rule built_ok_mono [OF gm.rec_ok [OF assms]])
  let ?sc = "(type_scope G w t)\<lparr>bs_root := True\<rparr>"
  assume not: "\<not> enough_fuel G w U rk R n ?sc ?sc st"
  show "\<not> (closed_types G U rk R \<and> elem_type type_fuel (g_types G) t \<in> U \<and> Suc (card U) * Suc R \<le> n)"
  proof
    assume set: "closed_types G U rk R \<and> elem_type type_fuel (g_types G) t \<in> U \<and> Suc (card U) * Suc R \<le> n"
    then have "unbuilt U w st \<le> card U" unfolding unbuilt_def by (intro card_mono) (auto simp: closed_types_def)
    then have "unbuilt U w st * Suc R \<le> card U * Suc R" by (rule mult_le_mono1)
    moreover have "rk (elem_type type_fuel (g_types G) t) \<le> R" using set by (simp add: closed_types_def)
    ultimately have "unbuilt U w st * Suc R + rk (elem_type type_fuel (g_types G) t) < n" using set by simp
    then show False using not set by (simp add: enough_fuel_def)
  qed
qed

lemma model_of_type_result:
  "good G rk st \<Longrightarrow> model_of_type n G w t st = Built pm st' \<Longrightarrow>
   result_ok G w rk st ((type_scope G w t)\<lparr>bs_root := True\<rparr>) pm st'"
  using model_of_type_ok [of G rk st "{}" 0 t n w] by simp

lemma built_fields_ok:
  assumes "good G rk st" and "model_of_type n G w t st = Built pm st'" and "sf \<in> set (ms_StructFields (read_model st' pm))"
  shows "field_ok sf"
proof -
  have res: "result_ok G w rk st ((type_scope G w t)\<lparr>bs_root := True\<rparr>) pm st'"
    using assms(1,2) by (rule model_of_type_result)
  then have "good G rk st'" by (simp add: result_ok_def kept_def)
  moreover have "set (pm_fields pm) \<subseteq> {..<length (mb_fields st')}"
    using res by (auto simp: result_ok_def model_ok_def no_pmodel_def split: if_splits)
  ultimately show ?thesis using assms(3) by (auto simp: read_model_def good_def sf_at_def)
qed

text \<open>
  C19: Building the model of a type always ends with a model, when the types it reaches are finitely many,
  structs are not embedded in themselves, and no tag lists several foreign keys without their association
  keys or marks an embedded struct as a primary key.
\<close>

theorem models_are_built:
  assumes "good G rk st" and "tagged G" and "closed_types G U rk R"
    and "elem_type type_fuel (g_types G) t \<in> U" and "Suc (card U) * Suc R \<le> n"
  shows "\<exists>pm st'. model_of_type n G w t st = Built pm st' \<and> good G rk st'"
proof -
  have "built_ok (\<not> tagged G)
      (\<not> (closed_types G U rk R \<and> elem_type type_fuel (g_types G) t \<in> U \<and> Suc (card U) * Suc R \<le> n))
      (result_ok G w rk st ((type_scope G w t)\<lparr>bs_root := True\<rparr>)) (model_of_type n G w t st)"
    using assms(1) by (rule model_of_type_ok)
  then show ?thesis
    using assms(2-5) by (cases "model_of_type n G w t st") (auto simp: result_ok_def kept_def)
qed

theorem models_are_built_witness:
  "\<exists>pm st'. model_of_type 16 shop_env sample_world 10 empty_mstate = Built pm st' \<and> good shop_env shop_rank st'"
proof (rule models_are_built [OF good_empty shop_tagged shop_closed])
  show "elem_type type_fuel (g_types shop_env) 10 \<in> {1, 2, 10, 12, 13, 15, 16}" by code_simp
qed simp

text \<open>
  C20: The fields of a derived model are those of the type, embedded structs flattened with their prefix, in
  the order of declaration: neither the state of the cache nor the order in which models were asked for has
  any influence on paths and columns.
\<close>

theorem model_columns:
  assumes "good G rk st" and "ranked G rk" and "t_kind (g_types G t) = KStruct"
    and "model_of_type n G w t st = Built pm st'"
  shows "map (\<lambda>sf. (sf_Names sf, sf_DBName sf)) (ms_StructFields (read_model st' pm)) = columns_of (Suc (rk t)) G t"
proof -
  have "elem_type type_fuel (g_types G) t = t" using assms(3) by (simp add: elem_type_plain)
  then have "model_ok G rk st' t pm" using model_of_type_result [OF assms(1,4)] assms(3) by (simp add: result_ok_def)
  then have "map (\<lambda>a. path_column (sf_at st' a)) (pm_fields pm) = columns_of (Suc (rk t)) G t"
    using assms(2) by (simp add: model_ok_def)
  then show ?thesis by (simp add: read_model_def path_column_def o_def)
qed

lemma shop_model: "\<exists>pm st'. model_of_type 16 shop_env sample_world 10 empty_mstate = Built pm st'"
proof -
  have in_closed: "elem_type type_fuel (g_types shop_env) 10 \<in> {1, 2, 10, 12, 13, 15, 16}" by code_simp
  have "built_ok (\<not> tagged shop_env)
      (\<not> (closed_types shop_env {1, 2, 10, 12, 13, 15, 16} shop_rank 1
          \<and> elem_type type_fuel (g_types shop_env) 10 \<in> {1, 2, 10, 12, 13, 15, 16} \<and> Suc (card {1, 2, 10, 12, 13, 15, 16::rtype}) * Suc 1 \<le> 16))
      (result_ok shop_env sample_world shop_rank empty_mstate ((type_scope shop_env sample_world 10)\<lparr>bs_root := True\<rparr>))
      (model_of_type 16 shop_env sample_world 10 empty_mstate)"
    by (rule model_of_type_ok [OF good_empty])
  then have "built_ok False False (\<lambda>_ _. True) (model_of_type 16 shop_env sample_world 10 empty_mstate)"
    by (rule built_ok_mono) (use shop_tagged shop_closed in_closed in simp_all)
  then show ?thesis by (cases "model_of_type 16 shop_env sample_world 10 empty_mstate") simp_all
qed

theorem model_columns_witness:
  "\<exists>pm st'. map (\<lambda>sf. (sf_Names sf, sf_DBName sf)) (ms_StructFields (read_model st' pm)) =
     [([''ID''], ''id''), ([''Emails''], ''emails''), ([''CompanyID''], ''company_id''), ([''Company''], ''company''),
      ([''Languages''], ''languages''), ([''Base'', ''Note''], ''note'')]"
proof -
  obtain pm st' where built: "model_of_type 16 shop_env sample_world 10 empty_mstate = Built pm st'"
    using shop_model by blast
  have "t_kind (g_types shop_env 10) = KStruct" by code_simp
  moreover have "columns_of (Suc (shop_rank 10)) shop_env 10 =
     [([''ID''], ''id''), ([''Emails''], ''emails''), ([''CompanyID''], ''company_id''), ([''Company''], ''company''),
      ([''Languages''], ''languages''), ([''Base'', ''Note''], ''note'')]"
    by code_simp
  ultimately show ?thesis using model_columns [OF good_empty shop_ranked _ built] by metis
qed

text \<open>
  C21: Every relationship of a derived model lists its keys in pairs: as many columns as names on each side,
  at least one pair for has-one, has-many and belongs-to, and a join table handler with exactly the same keys for
  many-to-many.
\<close>

theorem model_relationships_paired:
  assumes "good G rk st" and "model_of_type n G w t st = Built pm st'"
    and "sf \<in> set (ms_StructFields (read_model st' pm))" and "sf_Relationship sf = Some r"
  shows "keys_paired r"
  using built_fields_ok [OF assms(1-3)] assms(4) by (simp add: field_ok_def)

lemma relationship_of_Some:
  "relationship_of b name = Some r \<Longrightarrow>
   \<exists>pm st' sf. b = Built pm st' \<and> sf \<in> set (ms_StructFields (read_model st' pm)) \<and> sf_Relationship sf = Some r"
  by (auto simp: relationship_of_def split: built.splits option.splits dest: find_Some_in)

definition emails_relationship :: Relationship where
  "emails_relationship =
     empty_Relationship\<lparr>rel_Kind := ''has_many'', rel_ForeignFieldNames := [''UserID''], rel_ForeignDBNames := [''user_id''],
       rel_AssociationForeignFieldNames := [''ID''], rel_AssociationForeignDBNames := [''id'']\<rparr>"

lemma shop_emails:
  "relationship_of (model_of_type 16 shop_env sample_world 10 empty_mstate) ''Emails'' = Some emails_relationship"
  by code_simp

theorem model_relationships_paired_witness: "keys_paired emails_relationship"
  using relationship_of_Some [OF shop_emails] model_relationships_paired [OF good_empty] by blast

text \<open>
  C22: The keys that a derived relationship lists can be passed on between a value and its associated values
  without an index out of range: saving associations never panics on them.
\<close>

theorem association_keys_never_panic:
  assumes "good G rk st" and "model_of_type n G w t st = Built pm st'"
    and "sf \<in> set (ms_StructFields (read_model st' pm))" and "sf_Relationship sf = Some r"
    and "rel_JoinTableHandler r = None"
  shows "give_foreign_keys E (rel_ForeignFieldNames r) (rel_AssociationForeignDBNames r) p \<noteq> None
    \<and> (\<exists>sc'. take_foreign_keys E v (rel_ForeignFieldNames r) (rel_AssociationForeignDBNames r) sc = Done sc')"
proof -
  have "keys_paired r" using built_fields_ok [OF assms(1-3)] assms(4) by (simp add: field_ok_def)
  then have "length (rel_ForeignFieldNames r) = length (rel_AssociationForeignDBNames r)"
    using assms(5) by (auto simp: keys_paired_def split: if_splits)
  then show ?thesis by (simp add: give_foreign_keys_total take_foreign_keys_total)
qed

theorem association_keys_never_panic_witness:
  "give_foreign_keys shop_env [''UserID''] [''id''] (sample_scope common_dialect (VObj 2), sample_scope common_dialect (VObj 2)) \<noteq> None
    \<and> (\<exists>sc'. take_foreign_keys shop_env (VObj 2) [''UserID''] [''id''] (sample_scope common_dialect (VObj 2)) = Done sc')"
proof -
  have r: "rel_ForeignFieldNames emails_relationship = [''UserID'']" "rel_AssociationForeignDBNames emails_relationship = [''id'']"
    "rel_JoinTableHandler emails_relationship = None"
    by (simp_all add: emails_relationship_def empty_Relationship_def)
  show ?thesis
    using relationship_of_Some [OF shop_emails]
      association_keys_never_panic [OF good_empty, where r = emails_relationship, unfolded r] by blast
qed

section \<open>The cache\<close>

text \<open>The environment whose models are those in the cache.\<close>

definition with_models :: "genv \<Rightarrow> world \<Rightarrow> mstate \<Rightarrow> genv" where
  "with_models G w st =
     G\<lparr>g_models := (\<lambda>t. case mb_cache st (w_singularTable w, t) of
                          Some pm \<Rightarrow> read_model st pm | None \<Rightarrow> empty_ModelStruct)\<rparr>"

text \<open>
  A model stays in the cache: asking again, after whatever other models have been asked for, returns the
  same fields and changes nothing, and a scope on a value of the type works on these fields.
\<close>

theorem models_stay_cached:
  assumes "good G rk st" and "t_kind (g_types G t) = KStruct"
    and "model_of_type n G w t st = Built pm st1" and "model_of_type n' G w t' st1 = Built pm' st2"
    and "value_type (sc_w sc) (sc_Value sc) = Some t"
  shows "model_of_type (Suc k) G w t st2 = Built pm st2
    \<and> GetModelStruct (with_models G w st2) sc = read_model st2 pm"
proof -
  have t: "elem_type type_fuel (g_types G) t = t" using assms(2) by (simp add: elem_type_plain)
  have res: "result_ok G w rk st ((type_scope G w t)\<lparr>bs_root := True\<rparr>) pm st1"
    using assms(1,3) by (rule model_of_type_result)
  then have g1: "good G rk st1" and c1: "mb_cache st1 (w_singularTable w, t) = Some pm"
    using assms(2) t by (simp_all add: result_ok_def kept_def)
  have "st_grows st1 st2" using model_of_type_result [OF g1 assms(4)] by (simp add: result_ok_def kept_def)
  then have c2: "mb_cache st2 (w_singularTable w, t) = Some pm" using c1 by (rule st_grows_cache)
  then have "model_of_type (Suc k) G w t st2 = Built pm st2"
    using assms(2) t by (simp add: model_of_type_def Let_def)
  moreover have "GetModelStruct (with_models G w st2) sc = read_model st2 pm"
    using assms(2,5) t c2 by (simp add: GetModelStruct_def with_models_def Let_def)
  ultimately show ?thesis ..
qed

theorem models_stay_cached_witness:
  "\<exists>pm st. pm_type pm = Some 10 \<and> model_of_type 1 shop_env sample_world 10 st = Built pm st
    \<and> GetModelStruct (with_models shop_env sample_world st) (sample_scope common_dialect (VStruct 10 [])) = read_model st pm"
proof -
  obtain pm st where built: "model_of_type 16 shop_env sample_world 10 empty_mstate = Built pm st"
    using shop_model by blast
  have kinds: "t_kind (g_types shop_env 10) = KStruct" "elem_type type_fuel (g_types shop_env) 10 = 10"
    "t_kind (g_types shop_env 1) \<noteq> KStruct" "elem_type type_fuel (g_types shop_env) 1 = 1"
    by code_simp+
  have typed: "pm_type pm = Some 10"
    using model_of_type_result [OF good_empty [of shop_env shop_rank] built] kinds by (simp add: result_ok_def model_ok_def)
  have other: "model_of_type 1 shop_env sample_world 1 st = Built no_pmodel st"
    using kinds by (simp add: model_of_type_def Let_def)
  have "value_type (sc_w (sample_scope common_dialect (VStruct 10 []))) (sc_Value (sample_scope common_dialect (VStruct 10 []))) = Some 10"
    by (simp add: value_type_def)
  from models_stay_cached [OF good_empty [of shop_env shop_rank] kinds(1) built other this, of 0] typed
  show ?thesis by auto
qed

section \<open>Where the tags decide\<close>

text \<open>
  A foreign key tag with two keys, neither of which begins with the name of the type, crashes the builder
  with an index out of range as soon as the first of them is a field of the associated type.
\<close>

lemma composite_key_crashes:
  "crashes (model_of_type 9 (with_types order_types) sample_world 30 empty_mstate)"
  by code_simp


end
