(* ===== verification/Preload.thy ===== *)
theory Preload
  imports SaveAssociations
begin

text \<open>
  Preloading (\<^verbatim>\<open>callback_query_preload.go\<close>, \<^verbatim>\<open>getColumnAsScope\<close> of \<^verbatim>\<open>scope.go\<close>, \<^verbatim>\<open>makeSlice\<close> and
  \<^verbatim>\<open>getValueFromFields\<close> of \<^verbatim>\<open>utils.go\<close>): after a query, the associations named by \<^verbatim>\<open>Preload\<close> are
  read and attached to the values found.

  A struct that is set into a member held by value is a copy (\<open>copy_value\<close>); a pointer is shared.  The results
  of a query lie in a slice object.  \<open>preload_env\<close> is what comes from outside: the slice types that
  \<^verbatim>\<open>reflect\<close> builds, and the functions from handle to handle among the conditions.  Go maps built here are
  lists in the order of their assignments.  Slices behind pointers are not modelled.

  Preloading queries with the same chain it is part of; the chains are the parameter \<open>C\<close>, and \<open>preload_at\<close>
  ties the knot with fuel.
\<close>

record preload_env =
  p_sliceOf :: "rtype \<Rightarrow> rtype"
  p_func :: "gval \<Rightarrow> (db \<Rightarrow> db) option"

section \<open>Values and members\<close>

text \<open>A struct assigned by value is copied, with the structs it holds by value.\<close>

primrec copy_value :: "nat \<Rightarrow> genv \<Rightarrow> rtype \<Rightarrow> gval \<Rightarrow> world \<Rightarrow> gval \<times> world" where
  "copy_value 0 G t v w = (v, w)"
| "copy_value (Suc n) G t v w =
     (case v of
        VObj a \<Rightarrow>
          (if t_kind (g_types G t) = KStruct then
             (case w_objs w a of
                None \<Rightarrow> (v, w)
              | Some (t', vs) \<Rightarrow>
                 (case fold (\<lambda>(sf, u) (us, w). case copy_value n G (m_type (sf_Struct sf)) u w of (u, w) \<Rightarrow> (us @ [u], w))
                         (zip (ms_StructFields (g_models G t')) vs) ([], w) of (us, w) \<Rightarrow>
                  case fresh w of (b, w) \<Rightarrow> (VObj b, w\<lparr>w_objs := (w_objs w)(b \<mapsto> (t', us))\<rparr>)))
           else (v, w))
      | _ \<Rightarrow> (v, w))"

text \<open>The addressable member of that name: its object, its position and its type.\<close>

definition member_of :: "genv \<Rightarrow> world \<Rightarrow> gval \<Rightarrow> string \<Rightarrow> (nat \<times> nat \<times> rtype) option" where
  "member_of G w v name =
     (case v of
        VObj a \<Rightarrow>
          (case w_objs w a of
             None \<Rightarrow> None
           | Some (t, vs) \<Rightarrow>
              map_option (\<lambda>(i, sf). (a, i, m_type (sf_Struct sf)))
                (List.find (\<lambda>p. sf_Name (snd p) = name) (enumerate 0 (ms_StructFields (g_models G t)))))
      | _ \<Rightarrow> None)"

text \<open>\<^verbatim>\<open>FieldByName(name).Set(x)\<close>; \<open>None\<close> is the panic of a missing or unaddressable field.\<close>

definition set_member :: "genv \<Rightarrow> string \<Rightarrow> gval \<Rightarrow> gval \<Rightarrow> world \<Rightarrow> world option" where
  "set_member G name x v w =
     (case member_of G w v name of
        None \<Rightarrow> None
      | Some (a, i, t) \<Rightarrow> (case copy_value type_fuel G t x w of (u, w) \<Rightarrow> Some (set_obj_value a i u w)))"

definition slice_elements :: "gval \<Rightarrow> gval list" where
  "slice_elements v = (case v of VSlice t (Some vs) \<Rightarrow> vs | _ \<Rightarrow> [])"

text \<open>\<^verbatim>\<open>reflect.Append(f, xs...)\<close> for a slice with elements of type \<open>t\<close>.\<close>

definition append_values :: "genv \<Rightarrow> rtype \<Rightarrow> gval list \<Rightarrow> gval list \<Rightarrow> world \<Rightarrow> gval \<times> world" where
  "append_values G t old xs w =
     (case fold (\<lambda>x (us, w). case copy_value type_fuel G t x w of (u, w) \<Rightarrow> (us @ [u], w)) xs (old, w) of
        (us, w) \<Rightarrow> (VSlice t (Some us), w))"

text \<open>The empty slice that is not nil, or the old elements with new ones; \<open>None\<close> as above.\<close>

definition extend_member :: "genv \<Rightarrow> string \<Rightarrow> gval list \<Rightarrow> gval \<Rightarrow> world \<Rightarrow> world option" where
  "extend_member G name xs v w =
     (case member_of G w v name of
        None \<Rightarrow> None
      | Some (a, i, t) \<Rightarrow>
         (let et = t_elem (g_types G t)
          in if xs = [] then Some (set_obj_value a i (VSlice et (Some [])) w)
             else case append_values G et (slice_elements (obj_value w a i)) xs w of (u, w) \<Rightarrow> Some (set_obj_value a i u w)))"

section \<open>Keys\<close>

text \<open>A key value behind one pointer; what a \<^verbatim>\<open>driver.Valuer\<close> returns, nil with its error.\<close>

definition key_value :: "gval \<Rightarrow> gval option" where
  "key_value v =
     map_option (\<lambda>u. case u of
                        VNullInt64 i valid \<Rightarrow> if valid then VInt KInt64 i else VNil
                      | VValuer z s (Inl e) \<Rightarrow> VNil
                      | VValuer z s (Inr d) \<Rightarrow> d
                      | _ \<Rightarrow> u)
       (case v of VPtr a x \<Rightarrow> x | _ \<Rightarrow> Some v)"

text \<open>A nil pointer has no values, neither has a missing or nil field; \<open>None\<close> is a value with no fields at all.\<close>

definition getValueFromFields :: "genv \<Rightarrow> world \<Rightarrow> string list \<Rightarrow> gval \<Rightarrow> gval list option" where
  "getValueFromFields G w fieldNames v =
     (case indirect_kind G w v of
        KInvalid \<Rightarrow> Some []
      | KStruct \<Rightarrow> Some (List.map_filter (\<lambda>name. Option.bind (go_field G w v name) key_value) fieldNames)
      | _ \<Rightarrow> None)"

definition row_key :: "genv \<Rightarrow> world \<Rightarrow> string list \<Rightarrow> gval \<Rightarrow> string option" where
  "row_key G w names v = map_option (\<lambda>vs. toString (VList vs)) (getValueFromFields G w names v)"

fun row_keys :: "genv \<Rightarrow> world \<Rightarrow> string list \<Rightarrow> gval list \<Rightarrow> (string \<times> gval) list option" where
  "row_keys G w names [] = Some []"
| "row_keys G w names (v # vs) =
     (case row_key G w names v of
        None \<Rightarrow> None
      | Some k \<Rightarrow> map_option (\<lambda>kvs. (k, v) # kvs) (row_keys G w names vs))"

definition with_key :: "string \<Rightarrow> (string \<times> gval) list \<Rightarrow> gval list" where
  "with_key k kvs = map snd (filter (\<lambda>p. fst p = k) kvs)"

fun attach_each :: "(gval \<Rightarrow> world \<Rightarrow> world option) \<Rightarrow> gval list \<Rightarrow> world \<Rightarrow> world option" where
  "attach_each f [] w = Some w"
| "attach_each f (v # vs) w = (case f v w of None \<Rightarrow> None | Some w \<Rightarrow> attach_each f vs w)"

section \<open>Finding the associated rows\<close>

text \<open>\<^verbatim>\<open>generatePreloadDBWithConditions\<close>.\<close>

definition preload_db :: "genv \<Rightarrow> preload_env \<Rightarrow> gval list \<Rightarrow> scope \<Rightarrow> db \<times> gval list" where
  "preload_db G P conditions sc =
     fold (\<lambda>c (d, cs). case p_func P c of Some scopes \<Rightarrow> (scopes d, cs) | None \<Rightarrow> (d, cs @ [c]))
       conditions (Scope_NewDB G sc, [])"

definition makeSlice :: "genv \<Rightarrow> preload_env \<Rightarrow> rtype \<Rightarrow> world \<Rightarrow> nat \<times> world" where
  "makeSlice G P elemType w =
     (let t = (if t_kind (g_types G elemType) = KSlice then t_elem (g_types G elemType) else elemType)
      in case fresh w of (a, w) \<Rightarrow> (a, w\<lparr>w_objs := (w_objs w)(a \<mapsto> (p_sliceOf P t, []))\<rparr>))"

definition object_values :: "world \<Rightarrow> nat \<Rightarrow> gval list" where
  "object_values w a = (case w_objs w a of Some (t, vs) \<Rightarrow> vs | None \<Rightarrow> [])"

text \<open>The results go on to \<open>use\<close> whether or not the query failed.\<close>

definition find_related ::
    "genv \<Rightarrow> preload_env \<Rightarrow> chains \<Rightarrow> rtype \<Rightarrow> string \<Rightarrow> gval list \<Rightarrow> gval list \<Rightarrow> scope
     \<Rightarrow> (gval list \<Rightarrow> scope \<Rightarrow> outcome) \<Rightarrow> outcome" where
  "find_related G P C t query values conditions sc use =
     (case preload_db G P conditions sc of (preloadDB, preloadConditions) \<Rightarrow>
      case makeSlice G P t (sc_w sc) of (a, w) \<Rightarrow>
      case DB_Find G C (VObj a) preloadConditions (DB_Where G (VStr query) values preloadDB) w of
        Panicked s \<Rightarrow> Panicked (sc\<lparr>sc_w := sc_w s\<rparr>)
      | Done s \<Rightarrow> use (object_values (sc_w s) a) (Scope_Err (db_Error (sc_db s)) (sc\<lparr>sc_w := sc_w s\<rparr>)))"

definition in_condition :: "scope \<Rightarrow> string list \<Rightarrow> gval list list \<Rightarrow> string" where
  "in_condition sc columns rows = toQueryCondition sc columns @ '' IN ('' @ toQueryMarks rows @ '')''"

text \<open>The condition of has-one and has-many.\<close>

definition has_query :: "scope \<Rightarrow> Relationship \<Rightarrow> gval list list \<Rightarrow> string \<times> gval list" where
  "has_query sc relation primaryKeys =
     (if rel_PolymorphicType relation \<noteq> []
      then (in_condition sc (rel_ForeignDBNames relation) primaryKeys
              @ '' AND '' @ Scope_Quote sc (rel_PolymorphicDBName relation) @ '' = ?'',
            toQueryValues primaryKeys @ [VStr (rel_PolymorphicValue relation)])
      else (in_condition sc (rel_ForeignDBNames relation) primaryKeys, toQueryValues primaryKeys))"

text \<open>\<^verbatim>\<open>scope.Err(field.Set(result))\<close>: the result has the type of the field, so it converts to itself.\<close>

definition same_type_env :: "genv \<Rightarrow> genv" where
  "same_type_env G = G\<lparr>g_convert := (\<lambda>v t. Some v)\<rparr>"

definition set_related :: "genv \<Rightarrow> nat \<Rightarrow> gval \<Rightarrow> scope \<Rightarrow> scope" where
  "set_related G i v sc =
     (case copy_value type_fuel G (m_type (sf_Struct (f_sf (field_at G sc i)))) v (sc_w sc) of (u, w) \<Rightarrow>
      case set_field (same_type_env G) i u (sc\<lparr>sc_w := w\<rparr>) of (e, sc) \<Rightarrow> Scope_Err e sc)"

definition done_or_panic :: "scope \<Rightarrow> world option \<Rightarrow> outcome" where
  "done_or_panic sc x = (case x of None \<Rightarrow> Panicked sc | Some w \<Rightarrow> Done (sc\<lparr>sc_w := w\<rparr>))"

section \<open>The four kinds of association\<close>

definition is_slice_scope :: "genv \<Rightarrow> scope \<Rightarrow> bool" where
  "is_slice_scope G sc = (indirect_kind G (sc_w sc) (sc_Value sc) = KSlice)"

definition scope_objects :: "genv \<Rightarrow> scope \<Rightarrow> gval list" where
  "scope_objects G sc = value_objects G (sc_w sc) (sc_Value sc)"

text \<open>The result with the key of the object; of several the last one.\<close>

definition attach_one :: "genv \<Rightarrow> string list \<Rightarrow> string \<Rightarrow> (string \<times> gval) list \<Rightarrow> gval \<Rightarrow> world \<Rightarrow> world option" where
  "attach_one G names field results v w =
     (case row_key G w names v of
        None \<Rightarrow> None
      | Some k \<Rightarrow> (case map_of (rev results) k of Some r \<Rightarrow> set_member G field r v w | None \<Rightarrow> Some w))"

definition handleHasOnePreload ::
    "genv \<Rightarrow> preload_env \<Rightarrow> chains \<Rightarrow> nat \<Rightarrow> Relationship \<Rightarrow> gval list \<Rightarrow> callback" where
  "handleHasOnePreload G P C i relation conditions sc =
     (let f = field_at G sc i in
      case getColumnAsArray G (rel_AssociationForeignFieldNames relation) (sc_Value sc) (sc_w sc) of
        None \<Rightarrow> Panicked sc
      | Some primaryKeys \<Rightarrow>
         (if primaryKeys = [] then Done sc
          else case has_query sc relation primaryKeys of (query, values) \<Rightarrow>
            find_related G P C (m_type (sf_Struct (f_sf f))) query values conditions sc (\<lambda>results sc.
              if is_slice_scope G sc then
                (case row_keys G (sc_w sc) (rel_ForeignFieldNames relation) results of
                   None \<Rightarrow> Panicked sc
                 | Some kvs \<Rightarrow>
                    done_or_panic sc (attach_each (attach_one G (rel_AssociationForeignFieldNames relation) (f_Name f) kvs)
                                        (scope_objects G sc) (sc_w sc)))
              else Done (fold (set_related G i) results sc))))"

text \<open>All results with the key of the object, after what the slice already holds.\<close>

definition attach_many :: "genv \<Rightarrow> string list \<Rightarrow> string \<Rightarrow> (string \<times> gval) list \<Rightarrow> gval \<Rightarrow> world \<Rightarrow> world option" where
  "attach_many G names field results v w =
     (case row_key G w names v of
        None \<Rightarrow> None
      | Some k \<Rightarrow> extend_member G field (with_key k results) v w)"

definition handleHasManyPreload ::
    "genv \<Rightarrow> preload_env \<Rightarrow> chains \<Rightarrow> nat \<Rightarrow> Relationship \<Rightarrow> gval list \<Rightarrow> callback" where
  "handleHasManyPreload G P C i relation conditions sc =
     (let f = field_at G sc i; t = m_type (sf_Struct (f_sf f)) in
      case getColumnAsArray G (rel_AssociationForeignFieldNames relation) (sc_Value sc) (sc_w sc) of
        None \<Rightarrow> Panicked sc
      | Some primaryKeys \<Rightarrow>
         (if primaryKeys = [] then Done sc
          else case has_query sc relation primaryKeys of (query, values) \<Rightarrow>
            find_related G P C t query values conditions sc (\<lambda>results sc.
              if is_slice_scope G sc then
                (case row_keys G (sc_w sc) (rel_ForeignFieldNames relation) results of
                   None \<Rightarrow> Panicked sc
                 | Some kvs \<Rightarrow>
                    done_or_panic sc (attach_each (attach_many G (rel_AssociationForeignFieldNames relation) (f_Name f) kvs)
                                        (scope_objects G sc) (sc_w sc)))
              else Done (set_related G i (VSlice (t_elem (g_types G t)) (Some results)) sc))))"

text \<open>One result into every object that refers to it.\<close>

definition attach_result :: "genv \<Rightarrow> string list \<Rightarrow> string \<Rightarrow> (string \<times> gval) list \<Rightarrow> gval \<Rightarrow> world \<Rightarrow> world option" where
  "attach_result G names field objects result w =
     (case row_key G w names result of
        None \<Rightarrow> None
      | Some k \<Rightarrow> attach_each (set_member G field result) (with_key k objects) w)"

definition handleBelongsToPreload ::
    "genv \<Rightarrow> preload_env \<Rightarrow> chains \<Rightarrow> nat \<Rightarrow> Relationship \<Rightarrow> gval list \<Rightarrow> callback" where
  "handleBelongsToPreload G P C i relation conditions sc =
     (let f = field_at G sc i in
      case getColumnAsArray G (rel_ForeignFieldNames relation) (sc_Value sc) (sc_w sc) of
        None \<Rightarrow> Panicked sc
      | Some primaryKeys \<Rightarrow>
         (if primaryKeys = [] then Done sc
          else find_related G P C (m_type (sf_Struct (f_sf f)))
            (in_condition sc (rel_AssociationForeignDBNames relation) primaryKeys) (toQueryValues primaryKeys) conditions sc
            (\<lambda>results sc.
              if is_slice_scope G sc then
                (case row_keys G (sc_w sc) (rel_ForeignFieldNames relation) (scope_objects G sc) of
                   None \<Rightarrow> Panicked sc
                 | Some objects \<Rightarrow>
                    done_or_panic sc (attach_each (attach_result G (rel_AssociationForeignFieldNames relation) (f_Name f) objects)
                                        results (sc_w sc)))
              else Done (fold (set_related G i) results sc))))"

section \<open>Many to many\<close>

text \<open>
  A row of the query that joins the join table: the columns of the element go into its fields, those of the source keys
  are kept aside; NULL stays nil.  The scan stops at the first value that does not convert.
\<close>

definition link_field :: "string \<Rightarrow> Field" where
  "link_field key =
     \<lparr>f_sf = \<lparr>sf_DBName = key, sf_Name = [], sf_Names = [], sf_IsPrimaryKey = False, sf_IsNormal = True, sf_IsIgnored = False,
              sf_IsScanner = False, sf_HasDefaultValue = False, sf_TagSettings = Map.empty,
              sf_Struct = \<lparr>m_name = [], m_sql_tag = [], m_gorm_tag = [], m_anonymous = False, m_exported = False, m_type = 0\<rparr>,
              sf_IsForeignKey = False, sf_Relationship = None\<rparr>,
      f_IsBlank = False, f_ref = FInvalid\<rparr>"

fun scan_link :: "genv \<Rightarrow> Field list \<Rightarrow> (int \<times> gval) list \<Rightarrow> gval list \<Rightarrow> world \<Rightarrow> err option \<times> gval list \<times> world" where
  "scan_link G fs [] keys w = (None, keys, w)"
| "scan_link G fs ((i, v) # ps) keys w =
     (if i < 0 then scan_link G fs ps keys w
      else if length fs \<le> nat i then scan_link G fs ps (keys[nat i - length fs := v]) w
      else case scan_into G (fs ! nat i) v w of
             (Some e, w) \<Rightarrow> (Some e, keys, w)
           | (None, w) \<Rightarrow> scan_link G fs ps keys w)"

type_synonym link_state = "int list option \<times> (string \<times> gval) list \<times> scope"

text \<open>
  One row: a new element, its fields and keys, the query callbacks without the query (\<^verbatim>\<open>AfterFind\<close>), whose errors
  stay in a scope that is dropped.
\<close>

definition link_row ::
    "genv \<Rightarrow> chains \<Rightarrow> rtype \<Rightarrow> string list \<Rightarrow> string list \<Rightarrow> gval list \<Rightarrow> link_state \<Rightarrow> link_state + scope" where
  "link_row G C fieldType sourceKeys columns row st =
     (case st of (scanPlan, linkHash, sc) \<Rightarrow>
      case new_object G fieldType (sc_w sc) of (a, w) \<Rightarrow>
        (let sc = sc\<lparr>sc_w := w\<rparr>;
             fs = Fields G (Scope_New G (VObj a) sc);
             plan = (case scanPlan of Some p \<Rightarrow> p | None \<Rightarrow> buildScanPlan columns (fs @ map link_field sourceKeys))
         in case scan_link G fs (zip plan row) (map (\<lambda>_. VNil) sourceKeys) w of (e, foreignKeys, w) \<Rightarrow>
            (let sc = Scope_Err e (sc\<lparr>sc_w := w\<rparr>)
             in case callCallbacks G (ch_queries C) (InstanceSet ''gorm:skip_query_callback'' (VBool True) (Scope_New G (VObj a) sc)) of
                  Panicked s \<Rightarrow> Inr (sc\<lparr>sc_w := sc_w s\<rparr>)
                | Done s \<Rightarrow> Inl (Some plan, linkHash @ [(toString (VList foreignKeys), VObj a)], sc\<lparr>sc_w := sc_w s\<rparr>))))"

fun link_rows ::
    "genv \<Rightarrow> chains \<Rightarrow> rtype \<Rightarrow> string list \<Rightarrow> string list \<Rightarrow> gval list list \<Rightarrow> link_state \<Rightarrow> link_state + scope" where
  "link_rows G C fieldType sourceKeys columns [] st = Inl st"
| "link_rows G C fieldType sourceKeys columns (row # rows) st =
     (case link_row G C fieldType sourceKeys columns row st of
        Inr sc \<Rightarrow> Inr sc
      | Inl st \<Rightarrow> link_rows G C fieldType sourceKeys columns rows st)"

text \<open>An object whose slice is not empty was reached before, through another pointer to it.\<close>

definition attach_linked :: "genv \<Rightarrow> string \<Rightarrow> (string \<times> gval) list \<Rightarrow> string \<times> gval \<Rightarrow> world \<Rightarrow> world option" where
  "attach_linked G field linkHash kv w =
     (case member_of G w (snd kv) field of
        None \<Rightarrow> None
      | Some (a, i, t) \<Rightarrow>
         (if slice_elements (obj_value w a i) \<noteq> [] then Some w
          else extend_member G field (with_key (fst kv) linkHash) (snd kv) w))"

fun attach_links :: "genv \<Rightarrow> string \<Rightarrow> (string \<times> gval) list \<Rightarrow> (string \<times> gval) list \<Rightarrow> world \<Rightarrow> world option" where
  "attach_links G field linkHash [] w = Some w"
| "attach_links G field linkHash (kv # kvs) w =
     (case attach_linked G field linkHash kv w of None \<Rightarrow> None | Some w \<Rightarrow> attach_links G field linkHash kvs w)"

text \<open>The handle that selects the associated rows, joined with the join table.\<close>

definition link_db ::
    "genv \<Rightarrow> preload_env \<Rightarrow> JoinTableHandler \<Rightarrow> rtype \<Rightarrow> gval list \<Rightarrow> scope \<Rightarrow> db option \<times> world" where
  "link_db G P h fieldType conditions sc =
     (case preload_db G P conditions sc of (d, preloadConditions) \<Rightarrow>
      case new_object G fieldType (sc_w sc) of (a, w) \<Rightarrow>
        (let newScope = Scope_New G (VObj a) (sc\<lparr>sc_w := w\<rparr>);
             d = DB_Model G (VObj a) (DB_Table G (TableName G newScope) d);
             d = (if (case db_search d of Some s \<Rightarrow> selects s = None | None \<Rightarrow> True) then DB_Select G (VStr ''*'') [] d else d)
         in case jth_JoinWith G h d (sc_Value sc) w of
              (None, w) \<Rightarrow> (None, w)
            | (Some d, w) \<Rightarrow>
               (Some (case preloadConditions of [] \<Rightarrow> d | c # cs \<Rightarrow> DB_Where G c cs d), w)))"

definition source_names :: "genv \<Rightarrow> Relationship \<Rightarrow> scope \<Rightarrow> string list" where
  "source_names G relation sc =
     List.map_filter (\<lambda>dbName. map_option (\<lambda>i. f_Name (field_at G sc i)) (FieldByName G sc dbName)) (rel_ForeignFieldNames relation)"

definition assign_links ::
    "genv \<Rightarrow> Relationship \<Rightarrow> string \<Rightarrow> (string \<times> gval) list \<Rightarrow> callback" where
  "assign_links G relation field linkHash sc =
     (case row_keys G (sc_w sc) (source_names G relation sc) (scope_objects G sc) of
        None \<Rightarrow> Panicked sc
      | Some objects \<Rightarrow> done_or_panic sc (attach_links G field linkHash objects (sc_w sc)))"

definition handleManyToManyPreload ::
    "genv \<Rightarrow> preload_env \<Rightarrow> chains \<Rightarrow> nat \<Rightarrow> Relationship \<Rightarrow> gval list \<Rightarrow> callback" where
  "handleManyToManyPreload G P C i relation conditions sc =
     (let f = field_at G sc i;
          elemType = t_elem (g_types G (m_type (sf_Struct (f_sf f))));
          fieldType = (if t_kind (g_types G elemType) = KPtr then t_elem (g_types G elemType) else elemType)
      in case rel_JoinTableHandler relation of
           None \<Rightarrow> Panicked sc
         | Some h \<Rightarrow>
            (case link_db G P h fieldType conditions sc of
               (None, w) \<Rightarrow> Panicked (sc\<lparr>sc_w := w\<rparr>)
             | (Some d, w) \<Rightarrow>
                (case scope_row G C False (NewScope G d (db_Value d) w) of
                   Panicked s \<Rightarrow> Panicked (sc\<lparr>sc_w := sc_w s\<rparr>)
                 | Done s \<Rightarrow>
                    (let sc = sc\<lparr>sc_w := sc_w s\<rparr>
                     in case sc_row_result s of
                          None \<Rightarrow> Panicked sc
                        | Some r \<Rightarrow>
                           (if r_err r \<noteq> None then Done (Scope_Err (r_err r) sc)
                            else case link_rows G C fieldType (map jtk_DBName (jts_ForeignKeys (jth_Source h))) (r_columns r)
                                        (r_rows r) (None, [], sc) of
                                   Inr sc \<Rightarrow> Panicked sc
                                 | Inl (plan, linkHash, sc) \<Rightarrow>
                                     assign_links G relation (f_Name f) linkHash (Scope_Err (r_rows_err r) sc))))))"

end
