(* ===== verification/Preloading.thy ===== *)
theory Preloading
  imports Preload
begin

text \<open>
  The callback that preloads (\<^verbatim>\<open>preloadCallback\<close> and \<^verbatim>\<open>autoPreload\<close> of \<^verbatim>\<open>callback_query_preload.go\<close>) and the
  scopes on associations that it walks through (\<^verbatim>\<open>getColumnAsScope\<close> of \<^verbatim>\<open>scope.go\<close>).

  The walk is at the scope of the query, at a scope on an association, at one on a nil pointer, or nowhere
  (\<open>cursor\<close>).  The scopes share the world, which the state keeps in the scope of the query.
\<close>

section \<open>The scope of an association\<close>

text \<open>
  An element of a slice of structs, or a struct, is identified by its object; an element of a slice of pointers by
  its place in the slice.  A struct held by value gets an object of its own, with zero values, when its
  address is taken.
\<close>

datatype slot = SlotObj nat | SlotAt nat nat nat

definition struct_member :: "genv \<Rightarrow> nat \<Rightarrow> nat \<Rightarrow> rtype \<Rightarrow> world \<Rightarrow> nat \<times> world" where
  "struct_member G a i t w =
     (case obj_value w a i of
        VObj b \<Rightarrow> (b, w)
      | _ \<Rightarrow> (case new_object G t w of (b, w) \<Rightarrow> (b, set_obj_value a i (VObj b) w)))"

definition element_slot :: "genv \<Rightarrow> rtype \<Rightarrow> nat \<Rightarrow> nat \<Rightarrow> nat \<times> gval \<Rightarrow> slot \<times> gval" where
  "element_slot G et a i p =
     ((case snd p of VObj b \<Rightarrow> if t_kind (g_types G et) = KPtr then SlotAt a i (fst p) else SlotObj b
       | _ \<Rightarrow> SlotAt a i (fst p)), snd p)"

definition member_slots :: "genv \<Rightarrow> string \<Rightarrow> gval \<Rightarrow> world \<Rightarrow> (slot \<times> gval) list \<times> world" where
  "member_slots G column v w =
     (case member_of G w v column of
        None \<Rightarrow> ([], w)
      | Some (a, i, t) \<Rightarrow>
         (case t_kind (g_types G t) of
            KSlice \<Rightarrow>
              (map (element_slot G (t_elem (g_types G t)) a i) (enumerate 0 (slice_elements (obj_value w a i))), w)
          | KStruct \<Rightarrow> (case struct_member G a i t w of (b, w) \<Rightarrow> ([(SlotObj b, VObj b)], w))
          | _ \<Rightarrow> (case obj_value w a i of VObj b \<Rightarrow> ([(SlotObj b, VObj b)], w) | _ \<Rightarrow> ([], w))))"

fun column_slots :: "genv \<Rightarrow> string \<Rightarrow> gval list \<Rightarrow> (slot \<times> gval) list \<Rightarrow> world \<Rightarrow> (slot \<times> gval) list \<times> world" where
  "column_slots G column [] results w = (results, w)"
| "column_slots G column (v # vs) results w =
     (case member_slots G column v w of (ss, w) \<Rightarrow>
        column_slots G column vs (fold (\<lambda>s rs. if fst s \<in> set (map fst rs) then rs else rs @ [s]) ss results) w)"

datatype cursor = AtRoot | AtScope scope | AtNil scope | Nowhere

text \<open>
  A nil pointer has a type but no object: its scope is one on an empty slice of that type, which reads no rows either,
  and there is no scope beyond it.
\<close>

definition getColumnAsScope :: "genv \<Rightarrow> string \<Rightarrow> scope \<Rightarrow> cursor \<times> world" where
  "getColumnAsScope G column sc =
     (let w = sc_w sc in
      case indirect_kind G w (sc_Value sc) of
        KSlice \<Rightarrow>
          (case List.find (\<lambda>sf. sf_Name sf = column) (GetStructFields G sc) of
             None \<Rightarrow> (Nowhere, w)
           | Some sf \<Rightarrow>
              (let t = m_type (sf_Struct sf);
                   ft = (if t_kind (g_types G t) \<in> {KSlice, KPtr} then t_elem (g_types G t) else t)
               in case column_slots G column (scope_objects G sc) [] w of (ss, w) \<Rightarrow>
                    (AtScope (Scope_New G (VSlice ft (Some (map snd ss))) (sc\<lparr>sc_w := w\<rparr>)), w)))
      | KStruct \<Rightarrow>
          (case member_of G w (sc_Value sc) column of
             None \<Rightarrow> (Nowhere, w)
           | Some (a, i, t) \<Rightarrow>
              (case t_kind (g_types G t) of
                 KStruct \<Rightarrow> (case struct_member G a i t w of (b, w) \<Rightarrow> (AtScope (Scope_New G (VObj b) (sc\<lparr>sc_w := w\<rparr>)), w))
               | KPtr \<Rightarrow>
                   (case obj_value w a i of
                      VObj b \<Rightarrow> (AtScope (Scope_New G (VObj b) sc), w)
                    | _ \<Rightarrow> (AtNil (Scope_New G (VSlice (t_elem (g_types G t)) (Some [])) sc), w))
               | _ \<Rightarrow> (AtScope (Scope_New G (obj_value w a i) sc), w)))
      | _ \<Rightarrow> (Nowhere, w))"

section \<open>The walk\<close>

record walk =
  wk_root :: scope
  wk_cursor :: cursor
  wk_done :: "string list"

datatype progress = Going walk | Stopped scope | Broken scope

definition walk_world :: "walk \<Rightarrow> world" where
  "walk_world st = sc_w (wk_root st)"

definition current_scope :: "walk \<Rightarrow> scope option" where
  "current_scope st =
     (case wk_cursor st of
        AtRoot \<Rightarrow> Some (wk_root st)
      | AtScope s \<Rightarrow> Some (s\<lparr>sc_w := walk_world st\<rparr>)
      | AtNil s \<Rightarrow> Some (s\<lparr>sc_w := walk_world st\<rparr>)
      | Nowhere \<Rightarrow> None)"

definition set_world :: "world \<Rightarrow> walk \<Rightarrow> walk" where
  "set_world w st = st\<lparr>wk_root := (wk_root st)\<lparr>sc_w := w\<rparr>\<rparr>"

definition set_current :: "scope \<Rightarrow> walk \<Rightarrow> walk" where
  "set_current s st =
     (case wk_cursor st of
        AtRoot \<Rightarrow> st\<lparr>wk_root := s\<rparr>
      | AtScope _ \<Rightarrow> (set_world (sc_w s) st)\<lparr>wk_cursor := AtScope s\<rparr>
      | AtNil _ \<Rightarrow> (set_world (sc_w s) st)\<lparr>wk_cursor := AtNil s\<rparr>
      | Nowhere \<Rightarrow> st)"

definition mark_done :: "string \<Rightarrow> walk \<Rightarrow> walk" where
  "mark_done key st = st\<lparr>wk_done := key # wk_done st\<rparr>"

text \<open>The handler of a kind of relationship.\<close>

definition preload_handler ::
    "genv \<Rightarrow> preload_env \<Rightarrow> chains \<Rightarrow> nat \<Rightarrow> Relationship \<Rightarrow> gval list \<Rightarrow> callback option" where
  "preload_handler G P C i r conditions =
     (if rel_Kind r = ''has_one'' then Some (handleHasOnePreload G P C i r conditions)
      else if rel_Kind r = ''has_many'' then Some (handleHasManyPreload G P C i r conditions)
      else if rel_Kind r = ''belongs_to'' then Some (handleBelongsToPreload G P C i r conditions)
      else if rel_Kind r = ''many_to_many'' then Some (handleManyToManyPreload G P C i r conditions)
      else None)"

definition find_association :: "genv \<Rightarrow> scope \<Rightarrow> string \<Rightarrow> (nat \<times> Relationship) option" where
  "find_association G sc name =
     (case List.find (\<lambda>p. f_Name (snd p) = name \<and> sf_Relationship (f_sf (snd p)) \<noteq> None) (enumerate 0 (Fields G sc)) of
        None \<Rightarrow> None
      | Some (i, f) \<Rightarrow> map_option (\<lambda>r. (i, r)) (sf_Relationship (f_sf f)))"

text \<open>
  One association of a path, unless it is preloaded already.  The name of the model's type is left out of the message.
\<close>

definition preload_association ::
    "genv \<Rightarrow> preload_env \<Rightarrow> chains \<Rightarrow> string \<Rightarrow> string \<Rightarrow> gval list \<Rightarrow> walk \<Rightarrow> progress" where
  "preload_association G P C key name conditions st =
     (case current_scope st of
        None \<Rightarrow> Going st
      | Some sc \<Rightarrow>
         (if key \<in> set (wk_done st) then Going st
          else case find_association G sc name of
                 None \<Rightarrow> Stopped (scope_error (''can't preload field '' @ name) (wk_root st))
               | Some (i, r) \<Rightarrow>
                  (case preload_handler G P C i r conditions of
                     None \<Rightarrow> Going (mark_done key (st\<lparr>wk_root := scope_error ''unsupported relation'' (wk_root st)\<rparr>))
                   | Some handle \<Rightarrow>
                      (case handle sc of
                         Panicked s \<Rightarrow> Broken ((wk_root st)\<lparr>sc_w := sc_w s\<rparr>)
                       | Done s \<Rightarrow> Going (mark_done key (set_current s st))))))"

definition next_level :: "genv \<Rightarrow> string \<Rightarrow> walk \<Rightarrow> walk" where
  "next_level G name st =
     (case wk_cursor st of
        AtNil s \<Rightarrow> st\<lparr>wk_cursor := Nowhere\<rparr>
      | _ \<Rightarrow>
         (case current_scope st of
            None \<Rightarrow> st
          | Some sc \<Rightarrow>
             (case getColumnAsScope G name sc of (c, w) \<Rightarrow>
                (set_world w st)\<lparr>wk_cursor := (case c of AtScope s \<Rightarrow> AtScope (cache_fields G s) | _ \<Rightarrow> c)\<rparr>)))"

text \<open>The conditions belong to the last association of the path.\<close>

fun preload_path ::
    "genv \<Rightarrow> preload_env \<Rightarrow> chains \<Rightarrow> string list \<Rightarrow> string list \<Rightarrow> gval list \<Rightarrow> walk \<Rightarrow> progress" where
  "preload_path G P C pre [] conditions st = Going st"
| "preload_path G P C pre (name # names) conditions st =
     (case preload_association G P C (str_join ''.'' (pre @ [name])) name (if names = [] then conditions else []) st of
        Going st \<Rightarrow> preload_path G P C (pre @ [name]) names conditions (if names = [] then st else next_level G name st)
      | p \<Rightarrow> p)"

fun preload_all :: "genv \<Rightarrow> preload_env \<Rightarrow> chains \<Rightarrow> (string \<times> gval list) list \<Rightarrow> walk \<Rightarrow> progress" where
  "preload_all G P C [] st = Going st"
| "preload_all G P C ((schema, conditions) # ps) st =
     (case preload_path G P C [] (split_char (CHR ''.'') schema) conditions (st\<lparr>wk_cursor := AtRoot\<rparr>) of
        Going st \<Rightarrow> preload_all G P C ps st
      | p \<Rightarrow> p)"

section \<open>The callback\<close>

text \<open>\<^verbatim>\<open>strconv.ParseBool\<close>.\<close>

definition parse_bool :: "string \<Rightarrow> bool option" where
  "parse_bool s =
     (if s \<in> {''1'', ''t'', ''T'', ''TRUE'', ''true'', ''True''} then Some True
      else if s \<in> {''0'', ''f'', ''F'', ''FALSE'', ''false'', ''False''} then Some False else None)"

fun auto_preload_fields :: "Field list \<Rightarrow> scope \<Rightarrow> scope" where
  "auto_preload_fields [] sc = sc"
| "auto_preload_fields (f # fs) sc =
     (let add = sc\<lparr>sc_Search := search_Preload (f_Name f) [] (sc_Search sc)\<rparr> in
      if sf_Relationship (f_sf f) = None then auto_preload_fields fs sc
      else case TagSettingsGet (f_sf f) ''PRELOAD'' of
             None \<Rightarrow> auto_preload_fields fs add
           | Some val \<Rightarrow>
              (case parse_bool val of
                 None \<Rightarrow> scope_error ''invalid preload option'' sc
               | Some False \<Rightarrow> auto_preload_fields fs sc
               | Some True \<Rightarrow> auto_preload_fields fs add))"

definition autoPreload :: "genv \<Rightarrow> scope \<Rightarrow> scope" where
  "autoPreload G sc = auto_preload_fields (Fields G sc) (cache_fields G sc)"

definition auto_setting :: "genv \<Rightarrow> scope \<Rightarrow> scope" where
  "auto_setting G sc =
     (case Scope_Get sc ''gorm:auto_preload'' of
        None \<Rightarrow> sc
      | Some ap \<Rightarrow> if ap = VBool False then sc else autoPreload G sc)"

definition preloadCallback :: "genv \<Rightarrow> preload_env \<Rightarrow> chains \<Rightarrow> callback" where
  "preloadCallback G P C sc0 =
     (case InstanceGet ''gorm:skip_query_callback'' sc0 of
        (Some v, sc) \<Rightarrow> Done sc
      | (None, sc1) \<Rightarrow>
         (let sc = auto_setting G sc1
          in if preload (sc_Search sc) = [] \<or> HasError sc then Done sc
             else case preload_all G P C (preload (sc_Search sc)) \<lparr>wk_root = cache_fields G sc, wk_cursor = AtRoot, wk_done = []\<rparr> of
                    Going st \<Rightarrow> Done (wk_root st)
                  | Stopped sc \<Rightarrow> Done sc
                  | Broken sc \<Rightarrow> Panicked sc))"

text \<open>The chains that reading uses, and preloading with the nesting of its queries bounded by the fuel.\<close>

definition read_chains :: "genv \<Rightarrow> hooks \<Rightarrow> callback \<Rightarrow> chains" where
  "read_chains G hooks preloading =
     \<lparr>ch_creates = [], ch_updates = [], ch_deletes = [], ch_queries = query_chain G hooks preloading,
      ch_rowQueries = [rowQueryCallback G]\<rparr>"

fun preload_at :: "nat \<Rightarrow> genv \<Rightarrow> preload_env \<Rightarrow> hooks \<Rightarrow> callback" where
  "preload_at 0 G P hooks sc = Panicked sc"
| "preload_at (Suc n) G P hooks sc = preloadCallback G P (read_chains G hooks (preload_at n G P hooks)) sc"

end
