(* ===== verification/PreloadReads.thy ===== *)
theory PreloadReads
  imports Preloading Statements "HOL-Library.Extended_Nat"
begin

text \<open>
  What preloading sends: queries on the connection of the scope, and, when the associated queries do not preload
  themselves, one for each association.  The locale \<open>reader\<close> states what the handlers rely on: the callbacks of
  a query send at most \<open>k\<close> queries, and none for a scope that is told to skip the query.  It is interpreted for
  the chains that \<open>preload_at\<close> uses, with one query and with any number of them.
\<close>

section \<open>Queries between two worlds\<close>

fun is_query_on :: "conn \<Rightarrow> dbcall \<Rightarrow> bool" where
  "is_query_on c (CallQuery c' sql vs) = (c' = c)"
| "is_query_on c (CallQueryRow c' sql vs) = (c' = c)"
| "is_query_on c _ = False"

definition asked :: "conn \<Rightarrow> enat \<Rightarrow> world \<Rightarrow> world \<Rightarrow> bool" where
  "asked c k w w' = (\<exists>cs. w_hist w' = w_hist w @ cs \<and> list_all (is_query_on c) cs \<and> enat (length cs) \<le> k)"

lemma asked_hist: "w_hist w' = w_hist w \<Longrightarrow> asked c k w w'"
  by (simp add: asked_def zero_enat_def [symmetric])

lemma asked_same [simp]: "asked c k w w"
  by (rule asked_hist) simp

lemma asked_trans: "asked c j a b \<Longrightarrow> asked c k b d \<Longrightarrow> asked c (j + k) a d"
proof -
  assume "asked c j a b" "asked c k b d"
  then obtain xs ys where
    "w_hist b = w_hist a @ xs" "list_all (is_query_on c) xs" "enat (length xs) \<le> j"
    "w_hist d = w_hist b @ ys" "list_all (is_query_on c) ys" "enat (length ys) \<le> k"
    by (auto simp: asked_def)
  then show ?thesis unfolding asked_def
    by (intro exI [of _ "xs @ ys"]) (auto simp flip: plus_enat_simps(1) intro: add_mono)
qed

lemma asked_quiet: "asked c k a b \<Longrightarrow> w_hist d = w_hist b \<Longrightarrow> asked c k a d"
  by (simp add: asked_def)

lemma quiet_asked: "w_hist b = w_hist a \<Longrightarrow> asked c k b d \<Longrightarrow> asked c k a d"
  by (simp add: asked_def)

lemma asked_mono: "asked c j a b \<Longrightarrow> j \<le> k \<Longrightarrow> asked c k a b"
  unfolding asked_def by (blast intro: order_trans)

text \<open>A step of a handler: the connection and the settings of the scope stay.\<close>

definition reads :: "enat \<Rightarrow> scope \<Rightarrow> scope \<Rightarrow> bool" where
  "reads k a b =
     (db_conn (sc_db b) = db_conn (sc_db a) \<and> db_values (sc_db b) = db_values (sc_db a)
      \<and> asked (db_conn (sc_db a)) k (sc_w a) (sc_w b))"

lemma reads_refl [simp]: "reads k a a"
  by (simp add: reads_def)

lemma reads_trans: "reads j a b \<Longrightarrow> reads k b c \<Longrightarrow> reads (j + k) a c"
  by (auto simp: reads_def intro: asked_trans)

lemma reads_mono: "reads j a b \<Longrightarrow> j \<le> k \<Longrightarrow> reads k a b"
  by (auto simp: reads_def intro: asked_mono)

lemma reads_then: "reads k a b \<Longrightarrow> reads 0 b c \<Longrightarrow> reads k a c"
  using reads_trans [of k a b 0 c] by simp

lemma silent_reads: "silent a b \<Longrightarrow> reads k a b"
  by (auto simp: silent_def reads_def intro: asked_hist)

lemma reads_world: "w_hist w = w_hist (sc_w a) \<Longrightarrow> reads k a (a\<lparr>sc_w := w\<rparr>)"
  by (simp add: reads_def asked_hist)

lemma reads_Err: "reads k a b \<Longrightarrow> reads k a (Scope_Err e b)"
  by (erule reads_then) (intro silent_reads silent_Err silent_refl)

section \<open>Attaching makes no call\<close>

lemma fold_hist:
  "(\<And>x st. w_hist (snd (f x st)) = w_hist (snd st)) \<Longrightarrow> w_hist (snd (fold f xs st)) = w_hist (snd st)"
  by (induction xs arbitrary: st) simp_all

lemma copy_value_hist [simp]: "w_hist (snd (copy_value n G t v w)) = w_hist w"
proof (induction n arbitrary: t v w)
  case (Suc n)
  have step: "w_hist (snd (fold (\<lambda>(sf, u) (us, w). case copy_value n G (m_type (sf_Struct sf)) u w of (u, w) \<Rightarrow> (us @ [u], w)) ps st))
    = w_hist (snd st)" for ps st
    by (rule fold_hist) (simp add: case_prod_unfold Suc.IH)
  show ?case by (cases v) (simp_all add: case_prod_unfold step [unfolded case_prod_unfold] split: option.split)
qed simp

lemma append_values_hist [simp]: "w_hist (snd (append_values G t old xs w)) = w_hist w"
  unfolding append_values_def case_prod_unfold
  by (simp add: fold_hist [where f = "\<lambda>x p. (fst p @ [fst (copy_value type_fuel G t x (snd p))], snd (copy_value type_fuel G t x (snd p)))"])

lemma set_member_hist: "set_member G name x v w = Some w' \<Longrightarrow> w_hist w' = w_hist w"
  by (auto simp: set_member_def case_prod_unfold split: option.splits)

lemma extend_member_hist: "extend_member G name xs v w = Some w' \<Longrightarrow> w_hist w' = w_hist w"
  by (auto simp: extend_member_def case_prod_unfold Let_def split: option.splits if_splits)

lemma attach_each_hist:
  "(\<And>v w w'. f v w = Some w' \<Longrightarrow> w_hist w' = w_hist w) \<Longrightarrow> attach_each f vs w = Some w' \<Longrightarrow> w_hist w' = w_hist w"
  by (induction vs arbitrary: w) (auto split: option.splits)

lemma attach_one_hist: "attach_one G names field results v w = Some w' \<Longrightarrow> w_hist w' = w_hist w"
  by (auto simp: attach_one_def set_member_hist split: option.splits)

lemma attach_many_hist: "attach_many G names field results v w = Some w' \<Longrightarrow> w_hist w' = w_hist w"
  by (auto simp: attach_many_def extend_member_hist split: option.splits)

lemma attach_result_hist: "attach_result G names field objects r w = Some w' \<Longrightarrow> w_hist w' = w_hist w"
  by (auto simp: attach_result_def split: option.splits dest: set_member_hist elim!: attach_each_hist [rotated])

lemma attach_links_hist: "attach_links G field linkHash kvs w = Some w' \<Longrightarrow> w_hist w' = w_hist w"
proof (induction kvs arbitrary: w)
  case (Cons kv kvs)
  then obtain u where u: "attach_linked G field linkHash kv w = Some u" and "attach_links G field linkHash kvs u = Some w'"
    by (auto split: option.splits)
  then have "w_hist w' = w_hist u" by (intro Cons.IH)
  moreover have "w_hist u = w_hist w"
    using u by (auto simp: attach_linked_def extend_member_hist split: option.splits if_splits)
  ultimately show ?case by simp
qed simp

lemma done_or_panic_reads:
  "(\<And>w. x = Some w \<Longrightarrow> w_hist w = w_hist (sc_w sc)) \<Longrightarrow> done_or_panic sc x = Done sc' \<Longrightarrow> reads k sc sc'"
  by (auto simp: done_or_panic_def intro: reads_world split: option.splits)

lemma set_related_reads: "reads k a b \<Longrightarrow> reads k a (set_related G i v b)"
proof -
  assume ab: "reads k a b"
  define t where "t = m_type (sf_Struct (f_sf (field_at G b i)))"
  let ?c = "b\<lparr>sc_w := snd (copy_value type_fuel G t v (sc_w b))\<rparr>"
  have "reads 0 b ?c" by (rule reads_world) simp
  moreover have "reads 0 ?c (snd (set_field (same_type_env G) i (fst (copy_value type_fuel G t v (sc_w b))) ?c))"
    by (intro silent_reads silent_intros)
  ultimately have "reads 0 b (snd (set_field (same_type_env G) i (fst (copy_value type_fuel G t v (sc_w b))) ?c))"
    by (rule reads_then)
  then show ?thesis using ab by (auto simp: set_related_def case_prod_unfold t_def intro: reads_Err reads_then)
qed

lemma set_results_reads: "reads k a b \<Longrightarrow> reads k a (fold (set_related G i) results b)"
  by (induction results arbitrary: b) (simp_all add: set_related_reads)

lemma makeSlice_hist [simp]: "w_hist (snd (makeSlice G P t w)) = w_hist w"
  by (simp add: makeSlice_def case_prod_unfold Let_def)

lemma struct_member_hist [simp]: "w_hist (snd (struct_member G a i t w)) = w_hist w"
  by (simp add: struct_member_def case_prod_unfold split: gval.split)

lemma member_slots_hist [simp]: "w_hist (snd (member_slots G column v w)) = w_hist w"
  by (simp add: member_slots_def case_prod_unfold split: option.split kind.split gval.split)

lemma column_slots_hist [simp]: "w_hist (snd (column_slots G column vs rs w)) = w_hist w"
  by (induction vs arbitrary: rs w) (simp_all add: case_prod_unfold)

lemma scan_link_hist [simp]: "w_hist (snd (snd (scan_link G fs ps keys w))) = w_hist w"
  by (induction G fs ps keys w rule: scan_link.induct)
     (auto simp: scan_into_def Let_def case_prod_unfold split: option.split sum.split)

section \<open>The interface of the queries\<close>

text \<open>A handle, or a scope, that asks for no preloading.\<close>

definition unset :: "db \<Rightarrow> bool" where
  "unset d = (db_values d ''gorm:auto_preload'' = None)"

definition plain_handle :: "db \<Rightarrow> bool" where
  "plain_handle d = (unset d \<and> (case db_search d of None \<Rightarrow> True | Some s \<Rightarrow> preload s = []))"

definition plain_scope :: "scope \<Rightarrow> bool" where
  "plain_scope s = (unset (sc_db s) \<and> preload (sc_Search s) = [])"

definition skipping :: "scope \<Rightarrow> scope" where
  "skipping s = InstanceSet ''gorm:skip_query_callback'' (VBool True) s"

text \<open>
  \<open>strict\<close> when the associated queries must not preload themselves, \<open>okc\<close> the conditions that are given with an
  association, \<open>fair\<close> what is assumed of the hooks and of the functions among the conditions.
\<close>

locale reader =
  fixes G :: genv and P :: preload_env and C :: chains and k :: enat and strict :: bool
    and okc :: "gval \<Rightarrow> bool" and fair :: bool
  assumes query: "fair \<Longrightarrow> (strict \<Longrightarrow> plain_scope s) \<Longrightarrow> callCallbacks G (ch_queries C) s = Done s' \<Longrightarrow>
      asked (db_conn (sc_db s)) k (sc_w s) (sc_w s')"
    and skip: "fair \<Longrightarrow> callCallbacks G (ch_queries C) (skipping s) = Done s' \<Longrightarrow> w_hist (sc_w s') = w_hist (sc_w s)"
    and rows: "callCallbacks G (ch_rowQueries C) s = Done s' \<Longrightarrow> asked (db_conn (sc_db s)) k (sc_w s) (sc_w s')"
    and scopes: "fair \<Longrightarrow> okc c \<Longrightarrow> p_func P c = Some f \<Longrightarrow>
      db_conn (f d) = db_conn d \<and> (strict \<longrightarrow> plain_handle d \<longrightarrow> plain_handle (f d))"

lemma handle_conn [simp]:
  "db_conn (DB_Where G q vs d) = db_conn d" "db_conn (DB_Table G t d) = db_conn d" "db_conn (DB_Model G v d) = db_conn d"
  "db_conn (DB_Select G q vs d) = db_conn d" "db_conn (DB_Joins G j vs d) = db_conn d"
  "db_conn (Scope_NewDB G sc) = db_conn (sc_db sc)" "db_values (Scope_NewDB G sc) = db_values (sc_db sc)"
  by (simp_all add: DB_Where_def DB_Table_def DB_Model_def DB_Select_def DB_Joins_def on_search_def DB_clone_def Scope_NewDB_def)

lemma plain_handle_where [simp]:
  "plain_handle d \<Longrightarrow> plain_handle (DB_Where G q vs d)" "plain_handle d \<Longrightarrow> plain_handle (DB_Table G t d)"
  "plain_handle d \<Longrightarrow> plain_handle (DB_Model G v d)" "plain_handle d \<Longrightarrow> plain_handle (DB_Select G q vs d)"
  "plain_handle d \<Longrightarrow> plain_handle (DB_Joins G j vs d)"
  by (auto simp: plain_handle_def unset_def DB_Where_def DB_Table_def DB_Model_def DB_Select_def DB_Joins_def on_search_def
      DB_clone_def empty_search_def search_Where_def search_Table_def search_Select_def search_Joins_def split: option.splits)

lemma plain_NewDB: "unset (sc_db sc) \<Longrightarrow> plain_handle (Scope_NewDB G sc)"
  by (simp add: plain_handle_def unset_def) (simp add: Scope_NewDB_def)

lemma plain_NewScope: "plain_handle d \<Longrightarrow> plain_scope (inlineCondition cs (NewScope G d v w))"
  by (auto simp: plain_handle_def plain_scope_def unset_def inlineCondition_def NewScope_def new_scope_def DB_clone_def
      empty_search_def search_Where_def split: list.split option.splits)

lemma NewScope_simps [simp]:
  "sc_w (inlineCondition cs (NewScope G d v w)) = w" "db_conn (sc_db (inlineCondition cs (NewScope G d v w))) = db_conn d"
  "sc_w (NewScope G d v w) = w" "db_conn (sc_db (NewScope G d v w)) = db_conn d"
  by (simp_all add: inlineCondition_def NewScope_def new_scope_def DB_clone_def split: list.split)

lemma Scope_New_simps [simp]:
  "sc_w (Scope_New G v sc) = sc_w sc" "db_conn (sc_db (Scope_New G v sc)) = db_conn (sc_db sc)"
  "db_values (sc_db (Scope_New G v sc)) = db_values (sc_db sc)"
  by (simp_all add: Scope_New_def new_scope_def Scope_NewDB_def DB_clone_def)

lemma join_with_ok:
  assumes "jth_JoinWith G h d source w = (Some d', w')"
  shows "w_hist w' = w_hist w \<and> db_conn d' = db_conn d \<and> (plain_handle d \<longrightarrow> plain_handle d')"
proof -
  have w: "w_hist (snd (new_object G t w)) = w_hist w" for t by simp
  have e: "plain_handle (d\<lparr>db_Error := x\<rparr>) = plain_handle d" for x by (simp add: plain_handle_def unset_def)
  show ?thesis using assms w e
    by (auto simp: jth_JoinWith_def Let_def case_prod_unfold split: if_splits option.splits)
qed

section \<open>The walk\<close>

text \<open>The scopes the walk is at have the connection and the settings of the scope of the query.\<close>

definition walk_ok :: "walk \<Rightarrow> bool" where
  "walk_ok st =
     (\<forall>s. current_scope st = Some s \<longrightarrow>
        db_conn (sc_db s) = db_conn (sc_db (wk_root st)) \<and> db_values (sc_db s) = db_values (sc_db (wk_root st)))"

text \<open>The associations of \<open>K\<close> that are not preloaded yet; a walk sends for those it preloads.\<close>

definition left_of :: "string set \<Rightarrow> walk \<Rightarrow> nat" where
  "left_of K st = card (K - set (wk_done st))"

definition goes :: "string set \<Rightarrow> enat \<Rightarrow> walk \<Rightarrow> progress \<Rightarrow> bool" where
  "goes K k st p =
     (case p of
        Going st' \<Rightarrow> walk_ok st' \<and> (\<exists>m. m + left_of K st' \<le> left_of K st \<and> reads (of_nat m * k) (wk_root st) (wk_root st'))
      | Stopped s \<Rightarrow> \<exists>m. m \<le> left_of K st \<and> reads (of_nat m * k) (wk_root st) s
      | Broken s \<Rightarrow> True)"

lemma goes_here: "walk_ok st' \<Longrightarrow> wk_done st' = wk_done st \<Longrightarrow> reads 0 (wk_root st) (wk_root st') \<Longrightarrow> goes K k st (Going st')"
  by (auto simp: goes_def left_of_def intro!: exI [of _ 0])

lemma goes_stopped: "reads 0 (wk_root st) s \<Longrightarrow> goes K k st (Stopped s)"
  by (auto simp: goes_def intro!: exI [of _ 0])

lemma goes_marked:
  assumes "finite K" "key \<in> K" "key \<notin> set (wk_done st)" "wk_done st' = key # wk_done st"
    and "walk_ok st'" "reads k (wk_root st) (wk_root st')"
  shows "goes K k st (Going st')"
proof -
  have "K - set (wk_done st') = (K - set (wk_done st)) - {key}" using assms(4) by auto
  moreover have "Suc (card ((K - set (wk_done st)) - {key})) = card (K - set (wk_done st))"
    using assms(1-3) by (intro card_Suc_Diff1) auto
  ultimately have "1 + left_of K st' \<le> left_of K st" by (simp only: left_of_def)
  then show ?thesis using assms(5,6) by (simp add: goes_def) (rule exI [of _ "1 :: nat"], simp)
qed

lemma goes_trans:
  assumes "goes K k a (Going b)" "goes K k b p" shows "goes K k a p"
proof -
  obtain m where m: "m + left_of K b \<le> left_of K a" "reads (of_nat m * k) (wk_root a) (wk_root b)"
    using assms(1) by (auto simp: goes_def)
  have on: "reads (of_nat (m + n) * k) (wk_root a) s" if "reads (of_nat n * k) (wk_root b) s" for n s
    using reads_trans [OF m(2) that] by (simp add: algebra_simps)
  show ?thesis
  proof (cases p)
    case (Going c)
    then obtain n where "n + left_of K c \<le> left_of K b" "reads (of_nat n * k) (wk_root b) (wk_root c)"
      using assms(2) by (auto simp: goes_def)
    then show ?thesis using Going assms(2) m(1) on by (auto simp: goes_def intro!: exI [of _ "m + n"])
  next
    case (Stopped s)
    then obtain n where "n \<le> left_of K b" "reads (of_nat n * k) (wk_root b) s" using assms(2) by (auto simp: goes_def)
    then show ?thesis using Stopped m(1) on by (auto simp: goes_def intro!: exI [of _ "m + n"])
  qed (simp add: goes_def)
qed

lemma goes_walk: "goes K k st (Going st') \<Longrightarrow> walk_ok st' \<and> db_values (sc_db (wk_root st')) = db_values (sc_db (wk_root st))"
  by (auto simp: goes_def reads_def)

lemma current_root: "walk_ok st \<Longrightarrow> current_scope st = Some s \<Longrightarrow>
  db_conn (sc_db s) = db_conn (sc_db (wk_root st)) \<and> db_values (sc_db s) = db_values (sc_db (wk_root st)) \<and> sc_w s = walk_world st"
  by (auto simp: walk_ok_def current_scope_def walk_world_def split: cursor.splits)

lemma walk_ok_root: "walk_ok st \<Longrightarrow> reads k (wk_root st) r \<Longrightarrow> walk_ok (mark_done key (st\<lparr>wk_root := r\<rparr>))"
  by (cases "wk_cursor st") (simp_all add: walk_ok_def current_scope_def reads_def mark_done_def)

lemma walk_ok_current:
  "walk_ok st \<Longrightarrow> current_scope st = Some sc \<Longrightarrow> reads k sc s \<Longrightarrow>
   walk_ok (mark_done key (set_current s st)) \<and> reads k (wk_root st) (wk_root (mark_done key (set_current s st)))"
  by (cases "wk_cursor st")
     (auto simp: walk_ok_def current_scope_def reads_def mark_done_def set_current_def set_world_def walk_world_def)

lemma column_scope_ok:
  assumes "getColumnAsScope G column sc = (c, w)"
  shows "w_hist w = w_hist (sc_w sc) \<and> c \<noteq> AtRoot
    \<and> (\<forall>s. c = AtScope s \<or> c = AtNil s \<longrightarrow> db_conn (sc_db s) = db_conn (sc_db sc) \<and> db_values (sc_db s) = db_values (sc_db sc))"
proof -
  have c: "fst (getColumnAsScope G column sc) = c" and w: "snd (getColumnAsScope G column sc) = w" using assms by simp_all
  have "w_hist (snd (getColumnAsScope G column sc)) = w_hist (sc_w sc)"
    by (simp add: getColumnAsScope_def Let_def case_prod_unfold split: kind.split option.split gval.split)
  moreover have "fst (getColumnAsScope G column sc) \<noteq> AtRoot
    \<and> (\<forall>s. fst (getColumnAsScope G column sc) = AtScope s \<or> fst (getColumnAsScope G column sc) = AtNil s \<longrightarrow>
         db_conn (sc_db s) = db_conn (sc_db sc) \<and> db_values (sc_db s) = db_values (sc_db sc))"
    by (auto simp: getColumnAsScope_def Let_def case_prod_unfold split: kind.splits option.splits gval.splits)
  ultimately show ?thesis unfolding c w by simp
qed

lemma next_level_ok: "walk_ok st \<Longrightarrow> walk_ok (next_level G name st) \<and> reads k (wk_root st) (wk_root (next_level G name st))"
proof (cases "current_scope st")
  case None
  then show "walk_ok st \<Longrightarrow> ?thesis"
    by (cases "wk_cursor st") (simp_all add: next_level_def current_scope_def)
next
  case (Some sc)
  assume st: "walk_ok st"
  obtain c w where cw: "getColumnAsScope G name sc = (c, w)" by fastforce
  have hist: "w_hist w = w_hist (sc_w (wk_root st))"
    using column_scope_ok [OF cw] current_root [OF st Some] by (simp add: walk_world_def)
  show ?thesis
  proof (cases "\<exists>s. wk_cursor st = AtNil s")
    case True
    then obtain s where "wk_cursor st = AtNil s" ..
    then show ?thesis by (simp add: next_level_def walk_ok_def current_scope_def)
  next
    case False
    then have "next_level G name st = (set_world w st)\<lparr>wk_cursor := (case c of AtScope s \<Rightarrow> AtScope (cache_fields G s) | _ \<Rightarrow> c)\<rparr>"
      by (cases "wk_cursor st") (simp_all add: next_level_def Some cw)
    then show ?thesis using hist column_scope_ok [OF cw] current_root [OF st Some]
      by (cases c) (simp_all add: walk_ok_def current_scope_def set_world_def reads_world cache_fields_def)
  qed
qed

lemma next_level_done [simp]: "wk_done (next_level G name st) = wk_done st"
  by (auto simp: next_level_def set_world_def split: cursor.split option.split prod.split)

lemma goes_next: "walk_ok st \<Longrightarrow> goes K k st (Going (next_level G name st))"
  using next_level_ok [where k = 0 and st = st and G = G and name = name] by (intro goes_here) simp_all

lemma goes_start: "walk_ok (st\<lparr>wk_cursor := AtRoot\<rparr>)"
  by (simp add: walk_ok_def current_scope_def)

text \<open>The associations on a path, and on all paths that are named.\<close>

fun path_keys :: "string list \<Rightarrow> string list \<Rightarrow> string list" where
  "path_keys pre [] = []"
| "path_keys pre (name # names) = str_join ''.'' (pre @ [name]) # path_keys (pre @ [name]) names"

definition association_paths :: "(string \<times> gval list) list \<Rightarrow> string set" where
  "association_paths ps = (\<Union>p\<in>set ps. set (path_keys [] (split_char (CHR ''.'') (fst p))))"

lemma association_paths_finite [simp]: "finite (association_paths ps)"
  by (simp add: association_paths_def)

lemma auto_fields_ok:
  "reads 0 a sc \<Longrightarrow> list_all (\<lambda>p. list_all okc (snd p)) (preload (sc_Search sc)) \<Longrightarrow>
   reads 0 a (auto_preload_fields fs sc) \<and> list_all (\<lambda>p. list_all okc (snd p)) (preload (sc_Search (auto_preload_fields fs sc)))"
proof (induction fs sc rule: auto_preload_fields.induct)
  case (2 f fs sc)
  have add: "list_all (\<lambda>p. list_all okc (snd p)) (preload (search_Preload n [] (sc_Search sc)))" for n
    using "2.prems"(2) by (auto simp: search_Preload_def list_all_iff)
  have r: "reads 0 a (sc\<lparr>sc_Search := x\<rparr>)" for x using "2.prems"(1) by (simp add: reads_def)
  have e: "reads 0 a (scope_error m sc)" "preload (sc_Search (scope_error m sc)) = preload (sc_Search sc)" for m
  proof -
    have "silent sc (scope_error m sc)" by (intro silent_intros)
    then show "reads 0 a (scope_error m sc)" "preload (sc_Search (scope_error m sc)) = preload (sc_Search sc)"
      using reads_then [OF "2.prems"(1) silent_reads] by (auto simp: silent_def)
  qed
  show ?case using 2 add r e by (auto simp: Let_def split: option.split bool.split)
qed simp

end
