(* ===== verification/PreloadSamples.thy ===== *)
theory PreloadSamples
  imports PreloadReads Transactions Samples
begin

text \<open>
  A small model on which preloading is run: users with emails (has many, pointers), emails with an attachment (has one), which has a thumbnail (has one), and
  orders whose key has two columns.
\<close>

section \<open>Types and models\<close>

text \<open>
  0 the user, 3 \<^verbatim>\<open>[]*Email\<close>, 4 \<^verbatim>\<open>*Email\<close>, 5 the email, 6 \<^verbatim>\<open>*Attachment\<close>, 7 the attachment, 8 \<^verbatim>\<open>[]*Attachment\<close>,
  9 \<^verbatim>\<open>[]User\<close>; 10 an order with a two-column key, 11 \<^verbatim>\<open>[]*Item\<close>, 12 \<^verbatim>\<open>*Item\<close>, 13 an item, 14 \<^verbatim>\<open>[]Order\<close>; 15
  \<^verbatim>\<open>*Thumb\<close>, 16 a thumbnail, 17 \<^verbatim>\<open>[]*Thumb\<close>; 18 an employee,
  19 \<^verbatim>\<open>*Company\<close>, 20 the company of an employee (belongs to); 1 and 2 are \<^verbatim>\<open>int64\<close> and \<^verbatim>\<open>string\<close>.
\<close>

definition model_type :: "string \<Rightarrow> tinfo" where
  "model_type name = (basic_type KStruct)\<lparr>t_path := ''app'', t_name := name\<rparr>"

definition mail_types :: types where
  "mail_types t =
     [model_type ''User'', (basic_type KInt64)\<lparr>t_name := ''int64''\<rparr>, (basic_type KString)\<lparr>t_name := ''string''\<rparr>,
      (basic_type KSlice)\<lparr>t_elem := 4\<rparr>, (basic_type KPtr)\<lparr>t_elem := 5\<rparr>, model_type ''Email'',
      (basic_type KPtr)\<lparr>t_elem := 7\<rparr>, model_type ''Attachment'', (basic_type KSlice)\<lparr>t_elem := 6\<rparr>,
      (basic_type KSlice)\<lparr>t_elem := 0\<rparr>, model_type ''Order'', (basic_type KSlice)\<lparr>t_elem := 12\<rparr>,
      (basic_type KPtr)\<lparr>t_elem := 13\<rparr>, model_type ''Item'', (basic_type KSlice)\<lparr>t_elem := 10\<rparr>,
      (basic_type KPtr)\<lparr>t_elem := 16\<rparr>, model_type ''Thumb'', (basic_type KSlice)\<lparr>t_elem := 15\<rparr>,
      model_type ''Employee'', (basic_type KPtr)\<lparr>t_elem := 20\<rparr>, model_type ''Company''] ! t"

definition relation_field :: "string \<Rightarrow> rtype \<Rightarrow> Relationship \<Rightarrow> StructField" where
  "relation_field name t r = (sample_field name name False t)\<lparr>sf_IsNormal := False, sf_Relationship := Some r\<rparr>"

definition key_relationship :: "string \<Rightarrow> string list \<Rightarrow> string list \<Rightarrow> Relationship" where
  "key_relationship kind foreign primary =
     empty_Relationship\<lparr>rel_Kind := kind, rel_ForeignFieldNames := foreign, rel_ForeignDBNames := foreign,
       rel_AssociationForeignFieldNames := primary, rel_AssociationForeignDBNames := primary\<rparr>"

definition emails_field :: StructField where
  "emails_field = relation_field ''Emails'' 3 (key_relationship ''has_many'' [''UserID''] [''ID''])"

definition mail_fields :: "rtype \<Rightarrow> StructField list" where
  "mail_fields t =
     [[id_field, emails_field], [], [], [], [],
      [id_field, sample_field ''UserID'' ''user_id'' False 1,
       relation_field ''Attachment'' 6 (key_relationship ''has_one'' [''EmailID''] [''ID''])], [],
      [id_field, sample_field ''EmailID'' ''email_id'' False 1,
       relation_field ''Thumb'' 15 (key_relationship ''has_one'' [''AttachmentID''] [''ID''])], [], [],
      [sample_field ''Shop'' ''shop'' True 2, sample_field ''No'' ''no'' True 2,
       relation_field ''Items'' 11 (key_relationship ''has_many'' [''OrderShop'', ''OrderNo''] [''Shop'', ''No''])], [], [],
      [id_field, sample_field ''OrderShop'' ''order_shop'' False 2, sample_field ''OrderNo'' ''order_no'' False 2], [], [],
      [id_field, sample_field ''AttachmentID'' ''attachment_id'' False 1], [],
      [id_field, sample_field ''CompanyID'' ''company_id'' False 1,
       relation_field ''Company'' 19 (key_relationship ''belongs_to'' [''CompanyID''] [''ID''])], [], [id_field]] ! t"

definition mail_models :: "rtype \<Rightarrow> ModelStruct" where
  "mail_models t =
     \<lparr>ms_PrimaryFields = filter sf_IsPrimaryKey (mail_fields t), ms_StructFields = mail_fields t, ms_ModelType = Some t\<rparr>"

definition mail_dialects :: dialectsMap where
  "mail_dialects name = (if name = ''common'' then Some common_dialect else None)"

definition mail_env :: "dbenv \<Rightarrow> genv" where
  "mail_env env = sample_env\<lparr>g_types := mail_types, g_db := env, g_models := mail_models, g_dialects := mail_dialects\<rparr>"

definition mail_preload :: preload_env where
  "mail_preload = \<lparr>p_sliceOf = (\<lambda>t. if t = 4 then 3 else if t = 6 then 8 else if t = 15 then 17 else 11), p_func = (\<lambda>_. None)\<rparr>"

section \<open>Data\<close>

text \<open>A database that refuses every query, and one that finds nothing and then refuses.\<close>

definition refusing :: dbenv where
  "refusing h = ok_reply\<lparr>r_err := Some (ErrExt 1 ''connection lost'')\<rparr>"

definition empty_then_refusing :: dbenv where
  "empty_then_refusing h = (if length h = 1 then ok_reply else refusing h)"

text \<open>A user without emails in a slice of users, and an email with an attachment in a slice of emails.\<close>

definition users_world :: world where
  "users_world = sample_world\<lparr>w_objs := [2 \<mapsto> (9, [VObj 3]), 3 \<mapsto> (0, [VInt KInt64 7, VSlice 4 None])]\<rparr>"

definition emails_world :: world where
  "emails_world = sample_world\<lparr>w_objs :=
     [2 \<mapsto> (3, [VObj 3]), 3 \<mapsto> (5, [VInt KInt64 7, VInt KInt64 1, VObj 4]), 4 \<mapsto> (7, [VInt KInt64 9, VInt KInt64 7, VNil])]\<rparr>"

definition mail_scope :: "string \<Rightarrow> world \<Rightarrow> scope" where
  "mail_scope schema w = new_scope (sample_db common_dialect) (search_Preload schema [] empty_search) (VObj 2) w"

definition mail_run :: "dbenv \<Rightarrow> string \<Rightarrow> world \<Rightarrow> outcome" where
  "mail_run env schema w = preload_at (Suc (Suc 0)) (mail_env env) mail_preload no_hooks (mail_scope schema w)"

text \<open>How many calls were sent, and the error of the handle.\<close>

definition run_summary :: "outcome \<Rightarrow> (nat \<times> err option) option" where
  "run_summary x = (case x of Done sc \<Rightarrow> Some (length (w_hist (sc_w sc)), db_Error (sc_db sc)) | Panicked sc \<Rightarrow> None)"

definition run_queries :: "outcome \<Rightarrow> bool" where
  "run_queries x = (case x of Done sc \<Rightarrow> list_all (is_query_on (db_conn (sc_db sc))) (w_hist (sc_w sc)) | Panicked sc \<Rightarrow> False)"

end
