(* ===== verification/PreloadProps.thy ===== *)
theory PreloadProps
  imports PreloadReads PreloadSamples
begin

text \<open>
  Preloading reads, with one query for each association that is named, however many values were found.  What
  the handlers of \<open>reader\<close> send is collected along the walk.
\<close>

context reader begin

lemma preload_db_ok:
  assumes "fair" "list_all okc conditions" "strict \<Longrightarrow> unset (sc_db sc)" "preload_db G P conditions sc = (d, cs)"
  shows "db_conn d = db_conn (sc_db sc) \<and> (strict \<longrightarrow> plain_handle d)"
proof -
  let ?step = "\<lambda>c (d, cs). case p_func P c of Some scopes \<Rightarrow> (scopes d, cs) | None \<Rightarrow> (d, cs @ [c])"
  have "db_conn (fst (fold ?step conditions st)) = db_conn (sc_db sc) \<and> (strict \<longrightarrow> plain_handle (fst (fold ?step conditions st)))"
    if "list_all okc conditions" "db_conn (fst st) = db_conn (sc_db sc)" "strict \<longrightarrow> plain_handle (fst st)" for conditions st
    using that
  proof (induction conditions arbitrary: st)
    case (Cons c conditions)
    have "db_conn (fst (?step c st)) = db_conn (sc_db sc) \<and> (strict \<longrightarrow> plain_handle (fst (?step c st)))"
      using Cons.prems scopes [OF \<open>fair\<close>, of c] by (simp add: case_prod_unfold split: option.split)
    then show ?case using Cons.IH [of "?step c st"] Cons.prems(1) by simp
  qed simp
  from this [of conditions "(Scope_NewDB G sc, [])"] show ?thesis using assms plain_NewDB by (simp add: preload_db_def)
qed

lemma find_reads:
  assumes "fair" "list_all okc conditions" "strict \<Longrightarrow> unset (sc_db sc)"
    and "find_related G P C t query values conditions sc use = Done sc'"
    and "\<And>rs s s'. use rs s = Done s' \<Longrightarrow> reads 0 s s'"
  shows "reads k sc sc'"
proof -
  obtain d cs where d: "preload_db G P conditions sc = (d, cs)" by fastforce
  obtain a w where w: "makeSlice G P t (sc_w sc) = (a, w)" by fastforce
  then have hist: "w_hist w = w_hist (sc_w sc)" using makeSlice_hist [of G P t "sc_w sc"] by simp
  obtain s where s: "DB_Find G C (VObj a) cs (DB_Where G (VStr query) values d) w = Done s"
    and sc': "use (object_values (sc_w s) a) (Scope_Err (db_Error (sc_db s)) (sc\<lparr>sc_w := sc_w s\<rparr>)) = Done sc'"
    using assms(4) d w by (auto simp: find_related_def split: outcome.splits)
  have "asked (db_conn d) k w (sc_w s)"
    using query [OF assms(1) _ s [unfolded DB_Find_def]] preload_db_ok [OF assms(1-3) d] by (simp add: plain_NewScope)
  then have "reads k sc (sc\<lparr>sc_w := sc_w s\<rparr>)"
    using hist preload_db_ok [OF assms(1-3) d] by (auto simp: reads_def intro: quiet_asked)
  then show ?thesis by (rule reads_then [OF reads_Err assms(5) [OF sc']])
qed

lemma handler_reads:
  assumes "fair" "list_all okc conditions" "strict \<Longrightarrow> unset (sc_db sc)"
  shows "handleHasOnePreload G P C i r conditions sc = Done sc' \<Longrightarrow> reads k sc sc'"
    and "handleHasManyPreload G P C i r conditions sc = Done sc' \<Longrightarrow> reads k sc sc'"
    and "handleBelongsToPreload G P C i r conditions sc = Done sc' \<Longrightarrow> reads k sc sc'"
proof -
  note find = find_reads [OF assms]
  note attach = done_or_panic_reads attach_each_hist attach_one_hist attach_many_hist attach_result_hist
  show "reads k sc sc'" if h: "handleHasOnePreload G P C i r conditions sc = Done sc'"
    using h unfolding handleHasOnePreload_def Let_def case_prod_unfold
    by (auto split: option.splits if_splits) (rule find, assumption+, auto split: option.splits if_splits intro: set_results_reads attach)
  show "reads k sc sc'" if h: "handleHasManyPreload G P C i r conditions sc = Done sc'"
    using h unfolding handleHasManyPreload_def Let_def case_prod_unfold
    by (auto split: option.splits if_splits) (rule find, assumption+, auto split: option.splits if_splits intro: set_related_reads attach)
  show "reads k sc sc'" if h: "handleBelongsToPreload G P C i r conditions sc = Done sc'"
    using h unfolding handleBelongsToPreload_def Let_def case_prod_unfold
    by (auto split: option.splits if_splits) (rule find, assumption+, auto split: option.splits if_splits intro: set_results_reads attach)
qed

lemma link_row_reads:
  assumes "fair" "link_row G C t keys columns row (plan, links, sc) = Inl (plan', links', sc')"
  shows "reads 0 sc sc'"
proof -
  obtain a w where a: "new_object G t (sc_w sc) = (a, w)" by fastforce
  have w: "w_hist w = w_hist (sc_w sc)" using query_world(1) [of G t "sc_w sc"] a by simp
  let ?sc = "sc\<lparr>sc_w := w\<rparr>"
  obtain e ks u where scan: "scan_link G (Fields G (Scope_New G (VObj a) ?sc))
      (zip (case plan of Some p \<Rightarrow> p | None \<Rightarrow> buildScanPlan columns (Fields G (Scope_New G (VObj a) ?sc) @ map link_field keys)) row)
      (map (\<lambda>_. VNil) keys) w = (e, ks, u)" by (metis prod_cases3)
  have u: "w_hist u = w_hist w" using scan scan_link_hist by (metis snd_conv)
  let ?sc2 = "Scope_Err e (?sc\<lparr>sc_w := u\<rparr>)"
  have sc2: "reads 0 sc ?sc2" by (intro reads_Err) (simp add: reads_world u w)
  obtain s where s: "callCallbacks G (ch_queries C) (skipping (Scope_New G (VObj a) ?sc2)) = Done s"
    and sc': "sc' = ?sc2\<lparr>sc_w := sc_w s\<rparr>"
    using assms(2) a scan by (auto simp: link_row_def Let_def skipping_def split: outcome.splits)
  have "reads 0 ?sc2 sc'" unfolding sc' by (intro reads_world) (simp add: skip [OF assms(1) s])
  then show ?thesis by (rule reads_then [OF sc2])
qed

lemma link_rows_reads:
  "fair \<Longrightarrow> link_rows G C t keys columns rows (plan, links, sc) = Inl (plan', links', sc') \<Longrightarrow> reads 0 sc sc'"
proof (induction rows arbitrary: plan links sc)
  case (Cons row rows)
  then obtain p l s where s: "link_row G C t keys columns row (plan, links, sc) = Inl (p, l, s)"
    "link_rows G C t keys columns rows (p, l, s) = Inl (plan', links', sc')"
    by (auto split: sum.splits)
  from link_row_reads [OF Cons.prems(1) s(1)] Cons.IH [OF Cons.prems(1) s(2)] show ?case by (rule reads_then)
qed simp

lemma link_db_ok:
  assumes "fair" "list_all okc conditions" "strict \<Longrightarrow> unset (sc_db sc)" "link_db G P h t conditions sc = (Some d, w)"
  shows "db_conn d = db_conn (sc_db sc) \<and> w_hist w = w_hist (sc_w sc)"
proof -
  obtain d0 cs where d0: "preload_db G P conditions sc = (d0, cs)" by fastforce
  obtain a u where a: "new_object G t (sc_w sc) = (a, u)" by fastforce
  have u: "w_hist u = w_hist (sc_w sc)" using query_world(1) [of G t "sc_w sc"] a by simp
  define d1 where "d1 = DB_Model G (VObj a) (DB_Table G (TableName G (Scope_New G (VObj a) (sc\<lparr>sc_w := u\<rparr>))) d0)"
  define d2 where "d2 = (if (case db_search d1 of Some s \<Rightarrow> selects s = None | None \<Rightarrow> True) then DB_Select G (VStr ''*'') [] d1 else d1)"
  have d2: "db_conn d2 = db_conn (sc_db sc)" using preload_db_ok [OF assms(1-3) d0] by (simp add: d2_def d1_def)
  obtain d3 where "jth_JoinWith G h d2 (sc_Value sc) u = (Some d3, w)" "d = (case cs of [] \<Rightarrow> d3 | c # cs \<Rightarrow> DB_Where G c cs d3)"
    using assms(4) unfolding link_db_def d0 a Let_def prod.case d1_def [symmetric] d2_def [symmetric]
    by (auto split: prod.splits option.splits)
  then show ?thesis using join_with_ok [of G h d2 "sc_Value sc" u d3 w] d2 u by (auto split: list.split)
qed

lemma assign_links_reads: "assign_links G r field links sc = Done sc' \<Longrightarrow> reads j sc sc'"
  by (auto simp: assign_links_def split: option.splits intro: done_or_panic_reads attach_links_hist)

lemma many_to_many_reads:
  assumes "fair" "list_all okc conditions" "strict \<Longrightarrow> unset (sc_db sc)"
    and "handleManyToManyPreload G P C i r conditions sc = Done sc'"
  shows "reads k sc sc'"
proof -
  obtain h where h: "rel_JoinTableHandler r = Some h" using assms(4) by (auto simp: handleManyToManyPreload_def Let_def split: option.splits)
  define et where "et = t_elem (g_types G (m_type (sf_Struct (f_sf (field_at G sc i)))))"
  define t where "t = (if t_kind (g_types G et) = KPtr then t_elem (g_types G et) else et)"
  note run = assms(4) [unfolded handleManyToManyPreload_def Let_def h option.case et_def [symmetric] t_def [symmetric]]
  obtain d w where d: "link_db G P h t conditions sc = (Some d, w)"
    using run by (auto split: prod.splits option.splits)
  obtain s where s: "scope_row G C False (NewScope G d (db_Value d) w) = Done s"
    using run d by (auto split: outcome.splits)
  let ?n = "InstanceSet ''row_query_result'' (row_query_marker False) ((NewScope G d (db_Value d) w)\<lparr>sc_row_result := None\<rparr>)"
  have n: "w_hist (sc_w ?n) = w_hist w \<and> db_conn (sc_db ?n) = db_conn d"
    using calm_InstanceSet [OF calm_refl, of "(NewScope G d (db_Value d) w)\<lparr>sc_row_result := None\<rparr>"] by (simp add: calm_def quiet_def)
  have "asked (db_conn (sc_db ?n)) k (sc_w ?n) (sc_w s)" by (rule rows [OF s [unfolded scope_row_def]])
  then have rs: "reads k sc (sc\<lparr>sc_w := sc_w s\<rparr>)"
    using n link_db_ok [OF assms(1-3) d] by (auto simp: reads_def intro: quiet_asked)
  obtain reply where reply: "sc_row_result s = Some reply"
    using run d s by (auto split: option.splits)
  show ?thesis
  proof (cases "r_err reply = None")
    case False
    then have "sc' = Scope_Err (r_err reply) (sc\<lparr>sc_w := sc_w s\<rparr>)"
      using run d s reply by simp
    then show ?thesis using reads_Err [OF rs] by simp
  next
    case True
    then obtain p l u where links: "link_rows G C t (map jtk_DBName (jts_ForeignKeys (jth_Source h))) (r_columns reply) (r_rows reply)
        (None, [], sc\<lparr>sc_w := sc_w s\<rparr>) = Inl (p, l, u)"
      and attached: "assign_links G r (f_Name (field_at G sc i)) l (Scope_Err (r_rows_err reply) u) = Done sc'"
      using run d s reply by (auto split: sum.splits)
    have "reads k sc (Scope_Err (r_rows_err reply) u)"
      by (intro reads_Err) (rule reads_then [OF rs link_rows_reads [OF assms(1) links]])
    then show ?thesis using assign_links_reads [OF attached] by (rule reads_then)
  qed
qed

lemma association_goes:
  assumes "fair" "list_all okc conditions" "strict \<Longrightarrow> unset (sc_db (wk_root st))" "walk_ok st" "finite K" "key \<in> K"
  shows "goes K k st (preload_association G P C key name conditions st)"
proof (cases "current_scope st")
  case None
  then show ?thesis using assms(4) by (simp add: preload_association_def goes_here)
next
  case (Some sc)
  have error: "reads j (wk_root st) (scope_error msg (wk_root st))" for msg j by (intro silent_reads silent_intros)
  have sc: "strict \<Longrightarrow> unset (sc_db sc)" using assms(3) current_root [OF assms(4) Some] by (simp add: unset_def)
  have handled: "reads k sc s" if "preload_handler G P C i r conditions = Some handle" "handle sc = Done s" for i r handle s
    using that handler_reads [OF assms(1,2) sc] many_to_many_reads [OF assms(1,2) sc]
    by (auto simp: preload_handler_def split: if_splits)
  show ?thesis
  proof (cases "key \<in> set (wk_done st)")
    case True
    then show ?thesis using assms(4) by (simp add: preload_association_def Some goes_here)
  next
    case False
    have marked: "goes K k st (Going (mark_done key st'))"
      if "walk_ok (mark_done key st') \<and> reads k (wk_root st) (wk_root (mark_done key st'))" "wk_done st' = wk_done st" for st'
      using that by (intro goes_marked [OF assms(5,6) False]) (auto simp: mark_done_def)
    have "goes K k st (Going (mark_done key (set_current s st)))"
      if "preload_handler G P C i r conditions = Some handle" "handle sc = Done s" for i r handle s
      using walk_ok_current [OF assms(4) Some handled [OF that]]
      by (intro marked) (auto simp: set_current_def set_world_def split: cursor.split)
    moreover have "goes K k st (Going (mark_done key (st\<lparr>wk_root := scope_error msg (wk_root st)\<rparr>)))" for msg
      using walk_ok_root [OF assms(4) error] error by (intro marked) (auto simp: mark_done_def)
    moreover note goes_stopped [OF error]
    ultimately show ?thesis
      using False by (auto simp: preload_association_def Some goes_def split: option.split outcome.split prod.split)
  qed
qed

lemma path_goes:
  "fair \<Longrightarrow> list_all okc conditions \<Longrightarrow> (strict \<Longrightarrow> unset (sc_db (wk_root st))) \<Longrightarrow> walk_ok st \<Longrightarrow>
   finite K \<Longrightarrow> set (path_keys pre names) \<subseteq> K \<Longrightarrow> goes K k st (preload_path G P C pre names conditions st)"
proof (induction names arbitrary: pre st)
  case (Cons name names)
  let ?p = "preload_association G P C (str_join ''.'' (pre @ [name])) name (if names = [] then conditions else []) st"
  have p: "goes K k st ?p" using Cons.prems by (intro association_goes) auto
  show ?case
  proof (cases ?p)
    case (Going st')
    let ?n = "if names = [] then st' else next_level G name st'"
    have n: "goes K k st (Going ?n)" using p goes_walk [of K k st st'] goes_trans [OF _ goes_next] by (simp add: Going)
    then have "goes K k ?n (preload_path G P C (pre @ [name]) names conditions ?n)"
      using Cons.prems goes_walk [OF n] by (intro Cons.IH) (auto simp: unset_def)
    then show ?thesis using goes_trans [OF n] by (simp add: Going)
  qed (use p in simp_all)
qed (simp add: goes_here)

lemma all_goes:
  "fair \<Longrightarrow> list_all (\<lambda>p. list_all okc (snd p)) ps \<Longrightarrow> (strict \<Longrightarrow> unset (sc_db (wk_root st))) \<Longrightarrow> walk_ok st \<Longrightarrow>
   finite K \<Longrightarrow> association_paths ps \<subseteq> K \<Longrightarrow> goes K k st (preload_all G P C ps st)"
proof (induction ps arbitrary: st)
  case (Cons p ps)
  obtain schema conditions where sc: "p = (schema, conditions)" by fastforce
  let ?st = "st\<lparr>wk_cursor := AtRoot\<rparr>"
  have start: "goes K k st (Going ?st)" by (intro goes_here goes_start) simp_all
  have "goes K k ?st (preload_path G P C [] (split_char (CHR ''.'') schema) conditions ?st)"
    using Cons.prems by (intro path_goes goes_start) (auto simp: sc association_paths_def)
  note path = goes_trans [OF start this]
  show ?case
  proof (cases "preload_path G P C [] (split_char (CHR ''.'') schema) conditions ?st")
    case (Going st')
    note st' = path [unfolded Going]
    have "goes K k st' (preload_all G P C ps st')"
      using Cons.prems goes_walk [OF st'] by (intro Cons.IH) (auto simp: unset_def association_paths_def)
    then show ?thesis using goes_trans [OF st'] by (simp add: sc Going)
  qed (use path in \<open>simp_all add: sc\<close>)
qed (simp add: goes_here)

lemma preload_reads:
  assumes "fair" "list_all (\<lambda>p. list_all okc (snd p)) (preload (sc_Search sc))" "strict \<Longrightarrow> unset (sc_db sc)"
    and "preloadCallback G P C sc = Done sc'"
  shows "\<exists>ps. (strict \<longrightarrow> ps = preload (sc_Search sc)) \<and> reads (of_nat (card (association_paths ps)) * k) sc sc'"
proof -
  obtain v sc1 where get: "InstanceGet ''gorm:skip_query_callback'' sc = (v, sc1)" by fastforce
  have "silent sc sc1" using silent_InstanceGet [where a = sc and b = sc, OF silent_refl, of "''gorm:skip_query_callback''"] get by simp
  then have sc1: "reads 0 sc sc1" "preload (sc_Search sc1) = preload (sc_Search sc)" by (auto simp: silent_reads) (simp add: silent_def)
  let ?sc2 = "auto_setting G sc1"
  have auto: "reads 0 sc ?sc2 \<and> list_all (\<lambda>p. list_all okc (snd p)) (preload (sc_Search ?sc2))"
    using auto_fields_ok [of sc "cache_fields G sc1"] sc1 assms(2)
    by (auto simp: auto_setting_def autoPreload_def cache_fields_def reads_def split: option.split)
  have strict: "strict \<Longrightarrow> ?sc2 = sc1"
    using assms(3) sc1(1) by (simp add: auto_setting_def unset_def Scope_Get_def DB_Get_def reads_def)
  let ?ps = "preload (sc_Search ?sc2)"
  have ps: "strict \<longrightarrow> ?ps = preload (sc_Search sc)" using strict sc1(2) by simp
  show ?thesis
  proof (cases "v \<noteq> None \<or> ?ps = [] \<or> HasError ?sc2")
    case True
    then have "sc' = sc1 \<or> sc' = ?sc2" using assms(4) by (auto simp: preloadCallback_def get Let_def split: option.splits)
    then have "reads 0 sc sc'" using auto sc1(1) by auto
    then show ?thesis using ps by (intro exI [of _ ?ps]) (auto intro: reads_mono)
  next
    case False
    let ?st = "\<lparr>wk_root = cache_fields G ?sc2, wk_cursor = AtRoot, wk_done = []\<rparr>"
    let ?K = "association_paths ?ps"
    have root: "reads 0 sc (wk_root ?st)" using auto by (simp add: cache_fields_def reads_def)
    have ok: "walk_ok ?st" "walk_ok (?st\<lparr>wk_root := sc\<rparr>)" by (simp_all add: walk_ok_def current_scope_def)
    have "goes ?K k ?st (preload_all G P C ?ps ?st)"
      using assms(1,3) auto root ok by (intro all_goes) (auto simp: reads_def unset_def)
    then have "goes ?K k (?st\<lparr>wk_root := sc\<rparr>) (preload_all G P C ?ps ?st)"
      using goes_trans [OF goes_here [of ?st "?st\<lparr>wk_root := sc\<rparr>" ?K k]] root ok by simp
    then have "\<exists>m. m \<le> card ?K \<and> reads (of_nat m * k) sc sc'"
      using assms(4) False by (auto simp: preloadCallback_def get Let_def goes_def left_of_def split: progress.splits dest: add_leD1)
    then show ?thesis using ps
      by (intro exI [of _ ?ps]) (auto elim!: reads_mono intro: mult_right_mono simp: of_nat_eq_enat)
  qed
qed

end

section \<open>The chains of a query\<close>

text \<open>Hooks that do not reach the database.\<close>

definition quiet_hooks :: "hooks \<Rightarrow> bool" where
  "quiet_hooks hooks =
     (\<forall>w name v h. hooks w name v = Some h \<longrightarrow>
        (case h of
           HookFunc f \<Rightarrow> \<forall>w. w_hist (snd (f w)) = w_hist w
         | HookScope f \<Rightarrow> \<forall>sc. w_hist (sc_w (snd (f sc))) = w_hist (sc_w sc)
         | HookDB f \<Rightarrow> \<forall>d w. w_hist (snd (snd (f d w))) = w_hist w
         | HookUnsupported \<Rightarrow> True))"

lemma Scope_Err_world [simp]: "sc_w (Scope_Err e sc) = sc_w sc"
  by (simp add: Scope_Err_def)

lemma quiet_method:
  assumes "quiet_hooks hooks" "callMethod_one G hooks name v sc = Done sc'"
  shows "w_hist (sc_w sc') = w_hist (sc_w sc)"
proof (cases "hooks (sc_w sc) name v")
  case None
  then show ?thesis using assms(2) by (simp add: callMethod_one_def)
next
  case (Some h)
  then have h: "case h of
           HookFunc f \<Rightarrow> \<forall>w. w_hist (snd (f w)) = w_hist w
         | HookScope f \<Rightarrow> \<forall>sc. w_hist (sc_w (snd (f sc))) = w_hist (sc_w sc)
         | HookDB f \<Rightarrow> \<forall>d w. w_hist (snd (snd (f d w))) = w_hist w
         | HookUnsupported \<Rightarrow> True"
    using assms(1) unfolding quiet_hooks_def by blast
  show ?thesis
  proof (cases h)
    case (HookFunc f)
    then have "w_hist (snd (f (sc_w sc))) = w_hist (sc_w sc)" using h by simp
    then show ?thesis using assms(2) Some HookFunc by (auto simp: callMethod_one_def split: prod.splits hook_out.splits)
  next
    case (HookScope f)
    then have "w_hist (sc_w (snd (f sc))) = w_hist (sc_w sc)" using h by simp
    then show ?thesis using assms(2) Some HookScope by (auto simp: callMethod_one_def split: prod.splits hook_out.splits)
  next
    case (HookDB f)
    then have "w_hist (snd (snd (f (Scope_NewDB G sc) (sc_w sc)))) = w_hist (sc_w sc)" using h by simp
    then show ?thesis using assms(2) Some HookDB by (auto simp: callMethod_one_def split: prod.splits hook_out.splits)
  next
    case HookUnsupported
    then show ?thesis using assms(2) Some silent_error [OF silent_refl, of sc]
      by (auto simp: callMethod_one_def silent_def)
  qed
qed

lemma quiet_methods:
  "quiet_hooks hooks \<Longrightarrow> call_method_loop G hooks name vs sc = Done sc' \<Longrightarrow> w_hist (sc_w sc') = w_hist (sc_w sc)"
proof (induction vs arbitrary: sc)
  case (Cons v vs)
  then obtain s where s: "callMethod_one G hooks name v sc = Done s" "call_method_loop G hooks name vs s = Done sc'"
    by (cases "callMethod_one G hooks name v sc") auto
  then show ?case using Cons.IH [OF Cons.prems(1) s(2)] quiet_method [OF Cons.prems(1) s(1)] by simp
qed simp

lemma quiet_call_hook: "quiet_hooks hooks \<Longrightarrow> call_hook G hooks name sc = Done sc' \<Longrightarrow> w_hist (sc_w sc') = w_hist (sc_w sc)"
  by (auto simp: call_hook_def CallMethod_def dest: quiet_methods quiet_method split: if_splits)

lemma run_one: "run_callbacks (f # fs) sc = Done sc' \<Longrightarrow>
  \<exists>s. f sc = Done s \<and> (s = sc' \<or> run_callbacks fs s = Done sc')"
  by (cases "f sc") (auto split: if_splits)

lemma callCallbacks_Done: "callCallbacks G fs sc = Done sc' \<Longrightarrow> run_callbacks fs sc = Done sc'"
  by (auto simp: callCallbacks_def split: outcome.splits conn.splits)

lemma one_query_asked: "one_query a b \<Longrightarrow> 1 \<le> k \<Longrightarrow> asked (db_conn (sc_db a)) k (sc_w a) (sc_w b)"
  by (auto simp: one_query_def asked_def one_enat_def zero_enat_def [symmetric])

lemma skipping_seen: "InstanceGet ''gorm:skip_query_callback'' (skipping s) = (Some (VBool True), skipping s)"
  by (auto simp: skipping_def InstanceSet_def InstanceGet_def InstanceID_def Scope_Set_def Scope_Get_def DB_Get_def InstantSet_def
      fresh_def Let_def)

lemma skipping_hist: "w_hist (sc_w (skipping s)) = w_hist (sc_w s)"
  using calm_InstanceSet [OF calm_refl] by (simp add: skipping_def calm_def quiet_def)

text \<open>What the callbacks of a query send when what \<open>pre\<close> sends is known.\<close>

lemma query_chain_asked:
  assumes "quiet_hooks hooks" "callCallbacks G (query_chain G hooks pre) s = Done s'" "1 \<le> k"
    and "\<And>b c. one_query s b \<Longrightarrow> pre b = Done c \<Longrightarrow> asked (db_conn (sc_db s)) j (sc_w b) (sc_w c)"
  shows "asked (db_conn (sc_db s)) (k + j) (sc_w s) (sc_w s')"
proof -
  obtain b where b: "queryCallback G s = Done b" "b = s' \<or> run_callbacks [pre, afterQueryCallback G hooks] b = Done s'"
    using run_one [OF callCallbacks_Done [OF assms(2), unfolded query_chain_def]] by blast
  have sb: "one_query s b" using query_asks [of s G] b(1) by simp
  have first: "asked (db_conn (sc_db s)) k (sc_w s) (sc_w b)" using one_query_asked [OF sb assms(3)] .
  show ?thesis
  proof (cases "b = s'")
    case True
    then show ?thesis using asked_mono [OF first, of "k + j"] by simp
  next
    case False
    then obtain c where c: "pre b = Done c" "c = s' \<or> run_callbacks [afterQueryCallback G hooks] c = Done s'"
      using b(2) run_one [of pre "[afterQueryCallback G hooks]" b s'] by blast
    have second: "asked (db_conn (sc_db s)) (k + j) (sc_w s) (sc_w c)" using first assms(4) [OF sb c(1)] by (rule asked_trans)
    have "w_hist (sc_w s') = w_hist (sc_w c)"
      using c(2) run_one [of "afterQueryCallback G hooks" "[]" c s'] quiet_call_hook [OF assms(1)]
      by (auto simp: afterQueryCallback_def)
    then show ?thesis using second by (rule asked_quiet [rotated])
  qed
qed

lemma query_chain_skips:
  assumes "quiet_hooks hooks" "callCallbacks G (query_chain G hooks pre) (skipping s) = Done s'"
    and "\<And>c. pre (skipping s) = Done c \<Longrightarrow> c = skipping s"
  shows "w_hist (sc_w s') = w_hist (sc_w s)"
proof -
  have q: "queryCallback G (skipping s) = Done (skipping s)" by (simp add: queryCallback_def skipping_seen)
  have "s' = skipping s \<or> run_callbacks [pre, afterQueryCallback G hooks] (skipping s) = Done s'"
    using run_one [OF callCallbacks_Done [OF assms(2), unfolded query_chain_def]] q by auto
  then have "s' = skipping s \<or> run_callbacks [afterQueryCallback G hooks] (skipping s) = Done s'"
    using run_one [of pre "[afterQueryCallback G hooks]" "skipping s" s'] assms(3) by blast
  then have "w_hist (sc_w s') = w_hist (sc_w (skipping s))"
    using run_one [of "afterQueryCallback G hooks" "[]" "skipping s" s'] quiet_call_hook [OF assms(1)]
    by (auto simp: afterQueryCallback_def)
  then show ?thesis by (simp add: skipping_hist)
qed

lemma preload_skips: "preload_at n G P hooks (skipping s) = Done c \<Longrightarrow> c = skipping s"
  by (cases n) (auto simp: preloadCallback_def skipping_seen)

lemma row_chain_asked:
  "1 \<le> k \<Longrightarrow> callCallbacks G [rowQueryCallback G] s = Done s' \<Longrightarrow> asked (db_conn (sc_db s)) k (sc_w s) (sc_w s')"
  using row_query_asks [of s G] by (auto dest!: callCallbacks_Done run_one intro: one_query_asked)

text \<open>A scope that asks for no preloading gets none.\<close>

lemma plain_preload:
  assumes "plain_scope b" "preload_at (Suc n) G P hooks b = Done c" shows "w_hist (sc_w c) = w_hist (sc_w b)"
proof -
  obtain v b1 where get: "InstanceGet ''gorm:skip_query_callback'' b = (v, b1)" by fastforce
  have b1: "silent b b1" using silent_InstanceGet [where a = b and b = b, OF silent_refl, of "''gorm:skip_query_callback''"] get by simp
  then have "auto_setting G b1 = b1" "preload (sc_Search b1) = []"
    using assms(1) by (auto simp: silent_def plain_scope_def unset_def auto_setting_def Scope_Get_def DB_Get_def)
  then have "c = b1" using assms(2) get by (auto simp: preloadCallback_def Let_def split: option.splits)
  then show ?thesis using b1 by (simp add: silent_def)
qed

section \<open>The two instances\<close>

interpretation single: reader G P "read_chains G hooks (preload_at (Suc n) G P hooks)" 1 True "\<lambda>c. p_func P c = None" "quiet_hooks hooks"
  for G P hooks n
proof
  fix s s' v c f d
  let ?C = "read_chains G hooks (preload_at (Suc n) G P hooks)"
  show "asked (db_conn (sc_db s)) 1 (sc_w s) (sc_w s')"
    if "quiet_hooks hooks" "True \<Longrightarrow> plain_scope s" "callCallbacks G (ch_queries ?C) s = Done s'"
  proof -
    have "asked (db_conn (sc_db s)) 0 (sc_w b) (sc_w c)" if "one_query s b" "preload_at (Suc n) G P hooks b = Done c" for b c
    proof -
      have "plain_scope b" using \<open>True \<Longrightarrow> plain_scope s\<close> that(1) by (simp add: plain_scope_def unset_def one_query_def)
      then show ?thesis using that(2) by (intro asked_hist) (rule plain_preload)
    qed
    then show ?thesis using query_chain_asked [OF that(1), of G "preload_at (Suc n) G P hooks" s s' 1 0] that(3)
      by (simp add: read_chains_def)
  qed
  show "w_hist (sc_w s') = w_hist (sc_w s)" if "quiet_hooks hooks" "callCallbacks G (ch_queries ?C) (skipping s) = Done s'"
    using query_chain_skips [OF that(1)] that(2) preload_skips by (auto simp: read_chains_def)
  show "asked (db_conn (sc_db s)) 1 (sc_w s) (sc_w s')" if "callCallbacks G (ch_rowQueries ?C) s = Done s'"
    using that by (intro row_chain_asked) (simp_all add: read_chains_def)
qed simp_all

text \<open>Functions among the conditions that keep the connection of the handle.\<close>

definition keeps_connection :: "preload_env \<Rightarrow> bool" where
  "keeps_connection P = (\<forall>c f d. p_func P c = Some f \<longrightarrow> db_conn (f d) = db_conn d)"

lemma reader_any:
  "reader G P (read_chains G hooks (preload_at n G P hooks)) \<infinity> False (\<lambda>_. True) (quiet_hooks hooks \<and> keeps_connection P)"
proof (induction n)
  case 0
  show ?case
  proof
    fix s s' v c f d
    let ?C = "read_chains G hooks (preload_at 0 G P hooks)"
    show "asked (db_conn (sc_db s)) \<infinity> (sc_w s) (sc_w s')"
      if "quiet_hooks hooks \<and> keeps_connection P" "callCallbacks G (ch_queries ?C) s = Done s'"
      using that query_chain_asked [of hooks G "preload_at 0 G P hooks" s s' \<infinity> 0] by (simp add: read_chains_def)
    show "w_hist (sc_w s') = w_hist (sc_w s)"
      if "quiet_hooks hooks \<and> keeps_connection P" "callCallbacks G (ch_queries ?C) (skipping s) = Done s'"
      using query_chain_skips that preload_skips by (auto simp: read_chains_def)
    show "asked (db_conn (sc_db s)) \<infinity> (sc_w s) (sc_w s')" if "callCallbacks G (ch_rowQueries ?C) s = Done s'"
      using that by (intro row_chain_asked) (simp_all add: read_chains_def)
  qed (simp add: keeps_connection_def)
next
  case (Suc n)
  show ?case
  proof
    fix s s' v c f d
    let ?C = "read_chains G hooks (preload_at (Suc n) G P hooks)"
    show "asked (db_conn (sc_db s)) \<infinity> (sc_w s) (sc_w s')"
      if fair: "quiet_hooks hooks \<and> keeps_connection P" and run: "callCallbacks G (ch_queries ?C) s = Done s'"
    proof -
      have "asked (db_conn (sc_db s)) \<infinity> (sc_w b) (sc_w c)" if "one_query s b" "preload_at (Suc n) G P hooks b = Done c" for b c
      proof -
        have "\<exists>ps. reads (of_nat (card (association_paths ps)) * \<infinity>) b c"
          using reader.preload_reads [OF Suc.IH fair, of b c] that(2) by (auto simp: list_all_iff)
        then show ?thesis using that(1) by (auto simp: reads_def one_query_def intro: asked_mono)
      qed
      then show ?thesis using query_chain_asked [of hooks G "preload_at (Suc n) G P hooks" s s' \<infinity> \<infinity>] fair run
        by (simp add: read_chains_def)
    qed
    show "w_hist (sc_w s') = w_hist (sc_w s)"
      if "quiet_hooks hooks \<and> keeps_connection P" "callCallbacks G (ch_queries ?C) (skipping s) = Done s'"
      using query_chain_skips that preload_skips by (auto simp: read_chains_def)
    show "asked (db_conn (sc_db s)) \<infinity> (sc_w s) (sc_w s')" if "callCallbacks G (ch_rowQueries ?C) s = Done s'"
      using that by (intro row_chain_asked) (simp_all add: read_chains_def)
  qed (simp add: keeps_connection_def)
qed

interpretation nested: reader G P "read_chains G hooks (preload_at n G P hooks)" \<infinity> False "\<lambda>_. True"
    "quiet_hooks hooks \<and> keeps_connection P"
  for G P hooks n
  by (rule reader_any)

section \<open>The properties\<close>

lemma no_hooks_quiet [simp]: "quiet_hooks no_hooks"
  by (simp add: quiet_hooks_def no_hooks_def)

lemma mail_preload_func [simp]: "p_func mail_preload c = None"
  by (simp add: mail_preload_def)

lemma refused_run: "run_summary (mail_run refusing ''Emails'' users_world) = Some (1, Some (ErrExt 1 ''connection lost''))"
  by code_simp

lemma nested_refused_run: "run_summary (mail_run empty_then_refusing ''Attachment.Thumb'' emails_world) = Some (2, None)"
  by code_simp

lemma run_summary_Some: "run_summary x = Some (n, e) \<Longrightarrow> \<exists>sc. x = Done sc \<and> length (w_hist (sc_w sc)) = n \<and> db_Error (sc_db sc) = e"
  by (auto simp: run_summary_def split: outcome.splits)

lemma mail_scope_simps [simp]: "sc_w (mail_scope schema w) = w" "preload (sc_Search (mail_scope schema w)) = [(schema, [])]"
    "sc_db (mail_scope schema w) = sample_db common_dialect"
  by (simp_all add: mail_scope_def new_scope_def search_Preload_def empty_search_def)






end
