(* ===== verification/PreloadAttach.thy ===== *)
theory PreloadAttach
  imports PreloadSamples
begin

text \<open>
  Which conditions reach a query of preloading, and which of its results reach which object: the results of a has-many
  association are divided among the objects by their keys.
\<close>

section \<open>Conditions\<close>

lemma association_marks:
  "preload_association G P C key name conditions st = Going st' \<Longrightarrow>
   set (wk_done st) \<subseteq> set (wk_done st') \<and> (wk_cursor st = AtRoot \<longrightarrow> key \<in> set (wk_done st'))"
  by (auto simp: preload_association_def current_scope_def mark_done_def set_current_def set_world_def
      split: cursor.splits if_splits option.splits outcome.splits)

lemma path_marks: "preload_path G P C pre names conditions st = Going st' \<Longrightarrow> set (wk_done st) \<subseteq> set (wk_done st')"
proof (induction names arbitrary: pre st)
  case (Cons name names)
  obtain s where s: "preload_association G P C (str_join ''.'' (pre @ [name])) name (if names = [] then conditions else []) st = Going s"
    using Cons.prems by (cases "preload_association G P C (str_join ''.'' (pre @ [name])) name (if names = [] then conditions else []) st")
      simp_all
  then have "preload_path G P C (pre @ [name]) names conditions (if names = [] then s else next_level G name s) = Going st'"
    using Cons.prems by simp
  then have "set (wk_done (if names = [] then s else next_level G name s)) \<subseteq> set (wk_done st')" by (rule Cons.IH)
  then show ?case using association_marks [OF s] by (auto split: if_splits)
qed simp

lemma first_marked:
  assumes "preload_path G P C [] (name # names) conditions st = Going st'" "wk_cursor st = AtRoot"
  shows "name \<in> set (wk_done st')"
proof -
  obtain s where s: "preload_association G P C name name (if names = [] then conditions else []) st = Going s"
    using assms(1) by (cases "preload_association G P C name name (if names = [] then conditions else []) st") simp_all
  then have "preload_path G P C [name] names conditions (if names = [] then s else next_level G name s) = Going st'"
    using assms(1) by simp
  then have "set (wk_done (if names = [] then s else next_level G name s)) \<subseteq> set (wk_done st')" by (rule path_marks)
  then show ?thesis using association_marks [OF s] assms(2) by (auto split: if_splits)
qed

lemma done_path: "name \<in> set (wk_done st) \<Longrightarrow> wk_cursor st = AtRoot \<Longrightarrow> preload_path G P C [] [name] conditions st = Going st"
  by (simp add: preload_association_def current_scope_def)

text \<open>
  C33: The conditions given for an association are ignored when a path through it was named before: \<^verbatim>\<open>Preload("A.B")\<close> followed by
  \<^verbatim>\<open>Preload("A", c)\<close> preloads A without conditions, whatever c is.
\<close>

theorem later_conditions_ignored:
  assumes "split_char (CHR ''.'') schema = name # names" and "split_char (CHR ''.'') name = [name]"
  shows "preload_all G P C ((schema, cs) # (name, conditions) # ps) st = preload_all G P C ((schema, cs) # (name, conditions') # ps) st"
proof (cases "preload_path G P C [] (name # names) cs (st\<lparr>wk_cursor := AtRoot\<rparr>)")
  case (Going s)
  then have "name \<in> set (wk_done s)" by (rule first_marked) simp
  then have "preload_path G P C [] [name] c (s\<lparr>wk_cursor := AtRoot\<rparr>) = Going (s\<lparr>wk_cursor := AtRoot\<rparr>)" for c
    by (intro done_path) simp_all
  then show ?thesis by (simp add: assms Going del: preload_path.simps)
qed (simp_all add: assms del: preload_path.simps)

theorem later_conditions_ignored_witness:
  "preload_all (mail_env refusing) mail_preload (read_chains (mail_env refusing) no_hooks Done)
       [(''Attachment.Thumb'', []), (''Attachment'', [VStr ''name = ?'', VStr ''x'']), (''Thumb'', [])]
       \<lparr>wk_root = mail_scope ''Attachment'' emails_world, wk_cursor = AtRoot, wk_done = []\<rparr>
   = preload_all (mail_env refusing) mail_preload (read_chains (mail_env refusing) no_hooks Done)
       [(''Attachment.Thumb'', []), (''Attachment'', []), (''Thumb'', [])]
       \<lparr>wk_root = mail_scope ''Attachment'' emails_world, wk_cursor = AtRoot, wk_done = []\<rparr>"
  by (rule later_conditions_ignored [where names = "[''Thumb'']"]) code_simp+

lemma error_simps [simp]: "HasError (scope_error msg sc)" "sc_Search (scope_error msg sc) = sc_Search sc"
  by (simp_all add: scope_error_def HasError_def Scope_Err_def add_err_def AddError_def Let_def split: prod.split)

definition unconditional :: "string \<Rightarrow> scope \<Rightarrow> bool" where
  "unconditional name sc = list_all (\<lambda>p. fst p = name \<longrightarrow> snd p = []) (preload (sc_Search sc))"

lemma added_unconditional:
  "unconditional name sc \<Longrightarrow> unconditional name (sc\<lparr>sc_Search := search_Preload n [] (sc_Search sc)\<rparr>)"
  "unconditional name (sc\<lparr>sc_Search := search_Preload name [] (sc_Search sc)\<rparr>)"
  by (auto simp: unconditional_def search_Preload_def list_all_iff)

lemma unconditional_error: "unconditional name (scope_error msg sc) = unconditional name sc"
  by (simp add: unconditional_def)

lemma auto_preload_unconditional: "unconditional name sc \<Longrightarrow> unconditional name (auto_preload_fields fs sc)"
  by (induction fs sc rule: auto_preload_fields.induct)
     (simp_all add: Let_def added_unconditional unconditional_error split: option.split bool.split)

lemma auto_preload_reaches:
  assumes "f \<in> set fs" "sf_Relationship (f_sf f) \<noteq> None" "TagSettingsGet (f_sf f) ''PRELOAD'' = None"
    and "\<not> HasError (auto_preload_fields fs sc)"
  shows "unconditional (f_Name f) (auto_preload_fields fs sc)"
  using assms
  by (induction fs sc rule: auto_preload_fields.induct)
     (auto simp: Let_def intro: auto_preload_unconditional added_unconditional split: option.splits bool.splits if_splits)

text \<open>
  With the setting \<^verbatim>\<open>gorm:auto_preload\<close> the conditions of an explicit \<^verbatim>\<open>Preload\<close> of an association are dropped, unless
  the tag of its field keeps it out of automatic preloading.
\<close>

theorem auto_preload_drops_conditions:
  assumes "f \<in> set (Fields G sc)" and "sf_Relationship (f_sf f) \<noteq> None" and "TagSettingsGet (f_sf f) ''PRELOAD'' = None"
    and "\<not> HasError (autoPreload G sc)" and "(f_Name f, conditions) \<in> set (preload (sc_Search (autoPreload G sc)))"
  shows "conditions = []"
  using auto_preload_reaches [of f "Fields G sc" "cache_fields G sc"] assms
  by (auto simp: autoPreload_def unconditional_def list_all_iff)

theorem auto_preload_drops_conditions_witness:
  "let G = mail_env refusing; sc = (mail_scope ''Emails'' users_world)\<lparr>sc_Search := search_Preload ''Emails'' [VInt KInt 1] empty_search\<rparr>;
       f = field_at G sc 1
   in f_Name f = ''Emails'' \<and> preload (sc_Search sc) = [(''Emails'', [VInt KInt 1])]
      \<and> preload (sc_Search (autoPreload G sc)) = [(''Emails'', [])]"
proof -
  define sc where "sc = (mail_scope ''Emails'' users_world)\<lparr>sc_Search := search_Preload ''Emails'' [VInt KInt 1] empty_search\<rparr>"
  let ?G = "mail_env refusing"
  have len: "1 < length (Fields ?G sc)" unfolding sc_def by code_simp
  have f: "field_at ?G sc 1 \<in> set (Fields ?G sc)" using len by (simp add: field_at_def)
  have name: "f_Name (field_at ?G sc 1) = ''Emails''" unfolding sc_def by code_simp
  have rel: "sf_Relationship (f_sf (field_at ?G sc 1)) \<noteq> None" unfolding sc_def by code_simp
  have tag: "TagSettingsGet (f_sf (field_at ?G sc 1)) ''PRELOAD'' = None" unfolding sc_def by code_simp
  have ok: "\<not> HasError (autoPreload ?G sc)" unfolding sc_def by code_simp
  have keys: "map fst (preload (sc_Search (autoPreload ?G sc))) = [''Emails'']" unfolding sc_def by code_simp
  then obtain cs where cs: "preload (sc_Search (autoPreload ?G sc)) = [(''Emails'', cs)]" by auto
  then have "cs = []"
    by (intro auto_preload_drops_conditions [OF f rel tag ok, unfolded name, of cs]) simp
  then show ?thesis using cs name by (simp add: sc_def [symmetric] Let_def) (simp add: sc_def search_Preload_def empty_search_def)
qed

section \<open>Results\<close>

text \<open>An assignment to a member leaves the other members and objects alone, and with them the keys they hold.\<close>

lemma set_obj_value_objs:
  "w_objs (set_obj_value a i u w) b = (if b = a then map_option (\<lambda>(t, vs). (t, vs[i := u])) (w_objs w a) else w_objs w b)"
  by (auto simp: set_obj_value_def split: option.split)

lemma obj_value_set:
  "obj_value (set_obj_value a i u w) b j =
     (if b = a \<and> j = i \<and> (\<exists>t vs. w_objs w a = Some (t, vs) \<and> i < length vs) then u else obj_value w b j)"
  by (auto simp: obj_value_def set_obj_value_objs split: option.split prod.split)

lemma member_of_set [simp]: "member_of G (set_obj_value a i u w) v name = member_of G w v name"
  by (cases v) (auto simp: member_of_def set_obj_value_objs split: option.split)

lemma indirect_kind_set [simp]: "indirect_kind G (set_obj_value a i u w) v = indirect_kind G w v"
  by (cases v) (auto simp: indirect_kind_def set_obj_value_objs split: option.split)

lemma go_field_member:
  "go_field G w (VObj a) name = map_option (\<lambda>(b, i, t). obj_value w b i) (member_of G w (VObj a) name)"
  by (auto simp: go_field_def member_of_def split: option.split)

text \<open>The columns of the type of an object from which its key is read do not include the member at \<open>i\<close>.\<close>

definition key_apart :: "genv \<Rightarrow> world \<Rightarrow> string list \<Rightarrow> nat \<Rightarrow> nat \<Rightarrow> bool" where
  "key_apart G w names a i = list_all (\<lambda>name. case member_of G w (VObj a) name of None \<Rightarrow> True | Some (b, j, t) \<Rightarrow> j \<noteq> i) names"

lemma row_key_set:
  assumes "key_apart G w names b i" shows "row_key G (set_obj_value a i u w) names (VObj b) = row_key G w names (VObj b)"
proof -
  have "go_field G (set_obj_value a i u w) (VObj b) name = go_field G w (VObj b) name" if "name \<in> set names" for name
    using assms that unfolding key_apart_def list_all_iff
    by (cases "member_of G w (VObj b) name") (auto simp: go_field_member obj_value_set dest!: bspec)
  then have "List.map_filter (\<lambda>name. Option.bind (go_field G (set_obj_value a i u w) (VObj b) name) key_value) names
      = List.map_filter (\<lambda>name. Option.bind (go_field G w (VObj b) name) key_value) names"
    by (simp add: List.map_filter_def cong: filter_cong map_cong)
  then show ?thesis by (simp add: row_key_def getValueFromFields_def cong: kind.case_cong)
qed

text \<open>A slice of pointers shares its elements with the results.\<close>

lemma append_pointers: "t_kind (g_types G t) \<noteq> KStruct \<Longrightarrow> append_values G t old xs w = (VSlice t (Some (old @ xs)), w)"
proof -
  assume t: "t_kind (g_types G t) \<noteq> KStruct"
  have "copy_value n G t x w = (x, w)" for n x w using t by (cases n) (simp_all split: gval.split)
  then have "fold (\<lambda>x (us, w). case copy_value type_fuel G t x w of (u, w) \<Rightarrow> (us @ [u], w)) xs (old, w) = (old @ xs, w)" for old w
    by (induction xs arbitrary: old) simp_all
  then show ?thesis by (simp add: append_values_def)
qed

text \<open>The slice an object gets: the elements it had, if there are any results for it, and those results.\<close>

definition attached :: "genv \<Rightarrow> rtype \<Rightarrow> string list \<Rightarrow> (string \<times> gval) list \<Rightarrow> nat \<Rightarrow> nat \<Rightarrow> world \<Rightarrow> gval" where
  "attached G et names results a i w =
     (let new = (case row_key G w names (VObj a) of Some k \<Rightarrow> with_key k results | None \<Rightarrow> [])
      in VSlice et (Some (if new = [] then [] else slice_elements (obj_value w a i) @ new)))"

lemma attach_many_step:
  assumes "member_of G w (VObj a) field = Some (a, i, t)" "t_kind (g_types G (t_elem (g_types G t))) \<noteq> KStruct"
    and "attach_many G names field results (VObj a) w = Some w'"
  shows "w' = set_obj_value a i (attached G (t_elem (g_types G t)) names results a i w) w"
  using assms by (auto simp: attach_many_def extend_member_def attached_def Let_def append_pointers split: option.splits if_splits)

lemma attach_many_each:
  assumes "t_kind (g_types G (t_elem (g_types G t))) \<noteq> KStruct" "distinct as"
    and "\<forall>a\<in>set as. member_of G w (VObj a) field = Some (a, i, t) \<and> key_apart G w names a i
           \<and> (\<exists>t vs. w_objs w a = Some (t, vs) \<and> i < length vs)"
    and "attach_each (attach_many G names field results) (map VObj as) w = Some w'"
  shows "obj_value w' a j =
    (if a \<in> set as \<and> j = i then attached G (t_elem (g_types G t)) names results a i w else obj_value w a j)"
  using assms(2-)
proof (induction as arbitrary: w)
  case (Cons b bs)
  let ?et = "t_elem (g_types G t)"
  obtain w1 where w1: "attach_many G names field results (VObj b) w = Some w1"
      "attach_each (attach_many G names field results) (map VObj bs) w1 = Some w'"
    using Cons.prems(3) by (auto split: option.splits)
  have m: "member_of G w (VObj b) field = Some (b, i, t)" using Cons.prems(2) by simp
  have step: "w1 = set_obj_value b i (attached G ?et names results b i w) w"
    using attach_many_step [OF m assms(1) w1(1)] .
  have same: "attached G ?et names results c i w1 = attached G ?et names results c i w" if "c \<in> set bs" for c
  proof -
    have "row_key G w1 names (VObj c) = row_key G w names (VObj c)" using Cons.prems(2) that by (simp add: step row_key_set)
    moreover have "obj_value w1 c i = obj_value w c i" using Cons.prems(1) that by (auto simp: step obj_value_set)
    ultimately show ?thesis unfolding attached_def by (simp only:)
  qed
  have "\<forall>c\<in>set bs. member_of G w1 (VObj c) field = Some (c, i, t) \<and> key_apart G w1 names c i
           \<and> (\<exists>t vs. w_objs w1 c = Some (t, vs) \<and> i < length vs)"
    using Cons.prems(1,2) by (auto simp: step key_apart_def set_obj_value_objs)
  then have "obj_value w' a j = (if a \<in> set bs \<and> j = i then attached G ?et names results a i w1 else obj_value w1 a j)"
    using Cons.prems(1) w1(2) by (intro Cons.IH) simp_all
  then show ?case using same Cons.prems(1,2) by (auto simp: step obj_value_set)
qed simp

text \<open>
  C9: Preloading a has-many association into a slice of objects divides the results by their keys: every object gets, after the
  elements its slice holds already, exactly the results that have its key, in the order of the results; an object without
  results gets an empty slice, and no other member of any object is touched.
\<close>

theorem has_many_divides_results:
  assumes "t_kind (g_types G (t_elem (g_types G t))) \<noteq> KStruct" and "distinct as"
    and "list_all (\<lambda>a. member_of G w (VObj a) field = Some (a, i, t) \<and> key_apart G w names a i
           \<and> (case w_objs w a of Some (t, vs) \<Rightarrow> i < length vs | None \<Rightarrow> False)) as"
    and "attach_each (attach_many G names field results) (map VObj as) w = Some w'"
  shows "obj_value w' a j =
    (if a \<in> set as \<and> j = i
     then let new = (case row_key G w names (VObj a) of Some k \<Rightarrow> map snd (filter (\<lambda>r. fst r = k) results) | None \<Rightarrow> [])
          in VSlice (t_elem (g_types G t)) (Some (if new = [] then [] else slice_elements (obj_value w a i) @ new))
     else obj_value w a j)"
proof -
  have "obj_value w' a j =
      (if a \<in> set as \<and> j = i then attached G (t_elem (g_types G t)) names results a i w else obj_value w a j)"
    using assms by (intro attach_many_each) (auto simp: list_all_iff split: option.splits)
  then show ?thesis unfolding attached_def with_key_def .
qed

text \<open>Two users, of whom the first has an email already, and three emails.\<close>

definition two_users :: world where
  "two_users = sample_world\<lparr>w_objs :=
     [3 \<mapsto> (0, [VInt KInt64 7, VSlice 4 (Some [VObj 9])]), 4 \<mapsto> (0, [VInt KInt64 8, VSlice 4 None])]\<rparr>"

theorem has_many_divides_results_witness:
  "\<exists>w'. attach_each (attach_many (mail_env refusing) [''ID''] ''Emails'' [(''7'', VObj 5), (''8'', VObj 6), (''7'', VObj 7)])
      [VObj 3, VObj 4] two_users = Some w'
    \<and> obj_value w' 3 1 = VSlice 4 (Some [VObj 9, VObj 5, VObj 7]) \<and> obj_value w' 4 1 = VSlice 4 (Some [VObj 6])"
proof -
  let ?G = "mail_env refusing" and ?r = "[(''7'', VObj 5), (''8'', VObj 6), (''7'', VObj 7)]"
  have "attach_each (attach_many ?G [''ID''] ''Emails'' ?r) [VObj 3, VObj 4] two_users \<noteq> None" by code_simp
  then obtain w' where w': "attach_each (attach_many ?G [''ID''] ''Emails'' ?r) (map VObj [3, 4]) two_users = Some w'" by auto
  have t: "t_kind (g_types ?G (t_elem (g_types ?G 3))) \<noteq> KStruct" and et: "t_elem (g_types ?G 3) = 4" by code_simp+
  have ok: "list_all (\<lambda>a. member_of ?G two_users (VObj a) ''Emails'' = Some (a, 1, 3) \<and> key_apart ?G two_users [''ID''] a 1
           \<and> (case w_objs two_users a of Some (t, vs) \<Rightarrow> 1 < length vs | None \<Rightarrow> False)) [3, 4]" by code_simp
  have keys: "row_key ?G two_users [''ID''] (VObj 3) = Some ''7''" "row_key ?G two_users [''ID''] (VObj 4) = Some ''8''"
    by code_simp+
  have old: "slice_elements (obj_value two_users 3 1) = [VObj 9]" "slice_elements (obj_value two_users 4 1) = []" by code_simp+
  note divided = has_many_divides_results [OF t _ ok w', where j = 1, unfolded et]
  show ?thesis using w' divided [of 3] divided [of 4] old by (simp add: keys)
qed

text \<open>Two orders with keys of two columns, and one item.\<close>

definition two_orders :: world where
  "two_orders = sample_world\<lparr>w_objs :=
     [3 \<mapsto> (10, [VStr ''a_b'', VStr ''c'', VSlice 12 None]), 4 \<mapsto> (10, [VStr ''a'', VStr ''b_c'', VSlice 12 None]),
      5 \<mapsto> (13, [VInt KInt64 1, VStr ''a'', VStr ''b_c''])]\<rparr>"


end
