(* ===== verification/AssociationMode.thy ===== *)
theory AssociationMode
  imports Preload
begin

text \<open>
  Association mode (\<^verbatim>\<open>association.go\<close>, \<^verbatim>\<open>Association\<close> and \<^verbatim>\<open>Related\<close> of \<^verbatim>\<open>main.go\<close>, \<^verbatim>\<open>related\<close> and \<^verbatim>\<open>typeName\<close> of
  \<^verbatim>\<open>scope.go\<close>): finding, appending, replacing, deleting and counting the associated values of one object.

  An association that could not be started has neither scope nor field (\<open>NoAssociation\<close>).  The scope of one
  that could keeps the world.  The values passed are structs, pointers to structs, and slices of either,
  without nil pointers; a struct passed by value is copied, and so is one that is set into a member held by value.
  The names of types are left out of the messages of errors.
\<close>

section \<open>The state\<close>

record association =
  as_Error :: "err option"
  as_scope :: scope
  as_column :: string
  as_field :: nat

datatype started = NoAssociation err | Started association

datatype assoc_out = ADone association | APanic association

fun then_do :: "assoc_out \<Rightarrow> (association \<Rightarrow> assoc_out) \<Rightarrow> assoc_out" where
  "then_do (ADone a) f = f a"
| "then_do (APanic a) f = APanic a"

definition as_world :: "association \<Rightarrow> world" where
  "as_world a = sc_w (as_scope a)"

definition set_as_world :: "world \<Rightarrow> association \<Rightarrow> association" where
  "set_as_world w a = a\<lparr>as_scope := (as_scope a)\<lparr>sc_w := w\<rparr>\<rparr>"

definition setErr :: "err option \<Rightarrow> association \<Rightarrow> association" where
  "setErr e a = (if e \<noteq> None then a\<lparr>as_Error := e\<rparr> else a)"

definition the_field :: "genv \<Rightarrow> association \<Rightarrow> Field" where
  "the_field G a = field_at G (as_scope a) (as_field a)"

definition relationship :: "genv \<Rightarrow> association \<Rightarrow> Relationship" where
  "relationship G a = (case sf_Relationship (f_sf (the_field G a)) of Some r \<Rightarrow> r | None \<Rightarrow> empty_Relationship)"

definition the_type :: "genv \<Rightarrow> association \<Rightarrow> rtype" where
  "the_type G a = m_type (sf_Struct (f_sf (the_field G a)))"

definition the_value :: "genv \<Rightarrow> association \<Rightarrow> gval" where
  "the_value G a = field_value (as_world a) (the_field G a)"

text \<open>\<^verbatim>\<open>association.setErr(db.Operation(...).Error)\<close>.\<close>

definition set_result :: "outcome \<Rightarrow> association \<Rightarrow> assoc_out" where
  "set_result x a =
     (case x of
        Panicked s \<Rightarrow> APanic (set_as_world (sc_w s) a)
      | Done s \<Rightarrow> ADone (setErr (db_Error (sc_db s)) (set_as_world (sc_w s) a)))"

definition new_DB :: "genv \<Rightarrow> association \<Rightarrow> db" where
  "new_DB G a = Scope_NewDB G (as_scope a)"

text \<open>A scope on a value of a type of which only the model matters.\<close>

definition scope_of_type :: "genv \<Rightarrow> rtype \<Rightarrow> scope \<Rightarrow> scope" where
  "scope_of_type G t sc = Scope_New G (VSlice t (Some [])) sc"

text \<open>\<^verbatim>\<open>reflect.New(t).Interface()\<close>: a zero struct, an empty slice; a nil pointer has no object.\<close>

definition new_value :: "genv \<Rightarrow> rtype \<Rightarrow> world \<Rightarrow> gval \<times> world" where
  "new_value G t w =
     (case t_kind (g_types G t) of
        KStruct \<Rightarrow> (case new_object G t w of (a, w) \<Rightarrow> (VObj a, w))
      | KSlice \<Rightarrow> (case fresh w of (a, w) \<Rightarrow> (VObj a, w\<lparr>w_objs := (w_objs w)(a \<mapsto> (t, []))\<rparr>))
      | _ \<Rightarrow> (VSlice (t_elem (g_types G t)) (Some []), w))"

text \<open>\<^verbatim>\<open>field.Interface()\<close>: a zero struct gets an object, a nil pointer only has its type.\<close>

definition field_interface :: "genv \<Rightarrow> association \<Rightarrow> gval \<times> world" where
  "field_interface G a =
     (case the_value G a of
        VPtr p None \<Rightarrow> (VSlice (t_elem (g_types G (the_type G a))) (Some []), as_world a)
      | VOpaque k z s \<Rightarrow> new_value G (the_type G a) (as_world a)
      | v \<Rightarrow> (v, as_world a))"

text \<open>The columns of several values, in one array.\<close>

definition columns_of_values :: "genv \<Rightarrow> string list \<Rightarrow> gval list \<Rightarrow> world \<Rightarrow> gval list list option" where
  "columns_of_values G columns vs w =
     map_option (map snd) (column_rows G w columns (concat (map (value_objects G w) vs)) [])"

definition where_equal :: "genv \<Rightarrow> scope \<Rightarrow> string \<Rightarrow> gval \<Rightarrow> db \<Rightarrow> db" where
  "where_equal G sc column v d = DB_Where G (VStr (Scope_Quote sc column @ '' = ?'')) [v] d"

definition where_in :: "genv \<Rightarrow> scope \<Rightarrow> string list \<Rightarrow> gval list list \<Rightarrow> db \<Rightarrow> db" where
  "where_in G sc columns keys d = DB_Where G (VStr (in_condition sc columns keys)) (toQueryValues keys) d"

definition where_not_in :: "genv \<Rightarrow> scope \<Rightarrow> string list \<Rightarrow> gval list list \<Rightarrow> db \<Rightarrow> db" where
  "where_not_in G sc columns keys d =
     DB_Where G (VStr (toQueryCondition sc columns @ '' NOT IN ('' @ toQueryMarks keys @ '')'')) (toQueryValues keys) d"

text \<open>The map that sets the foreign keys to nil.\<close>

definition nil_keys :: "string list \<Rightarrow> gval" where
  "nil_keys names = VMap (fold (\<lambda>k. alist_set k VNil) names [])"

text \<open>Every column equal to the value of the field named at its place; \<open>None\<close> is an index out of range.\<close>

fun key_wheres :: "genv \<Rightarrow> scope \<Rightarrow> string list \<Rightarrow> string list \<Rightarrow> db \<Rightarrow> db option" where
  "key_wheres G sc [] names d = Some d"
| "key_wheres G sc (column # columns) [] d = None"
| "key_wheres G sc (column # columns) (name # names) d =
     key_wheres G sc columns names
       (case FieldByName G sc name of
          Some i \<Rightarrow> where_equal G sc column (field_value (sc_w sc) (field_at G sc i)) d
        | None \<Rightarrow> d)"

text \<open>The same with the place looked at only for fields that there are.\<close>

fun found_wheres :: "genv \<Rightarrow> scope \<Rightarrow> string list \<Rightarrow> string list \<Rightarrow> db \<Rightarrow> db option" where
  "found_wheres G sc [] columns d = Some d"
| "found_wheres G sc (name # names) columns d =
     (case FieldByName G sc name of
        None \<Rightarrow> found_wheres G sc names (tl columns) d
      | Some i \<Rightarrow>
         (case columns of
            [] \<Rightarrow> None
          | column # _ \<Rightarrow>
             found_wheres G sc names (tl columns) (where_equal G sc column (field_value (sc_w sc) (field_at G sc i)) d)))"

section \<open>Finding\<close>

definition type_name :: "genv \<Rightarrow> scope \<Rightarrow> string" where
  "type_name G sc =
     (case value_type (sc_w sc) (sc_Value sc) of
        Some t \<Rightarrow> t_name (g_types G (elem_type type_fuel (g_types G) t))
      | None \<Rightarrow> [])"

text \<open>\<^verbatim>\<open>scope.Err(tx.Find(value).Error)\<close>.\<close>

definition find_into :: "genv \<Rightarrow> chains \<Rightarrow> gval \<Rightarrow> db option \<Rightarrow> callback" where
  "find_into G C value d sc =
     (case d of
        None \<Rightarrow> Panicked sc
      | Some d \<Rightarrow>
         (case DB_Find G C value [] d (sc_w sc) of
            Panicked s \<Rightarrow> Panicked (sc\<lparr>sc_w := sc_w s\<rparr>)
          | Done s \<Rightarrow> Done (Scope_Err (db_Error (sc_db s)) (sc\<lparr>sc_w := sc_w s\<rparr>))))"

definition related_by :: "genv \<Rightarrow> chains \<Rightarrow> Relationship \<Rightarrow> db \<Rightarrow> gval \<Rightarrow> callback" where
  "related_by G C r tx value sc =
     (if rel_Kind r = ''many_to_many'' then
        (case rel_JoinTableHandler r of
           None \<Rightarrow> Panicked sc
         | Some h \<Rightarrow> (case jth_JoinWith G h tx (sc_Value sc) (sc_w sc) of (d, w) \<Rightarrow> find_into G C value d (sc\<lparr>sc_w := w\<rparr>)))
      else if rel_Kind r = ''belongs_to'' then
        find_into G C value (found_wheres G sc (rel_ForeignDBNames r) (rel_AssociationForeignDBNames r) tx) sc
      else if rel_Kind r \<in> {''has_many'', ''has_one''} then
        find_into G C value
          (map_option (\<lambda>d. if rel_PolymorphicType r \<noteq> []
                           then where_equal G sc (rel_PolymorphicDBName r) (VStr (rel_PolymorphicValue r)) d else d)
            (key_wheres G sc (rel_ForeignDBNames r) (rel_AssociationForeignDBNames r) tx)) sc
      else Done sc)"

fun related_loop :: "genv \<Rightarrow> chains \<Rightarrow> db \<Rightarrow> scope \<Rightarrow> gval \<Rightarrow> string list \<Rightarrow> callback" where
  "related_loop G C tx toScope value [] sc = Done (scope_error ''invalid association'' sc)"
| "related_loop G C tx toScope value (foreignKey # foreignKeys) sc =
     (case FieldByName G sc foreignKey of
        Some i \<Rightarrow>
          (case sf_Relationship (f_sf (field_at G sc i)) of
             Some r \<Rightarrow> related_by G C r tx value sc
           | None \<Rightarrow>
              find_into G C value
                (Some (where_equal G sc (PrimaryKey G toScope) (field_value (sc_w sc) (field_at G sc i)) tx)) sc)
      | None \<Rightarrow>
          (case FieldByName G toScope foreignKey of
             Some j \<Rightarrow>
               find_into G C value
                 (Some (where_equal G sc (f_DBName (field_at G toScope j)) (PrimaryKeyValue G sc) tx)) sc
           | None \<Rightarrow> related_loop G C tx toScope value foreignKeys sc))"

definition related :: "genv \<Rightarrow> chains \<Rightarrow> gval \<Rightarrow> string list \<Rightarrow> callback" where
  "related G C value foreignKeys sc =
     (let sc = cache_fields G sc;
          toScope = NewScope G (sc_db sc) value (sc_w sc);
          tx = DB_Set G ''gorm:association:source'' (sc_Value sc) (sc_db sc)
      in related_loop G C tx toScope value (foreignKeys @ [type_name G toScope @ ''Id'', type_name G sc @ ''Id'']) sc)"

definition DB_Related :: "genv \<Rightarrow> chains \<Rightarrow> gval \<Rightarrow> string list \<Rightarrow> db \<Rightarrow> world \<Rightarrow> outcome" where
  "DB_Related G C value foreignKeys s w = related G C value foreignKeys (NewScope G s (db_Value s) w)"

section \<open>Starting\<close>

text \<open>\<open>None\<close> is the panic of a model without a primary field.\<close>

definition DB_Association :: "genv \<Rightarrow> string \<Rightarrow> db \<Rightarrow> world \<Rightarrow> (started \<times> world) option" where
  "DB_Association G column s w =
     (let sc = cache_fields G (NewScope G (DB_Set G ''gorm:association:source'' (db_Value s) s) (db_Value s) w);
          failed = (\<lambda>msg. case new_error msg w of (e, w) \<Rightarrow> Some (NoAssociation e, w))
      in case PrimaryField G sc of
           None \<Rightarrow> None
         | Some primaryField \<Rightarrow>
            (if f_IsBlank primaryField then failed ''primary key can't be nil''
             else case FieldByName G sc column of
                    None \<Rightarrow> failed (''value doesn't have column '' @ column)
                  | Some i \<Rightarrow>
                     (case sf_Relationship (f_sf (field_at G sc i)) of
                        None \<Rightarrow> failed (''invalid association '' @ column)
                      | Some r \<Rightarrow>
                         (if rel_ForeignFieldNames r = [] then failed (''invalid association '' @ column)
                          else Some (Started \<lparr>as_Error = None, as_scope = sc, as_column = column, as_field = i\<rparr>, w)))))"

text \<open>
  What an operation returns, with \<open>False\<close> for a panic.  An association that was not started has nil pointers, which
  reading follows.
\<close>

definition returned :: "assoc_out \<Rightarrow> started \<times> bool" where
  "returned x = (case x of ADone a \<Rightarrow> (Started a, True) | APanic a \<Rightarrow> (Started a, False))"

definition Association_Find :: "genv \<Rightarrow> chains \<Rightarrow> gval \<Rightarrow> started \<Rightarrow> started \<times> bool" where
  "Association_Find G C value x =
     (case x of
        NoAssociation e \<Rightarrow> (x, False)
      | Started a \<Rightarrow>
         returned (case related G C value [as_column a] (as_scope a) of
                     Panicked sc \<Rightarrow> APanic (a\<lparr>as_scope := sc\<rparr>)
                   | Done sc \<Rightarrow> ADone (setErr (db_Error (sc_db sc)) (a\<lparr>as_scope := sc\<rparr>))))"

section \<open>Saving\<close>

text \<open>The values an argument stands for, and whether they are structs and not pointers; \<open>None\<close> is an invalid value.\<close>

definition slice_elem :: "genv \<Rightarrow> world \<Rightarrow> gval \<Rightarrow> rtype" where
  "slice_elem G w v =
     (case v of
        VObj a \<Rightarrow> (case w_objs w a of Some (t, vs) \<Rightarrow> t_elem (g_types G t) | None \<Rightarrow> 0)
      | VSlice t vs \<Rightarrow> t
      | _ \<Rightarrow> 0)"

definition argument_values :: "genv \<Rightarrow> world \<Rightarrow> gval \<Rightarrow> (gval \<times> bool) list option" where
  "argument_values G w v =
     (case indirect_kind G w v of
        KStruct \<Rightarrow> Some [(v, case v of VStruct t fs \<Rightarrow> True | _ \<Rightarrow> False)]
      | KSlice \<Rightarrow> Some (map (\<lambda>u. (u, t_kind (g_types G (slice_elem G w v)) = KStruct)) (value_objects G w v))
      | _ \<Rightarrow> None)"

text \<open>A pointer to the value: to a copy of it, if it is a struct.\<close>

definition pointer_to :: "genv \<Rightarrow> gval \<times> bool \<Rightarrow> world \<Rightarrow> gval \<times> world" where
  "pointer_to G p w =
     (if \<not> snd p then (fst p, w)
      else case fst p of
             VObj a \<Rightarrow> (case w_objs w a of Some (t, vs) \<Rightarrow> copy_value type_fuel G t (VObj a) w | None \<Rightarrow> (VObj a, w))
           | VStruct t fs \<Rightarrow> (case fresh w of (a, w) \<Rightarrow> (VObj a, w\<lparr>w_objs := (w_objs w)(a \<mapsto> (t, map snd fs))\<rparr>))
           | v \<Rightarrow> (v, w))"

text \<open>The value has the type of the field, so it converts to itself; what \<^verbatim>\<open>Set\<close> returns is not looked at.\<close>

definition assign_field :: "genv \<Rightarrow> gval \<Rightarrow> association \<Rightarrow> association" where
  "assign_field G v a =
     (case copy_value type_fuel G (the_type G a) v (as_world a) of (u, w) \<Rightarrow>
        a\<lparr>as_scope := snd (set_field (same_type_env G) (as_field a) u ((as_scope a)\<lparr>sc_w := w\<rparr>))\<rparr>)"

definition append_to_field :: "genv \<Rightarrow> gval \<Rightarrow> association \<Rightarrow> association" where
  "append_to_field G v a =
     (case append_values G (t_elem (g_types G (the_type G a))) (slice_elements (the_value G a)) [v] (as_world a) of
        (u, w) \<Rightarrow> assign_field G u (set_as_world w a))"

text \<open>Structs held by value are set back to the argument after the save.\<close>

datatype set_back = NotBack | FieldBack | SliceBack

definition assign_value :: "genv \<Rightarrow> gval \<Rightarrow> association \<Rightarrow> set_back \<times> association" where
  "assign_value G v a =
     (case value_type (as_world a) v of
        None \<Rightarrow> (NotBack, a)
      | Some t \<Rightarrow>
         (let RT = g_types G; ft = the_type G a; et = t_elem (RT ft);
              points = (\<lambda>p. t_kind (RT p) = KPtr \<and> t_elem (RT p) = t)
          in if points ft then (NotBack, assign_field G v a)
             else if ft = t then (FieldBack, assign_field G v a)
             else if t_kind (RT ft) = KSlice \<and> points et then (NotBack, append_to_field G v a)
             else if t_kind (RT ft) = KSlice \<and> et = t then (SliceBack, append_to_field G v a)
             else (NotBack, a)))"

text \<open>The struct behind a pointer becomes a copy of another one.\<close>

definition copy_into :: "genv \<Rightarrow> gval \<Rightarrow> gval \<Rightarrow> world \<Rightarrow> world" where
  "copy_into G src dst w =
     (case (src, dst) of
        (VObj c, VObj b) \<Rightarrow>
          (case w_objs w c of
             None \<Rightarrow> w
           | Some (t, vs) \<Rightarrow>
              (case copy_value type_fuel G t src w of
                 (VObj d, w) \<Rightarrow> w\<lparr>w_objs := (w_objs w)(b := w_objs w d)\<rparr>
               | (_, w) \<Rightarrow> w))
      | _ \<Rightarrow> w)"

definition set_value_back :: "genv \<Rightarrow> set_back \<Rightarrow> gval \<Rightarrow> association \<Rightarrow> assoc_out" where
  "set_value_back G b v a =
     (case b of
        NotBack \<Rightarrow> ADone a
      | FieldBack \<Rightarrow> ADone (set_as_world (copy_into G (the_value G a) v (as_world a)) a)
      | SliceBack \<Rightarrow>
         (case slice_elements (the_value G a) of
            [] \<Rightarrow> APanic a
          | us \<Rightarrow> ADone (set_as_world (copy_into G (last us) v (as_world a)) a)))"

definition save_association :: "genv \<Rightarrow> chains \<Rightarrow> gval \<times> bool \<Rightarrow> association \<Rightarrow> assoc_out" where
  "save_association G C p a =
     (case pointer_to G p (as_world a) of (v, w) \<Rightarrow>
        (let a = set_as_world w a; r = relationship G a; many = rel_Kind r = ''many_to_many''
         in then_do
              (if many \<and> PrimaryKeyZero G (Scope_New G v (as_scope a))
               then set_result (DB_Save G C v (new_DB G a) (as_world a)) a else ADone a)
              (\<lambda>a. case assign_value G v a of (b, a) \<Rightarrow>
                 if many then
                   (case rel_JoinTableHandler r of
                      None \<Rightarrow> APanic a
                    | Some h \<Rightarrow>
                       (case jth_Add G h (new_DB G a) (sc_Value (as_scope a)) v (as_world a) of
                          (e, w) \<Rightarrow> ADone (setErr e (set_as_world w a))))
                 else
                   then_do
                     (set_result
                       (DB_Save G C (sc_Value (as_scope a)) (DB_Select G (VStr (f_Name (the_field G a))) [] (new_DB G a)) (as_world a))
                       a)
                     (set_value_back G b v))))"

fun save_each :: "genv \<Rightarrow> chains \<Rightarrow> (gval \<times> bool) list \<Rightarrow> association \<Rightarrow> assoc_out" where
  "save_each G C [] a = ADone a"
| "save_each G C (p # ps) a = then_do (save_association G C p a) (save_each G C ps)"

fun saveAssociations :: "genv \<Rightarrow> chains \<Rightarrow> gval list \<Rightarrow> association \<Rightarrow> assoc_out" where
  "saveAssociations G C [] a = ADone a"
| "saveAssociations G C (v # vs) a =
     then_do
       (case argument_values G (as_world a) v of
          Some ps \<Rightarrow> save_each G C ps a
        | None \<Rightarrow> (case new_error ''invalid value type'' (as_world a) of (e, w) \<Rightarrow> ADone (setErr (Some e) (set_as_world w a))))
       (saveAssociations G C vs)"

section \<open>Replacing and appending\<close>

text \<open>The names and columns of the fields that there are; \<open>None\<close> is an index out of range.\<close>

fun found_columns :: "genv \<Rightarrow> scope \<Rightarrow> string list \<Rightarrow> string list \<Rightarrow> (string \<times> string) list option" where
  "found_columns G sc [] columns = Some []"
| "found_columns G sc (name # names) columns =
     (case FieldByName G sc name of
        None \<Rightarrow> found_columns G sc names (tl columns)
      | Some i \<Rightarrow>
         (case columns of
            [] \<Rightarrow> None
          | column # _ \<Rightarrow> map_option (Cons (f_Name (field_at G sc i), column)) (found_columns G sc names (tl columns))))"

definition found_field_names :: "genv \<Rightarrow> scope \<Rightarrow> string list \<Rightarrow> string list" where
  "found_field_names G sc names = List.map_filter (\<lambda>name. map_option (\<lambda>i. f_Name (field_at G sc i)) (FieldByName G sc name)) names"

definition primary_columns :: "genv \<Rightarrow> scope \<Rightarrow> (string \<times> string) list" where
  "primary_columns G sc = map (\<lambda>f. (f_Name f, f_DBName f)) (PrimaryFields G sc)"

text \<open>All but the new values.\<close>

definition except_new :: "genv \<Rightarrow> association \<Rightarrow> db \<Rightarrow> (db \<times> association) option" where
  "except_new G a newDB =
     (let r = relationship G a; ts = scope_of_type G (the_type G a) (as_scope a)
      in case (if rel_Kind r = ''many_to_many''
               then found_columns G ts (rel_AssociationForeignFieldNames r) (rel_AssociationForeignDBNames r)
               else Some (primary_columns G ts)) of
           None \<Rightarrow> None
         | Some columns \<Rightarrow>
            (case field_interface G a of (v, w) \<Rightarrow>
             case getColumnAsArray G (map fst columns) v w of
               None \<Rightarrow> None
             | Some newPrimaryKeys \<Rightarrow>
                Some (if newPrimaryKeys = [] then newDB
                      else where_not_in G (as_scope a) (map snd columns) newPrimaryKeys newDB, set_as_world w a)))"

text \<open>The old values lose their entries in the join table, or their foreign keys.\<close>

definition unlink_joined :: "genv \<Rightarrow> chains \<Rightarrow> db \<Rightarrow> association \<Rightarrow> assoc_out" where
  "unlink_joined G C newDB a =
     (let r = relationship G a; sc = as_scope a
      in case getColumnAsArray G (found_field_names G sc (rel_ForeignFieldNames r)) (sc_Value sc) (as_world a) of
           None \<Rightarrow> APanic a
         | Some sourcePrimaryKeys \<Rightarrow>
            (if sourcePrimaryKeys = [] then ADone a
             else case rel_JoinTableHandler r of
                    None \<Rightarrow> APanic a
                  | Some h \<Rightarrow>
                     set_result (jth_Delete G C h (where_in G sc (rel_ForeignDBNames r) sourcePrimaryKeys newDB) [] (as_world a)) a))"

definition unlink_owned :: "genv \<Rightarrow> chains \<Rightarrow> db \<Rightarrow> association \<Rightarrow> assoc_out" where
  "unlink_owned G C newDB a =
     (let r = relationship G a
      in case key_wheres G (as_scope a) (rel_ForeignDBNames r) (rel_AssociationForeignFieldNames r) newDB of
           None \<Rightarrow> APanic a
         | Some newDB \<Rightarrow>
            (case new_value G (the_type G a) (as_world a) of (v, w) \<Rightarrow>
               set_result (UpdateColumn G C [nil_keys (rel_ForeignDBNames r)] (DB_Model G v newDB) w) a))"

definition replace_values :: "genv \<Rightarrow> chains \<Rightarrow> gval list \<Rightarrow> association \<Rightarrow> assoc_out" where
  "replace_values G C vs a =
     (let r = relationship G a; newDB = new_DB G a
      in then_do (saveAssociations G C vs (a\<lparr>as_scope := snd (set_field G (as_field a) VNil (as_scope a))\<rparr>))
           (\<lambda>a. if rel_Kind r = ''belongs_to'' then
                  (if vs = []
                   then set_result (UpdateColumn G C [nil_keys (rel_ForeignDBNames r)]
                          (DB_Model G (sc_Value (as_scope a)) newDB) (as_world a)) a
                   else ADone a)
                else
                  (let newDB = (if rel_PolymorphicDBName r \<noteq> []
                                then where_equal G (as_scope a) (rel_PolymorphicDBName r) (VStr (rel_PolymorphicValue r)) newDB
                                else newDB)
                   in case (if vs = [] then Some (newDB, a) else except_new G a newDB) of
                        None \<Rightarrow> APanic a
                      | Some (newDB, a) \<Rightarrow>
                         (if rel_Kind r = ''many_to_many'' then unlink_joined G C newDB a
                          else if rel_Kind r \<in> {''has_one'', ''has_many''} then unlink_owned G C newDB a
                          else ADone a))))"

text \<open>An operation on an association that was not started, or has an error, does nothing.\<close>

definition unless_failed :: "(association \<Rightarrow> assoc_out) \<Rightarrow> started \<Rightarrow> started \<times> bool" where
  "unless_failed f x =
     (case x of
        NoAssociation e \<Rightarrow> (x, True)
      | Started a \<Rightarrow>
         (if as_Error a \<noteq> None then (x, True) else returned (f a)))"

definition Association_Replace :: "genv \<Rightarrow> chains \<Rightarrow> gval list \<Rightarrow> started \<Rightarrow> started \<times> bool" where
  "Association_Replace G C vs = unless_failed (replace_values G C vs)"

definition Association_Clear :: "genv \<Rightarrow> chains \<Rightarrow> started \<Rightarrow> started \<times> bool" where
  "Association_Clear G C = Association_Replace G C []"

definition Association_Append :: "genv \<Rightarrow> chains \<Rightarrow> gval list \<Rightarrow> started \<Rightarrow> started \<times> bool" where
  "Association_Append G C vs =
     unless_failed (\<lambda>a. if rel_Kind (relationship G a) = ''has_one'' then replace_values G C vs a else saveAssociations G C vs a)"

section \<open>Deleting\<close>

definition delete_joined :: "genv \<Rightarrow> chains \<Rightarrow> gval list \<Rightarrow> association \<Rightarrow> assoc_out" where
  "delete_joined G C vs a =
     (let r = relationship G a; sc = as_scope a
      in case key_wheres G sc (rel_ForeignDBNames r) (rel_ForeignFieldNames r) (new_DB G a) of
           None \<Rightarrow> APanic a
         | Some newDB \<Rightarrow>
            (case columns_of_values G (found_field_names G (scope_of_type G (the_type G a) sc) (rel_AssociationForeignFieldNames r)) vs
                    (as_world a) of
               None \<Rightarrow> APanic a
             | Some deletingPrimaryKeys \<Rightarrow>
                (case rel_JoinTableHandler r of
                   None \<Rightarrow> APanic a
                 | Some h \<Rightarrow>
                    set_result (jth_Delete G C h (where_in G sc (rel_AssociationForeignDBNames r) deletingPrimaryKeys newDB) []
                                 (as_world a)) a)))"

text \<open>The objects of the source's type that refer to the values lose their keys; the source itself too if there were any.\<close>

definition delete_referred :: "genv \<Rightarrow> chains \<Rightarrow> gval list \<Rightarrow> association \<Rightarrow> assoc_out" where
  "delete_referred G C vs a =
     (let r = relationship G a; sc = as_scope a; foreignKeyMap = nil_keys (rel_ForeignDBNames r)
      in case (columns_of_values G (rel_AssociationForeignFieldNames r) vs (as_world a), ms_ModelType (GetModelStruct G sc)) of
           (Some primaryKeys, Some t) \<Rightarrow>
             (case new_object G t (as_world a) of (b, w) \<Rightarrow>
              case UpdateColumn G C [foreignKeyMap]
                     (DB_Model G (VObj b) (where_in G sc (rel_ForeignDBNames r) primaryKeys (new_DB G a))) w of
                Panicked s \<Rightarrow> APanic (set_as_world (sc_w s) a)
              | Done s \<Rightarrow>
                 (let a = set_as_world (sc_w s) a
                  in if db_Error (sc_db s) \<noteq> None then ADone (setErr (db_Error (sc_db s)) a)
                     else if db_RowsAffected (sc_db s) > 0
                     then ADone (a\<lparr>as_scope := apply_attrs G foreignKeyMap (as_scope a)\<rparr>)
                     else ADone a))
         | _ \<Rightarrow> APanic a)"

definition delete_owned :: "genv \<Rightarrow> chains \<Rightarrow> string list \<Rightarrow> gval list list \<Rightarrow> association \<Rightarrow> assoc_out" where
  "delete_owned G C deletingDBNames deletingPrimaryKeys a =
     (let r = relationship G a; sc = as_scope a
      in case getColumnAsArray G (rel_AssociationForeignFieldNames r) (sc_Value sc) (as_world a) of
           None \<Rightarrow> APanic a
         | Some primaryKeys \<Rightarrow>
            (case new_value G (the_type G a) (as_world a) of (v, w) \<Rightarrow>
               set_result (UpdateColumn G C [nil_keys (rel_ForeignDBNames r)]
                 (DB_Model G v (where_in G sc deletingDBNames deletingPrimaryKeys
                   (where_in G sc (rel_ForeignDBNames r) primaryKeys (new_DB G a)))) w) a))"

text \<open>The key of a value in the field; \<open>None\<close> is the panic of a value without one, or without the columns.\<close>

definition key_of :: "genv \<Rightarrow> string list \<Rightarrow> gval \<Rightarrow> world \<Rightarrow> gval list option" where
  "key_of G names v w =
     (case getColumnAsArray G names v w of Some (k # ks) \<Rightarrow> Some k | _ \<Rightarrow> None)"

definition is_deleted :: "gval list \<Rightarrow> gval list list \<Rightarrow> bool" where
  "is_deleted primaryKey deletingPrimaryKeys = list_ex (\<lambda>pk. equalAsString (VList primaryKey) (VList pk)) deletingPrimaryKeys"

fun left_values :: "genv \<Rightarrow> string list \<Rightarrow> gval list list \<Rightarrow> world \<Rightarrow> gval list \<Rightarrow> gval list option" where
  "left_values G names deleting w [] = Some []"
| "left_values G names deleting w (v # vs) =
     (case key_of G names v w of
        None \<Rightarrow> None
      | Some k \<Rightarrow> map_option (\<lambda>us. if is_deleted k deleting then us else v # us) (left_values G names deleting w vs))"

text \<open>The values that are gone leave a slice or a struct of the field; a pointer stays.\<close>

definition remove_deleted :: "genv \<Rightarrow> string list \<Rightarrow> gval list list \<Rightarrow> association \<Rightarrow> assoc_out" where
  "remove_deleted G names deleting a =
     (let t = the_type G a
      in case t_kind (g_types G t) of
           KSlice \<Rightarrow>
             (case left_values G names deleting (as_world a) (slice_elements (the_value G a)) of
                None \<Rightarrow> APanic a
              | Some us \<Rightarrow> ADone (assign_field G (VSlice (t_elem (g_types G t)) (if us = [] then None else Some us)) a))
         | KStruct \<Rightarrow>
             (case field_interface G a of (v, w) \<Rightarrow>
              case key_of G names v w of
                None \<Rightarrow> APanic (set_as_world w a)
              | Some k \<Rightarrow>
                 ADone (if is_deleted k deleting
                        then a\<lparr>as_scope := snd (set_field G (as_field a) VNil (as_scope a))\<rparr> else a))
         | _ \<Rightarrow> ADone a)"

definition unlink_values :: "genv \<Rightarrow> chains \<Rightarrow> string list \<Rightarrow> gval list list \<Rightarrow> gval list \<Rightarrow> association \<Rightarrow> assoc_out" where
  "unlink_values G C deletingDBNames deletingPrimaryKeys vs a =
     (let kind = rel_Kind (relationship G a)
      in if kind = ''many_to_many'' then delete_joined G C vs a
         else if kind = ''belongs_to'' then delete_referred G C vs a
         else if kind \<in> {''has_one'', ''has_many''} then delete_owned G C deletingDBNames deletingPrimaryKeys a
         else ADone a)"

definition delete_values :: "genv \<Rightarrow> chains \<Rightarrow> gval list \<Rightarrow> association \<Rightarrow> assoc_out" where
  "delete_values G C vs a =
     (if vs = [] then ADone a
      else let columns = primary_columns G (scope_of_type G (the_type G a) (as_scope a))
           in case columns_of_values G (map fst columns) vs (as_world a) of
                None \<Rightarrow> APanic a
              | Some deletingPrimaryKeys \<Rightarrow>
                 then_do (unlink_values G C (map snd columns) deletingPrimaryKeys vs a)
                   (\<lambda>a. if as_Error a = None then remove_deleted G (map fst columns) deletingPrimaryKeys a else ADone a))"

definition Association_Delete :: "genv \<Rightarrow> chains \<Rightarrow> gval list \<Rightarrow> started \<Rightarrow> started \<times> bool" where
  "Association_Delete G C vs = unless_failed (delete_values G C vs)"

section \<open>Counting\<close>

text \<open>\<open>int_type\<close> is the type of the variable that is counted into.\<close>

definition count_query :: "genv \<Rightarrow> association \<Rightarrow> db option \<times> world" where
  "count_query G a =
     (let r = relationship G a; sc = as_scope a; query = sc_db sc; w = as_world a
      in if rel_Kind r = ''many_to_many'' then
           (case rel_JoinTableHandler r of None \<Rightarrow> (None, w) | Some h \<Rightarrow> jth_JoinWith G h query (sc_Value sc) w)
         else if rel_Kind r \<in> {''has_many'', ''has_one''} then
           (map_option (\<lambda>keys. where_in G sc (rel_ForeignDBNames r) keys query)
             (getColumnAsArray G (rel_AssociationForeignFieldNames r) (sc_Value sc) w), w)
         else if rel_Kind r = ''belongs_to'' then
           (map_option (\<lambda>keys. where_in G sc (rel_AssociationForeignDBNames r) keys query)
             (getColumnAsArray G (rel_ForeignFieldNames r) (sc_Value sc) w), w)
         else (Some query, w))"

definition count_polymorphic :: "genv \<Rightarrow> gval \<Rightarrow> association \<Rightarrow> db \<Rightarrow> db" where
  "count_polymorphic G v a query =
     (let r = relationship G a; sc = as_scope a
      in if rel_PolymorphicType r \<noteq> []
         then DB_Where G (VStr (QuotedTableName G (Scope_New G v sc) @ ''.'' @ Scope_Quote sc (rel_PolymorphicDBName r) @ '' = ?''))
                [VStr (rel_PolymorphicValue r)] query
         else query)"

definition count_values :: "genv \<Rightarrow> chains \<Rightarrow> rtype \<Rightarrow> association \<Rightarrow> assoc_out \<times> gval option" where
  "count_values G C int_type a =
     (case field_interface G a of (v, w) \<Rightarrow>
      case count_query G (set_as_world w a) of
        (None, w) \<Rightarrow> (APanic (set_as_world w a), None)
      | (Some query, w) \<Rightarrow>
         (let a = set_as_world w a
          in case DB_Count G C int_type (DB_Model G v (count_polymorphic G v a query)) w of (x, n) \<Rightarrow> (set_result x a, n)))"

definition Association_Count :: "genv \<Rightarrow> chains \<Rightarrow> rtype \<Rightarrow> started \<Rightarrow> (started \<times> bool) \<times> gval option" where
  "Association_Count G C int_type x =
     (case x of
        NoAssociation e \<Rightarrow> ((x, False), None)
      | Started a \<Rightarrow> (case count_values G C int_type a of (y, n) \<Rightarrow> (returned y, n)))"

end
