(* ===== verification/SavingCalls.thy ===== *)
theory SavingCalls
  imports PreloadProps AssociationMode
begin

text \<open>
  What saving sends: queries, inserts, updates, and the begin and end of transactions; nothing that removes rows.  The locale
  \<open>saver\<close> carries this through the chains of creates and updates, with the nested saves of associations, and through the
  operations of association mode that do not concern a join table.
\<close>

section \<open>Calls that do not remove rows\<close>

definition saving_text :: "string \<Rightarrow> bool" where
  "saving_text sql = (has_prefix sql ''INSERT'' \<or> has_prefix sql ''UPDATE'')"

fun saving_call :: "dbcall \<Rightarrow> bool" where
  "saving_call (CallExec c sql vs) = saving_text sql"
| "saving_call CallClose = False"
| "saving_call _ = True"

definition saves :: "world \<Rightarrow> world \<Rightarrow> bool" where
  "saves w w' = (\<exists>cs. w_hist w' = w_hist w @ cs \<and> list_all saving_call cs)"

lemma saves_refl [simp]: "saves w w"
  by (simp add: saves_def)

lemma saves_trans: "saves a b \<Longrightarrow> saves b c \<Longrightarrow> saves a c"
  by (auto simp: saves_def)

lemma saves_hist: "w_hist b = w_hist a \<Longrightarrow> saves a b"
  by (simp add: saves_def)

lemma saves_after: "saves a b \<Longrightarrow> w_hist c = w_hist b \<Longrightarrow> saves a c"
  by (simp add: saves_def)

lemma saves_from: "w_hist b = w_hist a \<Longrightarrow> saves b c \<Longrightarrow> saves a c"
  by (simp add: saves_def)

lemma quiet_saves: "quiet a b \<Longrightarrow> saves (sc_w a) (sc_w b)"
  by (simp add: quiet_def saves_hist)

lemma silent_saves: "silent a b \<Longrightarrow> saves (sc_w a) (sc_w b)"
  by (simp add: silent_def saves_hist)

lemma one_query_saves: "one_query a b \<Longrightarrow> saves (sc_w a) (sc_w b)"
  by (auto simp: one_query_def saves_def)

lemma saves_call: "saves w (sc_w b) \<Longrightarrow> saving_call c \<Longrightarrow> saves w (sc_w (snd (scope_call G c b)))"
  by (auto simp: saves_def scope_call_result)

lemma saves_Exec: "saving_text (sc_SQL sc) \<Longrightarrow> saves (sc_w sc) (sc_w (Scope_Exec G sc))"
  by (auto simp: saves_def Exec_hist)

lemma saving_text_raw: "saving_text (sc_SQL (Scope_Raw (''INSERT'' @ s) sc))" "saving_text (sc_SQL (Scope_Raw (''UPDATE'' @ s) sc))"
  by (simp_all add: Scope_Raw_def saving_text_def replace_all_Cons has_prefix_def)

section \<open>The callbacks\<close>

lemma update_saves:
  assumes "updateCallback G sc = Done sc'" shows "saves (sc_w sc) (sc_w sc')"
proof (cases "HasError sc")
  case True
  then show ?thesis using assms by (simp add: updateCallback_def)
next
  case False
  obtain v b where g: "InstanceGet ''gorm:update_attrs'' sc = (v, b)" by fastforce
  have "calm sc (snd (InstanceGet ''gorm:update_attrs'' sc))" by (intro calm_intros)
  then have b: "calm sc b" by (simp add: g)
  let ?plain = "fold (field_assignment G) (Fields G (cache_fields G b)) ([], cache_fields G b)"
  have plain: "calm sc (snd ?plain)"
    using b by (intro fold_calm [where sel = snd] field_assignment_calm) (auto simp: cache_fields_def)
  have mapped: "calm sc (snd (attr_assignments m b))" for m using b by (rule attr_assignments_calm)
  let ?st = "case (v, b) of (Some (VMap m), sc) \<Rightarrow> attr_assignments m sc
      | (_, sc) \<Rightarrow> (let sc = cache_fields G sc in fold (field_assignment G) (Fields G sc) ([], sc))"
  have "calm sc (snd ?st)" using plain mapped by (cases v) (simp_all add: Let_def split: gval.split)
  moreover obtain sqls c where c: "?st = (sqls, c)" by fastforce
  ultimately have calm: "calm sc c" by simp
  show ?thesis
  proof (cases "sqls = []")
    case True
    then have "sc' = c" using assms False c by (simp add: updateCallback_def g)
    then show ?thesis using calm by (simp add: calm_quiet quiet_saves)
  next
    case _: False
    let ?sql = "'' '' @ QuotedTableName G c @ '' SET '' @ str_join '', '' sqls @ addExtraSpaceIfExist (fst (CombinedConditionSql G c))
      @ addExtraSpaceIfExist (setting_text c ''gorm:update_option'')"
    let ?raw = "Scope_Raw (''UPDATE'' @ ?sql) (snd (CombinedConditionSql G c))"
    have sc': "sc' = Scope_Exec G ?raw" using assms False c \<open>sqls \<noteq> []\<close> by (simp add: updateCallback_def g Let_def case_prod_unfold)
    have "calm sc ?raw" using calm by (intro calm_intros)
    then show ?thesis unfolding sc' using saves_trans [OF quiet_saves [OF calm_quiet] saves_Exec] saving_text_raw(2) by blast
  qed
qed

lemma create_exec_saves: "saving_text (sc_SQL a) \<Longrightarrow> saves (sc_w a) (sc_w (create_exec G p a))"
proof -
  assume a: "saving_text (sc_SQL a)"
  let ?c = "CallExec (db_conn (sc_db a)) (sc_SQL a) (sc_SQLVars a)"
  have "w_hist (sc_w (create_exec G p a)) = w_hist (sc_w (snd (scope_call G ?c a)))"
    by (simp add: create_exec_def case_prod_unfold Let_def set_rows_affected_def set_field_def Scope_Err_def
        split: option.split sum.split)
  moreover have "saves (sc_w a) (sc_w (snd (scope_call G ?c a)))" using a by (intro saves_call) simp_all
  ultimately show ?thesis by (rule saves_after [rotated])
qed

lemma create_query_saves: "saves (sc_w a) (sc_w (create_query G i a))"
proof -
  let ?c = "CallQueryRow (db_conn (sc_db a)) (sc_SQL a) (sc_SQLVars a)"
  have sent: "saves (sc_w a) (sc_w (snd (scope_call G ?c a)))" by (intro saves_call) simp_all
  have "w_hist (sc_w (create_query G i a)) = w_hist (sc_w (snd (scope_call G ?c a))) \<or> w_hist (sc_w (create_query G i a)) = w_hist (sc_w a)"
    by (auto simp: create_query_def case_prod_unfold set_rows_affected_def scan_identity_def Let_def Scope_Err_def
        split: fref.split option.split)
  then show ?thesis using saves_after [OF sent] saves_hist by blast
qed

lemma insert_text_insert: "\<exists>s. insert_text G sc columns placeholders interstitial returning = ''INSERT'' @ s"
  by (simp add: insert_text_def Let_def)

lemma create_saves:
  assumes "createCallback G sc = Done sc'" shows "saves (sc_w sc) (sc_w sc')"
proof (cases "HasError sc")
  case True
  then show ?thesis using assms by (simp add: createCallback_def)
next
  case False
  let ?st = "fold (create_column G) (Fields G sc) ([], [], [], cache_fields G sc)"
  have st: "calm sc (create_scope ?st)"
    by (rule fold_calm [where sel = create_scope]) (auto intro: create_column_calm simp: cache_fields_def)
  have raw: "calm sc (Scope_Raw sql (create_scope ?st))" for sql using st by (intro calm_intros)
  have inserted: "saving_text (sc_SQL (Scope_Raw (insert_text G d a b c e) s))" for d a b c e s
    using insert_text_insert [of G d a b c e] saving_text_raw(1) by metis
  have "saves (sc_w sc) (sc_w (create_exec G p (Scope_Raw (insert_text G d a b c e) (create_scope ?st))))" for p d a b c e
    by (rule saves_trans [OF quiet_saves [OF calm_quiet [OF raw]] create_exec_saves [OF inserted]])
  moreover have "saves (sc_w sc) (sc_w (create_query G i (Scope_Raw (insert_text G d a b c e) (create_scope ?st))))" for i d a b c e
    by (rule saves_trans [OF quiet_saves [OF calm_quiet [OF raw]] create_query_saves])
  ultimately show ?thesis
    using assms False by (auto simp: createCallback_def Let_def case_prod_unfold split: option.splits if_splits)
qed

lemma begin_saves: "saves (sc_w sc) (sc_w (Scope_Begin G sc))"
proof -
  obtain t w where f: "fresh (sc_w sc) = (t, w)" by fastforce
  then have w: "w_hist w = w_hist (sc_w sc)" using fresh_hist [of "sc_w sc"] by simp
  let ?b = "snd (scope_call G (CallBegin t) (sc\<lparr>sc_w := w\<rparr>))"
  have sent: "saves (sc_w sc) (sc_w ?b)" by (intro saves_call) (simp_all add: saves_hist w)
  have "w_hist (sc_w (InstanceSet n v s)) = w_hist (sc_w s)" for n v s
    using calm_InstanceSet [OF calm_refl, where name = n and v = v and a = s] by (simp add: calm_def quiet_def)
  then have "sc_w (Scope_Begin G sc) = sc_w sc \<or> w_hist (sc_w (Scope_Begin G sc)) = w_hist (sc_w ?b)"
    by (simp add: Scope_Begin_def f case_prod_unfold split: option.split)
  then show ?thesis using saves_after [OF sent] by auto
qed

lemma end_saves: "saves (sc_w sc) (sc_w (CommitOrRollback G sc))"
proof -
  obtain v b where g: "InstanceGet ''gorm:started_transaction'' sc = (v, b)" by fastforce
  have "silent sc (snd (InstanceGet ''gorm:started_transaction'' sc))" by (intro silent_intros)
  then have b: "saves (sc_w sc) (sc_w b)" by (simp add: g silent_saves)
  have "saves (sc_w b) (sc_w (snd (scope_call G (CallRollback t) b)))" "saves (sc_w b) (sc_w (snd (scope_call G (CallCommit t) b)))" for t
    by (intro saves_call, simp_all)+
  then have "saves (sc_w b) (sc_w (CommitOrRollback G sc))"
    by (simp add: CommitOrRollback_def g Let_def case_prod_unfold split: conn.split)
  then show ?thesis using b saves_trans by blast
qed

section \<open>Composition\<close>

lemma and_then_Done: "and_then x f = Done s \<Longrightarrow> \<exists>t. x = Done t \<and> f t = Done s"
  by (cases x) simp_all

lemma calm_saves: "calm sc (out_scope x) \<Longrightarrow> x = Done sc' \<Longrightarrow> saves (sc_w sc) (sc_w sc')"
  using quiet_saves [OF calm_quiet, of sc sc'] by simp

lemma Err_saves: "saves w (sc_w sc) \<Longrightarrow> saves w (sc_w (Scope_Err e sc))"
  by (simp add: Scope_Err_def)

definition all_saving :: "callback list \<Rightarrow> bool" where
  "all_saving fs = list_all (\<lambda>f. \<forall>s s'. f s = Done s' \<longrightarrow> saves (sc_w s) (sc_w s')) fs"

lemma run_saves: "all_saving fs \<Longrightarrow> run_callbacks fs s = Done s' \<Longrightarrow> saves (sc_w s) (sc_w s')"
proof (induction fs arbitrary: s)
  case (Cons f fs)
  obtain t where t: "f s = Done t" "t = s' \<or> run_callbacks fs t = Done s'" using run_one [OF Cons.prems(2)] by blast
  have "saves (sc_w s) (sc_w t)" using Cons.prems(1) t(1) by (simp add: all_saving_def)
  moreover have "t = s' \<or> saves (sc_w t) (sc_w s')" using Cons.IH [of t] Cons.prems(1) t(2) by (auto simp: all_saving_def)
  ultimately show ?case using saves_trans by blast
qed simp

lemma call_saves: "all_saving fs \<Longrightarrow> callCallbacks G fs s = Done s' \<Longrightarrow> saves (sc_w s) (sc_w s')"
  using run_saves callCallbacks_Done by blast

lemma new_scope_world [simp]: "sc_w (NewScope G d v w) = w" "sc_w (Scope_New G v sc) = sc_w sc"
  by (simp_all add: NewScope_def Scope_New_def new_scope_def)

lemma touch_world [simp]: "sc_w (touch_primary G sc) = sc_w sc" "sc_w (cache_fields G sc) = sc_w sc"
  by (simp_all add: touch_primary_def cache_fields_def)

lemma set_world [simp]: "sc_w (Scope_Set n v sc) = sc_w sc"
  by (simp add: Scope_Set_def)

lemma instance_set_hist [simp]: "w_hist (sc_w (InstanceSet n v sc)) = w_hist (sc_w sc)"
  using calm_InstanceSet [OF calm_refl, where name = n and v = v and a = sc] by (simp add: calm_def quiet_def)

lemma inline_world [simp]: "sc_w (inlineCondition cs sc) = sc_w sc"
  by (simp add: inlineCondition_def split: list.split)

lemma set_field_hist [simp]: "w_hist (sc_w (snd (set_field G i v sc))) = w_hist (sc_w sc)"
  using silent_set_field [OF silent_refl, of sc G i v] by (simp add: silent_def)

lemma SetColumn_hist [simp]: "w_hist (sc_w (snd (SetColumn G n v sc))) = w_hist (sc_w sc)"
  using SetColumn_calm [OF calm_refl, of sc G n v] by (simp add: calm_def quiet_def)

lemma apply_attrs_hist [simp]: "w_hist (sc_w (apply_attrs G v sc)) = w_hist (sc_w sc)"
  using apply_attrs_calm [OF calm_refl, of sc G v] by (simp add: calm_def quiet_def)

lemma initialize_hist [simp]: "w_hist (sc_w (initialize G sc)) = w_hist (sc_w sc)"
proof -
  have "w_hist (sc_w (fold (\<lambda>clause. apply_attrs G (f clause)) cs s)) = w_hist (sc_w s)" for f cs s
    by (induction cs arbitrary: s) simp_all
  then show ?thesis by (simp add: initialize_def Let_def)
qed

text \<open>An entry of a join table is an insert.\<close>

lemma insert_condition:
  "\<exists>s. trim_suffix (trim_prefix (fst (buildCondition G (VStr (''INSERT'' @ r), vs) True sc)) ''('') '')'' = ''INSERT'' @ s"
proof -
  have "\<not> is_re_space (CHR ''I'')" "\<not> is_digit (CHR ''I'')" by code_simp+
  then have number: "\<not> is_number_string (''INSERT'' @ r)" by (simp add: starts_upper_not_number)
  have "\<exists>s. fst (buildCondition G (VStr (''INSERT'' @ r), vs) True sc) = ''(INSERT'' @ s"
  proof -
    have "fill_marks (''(INSERT'' @ r @ '')'') rs = ''(INSERT'' @ fill_marks (r @ '')'') rs" for rs
      using fill_marks_no_mark [of "''(INSERT''" "r @ '')''" rs] by simp
    then show ?thesis using number
      by (simp add: buildCondition_def is_key_slice_def fill_condition_def Let_def case_prod_unfold)
  qed
  then obtain s where s: "fst (buildCondition G (VStr (''INSERT'' @ r), vs) True sc) = ''(INSERT'' @ s" ..
  have t: "trim_prefix (''(INSERT'' @ s) ''('' = ''INSERT'' @ s" by (simp add: trim_prefix_def has_prefix_def)
  have "\<exists>s'. trim_suffix (''INSERT'' @ s) '')'' = ''INSERT'' @ s'"
  proof (cases s rule: rev_cases)
    case Nil
    then show ?thesis by (simp add: trim_suffix_def has_suffix_def)
  next
    case (snoc xs x)
    then show ?thesis by (auto simp: trim_suffix_def has_suffix_def)
  qed
  then show ?thesis unfolding s t .
qed

lemma join_add_saves: "jth_Add G h d source destination w = (e, w') \<Longrightarrow> saves w w'"
proof -
  assume add: "jth_Add G h d source destination w = (e, w')"
  have exec: "saves w (sc_w (DB_Exec G (''INSERT'' @ r) vs d w))" for r vs
  proof -
    let ?b = "buildCondition G (VStr (''INSERT'' @ r), vs) True (NewScope G d VNil w)"
    let ?raw = "Scope_Raw (trim_suffix (trim_prefix (fst ?b) ''('') '')'') (snd ?b)"
    have "silent (NewScope G d VNil w) ?raw" by (intro silent_intros)
    then have "saves w (sc_w ?raw)" using silent_saves by fastforce
    moreover have "saving_text (sc_SQL ?raw)"
      using insert_condition [of G r vs "NewScope G d VNil w"] saving_text_raw(1) by metis
    ultimately show ?thesis unfolding DB_Exec_def case_prod_unfold using saves_trans saves_Exec by blast
  qed
  have "\<exists>r. insert_missing_sql s t ks = ''INSERT'' @ r" for s t ks by (simp add: insert_missing_sql_def Let_def)
  then show ?thesis using add exec by (auto simp: jth_Add_def Let_def) metis
qed

lemma take_keys_saves: "take_foreign_keys G v names assocs sc = Done sc' \<Longrightarrow> saves (sc_w sc) (sc_w sc')"
proof (induction G v names assocs sc rule: take_foreign_keys.induct)
  case (3 G v name names assoc assocs sc)
  let ?ns = "Scope_New G v sc"
  let ?next = "case FieldByName G ?ns assoc of
      Some i \<Rightarrow> (case SetColumn G name (field_value (sc_w sc) (field_at G ?ns i)) sc of (e, sc) \<Rightarrow> Scope_Err e sc) | None \<Rightarrow> sc"
  have "w_hist (sc_w ?next) = w_hist (sc_w sc)" by (simp add: Scope_Err_def case_prod_unfold split: option.split)
  moreover have "saves (sc_w ?next) (sc_w sc')" using 3 by (simp add: Let_def)
  ultimately show ?case by (rule saves_from)
qed simp_all

lemma each_field_saves:
  assumes "\<forall>i s s'. step i s = Done s' \<longrightarrow> saves (sc_w s) (sc_w s')"
  shows "each_field step is sc = Done sc' \<Longrightarrow> saves (sc_w sc) (sc_w sc')"
proof (induction "is" arbitrary: sc)
  case (Cons i "is")
  obtain t where t: "step i sc = Done t" "each_field step is t = Done sc'" using and_then_Done [OF Cons.prems [simplified]] by blast
  show ?case using assms t(1) Cons.IH [OF t(2)] saves_trans by blast
qed simp

lemma set_in_new_hist: "w_hist (sc_w (snd (set_in_new G n v (ns, sc)))) = w_hist (sc_w sc)"
  by (simp add: set_in_new_def case_prod_unfold Scope_Err_def)

lemma give_keys_hist: "give_foreign_keys G names assocs st = Some st' \<Longrightarrow> w_hist (sc_w (snd st')) = w_hist (sc_w (snd st))"
  by (induction G names assocs st rule: give_foreign_keys.induct) (auto simp: set_in_new_hist split: option.splits)

lemma give_reference_hist: "give_reference G r k st = Some st' \<Longrightarrow> w_hist (sc_w (snd st')) = w_hist (sc_w (snd st))"
  by (cases st) (auto simp: give_reference_def set_in_new_hist dest: give_keys_hist split: if_splits)

lemma query_saving: "is_query_on c x \<Longrightarrow> saving_call x"
  by (cases x) simp_all

lemma preload_at_saves:
  assumes "quiet_hooks hooks" "keeps_connection P" "preload_at m G P hooks s = Done s'" shows "saves (sc_w s) (sc_w s')"
proof -
  obtain k where k: "m = Suc k" using assms(3) by (cases m) simp_all
  then obtain ps where "reads (of_nat (card (association_paths ps)) * \<infinity>) s s'"
    using nested.preload_reads [of hooks P s G k s'] assms by (auto simp: list_all_iff)
  then show ?thesis using query_saving by (auto simp: reads_def asked_def saves_def list_all_iff)
qed

section \<open>Association mode\<close>

lemma as_world_simps [simp]:
  "as_world (set_as_world w a) = w" "as_world (setErr e a) = as_world a" "as_world (a\<lparr>as_scope := sc\<rparr>) = sc_w sc"
  "sc_w (as_scope a) = as_world a"
  by (simp_all add: as_world_def set_as_world_def setErr_def)

lemma then_do_Done: "then_do x f = ADone a \<Longrightarrow> \<exists>b. x = ADone b \<and> f b = ADone a"
  by (cases x) simp_all

lemma set_result_Done: "set_result x a = ADone b \<Longrightarrow> \<exists>s. x = Done s \<and> as_world b = sc_w s"
  by (cases x) (auto simp: set_result_def)

lemma pointer_to_hist: "pointer_to G p w = (v, w') \<Longrightarrow> w_hist w' = w_hist w"
proof -
  have "w_hist (snd (pointer_to G p w)) = w_hist w"
    by (simp add: pointer_to_def fresh_def split: gval.split option.split prod.split)
  then show "pointer_to G p w = (v, w') \<Longrightarrow> w_hist w' = w_hist w" by simp
qed

lemma assign_field_hist [simp]: "w_hist (as_world (assign_field G v a)) = w_hist (as_world a)"
proof -
  obtain u w where c: "copy_value type_fuel G (the_type G a) v (as_world a) = (u, w)" by fastforce
  then have "w_hist w = w_hist (as_world a)" using copy_value_hist [of type_fuel G "the_type G a" v "as_world a"] by simp
  then show ?thesis by (simp add: assign_field_def c)
qed

lemma append_to_field_hist [simp]: "w_hist (as_world (append_to_field G v a)) = w_hist (as_world a)"
  by (simp add: append_to_field_def case_prod_unfold)

lemma assign_value_hist: "assign_value G v a = (b, a') \<Longrightarrow> w_hist (as_world a') = w_hist (as_world a)"
  by (auto simp: assign_value_def Let_def split: option.splits if_splits)

lemma copy_into_hist [simp]: "w_hist (copy_into G src dst w) = w_hist w"
proof -
  have "w_hist u = w_hist w" if "copy_value type_fuel G t v w = (x, u)" for t v x u
    using copy_value_hist [of type_fuel G t v w] that by simp
  then show ?thesis by (auto simp: copy_into_def split: gval.split option.split prod.split)
qed

lemma set_back_hist: "set_value_back G b v a = ADone a' \<Longrightarrow> w_hist (as_world a') = w_hist (as_world a)"
  by (auto simp: set_value_back_def split: set_back.splits list.splits)

lemma new_value_hist: "new_value G t w = (v, w') \<Longrightarrow> w_hist w' = w_hist w"
proof -
  have "w_hist (snd (new_value G t w)) = w_hist w"
    by (simp add: new_value_def new_object_def fresh_def split: kind.split)
  then show "new_value G t w = (v, w') \<Longrightarrow> w_hist w' = w_hist w" by simp
qed

lemma field_interface_hist: "field_interface G a = (v, w) \<Longrightarrow> w_hist w = w_hist (as_world a)"
  by (auto simp: field_interface_def dest: new_value_hist split: gval.splits option.splits)

lemma except_new_hist: "except_new G a d = Some (d', a') \<Longrightarrow> w_hist (as_world a') = w_hist (as_world a)"
  by (auto simp: except_new_def Let_def dest: field_interface_hist split: option.splits prod.splits)

lemma remove_deleted_hist: "remove_deleted G names ks a = ADone a' \<Longrightarrow> w_hist (as_world a') = w_hist (as_world a)"
  by (auto simp: remove_deleted_def Let_def split: kind.splits option.splits prod.splits)

section \<open>Saving\<close>

text \<open>
  Given what the hooks, the preloading after a query and the nested saves send, \<open>ok\<close> being whatever they need for it.
\<close>

locale saver =
  fixes G :: genv and hooks :: hooks and pre :: callback and save :: save_fun and ok :: bool
  assumes hook: "ok \<Longrightarrow> call_hook G hooks name s = Done s' \<Longrightarrow> saves (sc_w s) (sc_w s')"
    and preload: "ok \<Longrightarrow> pre s = Done s' \<Longrightarrow> saves (sc_w s) (sc_w s')"
    and nested: "ok \<Longrightarrow> save d v w = Done s \<Longrightarrow> saves w (sc_w s)"

context saver begin

lemma hooks_save: "ok \<Longrightarrow> and_then (call_hook G hooks m s) (call_hook G hooks n) = Done s' \<Longrightarrow> saves (sc_w s) (sc_w s')"
  by (auto dest!: and_then_Done intro: saves_trans [OF hook hook])

lemma query_chain_saves: "ok \<Longrightarrow> all_saving (query_chain G hooks pre)"
  using query_asks [of _ G, THEN one_query_saves]
  by (auto simp: all_saving_def query_chain_def afterQueryCallback_def intro: hook preload) (metis out_scope.simps(1))

lemma find_saves: "ok \<Longrightarrow> callCallbacks G (query_chain G hooks pre) s = Done s' \<Longrightarrow> saves (sc_w s) (sc_w s')"
  using call_saves query_chain_saves by blast

lemma save_value_saves: "ok \<Longrightarrow> save_value save d v sc = Done sc' \<Longrightarrow> saves (sc_w sc) (sc_w sc')"
  using nested [of d v "sc_w sc"] by (auto simp: save_value_def Scope_Err_def split: outcome.splits if_splits)

lemma wanted_saves: "ok \<Longrightarrow> save_if_wanted save z c u d v sc = Done sc' \<Longrightarrow> saves (sc_w sc) (sc_w sc')"
  using save_value_saves by (auto simp: save_if_wanted_def split: if_splits)

lemma before_field_saves:
  assumes ok "save_before_field G save i sc = Done sc'" shows "saves (sc_w sc) (sc_w sc')"
proof (cases "saveAssociationCheck sc (field_at G sc i)")
  case (Some c)
  obtain u cr rf r where c: "c = (u, cr, rf, r)" by (cases c)
  show ?thesis
  proof (cases "rel_Kind r = ''belongs_to''")
    case True
    let ?v = "field_value (sc_w sc) (field_at G sc i)"
    obtain t where t: "save_if_wanted save (PrimaryKeyZero G (Scope_New G ?v sc)) cr u (Scope_NewDB G sc) ?v sc = Done t"
        "(if rf then take_foreign_keys G ?v (rel_ForeignFieldNames r) (rel_AssociationForeignDBNames r) t else Done t) = Done sc'"
      using and_then_Done assms(2) True by (fastforce simp: save_before_field_def Some c Let_def)
    have "saves (sc_w t) (sc_w sc')" using t(2) take_keys_saves by (auto split: if_splits)
    then show ?thesis using wanted_saves [OF assms(1) t(1)] saves_trans by blast
  qed (use assms(2) Some c in \<open>simp add: save_before_field_def Let_def\<close>)
qed (use assms(2) in \<open>simp add: save_before_field_def Let_def\<close>)

lemma before_saves:
  assumes ok "saveBeforeAssociationsCallback G save sc = Done sc'" shows "saves (sc_w sc) (sc_w sc')"
proof -
  have "each_field (save_before_field G save) [0..<length (Fields G (cache_fields G sc))] (cache_fields G sc) = Done sc'"
    using assms(2) by (simp add: saveBeforeAssociationsCallback_def Let_def)
  then have "saves (sc_w (cache_fields G sc)) (sc_w sc')" using before_field_saves [OF assms(1)] by (intro each_field_saves) auto
  then show ?thesis by simp
qed

lemma element_saves:
  assumes ok "save_element G save check elem sc = Done sc'" shows "saves (sc_w sc) (sc_w sc')"
proof -
  obtain u cr rf r where c: "check = (u, cr, rf, r)" by (cases check)
  let ?newDB = "Scope_NewDB G sc"
  let ?given = "if rf then give_reference G r (rel_JoinTableHandler r = None) (NewScope G ?newDB elem (sc_w sc), sc)
      else Some (NewScope G ?newDB elem (sc_w sc), sc)"
  obtain ns sc1 where given: "?given = Some (ns, sc1)"
    using assms(2) by (cases ?given) (auto simp: save_element_def c Let_def)
  then have hist: "w_hist (sc_w sc1) = w_hist (sc_w sc)" by (auto dest: give_reference_hist split: if_splits)
  obtain t where t: "save_if_wanted save (PrimaryKeyZero G (ns\<lparr>sc_w := sc_w sc1\<rparr>)) cr u ?newDB elem sc1 = Done t"
      "(if rf \<and> \<not> PrimaryKeyZero G (Scope_New G elem t)
        then (case rel_JoinTableHandler r of
                Some h \<Rightarrow> (case jth_Add G h ?newDB (sc_Value t) elem (sc_w t) of (e, w) \<Rightarrow> Done (Scope_Err e (t\<lparr>sc_w := w\<rparr>)))
              | None \<Rightarrow> Done t)
        else Done t) = Done sc'"
    using assms(2) given by (auto simp: save_element_def c Let_def dest!: and_then_Done)
  have "saves (sc_w t) (sc_w sc')"
  proof (cases "jth_Add G (the (rel_JoinTableHandler r)) ?newDB (sc_Value t) elem (sc_w t)")
    case (Pair e w)
    then show ?thesis using t(2) join_add_saves [OF Pair] by (auto intro: Err_saves split: if_splits option.splits)
  qed
  then show ?thesis using saves_from [OF hist wanted_saves [OF assms(1) t(1)]] saves_trans by blast
qed

lemma elements_save: "ok \<Longrightarrow> save_elements G save check vs sc = Done sc' \<Longrightarrow> saves (sc_w sc) (sc_w sc')"
proof (induction vs arbitrary: sc)
  case (Cons v vs)
  obtain t where t: "save_element G save check v sc = Done t" "save_elements G save check vs t = Done sc'"
    using and_then_Done [OF Cons.prems(2) [simplified]] by blast
  show ?case using element_saves [OF Cons.prems(1) t(1)] Cons.IH [OF Cons.prems(1) t(2)] saves_trans by blast
qed simp

lemma single_saves:
  assumes ok "save_single G save check elem sc = Done sc'" shows "saves (sc_w sc) (sc_w sc')"
proof -
  obtain u cr rf r where c: "check = (u, cr, rf, r)" by (cases check)
  let ?given = "if rf then give_reference G r True (Scope_New G elem sc, sc) else Some (Scope_New G elem sc, sc)"
  obtain ns sc1 where given: "?given = Some (ns, sc1)"
    using assms(2) by (cases ?given) (auto simp: save_single_def c Let_def)
  then have hist: "w_hist (sc_w sc1) = w_hist (sc_w sc)" by (auto dest: give_reference_hist split: if_splits)
  have "save_if_wanted save (PrimaryKeyZero G (ns\<lparr>sc_w := sc_w sc1\<rparr>)) cr u (Scope_NewDB G sc1) elem sc1 = Done sc'"
    using assms(2) given by (simp add: save_single_def c Let_def)
  then show ?thesis using saves_from [OF hist] wanted_saves [OF assms(1)] by blast
qed

lemma after_field_saves: "ok \<Longrightarrow> save_after_field G save i sc = Done sc' \<Longrightarrow> saves (sc_w sc) (sc_w sc')"
  by (auto simp: save_after_field_def Let_def intro: elements_save single_saves split: option.splits if_splits gval.splits)

lemma after_saves:
  assumes ok "saveAfterAssociationsCallback G save sc = Done sc'" shows "saves (sc_w sc) (sc_w sc')"
proof -
  have "each_field (save_after_field G save) [0..<length (Fields G (cache_fields G sc))] (cache_fields G sc) = Done sc'"
    using assms(2) by (simp add: saveAfterAssociationsCallback_def Let_def)
  then have "saves (sc_w (cache_fields G sc)) (sc_w sc')" using after_field_saves [OF assms(1)] by (intro each_field_saves) auto
  then show ?thesis by simp
qed

lemma reload_saves:
  assumes ok "forceReloadAfterCreateCallback G (query_chain G hooks pre) sc = Done sc'" shows "saves (sc_w sc) (sc_w sc')"
proof -
  obtain v b where g: "InstanceGet ''gorm:blank_columns_with_default_value'' sc = (v, b)" by fastforce
  have "silent sc (snd (InstanceGet ''gorm:blank_columns_with_default_value'' sc))" by (intro silent_intros)
  then have b: "w_hist (sc_w b) = w_hist (sc_w sc)" by (simp add: g silent_def)
  have scan: "saves w (sc_w s)" if "DB_Scan G (query_chain G hooks pre) v d w = Done s" for v d w s
    using find_saves [OF assms(1)] that by (fastforce simp: DB_Scan_def)
  have "saves (sc_w b) (sc_w sc')"
    using assms(2) scan by (auto simp: forceReloadAfterCreateCallback_def g Let_def split: option.splits if_splits outcome.splits)
  then show ?thesis using b saves_from by blast
qed

lemma before_update_saves:
  assumes ok "beforeUpdateCallback G hooks sc = Done sc'" shows "saves (sc_w sc) (sc_w sc')"
proof -
  let ?b = "if HasBlockGlobalUpdate (sc_db sc) then touch_primary G sc else sc"
  have "sc_w ?b = sc_w sc" by simp
  moreover have "saves (sc_w ?b) (sc_w (scope_error m ?b))" for m by (intro silent_saves silent_intros)
  moreover note hooks_save [OF assms(1), of _ ?b]
  ultimately show ?thesis using assms(2) by (auto simp: beforeUpdateCallback_def Let_def split: if_splits)
qed

lemma after_update_saves: "ok \<Longrightarrow> afterUpdateCallback G hooks sc = Done sc' \<Longrightarrow> saves (sc_w sc) (sc_w sc')"
  by (auto simp: afterUpdateCallback_def intro: hooks_save split: if_splits)

lemma update_chain_saves: "ok \<Longrightarrow> all_saving (update_chain G hooks save)"
  by (auto simp: all_saving_def update_chain_def beginTransactionCallback_def commitOrRollbackTransactionCallback_def
      intro: begin_saves end_saves update_saves before_saves after_saves before_update_saves after_update_saves
        calm_saves [OF assign_calm] calm_saves [OF update_time_calm])

lemma create_chain_saves: "ok \<Longrightarrow> all_saving (create_chain G hooks (query_chain G hooks pre) save)"
  by (auto simp: all_saving_def create_chain_def beginTransactionCallback_def commitOrRollbackTransactionCallback_def
      beforeCreateCallback_def afterCreateCallback_def
      intro: begin_saves end_saves create_saves before_saves after_saves hooks_save reload_saves calm_saves [OF create_time_calm])

abbreviation C :: chains where
  "C \<equiv> default_chains G hooks pre save"

lemma creates: "ok \<Longrightarrow> callCallbacks G (ch_creates C) s = Done s' \<Longrightarrow> saves (sc_w s) (sc_w s')"
  using call_saves [OF create_chain_saves] by (simp add: default_chains_def)

lemma updates: "ok \<Longrightarrow> callCallbacks G (ch_updates C) s = Done s' \<Longrightarrow> saves (sc_w s) (sc_w s')"
  using call_saves [OF update_chain_saves] by (simp add: default_chains_def)

lemma queries: "ok \<Longrightarrow> callCallbacks G (ch_queries C) s = Done s' \<Longrightarrow> saves (sc_w s) (sc_w s')"
  using find_saves by (simp add: default_chains_def)

lemma first_or_create_saves:
  assumes ok "FirstOrCreate G C out conds s w = Done sc'" shows "saves w (sc_w sc')"
proof -
  let ?c = "DB_clone G s"
  obtain t where t: "DB_First G C out conds s w = Done t"
      "(if db_Error (sc_db t) \<noteq> None then
          (if \<not> RecordNotFound (sc_db t) then Done t
           else callCallbacks G (ch_creates C) (initialize G (inlineCondition conds (NewScope G ?c out (sc_w t)))))
        else if assignAttrs (clone_search ?c) \<noteq> [] then
          callCallbacks G (ch_updates C)
            (InstanceSet ''gorm:update_interface'' (VList (assignAttrs (clone_search ?c))) (NewScope G ?c out (sc_w t)))
        else Done (in_world ?c (sc_w t))) = Done sc'"
    using and_then_Done [OF assms(2) [unfolded FirstOrCreate_def Let_def]] by blast
  have "saves w (sc_w t)"
    using queries [OF assms(1) t(1) [unfolded DB_First_def]] by (simp add: limit_scope_def)
  moreover have "saves (sc_w t) (sc_w sc')"
  proof -
    consider "sc' = t" | x where "callCallbacks G (ch_creates C) x = Done sc'" "w_hist (sc_w x) = w_hist (sc_w t)"
      | x where "callCallbacks G (ch_updates C) x = Done sc'" "w_hist (sc_w x) = w_hist (sc_w t)" | "sc_w sc' = sc_w t"
      using t(2) by (force simp: in_world_def new_scope_def split: if_splits)
    then show ?thesis
    proof cases
      case 2
      then show ?thesis using creates [OF assms(1)] saves_from by blast
    next
      case 3
      then show ?thesis using updates [OF assms(1)] saves_from by blast
    qed simp_all
  qed
  ultimately show ?thesis by (rule saves_trans)
qed

lemma save_saves:
  assumes ok "DB_Save G C v d w = Done sc'" shows "saves w (sc_w sc')"
proof -
  let ?sc = "touch_primary G (NewScope G d v w)"
  have w: "sc_w ?sc = w" by simp
  show ?thesis
  proof (cases "PrimaryKeyZero G ?sc")
    case True
    then have "callCallbacks G (ch_creates C) ?sc = Done sc'" using assms(2) by (simp add: DB_Save_def Let_def)
    then show ?thesis using creates [OF assms(1), of ?sc] w by simp
  next
    case False
    then obtain t where t: "callCallbacks G (ch_updates C) ?sc = Done t"
        "(if db_Error (sc_db t) = None \<and> db_RowsAffected (sc_db t) = 0
          then FirstOrCreate G C v [] (DB_Table G (TableName G t) (DB_New G d)) (sc_w t) else Done t) = Done sc'"
      using assms(2) by (auto simp: DB_Save_def Let_def dest!: and_then_Done)
    have "saves w (sc_w t)" using updates [OF assms(1) t(1)] w by simp
    moreover have "saves (sc_w t) (sc_w sc')" using t(2) first_or_create_saves [OF assms(1)] by (auto split: if_splits)
    ultimately show ?thesis by (rule saves_trans)
  qed
qed

lemma update_column_saves: "ok \<Longrightarrow> UpdateColumn G C attrs d w = Done s \<Longrightarrow> saves w (sc_w s)"
proof -
  assume ok
  show "UpdateColumn G C attrs d w = Done s \<Longrightarrow> saves w (sc_w s)"
    unfolding UpdateColumn_def UpdateColumns_def by (rule saves_from [OF _ updates [OF \<open>ok\<close>]]) simp_all
qed

lemma result_saves:
  assumes "set_result x a = ADone b" "\<And>s. x = Done s \<Longrightarrow> saves w (sc_w s)" shows "saves w (as_world b)"
  using set_result_Done [OF assms(1)] assms(2) by auto

lemma save_association_saves:
  assumes ok "save_association G C p a = ADone a'" shows "saves (as_world a) (as_world a')"
proof -
  obtain v w where v: "pointer_to G p (as_world a) = (v, w)" by fastforce
  let ?a = "set_as_world w a" and ?r = "relationship G (set_as_world w a)"
  let ?many = "rel_Kind ?r = ''many_to_many''"
  obtain b where b: "(if ?many \<and> PrimaryKeyZero G (Scope_New G v (as_scope ?a))
      then set_result (DB_Save G C v (new_DB G ?a) (as_world ?a)) ?a else ADone ?a) = ADone b"
    and rest: "(case assign_value G v b of (k, a) \<Rightarrow>
       if ?many then
         (case rel_JoinTableHandler ?r of
            None \<Rightarrow> APanic a
          | Some h \<Rightarrow> (case jth_Add G h (new_DB G a) (sc_Value (as_scope a)) v (as_world a) of (e, w) \<Rightarrow> ADone (setErr e (set_as_world w a))))
       else then_do
              (set_result (DB_Save G C (sc_Value (as_scope a)) (DB_Select G (VStr (f_Name (the_field G a))) [] (new_DB G a)) (as_world a)) a)
              (set_value_back G k v)) = ADone a'"
    using then_do_Done [OF assms(2) [unfolded save_association_def v prod.case Let_def]] by (elim exE conjE) (rule that)
  have "saves (as_world a) (as_world b)"
    using b save_saves [OF assms(1), of v "new_DB G ?a" w] pointer_to_hist [OF v]
    by (auto intro: result_saves saves_from saves_hist split: if_splits)
  moreover have "saves (as_world b) (as_world a')"
  proof -
    obtain k c where c: "assign_value G v b = (k, c)" by fastforce
    have "saves (as_world c) (as_world a')"
    proof (cases ?many)
      case True
      then show ?thesis using rest by (auto simp: c dest: join_add_saves split: option.splits prod.splits)
    next
      case False
      then obtain d where d: "set_result (DB_Save G C (sc_Value (as_scope c))
          (DB_Select G (VStr (f_Name (the_field G c))) [] (new_DB G c)) (as_world c)) c = ADone d" "set_value_back G k v d = ADone a'"
        using rest by (auto simp: c dest: then_do_Done)
      then show ?thesis by (intro saves_after [OF result_saves [OF d(1) save_saves [OF assms(1)]] set_back_hist [OF d(2)]])
    qed
    then show ?thesis using saves_from assign_value_hist [OF c] by blast
  qed
  ultimately show ?thesis by (rule saves_trans)
qed

lemma each_saves: "ok \<Longrightarrow> save_each G C ps a = ADone a' \<Longrightarrow> saves (as_world a) (as_world a')"
proof (induction ps arbitrary: a)
  case (Cons p ps)
  obtain b where b: "save_association G C p a = ADone b" "save_each G C ps b = ADone a'"
    using then_do_Done [OF Cons.prems(2) [simplified]] by blast
  show ?case using save_association_saves [OF Cons.prems(1) b(1)] Cons.IH [OF Cons.prems(1) b(2)] saves_trans by blast
qed simp

lemma associations_save: "ok \<Longrightarrow> saveAssociations G C vs a = ADone a' \<Longrightarrow> saves (as_world a) (as_world a')"
proof (induction vs arbitrary: a)
  case (Cons v vs)
  let ?x = "case argument_values G (as_world a) v of
      Some ps \<Rightarrow> save_each G C ps a
    | None \<Rightarrow> (case new_error ''invalid value type'' (as_world a) of (e, w) \<Rightarrow> ADone (setErr (Some e) (set_as_world w a)))"
  obtain b where b: "?x = ADone b" "saveAssociations G C vs b = ADone a'"
    using then_do_Done [OF Cons.prems(2) [unfolded saveAssociations.simps]] by blast
  have "saves (as_world a) (as_world b)"
  proof (cases "argument_values G (as_world a) v")
    case None
    then have "w_hist (as_world b) = w_hist (as_world a)"
      using b(1) new_error_hist [of "''invalid value type''" "as_world a"] by (auto simp: case_prod_unfold)
    then show ?thesis by (rule saves_hist)
  next
    case (Some ps)
    then show ?thesis using b(1) each_saves [OF Cons.prems(1)] by simp
  qed
  then show ?case using Cons.IH [OF Cons.prems(1) b(2)] saves_trans by blast
qed simp

lemma owned_saves:
  assumes ok "unlink_owned G C d a = ADone a'" shows "saves (as_world a) (as_world a')"
proof -
  obtain v w where v: "new_value G (the_type G a) (as_world a) = (v, w)" by fastforce
  show ?thesis
    using assms(2) update_column_saves [OF assms(1), THEN saves_from [OF new_value_hist [OF v]]]
    by (auto simp: unlink_owned_def Let_def v intro: result_saves split: option.splits)
qed

lemma replace_saves:
  assumes ok "replace_values G C vs a = ADone a'" "rel_Kind (relationship G a) \<noteq> ''many_to_many''"
  shows "saves (as_world a) (as_world a')"
proof -
  let ?a = "a\<lparr>as_scope := snd (set_field G (as_field a) VNil (as_scope a))\<rparr>" and ?r = "relationship G a" and ?d = "new_DB G a"
  obtain b where b: "saveAssociations G C vs ?a = ADone b"
    and rest: "(if rel_Kind ?r = ''belongs_to'' then
        (if vs = []
         then set_result (UpdateColumn G C [nil_keys (rel_ForeignDBNames ?r)] (DB_Model G (sc_Value (as_scope b)) ?d) (as_world b)) b
         else ADone b)
      else
        (let d = (if rel_PolymorphicDBName ?r \<noteq> []
                  then where_equal G (as_scope b) (rel_PolymorphicDBName ?r) (VStr (rel_PolymorphicValue ?r)) ?d else ?d)
         in case (if vs = [] then Some (d, b) else except_new G b d) of
              None \<Rightarrow> APanic b
            | Some (d, c) \<Rightarrow>
               (if rel_Kind ?r = ''many_to_many'' then unlink_joined G C d c
                else if rel_Kind ?r \<in> {''has_one'', ''has_many''} then unlink_owned G C d c
                else ADone c))) = ADone a'"
    using then_do_Done [OF assms(2) [unfolded replace_values_def Let_def]] unfolding Let_def by blast
  have "saves (as_world a) (as_world b)" by (rule saves_from [OF _ associations_save [OF assms(1) b]]) simp
  moreover have "saves (as_world b) (as_world a')"
  proof (cases "rel_Kind ?r = ''belongs_to''")
    case True
    then show ?thesis using rest by (auto intro: result_saves update_column_saves [OF assms(1)] split: if_splits)
  next
    case False
    let ?d' = "if rel_PolymorphicDBName ?r \<noteq> []
        then where_equal G (as_scope b) (rel_PolymorphicDBName ?r) (VStr (rel_PolymorphicValue ?r)) ?d else ?d"
    obtain d c where c: "(if vs = [] then Some (?d', b) else except_new G b ?d') = Some (d, c)"
      using rest False by (cases "if vs = [] then Some (?d', b) else except_new G b ?d'") (auto simp: Let_def)
    then have "unlink_owned G C d c = ADone a' \<or> c = a'" using rest False assms(3) unfolding Let_def c by (auto split: if_splits)
    moreover have "w_hist (as_world c) = w_hist (as_world b)" using c except_new_hist by (auto split: if_splits)
    ultimately show ?thesis using saves_from owned_saves [OF assms(1)] saves_hist by metis
  qed
  ultimately show ?thesis by (rule saves_trans)
qed

lemma referred_saves:
  assumes ok "delete_referred G C vs a = ADone a'" shows "saves (as_world a) (as_world a')"
proof -
  obtain ks t b w where o: "columns_of_values G (rel_AssociationForeignFieldNames (relationship G a)) vs (as_world a) = Some ks"
      "ms_ModelType (GetModelStruct G (as_scope a)) = Some t" "new_object G t (as_world a) = (b, w)"
    using assms(2) by (cases "new_object G (the (ms_ModelType (GetModelStruct G (as_scope a)))) (as_world a)")
      (auto simp: delete_referred_def Let_def split: option.splits)
  have w: "w_hist w = w_hist (as_world a)" using o(3) by (auto simp: new_object_def fresh_def)
  obtain s where "UpdateColumn G C [nil_keys (rel_ForeignDBNames (relationship G a))] (DB_Model G (VObj b)
        (where_in G (as_scope a) (rel_ForeignDBNames (relationship G a)) ks (new_DB G a))) w = Done s"
      "w_hist (as_world a') = w_hist (sc_w s)"
    using assms(2) o by (auto simp: delete_referred_def Let_def split: outcome.splits if_splits)
  then show ?thesis using saves_from [OF w update_column_saves [OF assms(1)]] saves_after by metis
qed

lemma delete_owned_saves:
  assumes ok "delete_owned G C names ks a = ADone a'" shows "saves (as_world a) (as_world a')"
proof -
  obtain v w where v: "new_value G (the_type G a) (as_world a) = (v, w)" by fastforce
  show ?thesis
    using assms(2) update_column_saves [OF assms(1), THEN saves_from [OF new_value_hist [OF v]]]
    by (auto simp: delete_owned_def Let_def v intro: result_saves split: option.splits)
qed

lemma delete_saves:
  assumes ok "delete_values G C vs a = ADone a'" "rel_Kind (relationship G a) \<noteq> ''many_to_many''"
  shows "saves (as_world a) (as_world a')"
proof (cases "vs = []")
  case False
  let ?cs = "primary_columns G (scope_of_type G (the_type G a) (as_scope a))"
  obtain ks where ks: "columns_of_values G (map fst ?cs) vs (as_world a) = Some ks"
    using assms(2) False by (auto simp: delete_values_def Let_def split: option.splits)
  then obtain b where b: "unlink_values G C (map snd ?cs) ks vs a = ADone b"
      "(if as_Error b = None then remove_deleted G (map fst ?cs) ks b else ADone b) = ADone a'"
    using assms(2) False by (auto simp: delete_values_def Let_def dest: then_do_Done)
  have "saves (as_world a) (as_world b)"
    using b(1) assms(1,3)
    by (auto simp: unlink_values_def Let_def intro: referred_saves delete_owned_saves split: if_splits)
  then show ?thesis using b(2) saves_after remove_deleted_hist by (auto split: if_splits)
qed (use assms(2) in \<open>simp add: delete_values_def\<close>)

end

section \<open>The default chains\<close>

lemma saver_at: "saver G hooks (preload_at m G P hooks) (save_at n G hooks (preload_at m G P hooks)) (quiet_hooks hooks \<and> keeps_connection P)"
proof (induction n)
  case 0
  show ?case by unfold_locales (auto intro: saves_hist quiet_call_hook preload_at_saves)
next
  case (Suc n)
  show ?case
    by unfold_locales (auto intro: saves_hist quiet_call_hook preload_at_saves saver.save_saves [OF Suc.IH])
qed

interpretation default: saver G hooks "preload_at m G P hooks" "save_at n G hooks (preload_at m G P hooks)"
    "quiet_hooks hooks \<and> keeps_connection P" for G hooks m P n
  by (rule saver_at)

end
