(* ===== verification/AssociationProps.thy ===== *)
theory AssociationProps
  imports SavingCalls
begin

text \<open>
  Association mode on the model of \<open>PreloadSamples\<close>: what removing a value sends, and where the operations panic or go on
  after an error.  The witnesses of \<open>SavingCalls\<close> are the same runs.
\<close>

section \<open>Samples\<close>

definition accepting :: dbenv where
  "accepting h = ok_reply"

text \<open>Two employees of one company; a user with an email and one that is not saved yet.\<close>

definition staff_world :: world where
  "staff_world = sample_world\<lparr>w_objs :=
     [2 \<mapsto> (18, [VInt KInt64 1, VInt KInt64 5, VPtr 0 None]), 3 \<mapsto> (18, [VInt KInt64 2, VInt KInt64 5, VPtr 0 None]),
      4 \<mapsto> (20, [VInt KInt64 5]),
      5 \<mapsto> (0, [VInt KInt64 7, VSlice 4 (Some [VObj 6, VObj 7])]), 6 \<mapsto> (5, [VInt KInt64 11, VInt KInt64 7, VPtr 0 None]),
      7 \<mapsto> (5, [VInt KInt64 0, VInt KInt64 0, VPtr 0 None])]\<rparr>"

definition staff_env :: genv where
  "staff_env = mail_env accepting"

definition staff_chains :: chains where
  "staff_chains = chains_at (Suc 0) staff_env no_hooks (preload_at (Suc 0) staff_env mail_preload no_hooks)"

definition association_of :: "string \<Rightarrow> gval \<Rightarrow> started" where
  "association_of column v =
     (case DB_Association staff_env column ((sample_db common_dialect)\<lparr>db_Value := v\<rparr>) staff_world of
        Some (x, w) \<Rightarrow> x | None \<Rightarrow> NoAssociation ErrRecordNotFound)"

text \<open>What was sent, the error, and whether the operation returned.\<close>

definition operation_summary :: "started \<times> bool \<Rightarrow> (dbcall list \<times> err option \<times> bool) option" where
  "operation_summary r = (case fst r of Started a \<Rightarrow> Some (w_hist (as_world a), as_Error a, snd r) | NoAssociation e \<Rightarrow> None)"

definition quoted :: "string \<Rightarrow> string" where
  "quoted s = [dquote] @ s @ [dquote]"

definition leaving_company :: "gval \<Rightarrow> started \<times> bool" where
  "leaving_company v = Association_Delete staff_env staff_chains [VObj 4] (association_of ''Company'' v)"

definition operation_returned :: "started \<times> bool \<Rightarrow> bool" where
  "operation_returned r = (case r of (Started a, back) \<Rightarrow> back | _ \<Rightarrow> False)"

section \<open>Nothing is removed\<close>





section \<open>Deleting\<close>


section \<open>The values that stay in a field\<close>


text \<open>The update that unlinks emails.\<close>

definition unlink_emails :: "nat \<Rightarrow> string \<Rightarrow> gval list \<Rightarrow> dbcall list" where
  "unlink_emails t condition keys =
     [CallBegin t,
      CallExec (ConnTx t) (''UPDATE '' @ quoted ''emails'' @ '' SET '' @ quoted ''UserID'' @ '' = ?  WHERE '' @ condition) (VNil # keys),
      CallCommit t]"


section \<open>Errors\<close>


text \<open>
  For an object without a key association mode returns an association with an error; writing leaves it at that, but
  finding and counting follow its nil pointers and panic.
\<close>

lemma failed_association_panics:
  assumes "PrimaryField G (cache_fields G (NewScope G (DB_Set G ''gorm:association:source'' (db_Value s) s) (db_Value s) w)) = Some f"
    and "f_IsBlank f"
  shows "\<exists>e w'. DB_Association G column s w = Some (NoAssociation e, w')
    \<and> Association_Append G C vs (NoAssociation e) = (NoAssociation e, True)
    \<and> Association_Replace G C vs (NoAssociation e) = (NoAssociation e, True)
    \<and> Association_Delete G C vs (NoAssociation e) = (NoAssociation e, True)
    \<and> \<not> snd (Association_Find G C v (NoAssociation e)) \<and> \<not> snd (fst (Association_Count G C t (NoAssociation e)))"
  using assms
  by (simp add: DB_Association_def Let_def Association_Append_def Association_Replace_def Association_Delete_def unless_failed_def
      Association_Find_def Association_Count_def case_prod_unfold)

theorem failed_association_panics_witness:
  "\<exists>e w'. DB_Association staff_env ''Attachment'' ((sample_db common_dialect)\<lparr>db_Value := VObj 7\<rparr>) staff_world = Some (NoAssociation e, w')
    \<and> \<not> snd (Association_Find staff_env staff_chains (VObj 8) (NoAssociation e))"
proof -
  let ?s = "(sample_db common_dialect)\<lparr>db_Value := VObj 7\<rparr>"
  let ?sc = "cache_fields staff_env (NewScope staff_env (DB_Set staff_env ''gorm:association:source'' (db_Value ?s) ?s) (db_Value ?s) staff_world)"
  have "map_option f_IsBlank (PrimaryField staff_env ?sc) = Some True" by code_simp
  then obtain f where f: "PrimaryField staff_env ?sc = Some f" "f_IsBlank f" by auto
  show ?thesis using failed_association_panics [OF f, of "''Attachment''"] by blast
qed

end
