(* ===== verification/Logging.thy ===== *)
theory Logging
  imports SqlText
begin

text \<open>
  The logger (\<^verbatim>\<open>logger.go\<close>): what a handle prints (\<^verbatim>\<open>DB.log\<close>, \<^verbatim>\<open>DB.slog\<close>, \<^verbatim>\<open>Scope.trace\<close>), how values are
  written, and how they are put into the text of a statement, by question marks or by rewriting
  \<^verbatim>\<open>$n\<close> with regular expressions of Go's \<^verbatim>\<open>regexp\<close> package.

  \<open>log_env\<close> is what comes from outside: the tables of \<^verbatim>\<open>unicode\<close> beyond ASCII, the printed form of a
  model object (its type is the user's), the present time as \<^verbatim>\<open>NowFunc().Format\<close> writes it, and the frames
  of the call stack from the third on.
\<close>

record log_env =
  le_print :: "int \<Rightarrow> bool"
  le_word :: "int \<Rightarrow> bool"
  le_object :: "nat \<Rightarrow> string"
  le_now :: string
  le_frames :: "(string \<times> nat) option list"

section \<open>Runes\<close>

text \<open>\<^verbatim>\<open>utf8.DecodeRuneInString\<close>: the rune and its width; a byte that starts no rune is U+FFFD of width 1.\<close>

definition byte :: "char \<Rightarrow> int" where
  "byte c = of_char c"

definition byte_in :: "int \<Rightarrow> int \<Rightarrow> char \<Rightarrow> bool" where
  "byte_in lo hi c = (lo \<le> byte c \<and> byte c \<le> hi)"

definition decode_rune :: "string \<Rightarrow> int \<times> nat" where
  "decode_rune s =
     (case s of
        [] \<Rightarrow> (0xFFFD, 0)
      | c # r \<Rightarrow>
        (let n = byte c;
             lo = (if n = 0xE0 then 0xA0 else if n = 0xF0 then 0x90 else 0x80);
             hi = (if n = 0xED then 0x9F else if n = 0xF4 then 0x8F else 0xBF) in
         if n < 0x80 then (n, 1)
         else if 0xC2 \<le> n \<and> n \<le> 0xDF then
           (case r of d # _ \<Rightarrow> if byte_in lo hi d then ((n - 0xC0) * 64 + (byte d - 0x80), 2) else (0xFFFD, 1)
                    | [] \<Rightarrow> (0xFFFD, 1))
         else if 0xE0 \<le> n \<and> n \<le> 0xEF then
           (case r of d # e # _ \<Rightarrow> if byte_in lo hi d \<and> byte_in 0x80 0xBF e
                                  then (((n - 0xE0) * 64 + (byte d - 0x80)) * 64 + (byte e - 0x80), 3) else (0xFFFD, 1)
                    | _ \<Rightarrow> (0xFFFD, 1))
         else if 0xF0 \<le> n \<and> n \<le> 0xF4 then
           (case r of d # e # f # _ \<Rightarrow> if byte_in lo hi d \<and> byte_in 0x80 0xBF e \<and> byte_in 0x80 0xBF f
                                      then ((((n - 0xF0) * 64 + (byte d - 0x80)) * 64 + (byte e - 0x80)) * 64 + (byte f - 0x80), 4)
                                      else (0xFFFD, 1)
                    | _ \<Rightarrow> (0xFFFD, 1))
         else (0xFFFD, 1)))"

lemma decode_rune_width: "s \<noteq> [] \<Longrightarrow> 1 \<le> snd (decode_rune s) \<and> snd (decode_rune s) \<le> length s"
  by (auto simp: decode_rune_def Let_def split: list.splits)

text \<open>The runes of a range loop over a string.\<close>

function runes :: "string \<Rightarrow> int list" where
  "runes [] = []"
| "runes (c # s) = fst (decode_rune (c # s)) # runes (drop (snd (decode_rune (c # s)) - 1) s)"
  by pat_completeness auto
termination by (relation "measure length") simp_all

definition isPrint :: "log_env \<Rightarrow> int \<Rightarrow> bool" where
  "isPrint E r = (if r < 0x80 then 0x20 \<le> r \<and> r \<le> 0x7E else le_print E r)"

definition isPrintable :: "log_env \<Rightarrow> string \<Rightarrow> bool" where
  "isPrintable E s = list_all (isPrint E) (runes s)"

section \<open>Values\<close>

text \<open>
  \<^verbatim>\<open>t.Format("2006-01-02 15:04:05")\<close> of a time that \<^verbatim>\<open>%v\<close> prints as \<open>s\<close>: its date, a space and the
  first eight characters of its clock.
\<close>

definition time_format :: "string \<Rightarrow> string" where
  "time_format s = takeWhile (\<lambda>c. c \<noteq> CHR '' '') s @ take 9 (dropWhile (\<lambda>c. c \<noteq> CHR '' '') s)"

definition in_quotes :: "string \<Rightarrow> string" where
  "in_quotes s = [CHR 0x27] @ s @ [CHR 0x27]"

text \<open>A value that is not behind a pointer; the types of the switch are the unnamed numbers and \<^verbatim>\<open>bool\<close>.\<close>

definition format_plain :: "log_env \<Rightarrow> gval \<Rightarrow> string" where
  "format_plain E value =
     (case value of
        VTime n s \<Rightarrow> in_quotes (if n = 0 then ''0000-00-00 00:00:00'' else time_format s)
      | VBytes b \<Rightarrow> (let str = (case b of None \<Rightarrow> [] | Some s \<Rightarrow> s)
                    in if isPrintable E str then in_quotes str else in_quotes ''<binary>'')
      | VNullInt64 i valid \<Rightarrow> if valid then in_quotes (dec_int i) else ''NULL''
      | VValuer z s r \<Rightarrow> (case r of Inl _ \<Rightarrow> ''NULL'' | Inr v \<Rightarrow> if v = VNil then ''NULL'' else in_quotes (Sprint v))
      | VInt k i \<Rightarrow> if k = KUintptr then in_quotes (dec_int i) else dec_int i
      | VFloat k z s \<Rightarrow> s
      | VBool b \<Rightarrow> bool_str b
      | _ \<Rightarrow> in_quotes (Sprint value))"

text \<open>\<^verbatim>\<open>reflect.Indirect\<close> follows one pointer; a nil interface and a nil pointer give no value.\<close>

definition format_value :: "log_env \<Rightarrow> gval \<Rightarrow> string" where
  "format_value E value =
     (case value of
        VNil \<Rightarrow> ''NULL''
      | VPtr a None \<Rightarrow> ''NULL''
      | VPtr a (Some v) \<Rightarrow> format_plain E v
      | VObj a \<Rightarrow> le_object E a
      | VExpr e vs \<Rightarrow> in_quotes (tl (Sprint value))
      | _ \<Rightarrow> format_plain E value)"

section \<open>Question marks\<close>

fun fill_parts :: "string list \<Rightarrow> string list \<Rightarrow> string" where
  "fill_parts [] vs = []"
| "fill_parts (p # ps) [] = p @ fill_parts ps []"
| "fill_parts (p # ps) (v # vs) = p @ v @ fill_parts ps vs"

section \<open>Numbered placeholders\<close>

text \<open>\<^verbatim>\<open>numericPlaceHolderRegexp\<close>: a dollar sign and a digit somewhere.\<close>

fun has_numeric :: "string \<Rightarrow> bool" where
  "has_numeric [] = False"
| "has_numeric (c # s) = (c = CHR ''$'' \<and> s \<noteq> [] \<and> is_digit (hd s) \<or> has_numeric s)"

text \<open>
  \<^verbatim>\<open>Regexp.Expand\<close> of a template: \<^verbatim>\<open>$name\<close> and \<^verbatim>\<open>${name}\<close> with the longest name of letters, digits and
  underscores, \<^verbatim>\<open>$$\<close> a dollar sign.  The expression has one group, which is number 1, the whole match is
  number 0, and every other name is empty.
\<close>

definition is_word_rune :: "log_env \<Rightarrow> int \<Rightarrow> bool" where
  "is_word_rune E r =
     (if r < 0x80 then (0x30 \<le> r \<and> r \<le> 0x39) \<or> (0x41 \<le> r \<and> r \<le> 0x5A) \<or> r = 0x5F \<or> (0x61 \<le> r \<and> r \<le> 0x7A)
      else le_word E r)"

function take_word :: "log_env \<Rightarrow> string \<Rightarrow> nat" where
  "take_word E [] = 0"
| "take_word E (c # s) =
     (case decode_rune (c # s) of
        (r, k) \<Rightarrow> if is_word_rune E r then k + take_word E (drop (k - 1) s) else 0)"
  by pat_completeness auto
termination by (relation "measure (\<lambda>(E, s). length s)") auto

definition extract_name :: "log_env \<Rightarrow> string \<Rightarrow> (string \<times> string) option" where
  "extract_name E str =
     (let brace = (str \<noteq> [] \<and> hd str = CHR ''{'');
          u = (if brace then tl str else str);
          i = take_word E u; name = take i u; rest = drop i u
      in if i = 0 then None
         else if brace then (if rest \<noteq> [] \<and> hd rest = CHR ''}'' then Some (name, tl rest) else None)
         else Some (name, rest))"

lemma extract_shorter: "extract_name E str = Some (name, rest) \<Longrightarrow> length rest \<le> length str"
  unfolding extract_name_def Let_def by (cases str) (simp_all split: if_split_asm, auto)

function expand :: "log_env \<Rightarrow> string \<Rightarrow> string \<Rightarrow> string \<Rightarrow> string" where
  "expand E whole matched [] = []"
| "expand E whole matched (c # t) =
     (if c \<noteq> CHR ''$'' then c # expand E whole matched t
      else if t \<noteq> [] \<and> hd t = CHR ''$'' then CHR ''$'' # expand E whole matched (tl t)
      else case extract_name E t of
             None \<Rightarrow> CHR ''$'' # expand E whole matched t
           | Some (name, rest) \<Rightarrow>
               (if name = ''0'' then whole else if name = ''1'' then matched else []) @ expand E whole matched rest)"
  by pat_completeness auto
termination
  by (relation "measure (\<lambda>(E, w, g, t). length t)") (auto dest!: extract_shorter)

text \<open>
  \<^verbatim>\<open>ReplaceAllString\<close> with the expression \<^verbatim>\<open>\$n([^\d]|$)\<close>: the placeholder and one more rune that is no
  digit, or the end of the text; the search goes on after the match.
\<close>

function replace_number :: "log_env \<Rightarrow> string \<Rightarrow> string \<Rightarrow> string \<Rightarrow> string" where
  "replace_number E pat t [] = []"
| "replace_number E pat t (c # s) =
     (let r = drop (length pat - 1) s; k = snd (decode_rune r) in
      if pat = [] \<or> \<not> has_prefix (c # s) pat then c # replace_number E pat t s
      else if r = [] then expand E pat [] t
      else if is_digit (hd r) then c # replace_number E pat t s
      else expand E (pat @ take k r) (take k r) t @ replace_number E pat t (drop k r))"
  by pat_completeness auto
termination by (relation "measure (\<lambda>(E, p, t, s). length s)") auto

definition placeholder :: "nat \<Rightarrow> string" where
  "placeholder n = CHR ''$'' # dec_nat n"

fun fill_numbers :: "log_env \<Rightarrow> nat \<Rightarrow> string list \<Rightarrow> string \<Rightarrow> string" where
  "fill_numbers E n [] sql = sql"
| "fill_numbers E n (v # vs) sql = fill_numbers E (Suc n) vs (replace_number E (placeholder n) (v @ ''$1'') sql)"

definition render_sql :: "log_env \<Rightarrow> string \<Rightarrow> string list \<Rightarrow> string" where
  "render_sql E sql formattedValues =
     (if has_numeric sql then fill_numbers E 1 formattedValues sql
      else fill_parts (split_char (CHR ''?'') sql) formattedValues)"

section \<open>The call site\<close>

text \<open>
  Expressions of literal characters, \<^verbatim>\<open>.\<close> and \<^verbatim>\<open>.*\<close>: \<open>match_here\<close> at the beginning of a text,
  \<open>match_string\<close> anywhere.  The optional group of \<^verbatim>\<open>goSrcRegexp\<close> makes two of them.
\<close>

datatype rx = Lit char | Dot | DotStar

fun match_here :: "rx list \<Rightarrow> string \<Rightarrow> bool" where
  "match_here [] s = True"
| "match_here (Lit c # rs) s = (case s of d # t \<Rightarrow> d = c \<and> match_here rs t | [] \<Rightarrow> False)"
| "match_here (Dot # rs) s = (case s of d # t \<Rightarrow> d \<noteq> CHR 0x0A \<and> match_here rs t | [] \<Rightarrow> False)"
| "match_here (DotStar # rs) s =
     (match_here rs s \<or> (case s of d # t \<Rightarrow> d \<noteq> CHR 0x0A \<and> match_here (DotStar # rs) t | [] \<Rightarrow> False))"

fun match_string :: "rx list \<Rightarrow> string \<Rightarrow> bool" where
  "match_string rs [] = match_here rs []"
| "match_string rs (c # s) = (match_here rs (c # s) \<or> match_string rs s)"

definition gorm_file :: "rx list \<Rightarrow> string \<Rightarrow> bool" where
  "gorm_file ending file =
     (let path = map Lit ''jinzhu/gorm'';
          rest = [Lit CHR ''/'', DotStar] @ ending
      in match_string (path @ rest) file \<or> match_string (path @ [Lit CHR ''@'', DotStar] @ rest) file)"

definition goSrcRegexp :: "string \<Rightarrow> bool" where
  "goSrcRegexp file = gorm_file [Dot, Lit CHR ''g'', Lit CHR ''o''] file"

definition goTestRegexp :: "string \<Rightarrow> bool" where
  "goTestRegexp file = gorm_file (map Lit ''test'' @ [Dot, Lit CHR ''g'', Lit CHR ''o'']) file"

text \<open>The frames are those of \<^verbatim>\<open>runtime.Caller(i)\<close> for \<open>i\<close> from 2 on; at most 13 are looked at.\<close>

fun first_frame :: "(string \<times> nat) option list \<Rightarrow> string" where
  "first_frame [] = []"
| "first_frame (None # fs) = first_frame fs"
| "first_frame (Some (file, line) # fs) =
     (if \<not> goSrcRegexp file \<or> goTestRegexp file then file @ '':'' @ dec_nat line else first_frame fs)"

definition fileWithLineNum :: "log_env \<Rightarrow> string" where
  "fileWithLineNum E = first_frame (take 13 (le_frames E))"

section \<open>Log lines\<close>

text \<open>
  The arguments of \<^verbatim>\<open>Print\<close> and the messages of a line: values, a duration in nanoseconds with its printed
  form, an error, the slice of bind variables.
\<close>

datatype log_arg = LValue gval | LDuration int string | LErr err | LVars "gval list"

definition log_text :: "string \<Rightarrow> log_arg" where
  "log_text s = LValue (VStr s)"

fun arg_text :: "log_arg \<Rightarrow> string" where
  "arg_text (LValue v) = Sprint v"
| "arg_text (LDuration d s) = s"
| "arg_text (LErr e) = error_text e"
| "arg_text (LVars vs) = Sprint (VList vs)"

definition esc :: string where
  "esc = [CHR 0x1B]"

text \<open>
  \<^verbatim>\<open>%.2f\<close> of milliseconds: the division by \<^verbatim>\<open>1e4\<close> is one of integers and truncates, the quotient is a number
  of hundredths.
\<close>

definition millis :: "int \<Rightarrow> string" where
  "millis d =
     (let k = nat (abs d div 10000); hundredths = dec_nat (k mod 100)
      in (if d < 0 \<and> 0 < k then ''-'' else []) @ dec_nat (k div 100) @ ''.'' @ (if k mod 100 < 10 then ''0'' else []) @ hundredths)"

text \<open>\<open>None\<close> is the panic of a missing value or a failed type assertion.\<close>

definition LogFormatter :: "log_env \<Rightarrow> log_arg list \<Rightarrow> log_arg list option" where
  "LogFormatter E values =
     (case values of
        level # place # others \<Rightarrow>
          (let stamp = esc @ ''[33m['' @ le_now E @ '']'' @ esc @ ''[0m'';
               messages = (if others = []
                           then [log_text stamp, log_text (esc @ ''[35m'' @ arg_text place @ esc @ ''[0m'')]
                           else [log_text (esc @ ''[35m('' @ arg_text place @ '')'' @ esc @ ''[0m''), log_text (CHR 0x0A # stamp)])
           in if level = log_text ''sql'' then
                (case others of
                   LDuration d _ # LValue (VStr sql) # LVars vars # LValue (VInt KInt64 rows) # _ \<Rightarrow>
                     Some (messages
                       @ [log_text ('' '' @ esc @ ''[36;1m['' @ millis d @ ''ms]'' @ esc @ ''[0m ''),
                          log_text (render_sql E sql (map (format_value E) vars)),
                          log_text ('' '' @ [CHR 0x0A] @ esc @ ''[36;31m['' @ dec_int rows @ '' rows affected or returned '' @ '']'' @ esc @ ''[0m '')])
                 | _ \<Rightarrow> None)
              else Some (messages @ [log_text (esc @ ''[31;1m'')] @ others @ [log_text (esc @ ''[0m'')]))
      | _ \<Rightarrow> Some [])"

text \<open>
  A logger takes the arguments of \<^verbatim>\<open>Print\<close>: the default one formats them for its writer, the other one drops
  them.  \<open>Some ls\<close> are the lines that reach the writer.
\<close>

datatype logger = Logger | nopLogger

definition logger_Print :: "log_env \<Rightarrow> logger \<Rightarrow> log_arg list \<Rightarrow> log_arg list list option" where
  "logger_Print E l values =
     (case l of Logger \<Rightarrow> map_option (\<lambda>m. [m]) (LogFormatter E values) | nopLogger \<Rightarrow> Some [])"

definition DB_log :: "log_env \<Rightarrow> logger \<Rightarrow> log_arg list \<Rightarrow> db option \<Rightarrow> log_arg list list option" where
  "DB_log E l v s =
     (case s of
        Some s \<Rightarrow> if db_logMode s = detailedLogMode
                  then logger_Print E l ([log_text ''log'', log_text (fileWithLineNum E)] @ v) else Some []
      | None \<Rightarrow> Some [])"

definition DB_slog :: "log_env \<Rightarrow> logger \<Rightarrow> string \<Rightarrow> int \<times> string \<Rightarrow> gval list \<Rightarrow> db \<Rightarrow> log_arg list list option" where
  "DB_slog E l sql elapsed vars s =
     (if db_logMode s = detailedLogMode
      then logger_Print E l [log_text ''sql'', log_text (fileWithLineNum E), LDuration (fst elapsed) (snd elapsed),
             log_text sql, LVars vars, LValue (VInt KInt64 (db_RowsAffected s))]
      else Some [])"

definition Scope_trace :: "log_env \<Rightarrow> logger \<Rightarrow> int \<times> string \<Rightarrow> scope \<Rightarrow> log_arg list list option" where
  "Scope_trace E l elapsed sc =
     (if length (sc_SQL sc) > 0 then DB_slog E l (sc_SQL sc) elapsed (sc_SQLVars sc) (sc_db sc) else Some [])"

definition Scope_Log :: "log_env \<Rightarrow> logger \<Rightarrow> log_arg list \<Rightarrow> scope \<Rightarrow> log_arg list list option" where
  "Scope_Log E l v sc = DB_log E l v (Some (sc_db sc))"

text \<open>What \<^verbatim>\<open>AddError\<close> prints; in the default mode a goroutine does it.\<close>

definition AddError_prints :: "log_env \<Rightarrow> logger \<Rightarrow> err option \<Rightarrow> db \<Rightarrow> log_arg list list option" where
  "AddError_prints E l e s =
     (case e of
        None \<Rightarrow> Some []
      | Some err \<Rightarrow>
          if err = ErrRecordNotFound then Some []
          else if db_logMode s = defaultLogMode
          then logger_Print E l [log_text ''error'', log_text (fileWithLineNum E), LErr err]
          else DB_log E l [LErr err] (Some s))"

end
