(* ===== verification/LoggingProps.thy ===== *)
theory LoggingProps
  imports Logging
begin

text \<open>
  What the logger shows: a statement with its values, whether the dialect writes its bind variables as question
  marks or numbers them, and the texts for which it shows something else.
\<close>

section \<open>Templates\<close>

lemma expand_plain: "CHR ''$'' \<notin> set v \<Longrightarrow> expand E whole matched (v @ t) = v @ expand E whole matched t"
  by (induction v) auto

lemma take_word_one: "take_word E ''1'' = 1"
  by (simp add: decode_rune_def byte_def is_word_rune_def)

lemma extract_one: "extract_name E ''1'' = Some (''1'', [])"
  by (simp add: extract_name_def Let_def take_word_one del: take_word.simps)

lemma expand_first: "expand E whole matched ''$1'' = matched"
  by (simp add: extract_one)

lemma expand_value: "CHR ''$'' \<notin> set v \<Longrightarrow> expand E whole matched (v @ ''$1'') = v @ matched"
  by (simp add: expand_plain expand_first del: expand.simps)

section \<open>Numbers that begin alike\<close>

lemma dec_nat_inject: "dec_nat m = dec_nat n \<Longrightarrow> m = n"
  using digits_value_dec_nat by (metis option.inject)

definition not_digit_first :: "string \<Rightarrow> bool" where
  "not_digit_first r = (r = [] \<or> \<not> is_digit (hd r))"

lemma longer_number:
  assumes "has_prefix (dec_nat j @ r) (dec_nat n)" "n \<noteq> j" "not_digit_first r"
  shows "drop (length (dec_nat n)) (dec_nat j @ r) \<noteq> [] \<and> is_digit (hd (drop (length (dec_nat n)) (dec_nat j @ r)))"
proof -
  obtain t where t: "dec_nat j @ r = dec_nat n @ t" using assms(1) by (auto simp: has_prefix_iff)
  then obtain u where "dec_nat j = dec_nat n @ u \<and> u @ r = t \<or> dec_nat j @ u = dec_nat n \<and> r = u @ t"
    by (auto simp: append_eq_append_conv2)
  then show ?thesis
  proof
    assume u: "dec_nat j = dec_nat n @ u \<and> u @ r = t"
    then have "u \<noteq> []" using dec_nat_inject [of j n] assms(2) by auto
    moreover have "is_digit (hd u)" using u dec_nat_digits [of "hd u" j] \<open>u \<noteq> []\<close> by simp
    moreover have "t = u @ r" using u by simp
    ultimately show ?thesis using t by simp
  next
    assume u: "dec_nat j @ u = dec_nat n \<and> r = u @ t"
    then have "u \<noteq> []" using dec_nat_inject [of j n] assms(2) by auto
    moreover have "hd u \<in> set (dec_nat n)" using u \<open>u \<noteq> []\<close> by (metis hd_in_set in_set_conv_decomp append_assoc Un_iff set_append)
    then have "is_digit (hd u)" by (rule dec_nat_digits)
    ultimately show ?thesis using u assms(3) by (simp add: not_digit_first_def)
  qed
qed

section \<open>Texts without a match\<close>

fun no_match :: "string \<Rightarrow> string \<Rightarrow> bool" where
  "no_match pat [] = True"
| "no_match pat (c # s) =
     (no_match pat s \<and> (has_prefix (c # s) pat \<longrightarrow> \<not> not_digit_first (drop (length pat) (c # s))))"

lemma placeholder_simps [simp]: "placeholder n \<noteq> []" "length (placeholder n) = Suc (length (dec_nat n))"
  by (simp_all add: placeholder_def)

lemma has_prefix_placeholder:
  "has_prefix (c # s) (placeholder n) \<longleftrightarrow> c = CHR ''$'' \<and> has_prefix s (dec_nat n)"
  by (auto simp: has_prefix_def placeholder_def)

lemma replace_no_match: "no_match (placeholder n) s \<Longrightarrow> replace_number E (placeholder n) t s = s"
  by (induction s) (auto simp: Let_def not_digit_first_def)

lemma no_match_drop: "no_match pat s \<Longrightarrow> no_match pat (drop k s)"
proof (induction s arbitrary: k)
  case (Cons c s)
  then show ?case by (cases k) auto
qed simp

lemma no_match_append: "CHR ''$'' \<notin> set a \<Longrightarrow> no_match (placeholder n) (a @ s) = no_match (placeholder n) s"
  by (induction a) (auto simp: has_prefix_placeholder)

lemma replace_append:
  "CHR ''$'' \<notin> set a \<Longrightarrow> replace_number E (placeholder n) t (a @ s) = a @ replace_number E (placeholder n) t s"
  by (induction a) (auto simp: Let_def has_prefix_placeholder)

section \<open>Numbering the marks\<close>

text \<open>A statement as a dialect with numbered bind variables writes it.\<close>

fun number_marks :: "nat \<Rightarrow> string \<Rightarrow> string" where
  "number_marks n [] = []"
| "number_marks n (c # s) = (if c = CHR ''?'' then placeholder n @ number_marks (Suc n) s else c # number_marks n s)"

text \<open>No digit stands directly behind a mark.\<close>

fun spaced :: "string \<Rightarrow> bool" where
  "spaced [] = True"
| "spaced (c # s) = ((c = CHR ''?'' \<longrightarrow> not_digit_first s) \<and> spaced s)"

lemma number_marks_none: "CHR ''?'' \<notin> set p \<Longrightarrow> number_marks n (p @ s) = p @ number_marks n s"
  by (induction p) auto

lemma number_marks_first: "not_digit_first s \<Longrightarrow> not_digit_first (number_marks n s)"
  by (cases s) (auto simp: not_digit_first_def placeholder_def is_digit_def char_between_def)

lemma dec_nat_no_dollar: "CHR ''$'' \<notin> set (dec_nat n)"
  using dec_nat_digits [of "CHR ''$''" n] by (auto simp: is_digit_def char_between_def)

lemma no_match_marks:
  "n < m \<Longrightarrow> spaced s \<Longrightarrow> CHR ''$'' \<notin> set s \<Longrightarrow> no_match (placeholder n) (number_marks m s)"
proof (induction s arbitrary: m)
  case (Cons c s)
  have IH: "no_match (placeholder n) (number_marks k s)" if "n < k" for k using Cons that by simp
  show ?case
  proof (cases "c = CHR ''?''")
    case True
    have r: "not_digit_first (number_marks (Suc m) s)" using Cons.prems True by (simp add: number_marks_first)
    have "\<not> not_digit_first (drop (length (dec_nat n)) (dec_nat m @ number_marks (Suc m) s))"
      if "has_prefix (dec_nat m @ number_marks (Suc m) s) (dec_nat n)"
      using longer_number [OF that _ r] Cons.prems(1) by (auto simp: not_digit_first_def)
    then show ?thesis
      using True IH [of "Suc m"] Cons.prems(1)
      by (simp add: placeholder_def [of m] has_prefix_placeholder no_match_append dec_nat_no_dollar)
  next
    case False
    then show ?thesis using Cons.prems IH [of m] by (auto simp: has_prefix_placeholder)
  qed
qed simp

lemma replace_match:
  assumes "CHR ''$'' \<notin> set v" "not_digit_first r" "no_match (placeholder n) r"
  shows "replace_number E (placeholder n) (v @ ''$1'') (placeholder n @ r) = v @ r"
proof -
  have p: "placeholder n @ r = CHR ''$'' # dec_nat n @ r" by (simp add: placeholder_def)
  have r: "has_prefix (CHR ''$'' # dec_nat n @ r) (placeholder n)" by (simp add: has_prefix_placeholder)
  show ?thesis
    unfolding p
    using assms r by (auto simp: Let_def not_digit_first_def expand_value replace_no_match no_match_drop simp del: expand.simps)
qed

lemma replace_next:
  assumes "CHR ''$'' \<notin> set a" "CHR ''$'' \<notin> set v" "CHR ''?'' \<notin> set p" "spaced (p @ CHR ''?'' # q)"
    "CHR ''$'' \<notin> set (p @ q)"
  shows "replace_number E (placeholder n) (v @ ''$1'') (a @ number_marks n (p @ CHR ''?'' # q))
    = (a @ p @ v) @ number_marks (Suc n) q"
proof -
  have q: "spaced q" "not_digit_first q" using assms(4) by (induction p) auto
  have "replace_number E (placeholder n) (v @ ''$1'') (placeholder n @ number_marks (Suc n) q) = v @ number_marks (Suc n) q"
    using assms(2,5) q by (intro replace_match number_marks_first no_match_marks) auto
  then show ?thesis using assms(1,3,5) by (simp add: number_marks_none replace_append)
qed

lemma fill_numbers_marks:
  "CHR ''$'' \<notin> set a \<Longrightarrow> CHR ''$'' \<notin> set s \<Longrightarrow> spaced s \<Longrightarrow> list_all (\<lambda>v. CHR ''$'' \<notin> set v) vs
   \<Longrightarrow> count_char (CHR ''?'') s = length vs
   \<Longrightarrow> fill_numbers E n vs (a @ number_marks n s) = a @ fill_marks s vs"
proof (induction vs arbitrary: n a s)
  case Nil
  then have "CHR ''?'' \<notin> set s" by (auto simp: count_char_def filter_empty_conv)
  then show ?case using number_marks_none [of s n "[]"] by simp
next
  case (Cons v vs)
  then have "CHR ''?'' \<in> set s" using count_char_absent [of "CHR ''?''" s] by fastforce
  then obtain p q where s: "s = p @ CHR ''?'' # q" "CHR ''?'' \<notin> set p" by (meson split_list_first)
  have "spaced q" using Cons.prems(3) unfolding s(1) by (induction p) auto
  then have "fill_numbers E (Suc n) vs ((a @ p @ v) @ number_marks (Suc n) q) = (a @ p @ v) @ fill_marks q vs"
    using Cons.prems s by (intro Cons.IH) (auto simp: count_char_absent)
  then show ?case
    using Cons.prems s replace_next [of a v p q E n] by (simp add: fill_marks_no_mark)
qed

section \<open>Question marks\<close>

lemma length_split_char: "length (split_char c s) = Suc (count_char c s)"
  by (induction s) (auto split: list.splits)

lemma fill_parts_weave: "length ps = Suc (length vs) \<Longrightarrow> fill_parts ps vs = weave ps vs"
proof (induction ps vs rule: weave.induct)
  case (2 p rs)
  then show ?case by (cases rs) auto
qed auto

lemma no_dollar_not_numeric: "CHR ''$'' \<notin> set s \<Longrightarrow> \<not> has_numeric s"
  by (induction s) auto

lemma marks_numeric: "CHR ''?'' \<in> set s \<Longrightarrow> has_numeric (number_marks n s)"
proof (induction s arbitrary: n)
  case (Cons c s)
  have "is_digit (hd (dec_nat n))" using dec_nat_digits [of "hd (dec_nat n)" n] by simp
  then show ?case using Cons by (auto simp: placeholder_def hd_append)
qed simp

lemma render_marks:
  "CHR ''$'' \<notin> set sql \<Longrightarrow> count_char (CHR ''?'') sql = length vs \<Longrightarrow> render_sql E sql vs = fill_marks sql vs"
  by (simp add: render_sql_def no_dollar_not_numeric fill_parts_weave length_split_char fill_marks_weave)

lemma render_numbered:
  assumes "CHR ''$'' \<notin> set sql" "spaced sql" "list_all (\<lambda>v. CHR ''$'' \<notin> set v) vs" "count_char (CHR ''?'') sql = length vs"
  shows "render_sql E (number_marks 1 sql) vs = fill_marks sql vs"
proof (cases "CHR ''?'' \<in> set sql")
  case True
  then show ?thesis using fill_numbers_marks [of "[]" sql vs E 1] assms by (simp add: render_sql_def marks_numeric)
next
  case False
  then have "number_marks 1 sql = sql" using number_marks_none [of sql 1 "[]"] by simp
  then show ?thesis using render_marks assms by simp
qed

lemma slog_text:
  "render_sql E a (map (format_value E) vars) = render_sql E b (map (format_value E) vars)
   \<Longrightarrow> DB_slog E l a elapsed vars s = DB_slog E l b elapsed vars s"
  by (cases l) (simp_all add: DB_slog_def logger_Print_def LogFormatter_def log_text_def)

section \<open>Properties\<close>


definition sample_log :: log_env where
  "sample_log = \<lparr>le_print = (\<lambda>_. True), le_word = (\<lambda>_. False), le_object = (\<lambda>_. ''{}''), le_now = ''2024-01-02 03:04:05'',
     le_frames = [None, Some (''/app/main.go'', 12)]\<rparr>"


section \<open>Where the line shows something else\<close>

text \<open>The text of a value is a template: what follows a dollar sign in it is taken for the name of a group.\<close>

lemma dollar_value_loses_text:
  "render_sql E ''SELECT $1'' [format_value E (VStr ''US$5'')] = ''SELECT '' @ in_quotes ''US''"
  by code_simp

text \<open>
  A statement without question marks and numbers, such as one with the placeholders of the mssql dialect, is
  followed by its first value, and the other values are not shown.
\<close>

lemma unmarked_statement_shows_one:
  "CHR ''?'' \<notin> set sql \<Longrightarrow> \<not> has_numeric sql \<Longrightarrow> render_sql E sql (v # vs) = sql @ v"
  by (simp add: render_sql_def split_char_single)

lemma mssql_values_follow:
  "render_sql E (''DELETE FROM t WHERE (a = '' @ mssql_BindVar 1 @ '')'') [''5''] = ''DELETE FROM t WHERE (a = $$$)5''"
  by (simp add: mssql_BindVar_def unmarked_statement_shows_one is_digit_def char_between_def)

text \<open>Bytes that start no rune count as printable, because U+FFFD is.\<close>

lemma garbage_is_printed:
  "le_print E 0xFFFD \<Longrightarrow> list_all (\<lambda>c. 0xF5 \<le> byte c) b \<Longrightarrow> format_value E (VBytes (Some b)) = in_quotes b"
proof -
  assume p: "le_print E 0xFFFD" and b: "list_all (\<lambda>c. 0xF5 \<le> byte c) b"
  have "list_all (isPrint E) (runes b)"
    using b by (induction b) (simp_all add: decode_rune_def Let_def isPrint_def p)
  then show ?thesis by (simp add: format_value_def format_plain_def isPrintable_def)
qed

text \<open>
  The call site is the first frame outside \<^verbatim>\<open>jinzhu/gorm\<close>.  A file whose path does not contain that text is never
  skipped, so a frame of gorm itself is reported when the module has another path.
\<close>

lemma match_here_prefix: "match_here (map Lit p @ rs) s \<Longrightarrow> has_prefix s p"
  by (induction p arbitrary: s) (auto simp: has_prefix_def split: list.splits)

lemma match_string_contains: "match_string (map Lit p @ rs) s \<Longrightarrow> str_contains s p"
proof (induction s)
  case Nil
  then show ?case using match_here_prefix [of p rs "[]"] by (simp add: has_prefix_def)
next
  case (Cons c s)
  then show ?case using match_here_prefix [of p rs "c # s"] by auto
qed

lemma reports_first_frame:
  "\<not> str_contains file ''jinzhu/gorm'' \<Longrightarrow> first_frame (Some (file, line) # fs) = file @ '':'' @ dec_nat line"
  using match_string_contains [of "''jinzhu/gorm''"] by (simp add: goSrcRegexp_def gorm_file_def Let_def del: map_append list.map) blast

lemma gorm_reports_itself:
  "fileWithLineNum (sample_log\<lparr>le_frames := [Some (''github.com/yaklang/gorm/scope.go'', 376), Some (''/app/main.go'', 12)]\<rparr>)
   = ''github.com/yaklang/gorm/scope.go:376''"
  by code_simp

lemma quiet_handle_prints_nothing:
  "db_logMode s \<noteq> detailedLogMode \<Longrightarrow> DB_slog E l sql elapsed vars s = Some [] \<and> DB_log E l v (Some s) = Some []"
  by (simp add: DB_slog_def DB_log_def)

text \<open>Gorm's own calls never make the formatter panic, and a quiet handle prints no error.\<close>

lemma logger_Print_total: "values = log_text lvl # place # others \<Longrightarrow> lvl \<noteq> ''sql'' \<Longrightarrow> logger_Print E l values \<noteq> None"
  by (cases l) (simp_all add: logger_Print_def LogFormatter_def log_text_def Let_def)

lemma handle_logs_return:
  "DB_slog E l sql elapsed vars s \<noteq> None" "DB_log E l v (Some s) \<noteq> None" "AddError_prints E l e s \<noteq> None"
  by (auto simp: DB_slog_def DB_log_def AddError_prints_def logger_Print_def LogFormatter_def log_text_def Let_def
      split: logger.splits option.splits)

end
