(* ===== verification/ResultSets.thy ===== *)
theory ResultSets
  imports Cancellation ConnectionGate
begin

text \<open>
  Queries on a cancellation-safe connection and the operations it hands on to the driver
  (\<^verbatim>\<open>dialects/dameng/cancel.go\<close>, \<^verbatim>\<open>cancellationConn\<close>, \<^verbatim>\<open>cancellationStmt\<close>, \<^verbatim>\<open>cancellationRows\<close>).  A query
  that succeeds keeps its watcher until its rows are closed, so its life is a step relation: the caller, which
  \<^verbatim>\<open>database/sql\<close> lets do one thing at a time, and the watcher.
\<close>

section \<open>A query and its rows\<close>

text \<open>Why \<^verbatim>\<open>guard.end\<close> was called: the driver failed, the rows came too late, or the rows were closed.\<close>

datatype ending = Failed conn_err | Discarded | Closing "conn_err option"

text \<open>
  Where the caller is.  \<open>QReturned e\<close>: the query returned no rows and the error \<open>e\<close>; \<open>QOpen\<close>: it returned rows
  and no call on them runs; \<open>QReading\<close>, \<open>QRead\<close>: in \<^verbatim>\<open>Next\<close>, before and after the driver's answer;
  \<open>QDiscarding\<close>, \<open>QClosing\<close>: in the driver's \<^verbatim>\<open>Close\<close>; \<open>QEnding\<close>, \<open>QStopped\<close>, \<open>QAborting\<close>: in
  \<^verbatim>\<open>guard.end\<close>; \<open>QClosed e\<close>: \<^verbatim>\<open>Close\<close> returned \<open>e\<close>.
\<close>

datatype qpc =
    QStart | QChecked | QCalling | QLooking | QDiscarding | QOpen | QReading | QRead "conn_err option" | QClosing
  | QEnding ending | QStopped ending | QAborting ending | QReturned "conn_err option" | QClosed "conn_err option"

record query_state =
  q_pc :: qpc
  q_watch :: watcher
  q_cancelled :: bool
  q_socket :: socket
  q_results :: "conn_err option list"

text \<open>What the caller of \<^verbatim>\<open>guard.end\<close> returns, given what the guard returned.\<close>

fun finish :: "ending \<Rightarrow> conn_err option \<Rightarrow> qpc" where
  "finish (Failed e) canceled = QReturned (if canceled \<noteq> None then canceled else Some e)"
| "finish Discarded canceled = QReturned canceled"
| "finish (Closing e) canceled = QClosed (if canceled \<noteq> None then canceled else e)"

text \<open>What \<^verbatim>\<open>Next\<close> returns for the driver's answer.\<close>

definition rows_Next :: "bool \<Rightarrow> conn_err option \<Rightarrow> conn_err option" where
  "rows_Next canceled r = (if canceled then Some Canceled else r)"

inductive query_step :: "query_state \<Rightarrow> query_state \<Rightarrow> bool" where
  cancel_query: "query_step s (s\<lparr>q_cancelled := True\<rparr>)"
| query_cancelled: "q_pc s = QStart \<Longrightarrow> q_cancelled s \<Longrightarrow> query_step s (s\<lparr>q_pc := QReturned (Some Canceled)\<rparr>)"
| query_checked: "q_pc s = QStart \<Longrightarrow> \<not> q_cancelled s \<Longrightarrow> query_step s (s\<lparr>q_pc := QChecked\<rparr>)"
| query_invalid: "q_pc s = QChecked \<Longrightarrow> so_invalid (q_socket s) \<Longrightarrow> query_step s (s\<lparr>q_pc := QReturned (Some BadConn)\<rparr>)"
| query_armed: "q_pc s = QChecked \<Longrightarrow> \<not> so_invalid (q_socket s) \<Longrightarrow> query_step s (s\<lparr>q_pc := QCalling, q_watch := WArmed\<rparr>)"
| query_fire: "q_watch s = WArmed \<Longrightarrow> q_cancelled s \<Longrightarrow> query_step s (s\<lparr>q_watch := WRunning\<rparr>)"
| query_marks: "q_watch s = WRunning \<Longrightarrow>
    query_step s (s\<lparr>q_watch := WStored, q_socket := (q_socket s)\<lparr>so_invalid := True\<rparr>\<rparr>)"
| query_closes: "q_watch s = WStored \<Longrightarrow>
    query_step s (s\<lparr>q_watch := WFinished, q_socket := socket_abort (q_socket s)\<rparr>)"
| query_driver: "q_pc s \<in> {QCalling, QDiscarding, QReading, QClosing} \<Longrightarrow> so_conn (q_socket s) = Some n \<Longrightarrow>
    query_step s (s\<lparr>q_socket := tracked_close n (q_socket s)\<rparr>)"
| query_fails: "q_pc s = QCalling \<Longrightarrow> query_step s (s\<lparr>q_pc := QEnding (Failed e)\<rparr>)"
| query_rows: "q_pc s = QCalling \<Longrightarrow> query_step s (s\<lparr>q_pc := QLooking\<rparr>)"
| rows_late: "q_pc s = QLooking \<Longrightarrow> q_cancelled s \<Longrightarrow> query_step s (s\<lparr>q_pc := QDiscarding\<rparr>)"
| rows_discarded: "q_pc s = QDiscarding \<Longrightarrow> query_step s (s\<lparr>q_pc := QEnding Discarded\<rparr>)"
| rows_given: "q_pc s = QLooking \<Longrightarrow> \<not> q_cancelled s \<Longrightarrow> query_step s (s\<lparr>q_pc := QOpen\<rparr>)"
| next_refused: "q_pc s = QOpen \<Longrightarrow> q_cancelled s \<Longrightarrow> query_step s (s\<lparr>q_results := q_results s @ [Some Canceled]\<rparr>)"
| next_called: "q_pc s = QOpen \<Longrightarrow> \<not> q_cancelled s \<Longrightarrow> query_step s (s\<lparr>q_pc := QReading\<rparr>)"
| next_answered: "q_pc s = QReading \<Longrightarrow> query_step s (s\<lparr>q_pc := QRead r\<rparr>)"
| next_returned: "q_pc s = QRead r \<Longrightarrow>
    query_step s (s\<lparr>q_pc := QOpen, q_results := q_results s @ [rows_Next (q_cancelled s) r]\<rparr>)"
| rows_close: "q_pc s = QOpen \<Longrightarrow> query_step s (s\<lparr>q_pc := QClosing\<rparr>)"
| rows_closed: "q_pc s = QClosing \<Longrightarrow> query_step s (s\<lparr>q_pc := QEnding (Closing e)\<rparr>)"
| end_stops: "q_pc s = QEnding x \<Longrightarrow> q_watch s = WArmed \<Longrightarrow> query_step s (s\<lparr>q_pc := QStopped x, q_watch := WStopped\<rparr>)"
| end_waits: "q_pc s = QEnding x \<Longrightarrow> q_watch s = WFinished \<Longrightarrow> query_step s (s\<lparr>q_pc := QStopped x\<rparr>)"
| end_clean: "q_pc s = QStopped x \<Longrightarrow> \<not> q_cancelled s \<Longrightarrow> query_step s (s\<lparr>q_pc := finish x None\<rparr>)"
| end_cancelled: "q_pc s = QStopped x \<Longrightarrow> q_cancelled s \<Longrightarrow> query_step s (s\<lparr>q_pc := QAborting x\<rparr>)"
| end_aborts: "q_pc s = QAborting x \<Longrightarrow>
    query_step s (s\<lparr>q_pc := finish x (Some Canceled), q_socket := socket_abort (q_socket s)\<rparr>)"

inductive_cases query_stepE: "query_step s s'"

inductive query_reachable :: "nat \<Rightarrow> query_state \<Rightarrow> bool" for n where
  start: "query_reachable n \<lparr>q_pc = QStart, q_watch = WNone, q_cancelled = b,
      q_socket = \<lparr>so_conn = Some n, so_invalid = i, so_closed = {}\<rparr>, q_results = []\<rparr>"
| step: "query_reachable n s \<Longrightarrow> query_step s s' \<Longrightarrow> query_reachable n s'"

text \<open>
  The invariant: as for one call, and rows that came too late belong to a cancelled context.
\<close>

definition at_rest :: "nat \<Rightarrow> query_state \<Rightarrow> conn_err option \<Rightarrow> bool" where
  "at_rest n s e =
     (q_watch s = WStopped \<or> q_watch s = WFinished \<and> e = Some Canceled \<and> so_invalid (q_socket s) \<and> n \<in> so_closed (q_socket s))"

definition query_ok :: "nat \<Rightarrow> query_state \<Rightarrow> bool" where
  "query_ok n s =
     (so_conn (q_socket s) = Some n
      \<and> (q_watch s \<in> {WRunning, WStored, WFinished} \<longrightarrow> q_cancelled s)
      \<and> (case q_pc s of
           QStart \<Rightarrow> q_watch s = WNone
         | QChecked \<Rightarrow> q_watch s = WNone
         | QDiscarding \<Rightarrow> q_watch s \<in> {WArmed, WRunning, WStored, WFinished} \<and> q_cancelled s
         | QEnding x \<Rightarrow> q_watch s \<in> {WArmed, WRunning, WStored, WFinished} \<and> (x = Discarded \<longrightarrow> q_cancelled s)
         | QStopped x \<Rightarrow> q_watch s \<in> {WStopped, WFinished} \<and> (x = Discarded \<longrightarrow> q_cancelled s)
         | QAborting x \<Rightarrow> q_watch s \<in> {WStopped, WFinished} \<and> q_cancelled s
         | QReturned e \<Rightarrow> e \<noteq> None \<and> (q_watch s = WNone \<or> at_rest n s e)
         | QClosed e \<Rightarrow> at_rest n s e
         | _ \<Rightarrow> q_watch s \<in> {WArmed, WRunning, WStored, WFinished}))"

lemma query_ok_step: "query_step s s' \<Longrightarrow> query_ok n s \<Longrightarrow> query_ok n s'"
proof (induction rule: query_step.induct)
  case (end_clean s x)
  then show ?case by (cases x) (auto simp: query_ok_def at_rest_def)
next
  case (end_aborts s x)
  then show ?case by (cases x) (auto simp: query_ok_def at_rest_def socket_abort_closes)
qed (auto simp: query_ok_def at_rest_def socket_abort_closes split: qpc.splits)

lemma query_ok_reachable: "query_reachable n s \<Longrightarrow> query_ok n s"
proof (induction rule: query_reachable.induct)
  case (start b i)
  then show ?case by (simp add: query_ok_def)
next
  case (step s s')
  then show ?case by (blast intro: query_ok_step)
qed

definition query_over :: "query_state \<Rightarrow> conn_err option \<Rightarrow> bool" where
  "query_over s e = (q_pc s = QReturned e \<or> q_pc s = QClosed e)"

lemma over_stays:
  assumes "query_over s e" "q_watch s \<in> {WNone, WStopped, WFinished}" "query_step s s'"
  shows "q_socket s' = q_socket s \<and> q_watch s' = q_watch s \<and> query_over s' e"
  using assms(3) by (rule query_stepE) (use assms(1,2) in \<open>auto simp: query_over_def\<close>)

text \<open>
  C15: When a query is over, because it returned an error or because its rows were closed, its watcher is at rest, and
  no later cancellation of the context touches the socket the pool gets back.  If the watcher did run, the caller was
  told of the cancellation and the socket is marked and closed.  A query never returns neither rows nor an error.
\<close>

theorem finished_query_is_safe:
  assumes "query_reachable n s" "query_over s e"
  shows "(\<forall>s'. query_step s s' \<longrightarrow> q_socket s' = q_socket s \<and> query_over s' e)
    \<and> (q_watch s \<notin> {WNone, WStopped} \<longrightarrow> e = Some Canceled \<and> so_invalid (q_socket s) \<and> n \<in> so_closed (q_socket s))
    \<and> (q_pc s = QReturned e \<longrightarrow> e \<noteq> None)"
proof -
  have ok: "query_ok n s" using assms(1) by (rule query_ok_reachable)
  then have w: "q_watch s = WNone \<or> at_rest n s e" using assms(2) by (auto simp: query_ok_def query_over_def)
  then have "q_watch s \<in> {WNone, WStopped, WFinished}" by (auto simp: at_rest_def)
  then have "\<forall>s'. query_step s s' \<longrightarrow> q_socket s' = q_socket s \<and> query_over s' e"
    using over_stays [OF assms(2)] by blast
  moreover have "q_watch s \<notin> {WNone, WStopped} \<longrightarrow> e = Some Canceled \<and> so_invalid (q_socket s) \<and> n \<in> so_closed (q_socket s)"
    using w by (auto simp: at_rest_def)
  moreover have "q_pc s = QReturned e \<longrightarrow> e \<noteq> None" using ok by (auto simp: query_ok_def)
  ultimately show ?thesis by blast
qed

text \<open>The watcher guards open rows: when the context is cancelled it closes the socket under them.\<close>

lemma open_rows_are_guarded:
  assumes "query_reachable n s" "q_pc s = QOpen"
  shows "\<exists>s'. query_step\<^sup>*\<^sup>* s s' \<and> q_pc s' = QOpen \<and> q_watch s' = WFinished"
proof -
  let ?c = "s\<lparr>q_cancelled := True\<rparr>"
  let ?so = "(q_socket s)\<lparr>so_invalid := True\<rparr>"
  have w: "q_watch s \<in> {WArmed, WRunning, WStored, WFinished}"
    using query_ok_reachable [OF assms(1)] assms(2) by (simp add: query_ok_def)
  have c: "query_step\<^sup>*\<^sup>* s ?c" using cancel_query by blast
  have close: "\<exists>t'. query_step\<^sup>*\<^sup>* t t' \<and> q_pc t' = q_pc t \<and> q_watch t' = WFinished" if "q_watch t = WStored" for t
    using query_closes [OF that] by (intro exI conjI, rule r_into_rtranclp) simp_all
  have marked: "\<exists>t'. query_step\<^sup>*\<^sup>* t t' \<and> q_pc t' = q_pc t \<and> q_watch t' = WFinished" if "q_watch t = WRunning" for t
    using close [of "t\<lparr>q_watch := WStored, q_socket := (q_socket t)\<lparr>so_invalid := True\<rparr>\<rparr>"] query_marks [OF that]
    by (auto intro: converse_rtranclp_into_rtranclp)
  have fired: "\<exists>t'. query_step\<^sup>*\<^sup>* t t' \<and> q_pc t' = q_pc t \<and> q_watch t' = WFinished"
    if "q_watch t = WArmed" "q_cancelled t" for t
    using marked [of "t\<lparr>q_watch := WRunning\<rparr>"] query_fire [OF that] by (auto intro: converse_rtranclp_into_rtranclp)
  have "\<exists>t'. query_step\<^sup>*\<^sup>* ?c t' \<and> q_pc t' = q_pc ?c \<and> q_watch t' = WFinished"
    using w fired [of ?c] marked [of ?c] close [of ?c] by (cases "q_watch s") auto
  then show ?thesis using c assms(2) by (auto intro: rtranclp_trans)
qed

text \<open>A query whose context is cancelled while its rows are open.\<close>

definition sample_query :: "qpc \<Rightarrow> watcher \<Rightarrow> query_state" where
  "sample_query pc w = \<lparr>q_pc = pc, q_watch = w, q_cancelled = False,
     q_socket = \<lparr>so_conn = Some 3, so_invalid = False, so_closed = {}\<rparr>, q_results = []\<rparr>"

lemma sample_query_reachable: "query_reachable 3 (sample_query (QClosed None) WStopped)"
proof -
  have "query_reachable 3 (sample_query QStart WNone)" unfolding sample_query_def by (rule query_reachable.start)
  then have "query_reachable 3 (sample_query QChecked WNone)"
    using query_reachable.step query_checked [of "sample_query QStart WNone"] by (simp add: sample_query_def)
  then have "query_reachable 3 (sample_query QCalling WArmed)"
    using query_reachable.step query_armed [of "sample_query QChecked WNone"] by (simp add: sample_query_def)
  then have "query_reachable 3 (sample_query QLooking WArmed)"
    using query_reachable.step query_rows [of "sample_query QCalling WArmed"] by (simp add: sample_query_def)
  then have "query_reachable 3 (sample_query QOpen WArmed)"
    using query_reachable.step rows_given [of "sample_query QLooking WArmed"] by (simp add: sample_query_def)
  then have "query_reachable 3 (sample_query QClosing WArmed)"
    using query_reachable.step rows_close [of "sample_query QOpen WArmed"] by (simp add: sample_query_def)
  then have "query_reachable 3 (sample_query (QEnding (Closing None)) WArmed)"
    using query_reachable.step rows_closed [of "sample_query QClosing WArmed" None] by (simp add: sample_query_def)
  then have "query_reachable 3 (sample_query (QStopped (Closing None)) WStopped)"
    using query_reachable.step end_stops [of "sample_query (QEnding (Closing None)) WArmed" "Closing None"]
    by (simp add: sample_query_def)
  then show ?thesis
    using query_reachable.step end_clean [of "sample_query (QStopped (Closing None)) WStopped" "Closing None"]
    by (simp add: sample_query_def)
qed

lemma finished_query_is_safe_witness:
  "let s = sample_query (QClosed None) WStopped; s' = s\<lparr>q_cancelled := True\<rparr>
   in query_step s s' \<and> q_socket s' = q_socket s \<and> query_over s' None"
proof -
  let ?s = "sample_query (QClosed None) WStopped"
  have "query_over ?s None" by (simp add: query_over_def sample_query_def)
  note finished_query_is_safe [OF sample_query_reachable this]
  moreover have "query_step ?s (?s\<lparr>q_cancelled := True\<rparr>)" by (rule cancel_query)
  ultimately show ?thesis by (simp add: Let_def)
qed

section \<open>Operations handed on to the driver\<close>

text \<open>
  A driver may or may not implement the optional interfaces of \<^verbatim>\<open>database/sql/driver\<close>; an operation it has is its
  result here.  A type assertion without a test panics when the interface is missing: \<open>None\<close>.  Statements,
  transactions and results are numbers.
\<close>

record driver_conn =
  dc_IsValid :: "bool option"
  dc_CheckNamedValue :: "conn_err option option"
  dc_ResetSession :: "conn_err option option"
  dc_Ping :: "conn_err option option"
  dc_PrepareContext :: "(conn_err + nat) option"
  dc_BeginTx :: "(conn_err + nat) option"
  dc_ExecContext :: "(conn_err + nat) option"
  dc_Close :: "conn_err option"

record driver_stmt =
  ds_CheckNamedValue :: "conn_err option option"
  ds_ExecContext :: "(conn_err + nat) option"

datatype checked = CheckResult "conn_err option" | ErrSkip

text \<open>
  The result of \<^verbatim>\<open>connectionCall\<close>, given whether the context is cancelled when the call begins (\<open>early\<close>) and by
  the time it ends (\<open>late\<close>).
\<close>

record call_context =
  cc_early :: bool
  cc_late :: bool

definition connection_call :: "call_context \<Rightarrow> socket \<Rightarrow> (conn_err + 'a) option \<Rightarrow> (conn_err + 'a) option" where
  "connection_call ctx so driver_call =
     (if cc_early ctx then Some (Inl Canceled)
      else if so_invalid so then Some (Inl BadConn)
      else case driver_call of
             None \<Rightarrow> None
           | Some r \<Rightarrow> Some (if cc_late ctx then Inl Canceled else r))"

definition background :: call_context where
  "background = \<lparr>cc_early = False, cc_late = False\<rparr>"

definition err_result :: "conn_err option \<Rightarrow> conn_err + unit" where
  "err_result e = (case e of None \<Rightarrow> Inr () | Some e \<Rightarrow> Inl e)"

definition result_err :: "conn_err + unit \<Rightarrow> conn_err option" where
  "result_err r = (case r of Inl e \<Rightarrow> Some e | Inr _ \<Rightarrow> None)"

definition cancellationConn_IsValid :: "driver_conn \<Rightarrow> socket \<Rightarrow> bool" where
  "cancellationConn_IsValid c so = (if so_invalid so then False else case dc_IsValid c of Some v \<Rightarrow> v | None \<Rightarrow> True)"

definition cancellationConn_CheckNamedValue :: "driver_conn \<Rightarrow> checked" where
  "cancellationConn_CheckNamedValue c = (case dc_CheckNamedValue c of Some e \<Rightarrow> CheckResult e | None \<Rightarrow> ErrSkip)"

definition cancellationConn_ResetSession :: "call_context \<Rightarrow> driver_conn \<Rightarrow> socket \<Rightarrow> conn_err option option" where
  "cancellationConn_ResetSession ctx c so =
     map_option result_err (connection_call ctx so
       (Some (case dc_ResetSession c of Some e \<Rightarrow> err_result e | None \<Rightarrow> Inr ())))"

definition cancellationConn_Ping :: "call_context \<Rightarrow> driver_conn \<Rightarrow> socket \<Rightarrow> conn_err option option" where
  "cancellationConn_Ping ctx c so = map_option result_err (connection_call ctx so (map_option err_result (dc_Ping c)))"

text \<open>A prepared statement remembers its connection.\<close>

datatype cancellationStmt = CancellationStmt nat socket

definition cancellationConn_PrepareContext ::
  "call_context \<Rightarrow> driver_conn \<Rightarrow> socket \<Rightarrow> (conn_err + cancellationStmt) option" where
  "cancellationConn_PrepareContext ctx c so =
     map_option (map_sum id (\<lambda>stmt. CancellationStmt stmt so)) (connection_call ctx so (dc_PrepareContext c))"

definition cancellationConn_Prepare :: "driver_conn \<Rightarrow> socket \<Rightarrow> (conn_err + cancellationStmt) option" where
  "cancellationConn_Prepare c so = cancellationConn_PrepareContext background c so"

definition cancellationConn_BeginTx :: "call_context \<Rightarrow> driver_conn \<Rightarrow> socket \<Rightarrow> (conn_err + nat) option" where
  "cancellationConn_BeginTx ctx c so = connection_call ctx so (dc_BeginTx c)"

definition cancellationConn_Begin :: "driver_conn \<Rightarrow> socket \<Rightarrow> (conn_err + nat) option" where
  "cancellationConn_Begin c so = cancellationConn_BeginTx background c so"

definition cancellationConn_ExecContext :: "call_context \<Rightarrow> driver_conn \<Rightarrow> socket \<Rightarrow> (conn_err + nat) option" where
  "cancellationConn_ExecContext ctx c so = connection_call ctx so (dc_ExecContext c)"

text \<open>\<open>release\<close>: the dial name is given back, when the connection has one.\<close>

definition cancellationConn_Close :: "driver_conn \<Rightarrow> socket \<Rightarrow> (gate \<Rightarrow> gate) option \<Rightarrow> gate \<Rightarrow> conn_err option \<times> socket \<times> gate" where
  "cancellationConn_Close c so release g = (dc_Close c, socket_abort so, (case release of Some f \<Rightarrow> f g | None \<Rightarrow> g))"

definition cancellationStmt_CheckNamedValue :: "driver_stmt \<Rightarrow> checked" where
  "cancellationStmt_CheckNamedValue s = (case ds_CheckNamedValue s of Some e \<Rightarrow> CheckResult e | None \<Rightarrow> ErrSkip)"

definition cancellationStmt_ExecContext :: "call_context \<Rightarrow> driver_stmt \<Rightarrow> socket \<Rightarrow> (conn_err + nat) option" where
  "cancellationStmt_ExecContext ctx s so = connection_call ctx so (ds_ExecContext s)"

text \<open>The optional interfaces of a result set; types are their names.\<close>

record driver_rows =
  dr_HasNextResultSet :: "(bool \<times> conn_err option) option"
  dr_DatabaseTypeName :: "(int \<Rightarrow> string) option"
  dr_Length :: "(int \<Rightarrow> int \<times> bool) option"
  dr_Nullable :: "(int \<Rightarrow> bool \<times> bool) option"
  dr_PrecisionScale :: "(int \<Rightarrow> int \<times> int \<times> bool) option"
  dr_ScanType :: "(int \<Rightarrow> string) option"

definition cancellationRows_HasNextResultSet :: "driver_rows \<Rightarrow> bool" where
  "cancellationRows_HasNextResultSet r = (case dr_HasNextResultSet r of Some (has, _) \<Rightarrow> has | None \<Rightarrow> False)"

datatype next_set = NextErr "conn_err option" | NextEOF

definition cancellationRows_NextResultSet :: "bool \<Rightarrow> driver_rows \<Rightarrow> next_set" where
  "cancellationRows_NextResultSet cancelled r =
     (if cancelled then NextErr (Some Canceled)
      else case dr_HasNextResultSet r of Some (_, e) \<Rightarrow> NextErr e | None \<Rightarrow> NextEOF)"

definition cancellationRows_ColumnTypeDatabaseTypeName :: "driver_rows \<Rightarrow> int \<Rightarrow> string" where
  "cancellationRows_ColumnTypeDatabaseTypeName r i = (case dr_DatabaseTypeName r of Some x \<Rightarrow> x i | None \<Rightarrow> [])"

definition cancellationRows_ColumnTypeLength :: "driver_rows \<Rightarrow> int \<Rightarrow> int \<times> bool" where
  "cancellationRows_ColumnTypeLength r i = (case dr_Length r of Some x \<Rightarrow> x i | None \<Rightarrow> (0, False))"

definition cancellationRows_ColumnTypeNullable :: "driver_rows \<Rightarrow> int \<Rightarrow> bool \<times> bool" where
  "cancellationRows_ColumnTypeNullable r i = (case dr_Nullable r of Some x \<Rightarrow> x i | None \<Rightarrow> (False, False))"

definition cancellationRows_ColumnTypePrecisionScale :: "driver_rows \<Rightarrow> int \<Rightarrow> int \<times> int \<times> bool" where
  "cancellationRows_ColumnTypePrecisionScale r i = (case dr_PrecisionScale r of Some x \<Rightarrow> x i | None \<Rightarrow> (0, 0, False))"

definition cancellationRows_ColumnTypeScanType :: "driver_rows \<Rightarrow> int \<Rightarrow> string" where
  "cancellationRows_ColumnTypeScanType r i = (case dr_ScanType r of Some x \<Rightarrow> x i | None \<Rightarrow> ''interface {}'')"

section \<open>A marked connection\<close>

text \<open>Once the socket is marked, no operation reaches the driver, and the pool is told to drop the connection.\<close>

lemma connection_call_invalid:
  "so_invalid so \<Longrightarrow> connection_call ctx so d = Some (Inl (if cc_early ctx then Canceled else BadConn))"
  by (simp add: connection_call_def)

lemma closed_connection_refuses:
  assumes "cancellationConn_Close c so release g = (e, so', g')" "\<not> cc_early ctx"
  shows "\<not> cancellationConn_IsValid c so'" "cancellationConn_ResetSession ctx c so' = Some (Some BadConn)"
    "cancellationConn_Ping ctx c so' = Some (Some BadConn)" "cancellationConn_PrepareContext ctx c so' = Some (Inl BadConn)"
    "cancellationConn_BeginTx ctx c so' = Some (Inl BadConn)" "cancellationConn_ExecContext ctx c so' = Some (Inl BadConn)"
    "cancellationStmt_ExecContext ctx st so' = Some (Inl BadConn)" "so_conn so = Some n \<Longrightarrow> n \<in> so_closed so'"
  using assms
  by (auto simp: cancellationConn_Close_def cancellationConn_IsValid_def cancellationConn_ResetSession_def
      cancellationConn_Ping_def cancellationConn_PrepareContext_def cancellationConn_BeginTx_def
      cancellationConn_ExecContext_def cancellationStmt_ExecContext_def connection_call_invalid result_err_def
      socket_abort_closes)

end
