(* ===== verification/Opening.thy ===== *)
theory Opening
  imports Crud CallbackChain Samples
begin

text \<open>
  Opening and closing a handle and reading what it is made of (\<^verbatim>\<open>main.go\<close>, \<^verbatim>\<open>Open\<close>, \<^verbatim>\<open>Close\<close>, \<^verbatim>\<open>DB\<close>,
  \<^verbatim>\<open>CommonDB\<close>, \<^verbatim>\<open>Dialect\<close>, \<^verbatim>\<open>Callback\<close>, \<^verbatim>\<open>Row\<close>, \<^verbatim>\<open>Rows\<close>), and the accessors of a scope.
\<close>

section \<open>Open\<close>

text \<open>
  The arguments are strings, connections, and other values by their printed form.  \<^verbatim>\<open>sql.Open\<close> returns
  an error or a pool, and pinging a pool returns an error or not; what is done with pools is recorded.
  The pool of a failed \<^verbatim>\<open>sql.Open\<close> is nil, and nothing is called on it here.
\<close>

datatype open_arg = ArgString string | ArgConn conn | ArgOther string

datatype pool_call = SqlOpen string string | PoolPing | PoolClose

record open_env =
  oe_sql_open :: "string \<Rightarrow> string \<Rightarrow> err option"
  oe_ping :: "err option"

record opened =
  op_db :: "db option"
  op_err :: "err option"
  op_calls :: "pool_call list"

definition new_db :: "genv \<Rightarrow> string \<Rightarrow> conn \<Rightarrow> db" where
  "new_db G dialect dbSQL =
     \<lparr>db_Value = VNil, db_Error = None, db_RowsAffected = 0, db_conn = dbSQL, db_blockGlobalUpdate = False,
      db_logMode = defaultLogMode, db_search = None, db_values = Map.empty,
      db_dialect = newDialect (g_dialects G) dialect, db_nowFuncOverride = None\<rparr>"

text \<open>The database behind the first argument: its connection, an error, whether gorm opened it.  \<open>None\<close> is a panic.\<close>

definition open_source ::
    "open_env \<Rightarrow> string \<Rightarrow> open_arg list \<Rightarrow> (string + conn \<times> err option \<times> bool \<times> pool_call list) option" where
  "open_source P dialect args =
     (case args of
        [] \<Rightarrow> Some (Inl ''invalid database source'')
      | ArgString value # rest \<Rightarrow>
          (let sql_open = (\<lambda>driver source. Some (Inr (ConnDB, oe_sql_open P driver source, True, [SqlOpen driver source])))
           in case rest of
                [] \<Rightarrow> sql_open dialect value
              | ArgString source # _ \<Rightarrow> sql_open value source
              | _ \<Rightarrow> None)
      | ArgConn c # _ \<Rightarrow> Some (Inr (c, None, False, []))
      | ArgOther text # _ \<Rightarrow> Some (Inl (''invalid database source: '' @ text @ '' is not a valid type'')))"

definition DB_Open :: "genv \<Rightarrow> open_env \<Rightarrow> string \<Rightarrow> open_arg list \<Rightarrow> world \<Rightarrow> (opened \<times> world) option" where
  "DB_Open G P dialect args w =
     (case open_source P dialect args of
        None \<Rightarrow> None
      | Some (Inl msg) \<Rightarrow>
          (case new_error msg w of (e, w) \<Rightarrow> Some (\<lparr>op_db = None, op_err = Some e, op_calls = []\<rparr>, w))
      | Some (Inr (dbSQL, err, ownDbSQL, calls)) \<Rightarrow>
          (let db = new_db G dialect dbSQL
           in if err \<noteq> None then Some (\<lparr>op_db = Some db, op_err = err, op_calls = calls\<rparr>, w)
              else if dbSQL = ConnDB
              then Some (\<lparr>op_db = Some db, op_err = oe_ping P,
                     op_calls = calls @ [PoolPing] @ (if oe_ping P \<noteq> None \<and> ownDbSQL then [PoolClose] else [])\<rparr>, w)
              else Some (\<lparr>op_db = Some db, op_err = None, op_calls = calls\<rparr>, w)))"

section \<open>Close and accessors\<close>

text \<open>The pool alone is a closer; the parent's connection is meant, whatever the handle's own is.\<close>

definition DB_Close :: "genv \<Rightarrow> db \<Rightarrow> world \<Rightarrow> err option \<times> world" where
  "DB_Close G s w =
     (if w_parent_conn w = ConnDB
      then (case call G CallClose w of (r, w) \<Rightarrow> (r_err r, w))
      else (case new_error ''can't close current db'' w of (e, w) \<Rightarrow> (Some e, w)))"

text \<open>\<open>None\<close> is the panic.\<close>

definition DB_DB :: "db \<Rightarrow> conn option" where
  "DB_DB s = (if db_conn s = ConnDB then Some ConnDB else None)"

definition DB_CommonDB :: "db \<Rightarrow> conn" where
  "DB_CommonDB s = db_conn s"

definition DB_Dialect :: "db \<Rightarrow> Dialect" where
  "DB_Dialect s = db_dialect s"

text \<open>The parent's registry, at address \<open>c\<close>, is replaced by a clone, whose address is returned.\<close>

definition DB_Callback :: "nat \<Rightarrow> cbheap \<Rightarrow> nat \<times> cbheap" where
  "DB_Callback c h = Callback_clone c h"

definition DB_Row :: "genv \<Rightarrow> chains \<Rightarrow> db \<Rightarrow> world \<Rightarrow> outcome" where
  "DB_Row G C s w = scope_row G C True (NewScope G s (db_Value s) w)"

definition DB_Rows :: "genv \<Rightarrow> chains \<Rightarrow> db \<Rightarrow> world \<Rightarrow> outcome" where
  "DB_Rows G C s w = scope_row G C False (NewScope G s (db_Value s) w)"

definition Scope_DB :: "scope \<Rightarrow> db" where
  "Scope_DB sc = sc_db sc"

definition Scope_SQLDB :: "scope \<Rightarrow> conn" where
  "Scope_SQLDB sc = db_conn (sc_db sc)"

definition primaryCondition :: "genv \<Rightarrow> gval \<Rightarrow> scope \<Rightarrow> string" where
  "primaryCondition G value sc =
     ''('' @ QuotedTableName G sc @ ''.'' @ Scope_Quote sc (PrimaryKey G sc) @ '' = '' @ Sprint value @ '')''"

section \<open>Facts\<close>

text \<open>Gorm closes a pool only when it opened the pool itself and could not ping it.\<close>

lemma open_closes_its_own:
  assumes "DB_Open G P dialect args w = Some (r, w')"
  shows "PoolClose \<in> set (op_calls r) \<longleftrightarrow>
    (\<exists>driver source. SqlOpen driver source \<in> set (op_calls r) \<and> oe_sql_open P driver source = None) \<and> oe_ping P \<noteq> None"
  using assms
  by (auto simp: DB_Open_def open_source_def Let_def split: list.splits open_arg.splits prod.splits if_splits)

text \<open>A handle comes back together with the error of the connection, and without a handle there is an error.\<close>

lemma open_without_handle:
  "DB_Open G P dialect args w = Some (r, w') \<Longrightarrow> op_db r = None \<Longrightarrow> op_err r \<noteq> None \<and> op_calls r = []"
  by (auto simp: DB_Open_def open_source_def Let_def split: list.splits open_arg.splits prod.splits if_splits)

lemma open_handle_fresh:
  "DB_Open G P dialect args w = Some (r, w') \<Longrightarrow> op_db r = Some d \<Longrightarrow>
   db_Error d = None \<and> db_search d = None \<and> db_dialect d = newDialect (g_dialects G) dialect \<and> w' = w"
  by (auto simp: DB_Open_def open_source_def new_db_def Let_def split: list.splits open_arg.splits prod.splits if_splits)

text \<open>The handle of a transaction closes the pool of its parent.\<close>

lemma transaction_handle_closes_pool:
  "w_parent_conn w = ConnDB \<Longrightarrow> w_hist (snd (DB_Close G s w)) = w_hist w @ [CallClose]"
  by (simp add: DB_Close_def call_def split: prod.splits) (metis call_db_history snd_conv)

end
