(* ===== verification/DmOpen.thy ===== *)
theory DmOpen
  imports ResultSets Opening
begin

text \<open>
  Opening a DM pool and its physical connections, from beginning to end (\<^verbatim>\<open>dialects/dameng/open.go\<close>):
  \<^verbatim>\<open>OpenDBContext\<close> with its check of the schema, \<^verbatim>\<open>Open\<close>, and one run of \<^verbatim>\<open>Connect\<close>.  What parsing
  the URL, \<^verbatim>\<open>database/sql\<close> and the driver answer is given; what is done with pools, names and connections
  is recorded.  \<open>ConnectionGate\<close> has the interleaving of several attempts.
\<close>

section \<open>OpenDBContext\<close>

definition name_start :: "char \<Rightarrow> bool" where
  "name_start c = (char_between (CHR ''A'') (CHR ''Z'') c \<or> char_between (CHR ''a'') (CHR ''z'') c \<or> c = CHR ''_'')"

definition name_part :: "char \<Rightarrow> bool" where
  "name_part c = (name_start c \<or> is_digit c \<or> c = CHR ''$'' \<or> c = CHR ''#'')"

text \<open>\<^verbatim>\<open>schemaName\<close>: a name of at most 128 bytes.\<close>

definition schemaName :: "string \<Rightarrow> bool" where
  "schemaName s = (case s of [] \<Rightarrow> False | c # r \<Rightarrow> name_start c \<and> length r \<le> 127 \<and> list_all name_part r)"

datatype dm_error =
    InvalidURL | InvalidSchema | ErrNativeUnavailable | GateRefused conn_err | ConnectionError nat | NoConnectors
  | DifferentSchema | GormError err

datatype dm_call = ProbeOpened | ProbeClosed | PoolOpened | SchemaAsked | DmPoolClosed

record dm_url =
  du_scheme :: string
  du_host :: string
  du_schema :: string

record dm_env =
  de_url :: "dm_url option"
  de_native :: bool
  de_gate :: "conn_err option"
  de_probe :: "nat option"
  de_connectors :: bool
  de_schema :: "nat + string"

definition OpenDBContext :: "dm_env \<Rightarrow> (dm_error + unit) \<times> dm_call list" where
  "OpenDBContext D =
     (case de_url D of
        None \<Rightarrow> (Inl InvalidURL, [])
      | Some u \<Rightarrow>
          (let requested = du_schema u
           in if du_scheme u \<noteq> ''dm'' \<or> du_host u = [] then (Inl InvalidURL, [])
              else if requested \<noteq> [] \<and> \<not> schemaName requested then (Inl InvalidSchema, [])
              else if \<not> de_native D then (Inl ErrNativeUnavailable, [])
              else case de_gate D of
                Some e \<Rightarrow> (Inl (GateRefused e), [])
              | None \<Rightarrow>
                 (case de_probe D of
                    Some e \<Rightarrow> (Inl (ConnectionError e), [ProbeOpened])
                  | None \<Rightarrow>
                     (if \<not> de_connectors D then (Inl NoConnectors, [ProbeOpened, ProbeClosed])
                      else (let calls = [ProbeOpened, ProbeClosed, PoolOpened, SchemaAsked]
                            in case de_schema D of
                                 Inl e \<Rightarrow> (Inl (ConnectionError e), calls @ [DmPoolClosed])
                               | Inr actual \<Rightarrow>
                                  (if requested \<noteq> [] \<and> actual \<noteq> requested
                                   then (Inl DifferentSchema, calls @ [DmPoolClosed])
                                   else (Inr (), calls)))))))"

definition dm_Open :: "genv \<Rightarrow> open_env \<Rightarrow> dm_env \<Rightarrow> world \<Rightarrow> (dm_error + db) \<times> dm_call list \<times> world" where
  "dm_Open G P D w =
     (case OpenDBContext D of
        (Inl e, calls) \<Rightarrow> (Inl e, calls, w)
      | (Inr _, calls) \<Rightarrow>
          (case DB_Open G P ''dm'' [ArgConn ConnDB] w of
             Some (r, w) \<Rightarrow>
               (case (op_err r, op_db r) of
                  (None, Some d) \<Rightarrow> (Inr d, calls, w)
                | (Some e, _) \<Rightarrow> (Inl (GormError e), calls @ [DmPoolClosed], w)
                | (None, None) \<Rightarrow> (Inl NoConnectors, calls, w))
           | None \<Rightarrow> (Inl NoConnectors, calls, w)))"

text \<open>The last two branches of \<^const>\<open>dm_Open\<close> are not reached: a pool as argument gives a handle.\<close>

lemma open_pool: "\<exists>d. DB_Open G P dialect [ArgConn ConnDB] w
    = Some (\<lparr>op_db = Some d, op_err = oe_ping P, op_calls = [PoolPing]\<rparr>, w)"
  by (simp add: DB_Open_def open_source_def)

section \<open>Connect\<close>

text \<open>
  What one attempt meets: the gate's answer, whether the driver is the native one, the URL by scheme and query, the
  connector, the context at the two tests, the driver's connection, and the socket after the driver's
  dials.
\<close>

record connect_env =
  ce_gate :: "conn_err option"
  ce_matches :: bool
  ce_url :: "string \<times> url_query"
  ce_connector :: "conn_err option"
  ce_cancelled_early :: bool
  ce_cancelled_late :: bool
  ce_connect :: "conn_err + nat"
  ce_socket :: socket

datatype made = PlainConn nat | SafeConn nat socket

datatype connect_error = ConnErr conn_err | InvalidDSN

text \<open>The result, whether a dial name was taken and given back, the connections of the driver that were closed, the socket.\<close>

record attempt =
  at_result :: "connect_error + made"
  at_entered :: bool
  at_left :: bool
  at_named :: bool
  at_released :: bool
  at_closed :: "nat list"
  at_socket :: socket

definition failed_attempt :: "connect_error \<Rightarrow> bool \<Rightarrow> nat list \<Rightarrow> socket \<Rightarrow> attempt" where
  "failed_attempt e named closed so =
     \<lparr>at_result = Inl e, at_entered = True, at_left = True, at_named = named, at_released = named, at_closed = closed, at_socket = so\<rparr>"

definition private_Connect :: "string \<Rightarrow> connect_env \<Rightarrow> attempt" where
  "private_Connect dialName A =
     (case ce_gate A of
        Some e \<Rightarrow> \<lparr>at_result = Inl (ConnErr e), at_entered = False, at_left = False, at_named = False, at_released = False,
                   at_closed = [], at_socket = new_socket\<rparr>
      | None \<Rightarrow>
          (if \<not> ce_matches A then
             (case ce_connector A of
                Some e \<Rightarrow> failed_attempt (ConnErr e) False [] new_socket
              | None \<Rightarrow>
                  (case ce_connect A of
                     Inl e \<Rightarrow> failed_attempt (ConnErr e) False [] new_socket
                   | Inr c \<Rightarrow> \<lparr>at_result = Inr (PlainConn c), at_entered = True, at_left = True, at_named = False,
                       at_released = False, at_closed = [], at_socket = new_socket\<rparr>))
           else if cancellationDSN (fst (ce_url A)) (snd (ce_url A)) dialName = None
           then failed_attempt InvalidDSN True [] new_socket
           else case ce_connector A of
             Some e \<Rightarrow> failed_attempt (ConnErr e) True [] new_socket
           | None \<Rightarrow>
              (if ce_cancelled_early A then failed_attempt (ConnErr Canceled) True [] new_socket
               else if ce_cancelled_late A
               then failed_attempt (ConnErr Canceled) True (case ce_connect A of Inr c \<Rightarrow> [c] | Inl _ \<Rightarrow> []) (socket_abort (ce_socket A))
               else case ce_connect A of
                 Inl e \<Rightarrow> failed_attempt (ConnErr e) True [] (socket_abort (ce_socket A))
               | Inr c \<Rightarrow> \<lparr>at_result = Inr (SafeConn c (ce_socket A)), at_entered = True, at_left = True, at_named = True,
                   at_released = False, at_closed = [], at_socket = ce_socket A\<rparr>)))"

section \<open>Properties\<close>

lemma schemaName_safe: "schemaName s \<Longrightarrow> length s \<le> 128 \<and> CHR 0x27 \<notin> set s \<and> CHR 0x22 \<notin> set s"
  by (auto simp: schemaName_def name_start_def name_part_def is_digit_def char_between_def list_all_iff split: list.splits)

text \<open>
  A pool that is returned works on the schema that was asked for, and a pool that is not returned was closed; a call
  that fails earlier opened none.
\<close>

lemma opened_pool_is_checked:
  assumes "OpenDBContext D = (r, calls)"
  shows "(r = Inr () \<longrightarrow> (\<exists>u actual. de_url D = Some u \<and> de_schema D = Inr actual \<and> (du_schema u = [] \<or> actual = du_schema u \<and> schemaName actual)))
    \<and> (DmPoolClosed \<in> set calls \<longleftrightarrow> PoolOpened \<in> set calls \<and> r \<noteq> Inr ())"
  using assms
  by (auto simp: OpenDBContext_def Let_def split: option.splits if_splits sum.splits)

lemma dm_Open_closes:
  assumes "dm_Open G P D w = (r, calls, w')" "PoolOpened \<in> set calls"
  shows "DmPoolClosed \<in> set calls \<longleftrightarrow> (\<forall>d. r \<noteq> Inr d)"
proof -
  obtain q cs where q: "OpenDBContext D = (q, cs)" by (cases "OpenDBContext D")
  obtain d where d: "DB_Open G P ''dm'' [ArgConn ConnDB] w = Some (\<lparr>op_db = Some d, op_err = oe_ping P, op_calls = [PoolPing]\<rparr>, w)"
    using open_pool by blast
  show ?thesis
    using assms opened_pool_is_checked [OF q] d
    by (auto simp: dm_Open_def q split: sum.splits option.splits)
qed

text \<open>
  An attempt to connect leaves the gate it entered.  It keeps its dial name exactly for a connection that it returns
  behind the cancellation guard, and gives the name back otherwise.  When it fails after the driver had made a
  connection, that connection was closed and the socket is marked.
\<close>

lemma connect_gives_back:
  "at_entered (private_Connect n A) = at_left (private_Connect n A)
   \<and> (at_named (private_Connect n A) \<and> \<not> at_released (private_Connect n A) \<longleftrightarrow> (\<exists>c so. at_result (private_Connect n A) = Inr (SafeConn c so)))
   \<and> (at_released (private_Connect n A) \<longrightarrow> at_named (private_Connect n A))
   \<and> (\<forall>c. c \<in> set (at_closed (private_Connect n A)) \<longleftrightarrow>
        ce_gate A = None \<and> ce_matches A \<and> cancellationDSN (fst (ce_url A)) (snd (ce_url A)) n \<noteq> None \<and> ce_connector A = None
        \<and> \<not> ce_cancelled_early A \<and> ce_cancelled_late A \<and> ce_connect A = Inr c)
   \<and> (at_closed (private_Connect n A) \<noteq> [] \<longrightarrow> so_invalid (at_socket (private_Connect n A)))"
  by (auto simp: private_Connect_def failed_attempt_def split: option.split sum.split)

text \<open>A handshake that succeeds after its context was cancelled.\<close>

definition late_attempt :: connect_env where
  "late_attempt = \<lparr>ce_gate = None, ce_matches = True, ce_url = (''dm'', [(''schema'', [''APP''])]), ce_connector = None,
     ce_cancelled_early = False, ce_cancelled_late = True, ce_connect = Inr 5,
     ce_socket = \<lparr>so_conn = Some 2, so_invalid = False, so_closed = {}\<rparr>\<rparr>"

lemma late_attempt_dsn:
  "cancellationDSN ''dm'' [(''schema'', [''APP''])] ''d1'' = Some ([(''schema'', [''APP'']), (''dialName'', [''d1''])], 0)"
  by code_simp

lemma connect_gives_back_witness:
  "at_closed (private_Connect ''d1'' late_attempt) = [5] \<and> so_invalid (at_socket (private_Connect ''d1'' late_attempt))
   \<and> at_released (private_Connect ''d1'' late_attempt) \<and> at_named (private_Connect ''d1'' late_attempt)"
proof -
  have "at_closed (private_Connect ''d1'' late_attempt) = [5]" "at_released (private_Connect ''d1'' late_attempt)"
    using late_attempt_dsn by (simp_all add: private_Connect_def late_attempt_def failed_attempt_def)
  then show ?thesis using connect_gives_back [of "''d1''" late_attempt] by simp
qed

end
