(* ===== verification/JoinHandlers.thy ===== *)
theory JoinHandlers
  imports Migration SqlText
begin

text \<open>
  Replacing the join table handler of an association (\<^verbatim>\<open>main.go\<close>, \<^verbatim>\<open>SetJoinTableHandler\<close>).  The relationship
  belongs to the shared model, so the operation returns the environment with the changed model.  The handler
  embeds \<^verbatim>\<open>JoinTableHandler\<close>; \<open>hv\<close> is the value whose table is migrated.
\<close>

section \<open>Handlers in a model\<close>

definition names_field :: "string \<Rightarrow> StructField \<Rightarrow> bool" where
  "names_field column sf = (sf_Name sf = column \<or> sf_DBName sf = column)"

definition many2many_of :: "StructField \<Rightarrow> string" where
  "many2many_of sf = (case TagSettingsGet sf ''MANY2MANY'' of Some m \<Rightarrow> m | None \<Rightarrow> [])"

definition put_handler :: "genv \<Rightarrow> rtype \<Rightarrow> nat \<Rightarrow> JoinTableHandler \<Rightarrow> genv" where
  "put_handler G t i h =
     (let ms = g_models G t; sf = ms_StructFields ms ! i
      in G\<lparr>g_models := (g_models G)(t := ms\<lparr>ms_StructFields := (ms_StructFields ms)[i :=
             sf\<lparr>sf_Relationship := map_option (\<lambda>r. r\<lparr>rel_JoinTableHandler := Some h\<rparr>) (sf_Relationship sf)\<rparr>]\<rparr>)\<rparr>)"

text \<open>
  One field of the loop.  Without a relationship \<^verbatim>\<open>Setup\<close> dereferences nil; the destination is the model of the
  field's type.
\<close>

definition set_handler :: "string \<Rightarrow> gval \<Rightarrow> rtype \<Rightarrow> db \<Rightarrow> gval \<Rightarrow> nat \<Rightarrow> genv \<Rightarrow> world \<Rightarrow> genv \<times> bool \<times> world" where
  "set_handler column hv t s source i G w =
     (let sf = ms_StructFields (g_models G t) ! i; many2many = many2many_of sf
      in if \<not> names_field column sf \<or> many2many = [] then (G, True, w)
         else case sf_Relationship sf of
                None \<Rightarrow> (G, False, w)
              | Some r \<Rightarrow>
                 (case JoinTableHandler_Setup r many2many t (elem_type type_fuel (g_types G) (m_type (sf_Struct sf))) of
                    None \<Rightarrow> (G, False, w)
                  | Some h \<Rightarrow>
                     (let G = put_handler G t i h; sc = NewScope G s source w; joinTable = jth_Table G h
                      in case d_HasTable (Dialect_of sc) (g_db G) (db_conn (sc_db sc)) joinTable (w_hist w) of
                           (None, h) \<Rightarrow> (G, False, w\<lparr>w_hist := h\<rparr>)
                         | (Some has, h) \<Rightarrow>
                            (let w = w\<lparr>w_hist := h\<rparr>
                             in if \<not> has then (G, True, w)
                                else case DB_AutoMigrate G [hv] (DB_Table G joinTable s) w of
                                       DbDone _ w \<Rightarrow> (G, True, w)
                                     | DbPanic _ w \<Rightarrow> (G, False, w)))))"

fun set_handlers :: "string \<Rightarrow> gval \<Rightarrow> rtype \<Rightarrow> db \<Rightarrow> gval \<Rightarrow> nat list \<Rightarrow> genv \<Rightarrow> world \<Rightarrow> genv \<times> bool \<times> world" where
  "set_handlers column hv t s source [] G w = (G, True, w)"
| "set_handlers column hv t s source (i # is) G w =
     (case set_handler column hv t s source i G w of
        (G, True, w) \<Rightarrow> set_handlers column hv t s source is G w
      | (G, False, w) \<Rightarrow> (G, False, w))"

text \<open>The result: the environment, whether the call returned, the world.  A value without a model has no fields.\<close>

definition SetJoinTableHandler :: "genv \<Rightarrow> gval \<Rightarrow> string \<Rightarrow> gval \<Rightarrow> db \<Rightarrow> world \<Rightarrow> genv \<times> bool \<times> world" where
  "SetJoinTableHandler G source column hv s w =
     (case ms_ModelType (GetModelStruct G (NewScope G s source w)) of
        None \<Rightarrow> (G, True, w)
      | Some t \<Rightarrow> set_handlers column hv t s source [0..<length (ms_StructFields (g_models G t))] G w)"

section \<open>What changes\<close>

text \<open>Everything of a model but the handlers.\<close>

definition bare_field :: "StructField \<Rightarrow> StructField" where
  "bare_field sf = sf\<lparr>sf_Relationship := map_option (\<lambda>r. r\<lparr>rel_JoinTableHandler := None\<rparr>) (sf_Relationship sf)\<rparr>"

definition same_but_handlers :: "genv \<Rightarrow> genv \<Rightarrow> bool" where
  "same_but_handlers G G' =
     (G'\<lparr>g_models := g_models G\<rparr> = G
      \<and> (\<forall>t. map bare_field (ms_StructFields (g_models G' t)) = map bare_field (ms_StructFields (g_models G t))
            \<and> ms_PrimaryFields (g_models G' t) = ms_PrimaryFields (g_models G t)
            \<and> ms_ModelType (g_models G' t) = ms_ModelType (g_models G t)))"

lemma same_but_handlers_refl [simp]: "same_but_handlers G G"
  by (simp add: same_but_handlers_def)

lemma same_but_handlers_trans: "same_but_handlers A B \<Longrightarrow> same_but_handlers B C \<Longrightarrow> same_but_handlers A C"
  by (auto simp: same_but_handlers_def) (metis genv.surjective genv.update_convs(7))

lemma put_handler_same: "i < length (ms_StructFields (g_models G t)) \<Longrightarrow> same_but_handlers G (put_handler G t i h)"
  by (auto simp: same_but_handlers_def put_handler_def Let_def bare_field_def map_update list_update_same_conv
      option.map_comp o_def)

lemma set_handler_same:
  "set_handler column hv t s source i G w = (G', ok, w') \<Longrightarrow> i < length (ms_StructFields (g_models G t))
   \<Longrightarrow> same_but_handlers G G'"
  using put_handler_same
  by (auto simp: set_handler_def Let_def split: if_splits option.splits prod.splits db_out.splits)

lemma same_but_handlers_length:
  "same_but_handlers G G' \<Longrightarrow> length (ms_StructFields (g_models G' t)) = length (ms_StructFields (g_models G t))"
  by (metis same_but_handlers_def length_map)

lemma set_handlers_same:
  "set_handlers column hv t s source is G w = (G', ok, w') \<Longrightarrow> \<forall>i\<in>set is. i < length (ms_StructFields (g_models G t))
   \<Longrightarrow> same_but_handlers G G'"
proof (induction "is" arbitrary: G w)
  case (Cons i "is")
  obtain G1 ok1 w1 where one: "set_handler column hv t s source i G w = (G1, ok1, w1)"
    by (cases "set_handler column hv t s source i G w")
  then have same: "same_but_handlers G G1" using Cons.prems(2) by (auto dest: set_handler_same)
  then show ?case
    using Cons one same_but_handlers_length [OF same] by (cases ok1) (auto intro: same_but_handlers_trans)
qed simp

lemma handlers_only:
  "SetJoinTableHandler G source column hv s w = (G', ok, w') \<Longrightarrow> same_but_handlers G G'"
  by (auto simp: SetJoinTableHandler_def split: option.splits dest!: set_handlers_same)

end
