(* ===== verification/ValueTypes.thy ===== *)
theory ValueTypes
  imports GormErrors GoValues
begin

text \<open>
  The column types that the drivers' packages define: \<^verbatim>\<open>Hstore\<close> and \<^verbatim>\<open>Jsonb\<close> for PostgreSQL
  (\<^verbatim>\<open>dialects/postgres/postgres.go\<close>) and \<^verbatim>\<open>JSON\<close> for SQL Server (\<^verbatim>\<open>dialects/mssql/mssql.go\<close>).  The codec of
  \<^verbatim>\<open>lib/pq/hstore\<close> is a parameter; so is \<open>json_text\<close>, which tells whether bytes are a JSON document and
  gives the document without the white space around it, as \<^verbatim>\<open>json.Unmarshal\<close> hands it on.
\<close>

section \<open>Hstore\<close>

text \<open>A map in the order of its range; the package's map has a text and whether it is valid.\<close>

type_synonym Hstore = "(string \<times> string option) list"
type_synonym hstore_map = "(string \<times> (string \<times> bool)) list"

record hstore_codec =
  hs_Value :: "hstore_map \<Rightarrow> err + gval"
  hs_Scan :: "gval \<Rightarrow> err + hstore_map"

definition null_string :: "string option \<Rightarrow> string \<times> bool" where
  "null_string value = (case value of Some s \<Rightarrow> (s, True) | None \<Rightarrow> ([], False))"

definition Hstore_Value :: "hstore_codec \<Rightarrow> Hstore \<Rightarrow> err + gval" where
  "Hstore_Value H h =
     (if length h = 0 then Inr VNil
      else hs_Value H (fold (\<lambda>(key, value). alist_set key (null_string value)) h []))"

text \<open>The error, and the contents of the variable after the scan.\<close>

definition Hstore_Scan :: "hstore_codec \<Rightarrow> gval \<Rightarrow> Hstore \<Rightarrow> err option \<times> Hstore" where
  "Hstore_Scan H value h =
     (case hs_Scan H value of
        Inl e \<Rightarrow> (Some e, h)
      | Inr m \<Rightarrow>
          (if length m = 0 then (None, h)
           else (None, fold (\<lambda>(k, s, valid). alist_set k (if valid then Some s else None)) m [])))"

section \<open>JSON\<close>

definition Jsonb_Value :: "string \<Rightarrow> gval" where
  "Jsonb_Value j = (if length j = 0 then VNil else VBytes (Some j))"

definition json_Unmarshal :: "(string \<Rightarrow> string option) \<Rightarrow> err \<Rightarrow> string \<Rightarrow> string \<Rightarrow> err option \<times> string" where
  "json_Unmarshal json_text syntax_err bytes j =
     (case json_text bytes of Some doc \<Rightarrow> (None, doc) | None \<Rightarrow> (Some syntax_err, j))"

text \<open>\<open>n\<close> is the identity of the new error.\<close>

definition Jsonb_Scan :: "(string \<Rightarrow> string option) \<Rightarrow> err \<Rightarrow> nat \<Rightarrow> gval \<Rightarrow> string \<Rightarrow> err option \<times> string" where
  "Jsonb_Scan json_text syntax_err n value j =
     (case value of
        VBytes b \<Rightarrow> json_Unmarshal json_text syntax_err (case b of Some s \<Rightarrow> s | None \<Rightarrow> []) j
      | _ \<Rightarrow> (Some (ErrText n (''Failed to unmarshal JSONB value:'' @ Sprint value)), j))"

definition mssql_JSON_Value :: "string \<Rightarrow> gval" where
  "mssql_JSON_Value j = (if length j = 0 then VNil else VBytes (Some j))"

definition mssql_JSON_Scan :: "(string \<Rightarrow> string option) \<Rightarrow> err \<Rightarrow> nat \<Rightarrow> gval \<Rightarrow> string \<Rightarrow> err option \<times> string" where
  "mssql_JSON_Scan json_text syntax_err n value j =
     (case value of
        VStr str \<Rightarrow> json_Unmarshal json_text syntax_err str j
      | _ \<Rightarrow> (Some (ErrText n (''Failed to unmarshal JSONB value (strcast):'' @ Sprint value)), j))"

section \<open>Round trips\<close>

lemma alist_set_new: "k \<notin> fst ` set ps \<Longrightarrow> alist_set k v ps = ps @ [(k, v)]"
  by (induction ps) auto

lemma fold_alist_set:
  "distinct (map fst (ps @ map (\<lambda>x. (key x, f x)) xs)) \<Longrightarrow> fold (\<lambda>x. alist_set (key x) (f x)) xs ps = ps @ map (\<lambda>x. (key x, f x)) xs"
proof (induction xs arbitrary: ps)
  case (Cons x xs)
  then have "key x \<notin> fst ` set ps" by auto
  then show ?case using Cons.IH [of "ps @ [(key x, f x)]"] Cons.prems by (simp add: alist_set_new)
qed simp

lemma fold_entries:
  "distinct (map fst m) \<Longrightarrow> fold (\<lambda>(k, v). alist_set k (f v)) m [] = map (\<lambda>(k, v). (k, f v)) m"
  using fold_alist_set [of "[]" fst "\<lambda>p. f (snd p)" m] by (simp add: case_prod_beta' o_def)

definition valid_string :: "string \<times> bool \<Rightarrow> string option" where
  "valid_string p = (if snd p then Some (fst p) else None)"

lemma valid_null_string [simp]: "valid_string (null_string v) = v"
  by (cases v) (simp_all add: valid_string_def null_string_def)

text \<open>What is written is read back, when the package's codec reads back what it writes.\<close>

lemma Hstore_round_trip:
  assumes "h \<noteq> []" "distinct (map fst h)" "Hstore_Value H h = Inr v"
    "\<And>m v. hs_Value H m = Inr v \<Longrightarrow> hs_Scan H v = Inr m"
  shows "Hstore_Scan H v old = (None, h)"
proof -
  let ?m = "map (\<lambda>(k, v). (k, null_string v)) h"
  have m: "hs_Scan H v = Inr ?m"
    using assms(1,3) assms(4) [of ?m v] fold_entries [OF assms(2), of null_string] by (simp add: Hstore_Value_def)
  have d: "distinct (map fst ?m)" using assms(2) by (simp add: case_prod_beta' o_def)
  have eq: "(\<lambda>(k, s, valid). alist_set k (if valid then Some s else None)) = (\<lambda>(k, p). alist_set k (valid_string p))"
    by (auto simp: fun_eq_iff valid_string_def)
  have "fold (\<lambda>(k, s, valid). alist_set k (if valid then Some s else None)) ?m [] = map (\<lambda>(k, p). (k, valid_string p)) ?m"
    unfolding eq by (rule fold_entries [OF d])
  also have "\<dots> = h" by (simp add: o_def case_prod_beta')
  finally show ?thesis using m assms(1) by (simp add: Hstore_Scan_def)
qed

text \<open>Scanning a map without entries leaves what the variable held.\<close>

lemma empty_hstore_keeps_old: "hs_Scan H v = Inr [] \<Longrightarrow> Hstore_Scan H v old = (None, old)"
  by (simp add: Hstore_Scan_def)

lemma Jsonb_round_trip:
  "j \<noteq> [] \<Longrightarrow> json_text j = Some j \<Longrightarrow> Jsonb_Scan json_text e n (Jsonb_Value j) old = (None, j)"
  by (simp add: Jsonb_Scan_def Jsonb_Value_def json_Unmarshal_def)

text \<open>What an empty value is written as cannot be read back, and neither can any value of the mssql type.\<close>

lemma empty_jsonb_unreadable: "fst (Jsonb_Scan json_text e n (Jsonb_Value []) old) \<noteq> None"
  by (simp add: Jsonb_Scan_def Jsonb_Value_def)

lemma mssql_json_unreadable: "fst (mssql_JSON_Scan json_text e n (mssql_JSON_Value j) old) \<noteq> None"
  by (simp add: mssql_JSON_Scan_def mssql_JSON_Value_def)

end
